(* ===== verification/Prelude.thy ===== *)
theory Prelude
  imports Main "HOL-Library.Word" "HOL-Library.Monad_Syntax"
begin

unbundle bit_operations_syntax

text \<open>
  Types, constants and generic lemmas shared by all components: the machine integers of
  the LP64 target, the status codes, and the convention for undefined behaviour.

  A C function whose accesses can leave an object, or whose conversion has no defined
  result, returns an \<open>option\<close>: \<open>None\<close> is undefined behaviour (or a failed
  \<open>assert\<close>), never an error code. Error codes are ordinary values.
\<close>

section \<open>Machine integers\<close>

type_synonym u8 = "8 word"
type_synonym u16 = "16 word"
type_synonym u32 = "32 word"
type_synonym u64 = "64 word"
type_synonym i32 = "32 word"

text \<open>A C string: the characters before the terminating NUL.\<close>

type_synonym cstring = "char list"

section \<open>Status codes\<close>

text \<open>\<open>SYSM_OK\<close> and the library's own codes, and the \<open>errno\<close> values of Linux the code names.\<close>

definition SYSM_OK :: int where "SYSM_OK = 0"
definition SYSM_START_ERROR :: int where "SYSM_START_ERROR = 20000"
definition SYSM_ENOTIMPL :: int where "SYSM_ENOTIMPL = SYSM_START_ERROR + 1"

definition ENOENT :: int where "ENOENT = 2"
definition ESRCH :: int where "ESRCH = 3"
definition ENXIO :: int where "ENXIO = 6"
definition EACCES :: int where "EACCES = 13"
definition EINVAL :: int where "EINVAL = 22"

named_theorems status_codes \<open>the numeric values of the status codes\<close>

declare SYSM_OK_def [status_codes] SYSM_START_ERROR_def [status_codes]
  SYSM_ENOTIMPL_def [status_codes] ENOENT_def [status_codes] ESRCH_def [status_codes]
  ENXIO_def [status_codes] EACCES_def [status_codes] EINVAL_def [status_codes]

section \<open>Lists and options\<close>

lemma takeWhile_append_stop:
  "(\<forall>x \<in> set xs. P x) \<Longrightarrow> (case ys of [] \<Rightarrow> True | y # _ \<Rightarrow> \<not> P y)
     \<Longrightarrow> takeWhile P (xs @ ys) = xs"
  by (induction xs) (auto split: list.splits)

lemma dropWhile_append_stop:
  "(\<forall>x \<in> set xs. P x) \<Longrightarrow> (case ys of [] \<Rightarrow> True | y # _ \<Rightarrow> \<not> P y)
     \<Longrightarrow> dropWhile P (xs @ ys) = ys"
  by (induction xs) (auto split: list.splits)

lemma length_dropWhile_less:
  "xs \<noteq> [] \<Longrightarrow> P (hd xs) \<Longrightarrow> length (dropWhile P xs) < length xs"
  by (cases xs) (auto simp: length_dropWhile_le less_Suc_eq_le)

lemma concat_replicate_Nil [simp]: "concat (replicate n []) = []"
  by (induction n) auto

lemma concat_list_update:
  "i < length xss \<Longrightarrow>
     concat (xss[i := ys]) = concat (take i xss) @ ys @ concat (drop (Suc i) xss)"
  by (simp add: upd_conv_take_nth_drop)

lemma concat_split_nth:
  "i < length xss \<Longrightarrow>
     concat xss = concat (take i xss) @ xss ! i @ concat (drop (Suc i) xss)"
  by (metis append_take_drop_id Cons_nth_drop_Suc concat.simps(2) concat_append)

lemma in_set_concat_nth:
  "x \<in> set (concat xss) \<longleftrightarrow> (\<exists>i < length xss. x \<in> set (xss ! i))"
  by (metis in_set_conv_nth set_concat UN_iff)

section \<open>Words\<close>

lemma unat_word_of_nat_u64 [simp]: "n < 2 ^ 64 \<Longrightarrow> unat (word_of_nat n :: u64) = n"
  by (simp add: unsigned_of_nat take_bit_nat_eq_self)

lemma unat_word_of_nat_u32 [simp]: "n < 2 ^ 32 \<Longrightarrow> unat (word_of_nat n :: u32) = n"
  by (simp add: unsigned_of_nat take_bit_nat_eq_self)

lemma unat_lt_u32: "unat (w :: u32) < 2 ^ 32"
  using unsigned_less [of w, where 'a = nat] by simp

lemma unat_lt_u64: "unat (w :: u64) < 2 ^ 64"
  using unsigned_less [of w, where 'a = nat] by simp

lemma unat_pos_u32: "w \<noteq> 0 \<Longrightarrow> 0 < unat (w :: u32)"
  by (simp add: unat_gt_0)

end
