(* ===== verification/CLib.thy ===== *)
theory CLib
  imports Prelude
begin

text \<open>
  The part of the C library the sources use, in the C locale: character classes, the
  \<open>strto*\<close> family, string search and comparison, and line input. A pointer into a
  NUL-terminated buffer is the list of the characters from it to the NUL, so \<open>*p\<close> is the
  head of the list (NUL for the empty list) and \<open>p++\<close> its tail.
\<close>

section \<open>Characters\<close>

definition NUL :: char where "NUL = CHR 0x00"

definition char_code :: "char \<Rightarrow> nat" where "char_code c = of_char c"

text \<open>\<open>char\<close> is signed on the target: the value a \<open>char\<close> has as an \<open>int\<close>.\<close>

definition schar :: "char \<Rightarrow> int" where
  "schar c = (if char_code c < 128 then int (char_code c) else int (char_code c) - 256)"

definition isspace :: "char \<Rightarrow> bool" where
  "isspace c \<longleftrightarrow> char_code c = 32 \<or> (9 \<le> char_code c \<and> char_code c \<le> 13)"

definition isdigit :: "char \<Rightarrow> bool" where
  "isdigit c \<longleftrightarrow> 48 \<le> char_code c \<and> char_code c \<le> 57"

definition isupper :: "char \<Rightarrow> bool" where
  "isupper c \<longleftrightarrow> 65 \<le> char_code c \<and> char_code c \<le> 90"

definition islower :: "char \<Rightarrow> bool" where
  "islower c \<longleftrightarrow> 97 \<le> char_code c \<and> char_code c \<le> 122"

lemma char_code_lt [simp]: "char_code c < 256"
  by (simp add: char_code_def)

lemma char_code_char_of [simp]: "n < 256 \<Longrightarrow> char_code (char_of n) = n"
  by (simp add: char_code_def)

lemma isdigit_not_isspace: "isdigit c \<Longrightarrow> \<not> isspace c"
  by (auto simp: isdigit_def isspace_def)

text \<open>\<open>*p\<close>, reading the NUL at the end of the string.\<close>

definition deref :: "cstring \<Rightarrow> char" where
  "deref p = (case p of [] \<Rightarrow> NUL | c # _ \<Rightarrow> c)"

text \<open>
  \<open>p[i]\<close>. The NUL may be read; what lies behind it is not determined by the string, so
  reading it is \<open>None\<close>.
\<close>

definition char_at :: "cstring \<Rightarrow> nat \<Rightarrow> char option" where
  "char_at p i = (if i < length p then Some (p ! i)
                  else if i = length p then Some NUL else None)"

text \<open>The C string that starts a character array.\<close>

definition cstr :: "char list \<Rightarrow> cstring" where
  "cstr cs = takeWhile (\<lambda>c. c \<noteq> NUL) cs"

lemma NUL_notin_cstr: "NUL \<notin> set (cstr cs)"
  by (auto simp: cstr_def dest: set_takeWhileD)

lemma cstr_id [simp]: "NUL \<notin> set cs \<Longrightarrow> cstr cs = cs"
  by (auto simp: cstr_def takeWhile_eq_all_conv)

section \<open>Numbers in strings\<close>

definition digit_val :: "char \<Rightarrow> nat option" where
  "digit_val c =
     (if isdigit c then Some (char_code c - 48)
      else if isupper c then Some (char_code c - 55)
      else if islower c then Some (char_code c - 87)
      else None)"

definition is_digit_in :: "nat \<Rightarrow> char \<Rightarrow> bool" where
  "is_digit_in b c = (case digit_val c of Some d \<Rightarrow> d < b | None \<Rightarrow> False)"

definition digits_value :: "nat \<Rightarrow> cstring \<Rightarrow> nat" where
  "digits_value b cs = foldl (\<lambda>a c. a * b + (case digit_val c of Some d \<Rightarrow> d | None \<Rightarrow> 0)) 0 cs"

text \<open>The base and the start of the digits, with the prefixes of bases 0 and 16.\<close>

definition int_prefix :: "nat \<Rightarrow> cstring \<Rightarrow> nat \<times> cstring" where
  "int_prefix b s =
     (if (b = 0 \<or> b = 16) \<and> 2 < length s \<and> s ! 0 = CHR ''0'' \<and>
         (s ! 1 = CHR ''x'' \<or> s ! 1 = CHR ''X'') \<and> is_digit_in 16 (s ! 2)
      then (16, drop 2 s)
      else if b = 0 then (if deref s = CHR ''0'' then 8 else 10, s)
      else (b, s))"

text \<open>White space and sign skipped: whether the number is negative, and the rest.\<close>

definition int_sign :: "cstring \<Rightarrow> bool \<times> cstring" where
  "int_sign s = (let t = dropWhile isspace s in
     if deref t = CHR ''-'' then (True, tl t)
     else if deref t = CHR ''+'' then (False, tl t)
     else (False, t))"

text \<open>
  \<open>strtoul\<close> and \<open>strtoull\<close> (the same on LP64): the value, and the pointer stored through
  \<open>endptr\<close>. Too large a number gives \<open>ULONG_MAX\<close>; with no digits the value is 0 and the
  pointer does not move.
\<close>

definition strtoull :: "nat \<Rightarrow> cstring \<Rightarrow> u64 \<times> cstring" where
  "strtoull base s =
     (let (neg, s1) = int_sign s;
          (b, s2) = int_prefix base s1;
          ds = takeWhile (is_digit_in b) s2;
          n = digits_value b ds
      in if ds = [] then (0, s)
         else (if n < 2 ^ 64 then (if neg then - word_of_nat n else word_of_nat n) else - 1,
               dropWhile (is_digit_in b) s2))"

text \<open>\<open>strtol\<close> with its clamping, and \<open>atoi\<close>, which converts the result to \<open>int\<close>.\<close>

definition strtol :: "nat \<Rightarrow> cstring \<Rightarrow> int \<times> cstring" where
  "strtol base s =
     (let (neg, s1) = int_sign s;
          (b, s2) = int_prefix base s1;
          ds = takeWhile (is_digit_in b) s2;
          n = int (digits_value b ds)
      in if ds = [] then (0, s)
         else (if neg then max (- n) (- (2 ^ 63)) else min n (2 ^ 63 - 1),
               dropWhile (is_digit_in b) s2))"

definition int_of_long :: "int \<Rightarrow> int" where
  "int_of_long n = sint (word_of_int n :: i32)"

definition atoi :: "cstring \<Rightarrow> int" where
  "atoi s = int_of_long (fst (strtol 10 s))"

text \<open>Decimal printing, as \<open>%u\<close> and \<open>%d\<close> of a natural number print it.\<close>

fun dec_digits :: "nat \<Rightarrow> cstring" where
  "dec_digits n = (if n < 10 then [char_of (48 + n)]
                   else dec_digits (n div 10) @ [char_of (48 + n mod 10)])"

declare dec_digits.simps [simp del]

lemma isdigit_char_of [simp]: "d < 10 \<Longrightarrow> isdigit (char_of (48 + d :: nat))"
  by (simp add: isdigit_def)

lemma digit_val_char_of [simp]: "d < 10 \<Longrightarrow> digit_val (char_of (48 + d :: nat)) = Some d"
  by (simp add: digit_val_def isdigit_def)

lemma isdigit_is_digit_in: "isdigit c \<Longrightarrow> is_digit_in 10 c"
  by (auto simp: is_digit_in_def digit_val_def isdigit_def)

lemma is_digit_in_10 [simp]: "is_digit_in 10 c = isdigit c"
  by (auto simp: is_digit_in_def digit_val_def isdigit_def isupper_def islower_def
      split: if_splits)

lemma dec_digits_nonempty [simp]: "dec_digits n \<noteq> []"
  by (subst dec_digits.simps) simp

lemma dec_digits_isdigit: "\<forall>c \<in> set (dec_digits n). isdigit c"
proof (induction n rule: dec_digits.induct)
  case (1 n)
  then show ?case
    by (cases "n < 10") (auto simp: dec_digits.simps [of n])
qed

lemma digits_value_Nil [simp]: "digits_value b [] = 0"
  by (simp add: digits_value_def)

lemma digits_value_snoc:
  "digits_value b (cs @ [c]) =
     digits_value b cs * b + (case digit_val c of Some d \<Rightarrow> d | None \<Rightarrow> 0)"
  by (simp add: digits_value_def)

lemma digits_value_dec_digits [simp]: "digits_value 10 (dec_digits n) = n"
proof (induction n rule: dec_digits.induct)
  case (1 n)
  show ?case
  proof (cases "n < 10")
    case True
    then show ?thesis by (simp add: dec_digits.simps [of n] digits_value_def)
  next
    case False
    with 1 show ?thesis
      by (simp add: dec_digits.simps [of n] digits_value_snoc)
  qed
qed

lemma length_dec_digits: "n < 10 ^ k \<Longrightarrow> 0 < k \<Longrightarrow> length (dec_digits n) \<le> k"
proof (induction k arbitrary: n)
  case 0
  then show ?case by simp
next
  case (Suc k)
  show ?case
  proof (cases "n < 10")
    case True
    then show ?thesis by (simp add: dec_digits.simps [of n])
  next
    case False
    with Suc.prems have "0 < k" by (cases k) auto
    moreover have "n div 10 < 10 ^ k" using Suc.prems by auto
    ultimately have "length (dec_digits (n div 10)) \<le> k" by (rule Suc.IH [rotated])
    with False show ?thesis by (simp add: dec_digits.simps [of n])
  qed
qed

lemma int_of_long_small: "- (2 ^ 31) \<le> n \<Longrightarrow> n < 2 ^ 31 \<Longrightarrow> int_of_long n = n"
  by (simp add: int_of_long_def signed_of_int signed_take_bit_int_eq_self)

section \<open>Searching and comparing\<close>

definition starts_with :: "cstring \<Rightarrow> cstring \<Rightarrow> bool" where
  "starts_with s p \<longleftrightarrow> take (length p) s = p"

text \<open>\<open>strncmp(a, b, n) == 0\<close> and \<open>strcmp(a, b) == 0\<close>.\<close>

definition strncmp_eq :: "cstring \<Rightarrow> cstring \<Rightarrow> nat \<Rightarrow> bool" where
  "strncmp_eq a b n \<longleftrightarrow> take n a = take n b"

fun strstr :: "cstring \<Rightarrow> cstring \<Rightarrow> cstring option" where
  "strstr [] n = (if n = [] then Some [] else None)"
| "strstr (c # h) n = (if starts_with (c # h) n then Some (c # h) else strstr h n)"

definition strchr :: "cstring \<Rightarrow> char \<Rightarrow> cstring option" where
  "strchr s c = (let t = dropWhile (\<lambda>x. x \<noteq> c) s in if t = [] then None else Some t)"

definition strrchr :: "cstring \<Rightarrow> char \<Rightarrow> cstring option" where
  "strrchr s c = (if c \<in> set s then Some (c # rev (takeWhile (\<lambda>x. x \<noteq> c) (rev s))) else None)"

lemma starts_with_append [simp]: "starts_with (p @ s) p"
  by (simp add: starts_with_def)

lemma strstr_Some:
  "strstr h n = Some t \<Longrightarrow> starts_with t n \<and> (\<exists>pre. h = pre @ t)"
proof (induction h n rule: strstr.induct)
  case (1 n)
  then show ?case by (auto simp: starts_with_def split: if_splits)
next
  case (2 c h n)
  show ?case
  proof (cases "starts_with (c # h) n")
    case True
    with 2 show ?thesis by auto
  next
    case False
    with 2 obtain pre where "starts_with t n" "h = pre @ t" by auto
    then show ?thesis by (metis append_Cons)
  qed
qed

lemma strstr_None_iff: "strstr h n = None \<longleftrightarrow> (\<forall>pre t. h = pre @ t \<longrightarrow> \<not> starts_with t n)"
proof (induction h n rule: strstr.induct)
  case (1 n)
  show ?case by (auto simp: starts_with_def)
next
  case (2 c h n)
  show ?case
  proof (cases "starts_with (c # h) n")
    case True
    then show ?thesis by (metis append_Nil option.distinct(1) strstr.simps(2))
  next
    case False
    have "(\<forall>pre t. c # h = pre @ t \<longrightarrow> \<not> starts_with t n) \<longleftrightarrow>
          (\<forall>pre t. h = pre @ t \<longrightarrow> \<not> starts_with t n)"
      using False by (metis append_Cons append_eq_Cons_conv)
    with False 2 show ?thesis by simp
  qed
qed

lemma strstr_None_suffix: "strstr h n = None \<Longrightarrow> h = pre @ t \<Longrightarrow> strstr t n = None"
  unfolding strstr_None_iff by (metis append.assoc)

section \<open>Line input\<close>

text \<open>
  \<open>fgets(buf, n, fp)\<close> on a stream that holds \<open>s\<close>: the characters up to and including the
  first newline, at most \<open>n - 1\<close> of them, and what is left of the stream; \<open>None\<close> is the
  NULL of the end of the file.
\<close>

fun fgets_take :: "nat \<Rightarrow> char list \<Rightarrow> char list \<times> char list" where
  "fgets_take 0 s = ([], s)"
| "fgets_take (Suc k) [] = ([], [])"
| "fgets_take (Suc k) (c # s) =
     (if c = CHR 0x0A then ([c], s)
      else (let (l, r) = fgets_take k s in (c # l, r)))"

definition fgets :: "nat \<Rightarrow> char list \<Rightarrow> (char list \<times> char list) option" where
  "fgets n s = (if s = [] \<or> n < 2 then None else Some (fgets_take (n - 1) s))"

lemma fgets_take_append: "fgets_take k s = (l, r) \<Longrightarrow> s = l @ r"
  by (induction k s arbitrary: l r rule: fgets_take.induct)
     (auto split: if_splits prod.splits)

lemma fgets_take_length: "fgets_take k s = (l, r) \<Longrightarrow> length l \<le> k"
  by (induction k s arbitrary: l r rule: fgets_take.induct)
     (auto split: if_splits prod.splits)

lemma fgets_take_progress: "fgets_take (Suc k) (c # s) = (l, r) \<Longrightarrow> length r < length (c # s)"
  using fgets_take_append [of "Suc k" "c # s" l r]
  by (auto split: if_splits prod.splits)

lemma fgets_progress: "fgets n s = Some (l, r) \<Longrightarrow> length r < length s"
proof -
  assume a: "fgets n s = Some (l, r)"
  then obtain c t k where "s = c # t" "n - 1 = Suc k"
    by (cases s; cases "n - 1") (auto simp: fgets_def split: if_splits)
  with a show ?thesis by (metis fgets_def fgets_take_progress option.distinct(1) option.inject)
qed

text \<open>The lines a loop \<open>while (fgets(buf, n, fp))\<close> sees, in order.\<close>

function fgets_lines :: "nat \<Rightarrow> char list \<Rightarrow> char list list" where
  "fgets_lines n s =
     (case fgets n s of None \<Rightarrow> [] | Some (l, r) \<Rightarrow> l # fgets_lines n r)"
  by pat_completeness auto
termination
  by (relation "measure (\<lambda>(n, s). length s)") (auto dest: fgets_progress)

declare fgets_lines.simps [simp del]

lemma fgets_lines_concat: "2 \<le> n \<Longrightarrow> concat (fgets_lines n s) = s"
proof (induction n s rule: fgets_lines.induct)
  case (1 n s)
  show ?case
  proof (cases "fgets n s")
    case None
    with 1 show ?thesis by (auto simp: fgets_lines.simps [of n s] fgets_def split: if_splits)
  next
    case (Some lr)
    obtain l r where lr: "lr = (l, r)" by (cases lr)
    with Some have "s = l @ r"
      by (auto simp: fgets_def split: if_splits intro: fgets_take_append)
    moreover have "fgets_lines n s = l # fgets_lines n r"
      using Some lr by (simp add: fgets_lines.simps [of n s])
    moreover have "concat (fgets_lines n r) = r" using 1 Some lr by simp
    ultimately show ?thesis by simp
  qed
qed

lemma fgets_lines_length: "l \<in> set (fgets_lines n s) \<Longrightarrow> length l < n"
proof (induction n s rule: fgets_lines.induct)
  case (1 n s)
  show ?case
  proof (cases "fgets n s")
    case None
    with 1 show ?thesis by (simp add: fgets_lines.simps [of n s])
  next
    case (Some lr)
    obtain l' r where lr: "lr = (l', r)" by (cases lr)
    with Some have "length l' \<le> n - 1" "2 \<le> n"
      by (auto simp: fgets_def split: if_splits dest: fgets_take_length)
    with 1 Some lr show ?thesis by (auto simp: fgets_lines.simps [of n s])
  qed
qed

text \<open>A file of lines that fit into the buffer is read line by line.\<close>

lemma fgets_take_line:
  "CHR 0x0A \<notin> set l \<Longrightarrow> length l < k \<Longrightarrow> fgets_take k (l @ CHR 0x0A # s) = (l @ [CHR 0x0A], s)"
proof (induction l arbitrary: k)
  case Nil
  then show ?case by (cases k) auto
next
  case (Cons c l)
  then show ?case by (cases k) auto
qed

lemma fgets_lines_line:
  "CHR 0x0A \<notin> set l \<Longrightarrow> length l + 1 < n
     \<Longrightarrow> fgets_lines n (l @ CHR 0x0A # s) = (l @ [CHR 0x0A]) # fgets_lines n s"
  by (simp add: fgets_lines.simps [of n "l @ CHR 0x0A # s"] fgets_def fgets_take_line)

lemma fgets_lines_Nil [simp]: "fgets_lines n [] = []"
  by (simp add: fgets_lines.simps [of n "[]"] fgets_def)

definition is_line :: "nat \<Rightarrow> cstring \<Rightarrow> bool" where
  "is_line n l \<longleftrightarrow> CHR 0x0A \<notin> set l \<and> NUL \<notin> set l \<and> length l + 1 < n"

definition text_file :: "cstring list \<Rightarrow> char list" where
  "text_file ls = concat (map (\<lambda>l. l @ [CHR 0x0A]) ls)"

lemma fgets_lines_text_file:
  "\<forall>l \<in> set ls. is_line n l \<Longrightarrow> fgets_lines n (text_file ls) = map (\<lambda>l. l @ [CHR 0x0A]) ls"
  by (induction ls) (simp_all add: text_file_def is_line_def fgets_lines_line)

lemma fgets_lines_text_file_append:
  "\<forall>l \<in> set ls. is_line n l
     \<Longrightarrow> fgets_lines n (text_file ls @ s) = map (\<lambda>l. l @ [CHR 0x0A]) ls @ fgets_lines n s"
  by (induction ls) (simp_all add: text_file_def is_line_def fgets_lines_line)

lemma first_line_prefix:
  assumes "2 \<le> n" "fgets_lines n s = line # rest" "take k (cstr line) = p" "length p = k"
  shows "starts_with s p"
proof -
  have "\<exists>r. line = cstr line @ r" by (metis cstr_def takeWhile_dropWhile_id)
  moreover have "\<exists>r. s = line @ r"
    using fgets_lines_concat [OF assms(1), of s] assms(2) by auto
  ultimately obtain r where "s = cstr line @ r" by (metis append.assoc)
  moreover obtain r' where "cstr line = p @ r'" by (metis assms(3) append_take_drop_id)
  ultimately show ?thesis by simp
qed

lemma dec_digits_plain [simp]: "CHR 0x0A \<notin> set (dec_digits n)" "NUL \<notin> set (dec_digits n)"
  using dec_digits_isdigit [of n] by (auto simp: isdigit_def char_code_def NUL_def)

lemma cstr_line: "is_line n l \<Longrightarrow> cstr (l @ [CHR 0x0A]) = l @ [CHR 0x0A]"
  by (rule cstr_id) (auto simp: is_line_def NUL_def)

section \<open>Reading back what was printed\<close>

lemma int_sign_digits:
  "(\<forall>c \<in> set sp. isspace c) \<Longrightarrow> isdigit d \<Longrightarrow> int_sign (sp @ d # r) = (False, d # r)"
  by (auto simp: int_sign_def Let_def deref_def dropWhile_append_stop isdigit_not_isspace
      isdigit_def char_code_def)

lemma strtoull_decimal:
  assumes sp: "\<forall>c \<in> set sp. isspace c"
    and ds: "ds \<noteq> []" "\<forall>c \<in> set ds. isdigit c"
    and rest: "case rest of [] \<Rightarrow> True | c # _ \<Rightarrow> \<not> isdigit c"
    and n: "digits_value 10 ds < 2 ^ 64"
  shows "strtoull 10 (sp @ ds @ rest) = (word_of_nat (digits_value 10 ds), rest)"
proof -
  obtain d r where d: "ds = d # r" using ds by (cases ds) auto
  have "int_sign (sp @ ds @ rest) = (False, ds @ rest)"
    using int_sign_digits [OF sp, of d "r @ rest"] ds d by simp
  moreover have "int_prefix 10 (ds @ rest) = (10, ds @ rest)"
    by (simp add: int_prefix_def)
  moreover have "takeWhile (is_digit_in 10) (ds @ rest) = ds"
    "dropWhile (is_digit_in 10) (ds @ rest) = rest"
    using ds rest
    by (auto intro!: takeWhile_append_stop dropWhile_append_stop split: list.splits)
  ultimately show ?thesis
    using ds n by (simp add: strtoull_def)
qed

lemma strtoull_dec_digits:
  assumes "\<forall>c \<in> set sp. isspace c" "case rest of [] \<Rightarrow> True | c # _ \<Rightarrow> \<not> isdigit c"
    and "n < 2 ^ 64"
  shows "strtoull 10 (sp @ dec_digits n @ rest) = (word_of_nat n, rest)"
  using strtoull_decimal [of sp "dec_digits n" rest] assms dec_digits_isdigit [of n] by simp

text \<open>The same for \<open>strtol\<close>, which clamps at the largest \<open>long\<close>.\<close>

lemma strtol_dec_digits:
  assumes "\<forall>c \<in> set sp. isspace c" "case rest of [] \<Rightarrow> True | c # _ \<Rightarrow> \<not> isdigit c"
    and "n < 2 ^ 63"
  shows "strtol 10 (sp @ dec_digits n @ rest) = (int n, rest)"
proof -
  obtain d r where d: "dec_digits n = d # r" by (cases "dec_digits n") simp_all
  have ds: "\<forall>c \<in> set (dec_digits n). isdigit c" by (rule dec_digits_isdigit)
  have "int_sign (sp @ dec_digits n @ rest) = (False, dec_digits n @ rest)"
    using int_sign_digits [OF assms(1), of d "r @ rest"] ds d by simp
  moreover have "int_prefix 10 (dec_digits n @ rest) = (10, dec_digits n @ rest)"
    by (simp add: int_prefix_def)
  moreover have "takeWhile (is_digit_in 10) (dec_digits n @ rest) = dec_digits n"
    "dropWhile (is_digit_in 10) (dec_digits n @ rest) = rest"
    using ds assms(2)
    by (auto intro!: takeWhile_append_stop dropWhile_append_stop split: list.splits)
  moreover have "int n \<le> 2 ^ 63 - 1" using assms(3) by simp
  ultimately show ?thesis by (simp add: strtol_def)
qed

lemma atoi_dec_digits:
  assumes "\<forall>c \<in> set sp. isspace c" "case rest of [] \<Rightarrow> True | c # _ \<Rightarrow> \<not> isdigit c"
    and "n < 2 ^ 31"
  shows "atoi (sp @ dec_digits n @ rest) = int n"
  using strtol_dec_digits [OF assms(1,2), of n] int_of_long_small [of "int n"] assms(3)
  by (simp add: atoi_def)

end
