(* ===== verification/Text.thy ===== *)
theory Text
  imports CLib
begin

text \<open>
  The text helpers of \<^verbatim>\<open>sysm_util.c\<close>: token skipping, decimal printing into a fixed
  buffer, the names of the files under \<^verbatim>\<open>/proc\<close>, reading a whole file, and the
  hexadecimal reader of \<^verbatim>\<open>sysm.c\<close>. The files themselves are the parameter \<open>files\<close>.
\<close>

section \<open>The file system as the code sees it\<close>

text \<open>
  What opening and reading a file yields: \<open>open\<close> fails with an \<open>errno\<close>, \<open>read\<close> fails with
  one, or the file has some bytes. A \<open>read\<close> of \<open>n\<close> bytes returns the first \<open>n\<close>, or all of
  them when there are fewer. A stream opened on a file whose reads fail is at its end.
\<close>

datatype fileres = Open_Fails int | Read_Fails int | Contents "char list"

type_synonym files = "cstring \<Rightarrow> fileres"

fun stream_of :: "fileres \<Rightarrow> int + char list" where
  "stream_of (Open_Fails e) = Inl e"
| "stream_of (Read_Fails e) = Inr []"
| "stream_of (Contents cs) = Inr cs"

definition BUFSIZ :: nat where "BUFSIZ = 8192"

section \<open>Tokens\<close>

definition sysm_skip_token :: "cstring \<Rightarrow> cstring" where
  "sysm_skip_token p = dropWhile (\<lambda>c. \<not> isspace c) (dropWhile isspace p)"

fun sysm_skip_multiple_token :: "cstring \<Rightarrow> nat \<Rightarrow> cstring" where
  "sysm_skip_multiple_token p 0 = p"
| "sysm_skip_multiple_token p (Suc k) = sysm_skip_multiple_token (sysm_skip_token p) k"

definition SYSM_SKIP_SPACE :: "cstring \<Rightarrow> cstring" where
  "SYSM_SKIP_SPACE p = dropWhile isspace p"

lemma sysm_skip_token_skips:
  assumes "\<forall>c \<in> set sp. isspace c" "\<forall>c \<in> set tok. \<not> isspace c"
    and "tok \<noteq> []" "case rest of [] \<Rightarrow> True | c # _ \<Rightarrow> isspace c"
  shows "sysm_skip_token (sp @ tok @ rest) = rest"
proof -
  obtain t ts where "tok = t # ts" using assms(3) by (cases tok) auto
  then have "dropWhile isspace (sp @ tok @ rest) = tok @ rest"
    using assms(1,2) by (intro dropWhile_append_stop) auto
  moreover have "dropWhile (\<lambda>c. \<not> isspace c) (tok @ rest) = rest"
    using assms by (intro dropWhile_append_stop) (auto split: list.splits)
  ultimately show ?thesis by (simp add: sysm_skip_token_def)
qed

text \<open>A line of fields, each after white space, as the kernel prints the status files.\<close>

definition is_field :: "cstring \<Rightarrow> bool" where
  "is_field t \<longleftrightarrow> t \<noteq> [] \<and> (\<forall>c \<in> set t. \<not> isspace c)"

definition spaced :: "cstring list \<Rightarrow> cstring" where
  "spaced ts = concat (map (\<lambda>t. CHR '' '' # t) ts)"

lemma isspace_blank [simp]: "isspace (CHR '' '')"
  by (simp add: isspace_def char_code_def)

lemma isspace_newline [simp]: "isspace (CHR 0x0A)"
  by (simp add: isspace_def char_code_def)

definition at_space :: "cstring \<Rightarrow> bool" where
  "at_space r \<longleftrightarrow> (case r of [] \<Rightarrow> True | c # _ \<Rightarrow> isspace c)"

lemma spaced_Nil [simp]: "spaced [] = []"
  by (simp add: spaced_def)

lemma spaced_Cons [simp]: "spaced (t # ts) = CHR '' '' # t @ spaced ts"
  by (simp add: spaced_def)

lemma at_space_spaced [simp]: "at_space r \<Longrightarrow> at_space (spaced ts @ r)"
  by (cases ts) (auto simp: at_space_def)

lemma at_space_nodigit:
  "at_space r \<Longrightarrow> case r of [] \<Rightarrow> True | c # _ \<Rightarrow> \<not> isdigit c"
  by (cases r) (auto simp: at_space_def isdigit_not_isspace)

lemma skip_token_field [simp]:
  "is_field t \<Longrightarrow> at_space r \<Longrightarrow> sysm_skip_token (CHR '' '' # t @ r) = r"
  using sysm_skip_token_skips [of "[CHR '' '']" t r]
  by (simp add: is_field_def at_space_def)

lemma skip_multiple_spaced:
  "\<forall>t \<in> set ts. is_field t \<Longrightarrow> at_space r
     \<Longrightarrow> sysm_skip_multiple_token (spaced ts @ r) (length ts) = r"
  by (induction ts) auto

lemma strtoull_field [simp]:
  "n < 2 ^ 64 \<Longrightarrow> at_space r
     \<Longrightarrow> strtoull 10 (CHR '' '' # dec_digits n @ r) = (word_of_nat n, r)"
  using strtoull_dec_digits [of "[CHR '' '']" r n] by (simp add: at_space_nodigit)

lemma is_field_dec_digits [simp]: "is_field (dec_digits n)"
  using dec_digits_isdigit [of n] by (auto simp: is_field_def isdigit_not_isspace)

section \<open>Decimal printing into a buffer\<close>

text \<open>\<open>sizeof(int) * 3 + 1\<close>\<close>

definition UITOA_BUFFER_SIZE :: nat where "UITOA_BUFFER_SIZE = 4 * 3 + 1"

text \<open>
  The loop writes the digits from the end of the buffer towards its start. The state is the
  buffer, the index \<open>start\<close>, the counter \<open>len\<close> and the number; \<open>None\<close> is a write before the
  buffer.
\<close>

function uitoa_loop ::
  "char list \<Rightarrow> nat \<Rightarrow> nat \<Rightarrow> u32 \<Rightarrow> (char list \<times> nat \<times> nat) option" where
  "uitoa_loop buf start len n =
     (if start = 0 then None
      else let start' = start - 1;
               buf' = buf[start' := char_of (48 + unat (n mod 10))];
               len' = Suc len;
               n' = n div 10
           in if n' = 0 then Some (buf', start', len') else uitoa_loop buf' start' len' n')"
  by pat_completeness auto
termination
  by (relation "measure (\<lambda>(buf, start, len, n). start)") auto

declare uitoa_loop.simps [simp del]

definition sysm_uitoa :: "char list \<Rightarrow> u32 \<Rightarrow> nat \<Rightarrow> (char list \<times> nat \<times> nat) option" where
  "sysm_uitoa buffer n len =
     (let start = UITOA_BUFFER_SIZE - 1
      in uitoa_loop (buffer[start := NUL]) start len n)"

lemma unat_div_10: "unat (n div 10 :: u32) = unat n div 10"
  by (simp add: unat_div)

lemma unat_mod_10: "unat (n mod 10 :: u32) = unat n mod 10"
  by (simp add: unat_mod)

lemma u32_div_10_eq_0: "(n div 10 :: u32) = 0 \<longleftrightarrow> unat n < 10"
  by (simp add: unat_eq_0 [symmetric] unat_div_10 div_eq_0_iff)

lemma drop_list_update_pred:
  "0 < start \<Longrightarrow> start \<le> length buf
     \<Longrightarrow> drop (start - 1) (buf[start - 1 := c]) = c # drop start buf"
  by (cases start) (auto simp: Cons_nth_drop_Suc [symmetric])

lemma uitoa_loop_digits:
  "unat n < 10 ^ k \<Longrightarrow> 0 < k \<Longrightarrow> k \<le> start \<Longrightarrow> start \<le> length buf
   \<Longrightarrow> \<exists>buf'. uitoa_loop buf start len n
         = Some (buf', start - length (dec_digits (unat n)), len + length (dec_digits (unat n)))
       \<and> length buf' = length buf
       \<and> drop (start - length (dec_digits (unat n))) buf' = dec_digits (unat n) @ drop start buf"
proof (induction k arbitrary: buf start len n)
  case 0
  then show ?case by simp
next
  case (Suc k)
  define c where "c = (char_of (48 + unat (n mod 10)) :: char)"
  define buf1 where "buf1 = buf[start - 1 := c]"
  have start: "0 < start" using Suc.prems by simp
  have dr: "drop (start - 1) buf1 = c # drop start buf"
    unfolding buf1_def using start Suc.prems(4) by (rule drop_list_update_pred)
  have step: "uitoa_loop buf start len n =
      (if n div 10 = 0 then Some (buf1, start - 1, Suc len)
       else uitoa_loop buf1 (start - 1) (Suc len) (n div 10))"
    using start by (simp add: uitoa_loop.simps [of buf start len n] Let_def buf1_def c_def)
  show ?case
  proof (cases "unat n < 10")
    case True
    then have "n div 10 = 0" by (simp add: u32_div_10_eq_0)
    moreover have "dec_digits (unat n) = [c]"
      using True by (simp add: dec_digits.simps [of "unat n"] c_def unat_mod_10)
    ultimately show ?thesis using step dr by (simp add: buf1_def)
  next
    case False
    then have nz: "n div 10 \<noteq> 0" by (simp add: u32_div_10_eq_0)
    have k: "0 < k" using Suc.prems(1) False by (cases k) auto
    have "unat (n div 10) < 10 ^ k" using Suc.prems(1) by (simp add: unat_div_10 div_less_iff_less_mult mult.commute)
    moreover have "k \<le> start - 1" "start - 1 \<le> length buf1"
      using Suc.prems by (auto simp: buf1_def)
    ultimately obtain buf' where b: "uitoa_loop buf1 (start - 1) (Suc len) (n div 10)
         = Some (buf', start - 1 - length (dec_digits (unat (n div 10))),
                 Suc len + length (dec_digits (unat (n div 10))))"
      "length buf' = length buf1"
      "drop (start - 1 - length (dec_digits (unat (n div 10)))) buf'
         = dec_digits (unat (n div 10)) @ drop (start - 1) buf1"
      using Suc.IH [of "n div 10" "start - 1" buf1 "Suc len"] k by auto
    have d: "dec_digits (unat n) = dec_digits (unat (n div 10)) @ [c]"
      using False by (simp add: dec_digits.simps [of "unat n"] c_def unat_mod_10 unat_div_10)
    show ?thesis using step nz b d dr by (auto simp: buf1_def)
  qed
qed

lemma sysm_uitoa_correct:
  assumes "length buffer = UITOA_BUFFER_SIZE"
  shows "\<exists>buf'. sysm_uitoa buffer n len
           = Some (buf', UITOA_BUFFER_SIZE - 1 - length (dec_digits (unat n)),
                   len + length (dec_digits (unat n)))
         \<and> length buf' = UITOA_BUFFER_SIZE
         \<and> drop (UITOA_BUFFER_SIZE - 1 - length (dec_digits (unat n))) buf'
             = dec_digits (unat n) @ [NUL]"
proof -
  have "unat n < 10 ^ 12" using unat_lt_u32 [of n] by simp
  moreover have "drop 12 (buffer[12 := NUL]) = [NUL]"
    using drop_list_update_pred [of 13 buffer NUL] assms by (simp add: UITOA_BUFFER_SIZE_def)
  ultimately show ?thesis
    using uitoa_loop_digits [of n 12 12 "buffer[12 := NUL]" len] assms
    by (auto simp: sysm_uitoa_def UITOA_BUFFER_SIZE_def)
qed

section \<open>File names under /proc\<close>

definition PROC_FS_ROOT :: cstring where "PROC_FS_ROOT = ''/proc/''"

text \<open>
  The buffer the digits go to is a local array; its first contents do not matter, because
  only the \<open>len\<close> characters from \<open>start\<close> are copied. \<open>None\<close> is a failed \<open>assert\<close>. The pid
  is converted to \<open>unsigned int\<close>.
\<close>

definition sysm_proc_filename :: "nat \<Rightarrow> int \<Rightarrow> cstring \<Rightarrow> nat \<Rightarrow> cstring option" where
  "sysm_proc_filename buflen pid fname fname_len = do {
     (pid_buf, start, len) \<leftarrow>
        sysm_uitoa (replicate UITOA_BUFFER_SIZE NUL) (word_of_int pid) 0;
     if buflen \<ge> length PROC_FS_ROOT + UITOA_BUFFER_SIZE + fname_len + 1
     then Some (PROC_FS_ROOT @ take len (drop start pid_buf) @ take fname_len fname)
     else None }"

definition SYSM_PROC_FILENAME :: "nat \<Rightarrow> int \<Rightarrow> cstring \<Rightarrow> cstring option" where
  "SYSM_PROC_FILENAME bufsize pid fname = sysm_proc_filename bufsize pid fname (length fname)"

lemma SYSM_PROC_FILENAME_eq:
  assumes "20 + length fname \<le> bufsize"
  shows "SYSM_PROC_FILENAME bufsize pid fname
           = Some (''/proc/'' @ dec_digits (unat (word_of_int pid :: u32)) @ fname)"
proof -
  define n :: u32 where "n = word_of_int pid"
  obtain buf where "sysm_uitoa (replicate UITOA_BUFFER_SIZE NUL) n 0
      = Some (buf, UITOA_BUFFER_SIZE - 1 - length (dec_digits (unat n)), length (dec_digits (unat n)))"
    "drop (UITOA_BUFFER_SIZE - 1 - length (dec_digits (unat n))) buf = dec_digits (unat n) @ [NUL]"
    using sysm_uitoa_correct [of "replicate UITOA_BUFFER_SIZE NUL" n 0] by auto
  with assms show ?thesis
    by (simp add: SYSM_PROC_FILENAME_def sysm_proc_filename_def n_def PROC_FS_ROOT_def
        UITOA_BUFFER_SIZE_def)
qed

section \<open>Reading a whole file\<close>

text \<open>
  The result is a status or the string in the buffer. \<open>cap\<close> is the size of the array behind
  \<open>buffer\<close>: the terminating NUL is stored at index \<open>len\<close>, and when the read fills the array
  that store is outside it (\<open>None\<close>).
\<close>

definition sysm_file2str ::
  "files \<Rightarrow> cstring \<Rightarrow> nat \<Rightarrow> nat \<Rightarrow> (int + cstring) option" where
  "sysm_file2str fs fname cap buflen =
     (case fs fname of
        Open_Fails _ \<Rightarrow> Some (Inl ENOENT)
      | Read_Fails e \<Rightarrow> Some (Inl e)
      | Contents cs \<Rightarrow>
          let bytes = take buflen cs; len = length bytes
          in if len < cap then Some (Inr (cstr bytes)) else None)"

definition sysm_proc_file2str ::
  "files \<Rightarrow> nat \<Rightarrow> int \<Rightarrow> cstring \<Rightarrow> nat \<Rightarrow> (int + cstring) option" where
  "sysm_proc_file2str fs buflen pid fname fname_len = do {
     name \<leftarrow> sysm_proc_filename buflen pid fname fname_len;
     r \<leftarrow> sysm_file2str fs name buflen buflen;
     Some (case r of Inl retval \<Rightarrow> Inl (if retval = ENOENT then ESRCH else retval)
                   | Inr s \<Rightarrow> Inr s) }"

definition SYSM_PROC_FILE2STR ::
  "files \<Rightarrow> nat \<Rightarrow> int \<Rightarrow> cstring \<Rightarrow> (int + cstring) option" where
  "SYSM_PROC_FILE2STR fs bufsize pid fname
     = sysm_proc_file2str fs bufsize pid fname (length fname)"

lemma sysm_file2str_fits:
  "fs fname = Contents cs \<Longrightarrow> length cs < cap \<Longrightarrow> length cs \<le> buflen
     \<Longrightarrow> sysm_file2str fs fname cap buflen = Some (Inr (cstr cs))"
  by (simp add: sysm_file2str_def)

lemma sysm_file2str_overflow_iff:
  "sysm_file2str fs fname cap buflen = None
     \<longleftrightarrow> (\<exists>cs. fs fname = Contents cs \<and> cap \<le> min buflen (length cs))"
  by (auto simp: sysm_file2str_def Let_def not_less min.commute split: fileres.splits)

section \<open>Hexadecimal numbers\<close>

definition HEX_ENT_LEN :: nat where "HEX_ENT_LEN = 8"

text \<open>
  No character is checked to be a digit: a character that is neither a decimal digit nor an
  upper-case letter is taken as a lower-case letter, and its value (perhaps negative) is
  or-ed in.
\<close>

definition hex_digit :: "char \<Rightarrow> u32" where
  "hex_digit c = (let ch = schar c in
     if isdigit c then word_of_int (ch - 48)
     else if isupper c then word_of_int (ch - (65 - 10))
     else word_of_int (ch - (97 - 10)))"

fun hex2int_loop :: "cstring \<Rightarrow> nat \<Rightarrow> nat \<Rightarrow> u32 \<Rightarrow> u32 option" where
  "hex2int_loop x i 0 j = Some j"
| "hex2int_loop x i (Suc k) j =
     (case char_at x i of None \<Rightarrow> None
      | Some c \<Rightarrow> hex2int_loop x (Suc i) k (push_bit 4 j OR hex_digit c))"

definition hex2int :: "cstring \<Rightarrow> nat \<Rightarrow> u32 option" where
  "hex2int x len = hex2int_loop x 0 len 0"

lemma shift_or_nat: "d < 16 \<Longrightarrow> push_bit 4 v OR d = v * 16 + (d :: nat)"
proof -
  assume "d < 16"
  then have d: "d = take_bit 4 d" by (simp add: take_bit_nat_eq_self)
  have "push_bit 4 v AND d = 0"
    by (subst d) (simp add: bit_eq_iff bit_simps)
  then have "push_bit 4 v OR d = push_bit 4 v + d" by (simp add: disjunctive_add_eq_or)
  then show ?thesis by (simp add: push_bit_eq_mult)
qed

lemma shift_or_word:
  "d < 16 \<Longrightarrow> push_bit 4 (word_of_nat v :: u32) OR word_of_nat d = word_of_nat (v * 16 + d)"
  by (simp only: shift_or_nat [symmetric] of_nat_or_eq of_nat_push_bit)

lemma hex_digit_val:
  "is_digit_in 16 c \<Longrightarrow> hex_digit c = word_of_nat (the (digit_val c)) \<and> the (digit_val c) < 16
     \<and> digit_val c \<noteq> None"
  by (auto simp: is_digit_in_def digit_val_def hex_digit_def schar_def isdigit_def isupper_def
      islower_def Let_def split: if_splits)

lemma hex2int_loop_digits:
  "\<forall>c \<in> set ds. is_digit_in 16 c
   \<Longrightarrow> hex2int_loop (pre @ ds @ rest) (length pre) (length ds) (word_of_nat v)
       = Some (word_of_nat (foldl (\<lambda>a c. a * 16 + (case digit_val c of Some d \<Rightarrow> d | None \<Rightarrow> 0)) v ds))"
proof (induction ds arbitrary: pre v)
  case Nil
  then show ?case by simp
next
  case (Cons c ds)
  obtain d where d: "digit_val c = Some d" "d < 16" "hex_digit c = word_of_nat d"
    using hex_digit_val [of c] Cons.prems by auto
  have at: "char_at (pre @ (c # ds) @ rest) (length pre) = Some c"
    by (simp add: char_at_def)
  have "hex2int_loop ((pre @ [c]) @ ds @ rest) (length (pre @ [c])) (length ds)
          (word_of_nat (v * 16 + d))
        = Some (word_of_nat (foldl (\<lambda>a c. a * 16 + (case digit_val c of Some d \<Rightarrow> d | None \<Rightarrow> 0))
            (v * 16 + d) ds))"
    using Cons.prems by (intro Cons.IH) auto
  then show ?case using d at by (simp add: shift_or_word)
qed

lemma hex2int_digits:
  assumes "\<forall>c \<in> set ds. is_digit_in 16 c"
  shows "hex2int (ds @ rest) (length ds) = Some (word_of_nat (digits_value 16 ds))"
  using hex2int_loop_digits [of ds "[]" rest 0] assms
  by (simp add: hex2int_def digits_value_def)

text \<open>The kernel prints a word with \<open>%08X\<close> and a byte with \<open>%02X\<close>.\<close>

definition hex_char :: "nat \<Rightarrow> char" where
  "hex_char d = char_of (if d < 10 then 48 + d else 55 + d)"

fun hex_digits :: "nat \<Rightarrow> nat \<Rightarrow> cstring" where
  "hex_digits 0 n = []"
| "hex_digits (Suc k) n = hex_digits k (n div 16) @ [hex_char (n mod 16)]"

lemma length_hex_digits [simp]: "length (hex_digits k n) = k"
  by (induction k arbitrary: n) auto

lemma digit_val_hex_char: "d < 16 \<Longrightarrow> digit_val (hex_char d) = Some d"
  by (auto simp: hex_char_def digit_val_def isdigit_def isupper_def islower_def)

lemma is_digit_in_hex_digits: "\<forall>c \<in> set (hex_digits k n). is_digit_in 16 c"
  by (induction k arbitrary: n) (auto simp: is_digit_in_def digit_val_hex_char)

lemma digits_value_hex_digits: "digits_value 16 (hex_digits k n) = n mod 16 ^ k"
proof (induction k arbitrary: n)
  case 0
  then show ?case by simp
next
  case (Suc k)
  then show ?case
    by (simp add: digits_value_snoc digit_val_hex_char mod_mult2_eq mult.commute)
qed

lemma hex2int_hex_digits:
  "hex2int (hex_digits 8 (unat (w :: u32)) @ rest) HEX_ENT_LEN = Some w"
  using hex2int_digits [OF is_digit_in_hex_digits [of 8 "unat w"], of rest] unat_lt_u32 [of w]
  by (simp add: HEX_ENT_LEN_def digits_value_hex_digits)

section \<open>The clock\<close>

text \<open>
  Milliseconds from the \<open>timeval\<close> that \<open>gettimeofday\<close> stored. The sum is computed in
  \<open>long\<close>: \<open>None\<close> when it overflows.
\<close>

definition sysm_time_now_millis :: "int \<Rightarrow> int \<Rightarrow> u64 option" where
  "sysm_time_now_millis tv_sec tv_usec =
     (let us = tv_sec * 1000000 + tv_usec
      in if - (2 ^ 63) \<le> us \<and> us < 2 ^ 63
         then Some (word_of_int (sgn us * (\<bar>us\<bar> div 1000))) else None)"

end
