(* ===== verification/Cache.thy ===== *)
theory Cache
  imports Text "HOL-Library.Multiset"
begin

text \<open>
  The hash table of \<^verbatim>\<open>sysm_util.c\<close> (\<open>sysm_cache_t\<close>): chained buckets, a clean-up of
  entries that were not accessed for a while, and a rehash that changes the number of
  buckets. The table caches CPU times per process, I/O devices and listening addresses.

  An entry carries its address, so that the pointers the operations return can be followed
  after the table has changed. A chain is the list of the entries met on the \<open>next\<close>
  pointers. Three fields are not in the code: the next fresh address, the chains no bucket
  points to any more, and the entries that were freed.
\<close>

section \<open>State\<close>

record 'v entry =
  e_addr :: nat
  e_id :: u64
  e_value :: "'v option"
  e_last :: u64

record 'v cache =
  c_entries :: "'v entry list list"
  c_count :: u32
  c_size :: u32
  c_expire :: u64
  c_period :: u64
  c_last_cleanup :: u64
  c_next :: nat
  c_leaked :: "'v entry list list"
  c_freed :: "'v entry list"

definition sysm_expired_cache_new :: "u32 \<Rightarrow> u64 \<Rightarrow> u64 \<Rightarrow> u64 \<Rightarrow> 'v cache" where
  "sysm_expired_cache_new sz clean_up_period_millis expire_period now =
     \<lparr>c_entries = replicate (unat sz) [], c_count = 0, c_size = sz,
      c_expire = expire_period, c_period = clean_up_period_millis, c_last_cleanup = now,
      c_next = 0, c_leaked = [], c_freed = []\<rparr>"

definition sysm_cache_new :: "u32 \<Rightarrow> u64 \<Rightarrow> 'v cache" where
  "sysm_cache_new sz now = sysm_expired_cache_new sz (- 1) (- 1) now"

text \<open>\<open>SYSM_CACHE_IX\<close>: the index of a key's bucket, meaningful when the size is not 0.\<close>

definition cache_ix :: "'v cache \<Rightarrow> u64 \<Rightarrow> nat" where
  "cache_ix t k = unat k mod unat (c_size t)"

section \<open>Rehash\<close>

text \<open>
  The inner loop of the rehash, over one chain. An entry's \<open>next\<close> pointer is set to the
  head of its new bucket; the bucket itself is not written. The result lists the chains
  that start at the entries walked over.
\<close>

fun rehash_walk :: "'v entry list list \<Rightarrow> nat \<Rightarrow> 'v entry list \<Rightarrow> 'v entry list list" where
  "rehash_walk new_entries new_size [] = []"
| "rehash_walk new_entries new_size (e # es) =
     (let hash = unat (e_id e) mod new_size
      in (e # new_entries ! hash) # rehash_walk new_entries new_size es)"

definition sysm_cache_rehash :: "'v cache \<Rightarrow> 'v cache" where
  "sysm_cache_rehash t =
     (let new_size = c_count t * 2 + 1;
          new_entries = replicate (unat new_size) [];
          detached = concat (map (rehash_walk new_entries (unat new_size)) (c_entries t))
      in t\<lparr>c_entries := new_entries, c_size := new_size,
           c_leaked := c_leaked t @ detached\<rparr>)"

section \<open>Clean-up\<close>

fun cleanup_chain ::
  "u64 \<Rightarrow> u64 \<Rightarrow> 'v entry list \<Rightarrow> u32 \<Rightarrow> 'v entry list \<times> u32 \<times> 'v entry list" where
  "cleanup_chain expire now [] cnt = ([], cnt, [])"
| "cleanup_chain expire now (e # es) cnt =
     (let period_with_no_access = now - e_last e
      in if expire < period_with_no_access
         then (let (kept, cnt', gone) = cleanup_chain expire now es (cnt - 1)
               in (kept, cnt', e # gone))
         else (let (kept, cnt', gone) = cleanup_chain expire now es cnt
               in (e # kept, cnt', gone)))"

fun cleanup_chains ::
  "u64 \<Rightarrow> u64 \<Rightarrow> 'v entry list list \<Rightarrow> u32 \<Rightarrow> 'v entry list list \<times> u32 \<times> 'v entry list" where
  "cleanup_chains expire now [] cnt = ([], cnt, [])"
| "cleanup_chains expire now (es # ess) cnt =
     (let (kept, cnt', gone) = cleanup_chain expire now es cnt;
          (kepts, cnt'', gones) = cleanup_chains expire now ess cnt'
      in (kept # kepts, cnt'', gone @ gones))"

definition sysm_perform_cleanup_if_necessary :: "u64 \<Rightarrow> 'v cache \<Rightarrow> 'v cache" where
  "sysm_perform_cleanup_if_necessary current_time t =
     (if c_period t = - 1 then t
      else if current_time - c_last_cleanup t < c_period t then t
      else let (kept, cnt, gone) = cleanup_chains (c_expire t) current_time (c_entries t) (c_count t);
               t' = t\<lparr>c_last_cleanup := current_time, c_entries := kept, c_count := cnt,
                      c_freed := c_freed t @ gone\<rparr>
           in if c_count t' < c_size t' div 4 then sysm_cache_rehash t' else t')"

section \<open>Lookup and insertion\<close>

fun chain_find :: "u64 \<Rightarrow> 'v entry list \<Rightarrow> 'v entry option" where
  "chain_find key [] = None"
| "chain_find key (e # es) = (if e_id e = key then Some e else chain_find key es)"

fun chain_touch :: "u64 \<Rightarrow> u64 \<Rightarrow> 'v entry list \<Rightarrow> 'v entry list" where
  "chain_touch key now [] = []"
| "chain_touch key now (e # es) =
     (if e_id e = key then e\<lparr>e_last := now\<rparr> # es else e # chain_touch key now es)"

definition chain_append :: "nat \<Rightarrow> 'v entry \<Rightarrow> 'v cache \<Rightarrow> 'v cache" where
  "chain_append ix e t = t\<lparr>c_entries := (c_entries t)[ix := c_entries t ! ix @ [e]]\<rparr>"

text \<open>
  \<open>now1\<close> is the clock read of the clean-up and \<open>now2\<close> the one that stamps the entry. The
  result is the table and the address of the entry; \<open>None\<close> is the division by a size of 0.
\<close>

definition sysm_cache_get ::
  "u64 \<Rightarrow> u64 \<Rightarrow> 'v cache \<Rightarrow> u64 \<Rightarrow> ('v cache \<times> nat) option" where
  "sysm_cache_get now1 now2 table key =
     (let t = sysm_perform_cleanup_if_necessary now1 table
      in if c_size t = 0 then None
         else let ix = cache_ix t key
              in case chain_find key (c_entries t ! ix) of
                   Some e \<Rightarrow>
                     Some (t\<lparr>c_entries := (c_entries t)[ix := chain_touch key now2 (c_entries t ! ix)]\<rparr>,
                           e_addr e)
                 | None \<Rightarrow>
                     let t1 = t\<lparr>c_count := c_count t + 1\<rparr>;
                         t2 = (if c_count t1 > c_size t1 then sysm_cache_rehash t1 else t1);
                         a = c_next t2;
                         e = \<lparr>e_addr = a, e_id = key, e_value = None, e_last = now2\<rparr>
                     in Some ((chain_append (cache_ix t2 key) e t2)\<lparr>c_next := Suc a\<rparr>, a))"

definition sysm_cache_find ::
  "u64 \<Rightarrow> u64 \<Rightarrow> 'v cache \<Rightarrow> u64 \<Rightarrow> ('v cache \<times> nat option) option" where
  "sysm_cache_find now1 now2 table key =
     (let t = sysm_perform_cleanup_if_necessary now1 table
      in if c_size t = 0 then None
         else let ix = cache_ix t key
              in case chain_find key (c_entries t ! ix) of
                   Some e \<Rightarrow>
                     Some (t\<lparr>c_entries := (c_entries t)[ix := chain_touch key now2 (c_entries t ! ix)]\<rparr>,
                           Some (e_addr e))
                 | None \<Rightarrow> Some (t, None))"

text \<open>
  Destroying the table frees every entry on a chain, and its value when it has one: the
  addresses of the freed entries and the freed values, in the order of the loop.
\<close>

definition sysm_cache_destroy :: "'v cache \<Rightarrow> nat list \<times> 'v list" where
  "sysm_cache_destroy t =
     (map e_addr (concat (c_entries t)),
      List.map_filter e_value (concat (c_entries t)))"

section \<open>Access through an entry pointer\<close>

text \<open>
  \<open>entry->value\<close> and \<open>entry->value = v\<close> for a pointer a caller holds. The entry may be on a
  chain or have been detached from the table by a rehash.
\<close>

definition entry_load :: "'v cache \<Rightarrow> nat \<Rightarrow> 'v entry option" where
  "entry_load t a = List.find (\<lambda>e. e_addr e = a) (concat (c_entries t) @ concat (c_leaked t))"

definition entry_store :: "nat \<Rightarrow> 'v \<Rightarrow> 'v cache \<Rightarrow> 'v cache" where
  "entry_store a v t =
     (let upd = (\<lambda>e. if e_addr e = a then e\<lparr>e_value := Some v\<rparr> else e)
      in t\<lparr>c_entries := map (map upd) (c_entries t), c_leaked := map (map upd) (c_leaked t)\<rparr>)"

text \<open>\<open>entry->value\<close>.\<close>

definition entry_val :: "'v cache \<Rightarrow> nat \<Rightarrow> 'v option option" where
  "entry_val t a = map_option e_value (entry_load t a)"

section \<open>Abstraction and invariant\<close>

definition cache_lookup :: "'v cache \<Rightarrow> u64 \<Rightarrow> 'v entry option" where
  "cache_lookup t k = chain_find k (c_entries t ! cache_ix t k)"

definition cache_val :: "'v cache \<Rightarrow> u64 \<Rightarrow> 'v option option" where
  "cache_val t k = map_option e_value (cache_lookup t k)"

definition all_entries :: "'v cache \<Rightarrow> 'v entry list" where
  "all_entries t = concat (c_entries t) @ concat (c_leaked t) @ c_freed t"

definition cache_inv :: "'v cache \<Rightarrow> bool" where
  "cache_inv t \<longleftrightarrow>
     c_size t \<noteq> 0 \<and> length (c_entries t) = unat (c_size t) \<and>
     (\<forall>i < length (c_entries t). \<forall>e \<in> set (c_entries t ! i). cache_ix t (e_id e) = i) \<and>
     (\<forall>es \<in> set (c_entries t). distinct (map e_id es)) \<and>
     distinct (map e_addr (all_entries t)) \<and>
     (\<forall>e \<in> set (all_entries t). e_addr e < c_next t)"

lemma cache_invD:
  assumes "cache_inv t"
  shows "c_size t \<noteq> 0" "length (c_entries t) = unat (c_size t)"
    and "\<And>i e. i < length (c_entries t) \<Longrightarrow> e \<in> set (c_entries t ! i) \<Longrightarrow> cache_ix t (e_id e) = i"
    and "\<And>es. es \<in> set (c_entries t) \<Longrightarrow> distinct (map e_id es)"
    and "distinct (map e_addr (all_entries t))"
    and "\<And>e. e \<in> set (all_entries t) \<Longrightarrow> e_addr e < c_next t"
  using assms by (auto simp: cache_inv_def)

lemma cache_ix_lt: "cache_inv t \<Longrightarrow> cache_ix t k < length (c_entries t)"
  by (simp add: cache_inv_def cache_ix_def unat_pos_u32)

end
