(* ===== verification/Keyed_Cells.thy ===== *)
theory Keyed_Cells
  imports Prelude
begin

text \<open>
  The interface the clients of the hash table rely on: \<open>get\<close> finds or makes the cell of a
  key and returns a pointer to it, \<open>store\<close> and \<open>load\<close> go through such a pointer, \<open>find\<close>
  only looks. \<open>val\<close> is the abstract content: \<open>None\<close> when the key has no cell, \<open>Some None\<close>
  when its cell holds no value. A \<open>quiet\<close> state is one where no operation removes cells
  on its own; in a state with \<open>room\<close> for a key, making its cell disturbs no other.
\<close>

locale keyed_cells =
  fixes get :: "'t \<Rightarrow> 'k \<Rightarrow> ('t \<times> 'p) option"
    and find :: "'t \<Rightarrow> 'k \<Rightarrow> ('t \<times> 'p option) option"
    and load :: "'t \<Rightarrow> 'p \<Rightarrow> 'v option option"
    and store :: "'p \<Rightarrow> 'v \<Rightarrow> 't \<Rightarrow> 't"
    and val :: "'t \<Rightarrow> 'k \<Rightarrow> 'v option option"
    and inv :: "'t \<Rightarrow> bool"
    and quiet :: "'t \<Rightarrow> bool"
    and room :: "'t \<Rightarrow> 'k \<Rightarrow> bool"
  assumes get_total: "inv t \<Longrightarrow> \<exists>t' p. get t k = Some (t', p)"
    and get_inv: "inv t \<Longrightarrow> get t k = Some (t', p) \<Longrightarrow> inv t'"
    and get_quiet: "inv t \<Longrightarrow> quiet t \<Longrightarrow> get t k = Some (t', p) \<Longrightarrow> quiet t'"
    and get_val: "inv t \<Longrightarrow> quiet t \<Longrightarrow> get t k = Some (t', p)
      \<Longrightarrow> val t' k = Some (case val t k of Some v \<Rightarrow> v | None \<Rightarrow> None)"
    and get_frame: "inv t \<Longrightarrow> quiet t \<Longrightarrow> room t k \<Longrightarrow> get t k = Some (t', p) \<Longrightarrow> k' \<noteq> k
      \<Longrightarrow> val t' k' = val t k'"
    and get_load: "inv t \<Longrightarrow> get t k = Some (t', p) \<Longrightarrow> load t' p = val t' k"
    and store_inv: "inv t \<Longrightarrow> inv (store p v t)"
    and store_quiet: "quiet (store p v t) = quiet t"
    and store_val: "inv t \<Longrightarrow> get t k = Some (t', p) \<Longrightarrow> val (store p v t') k = Some (Some v)"
    and store_frame: "inv t \<Longrightarrow> get t k = Some (t', p) \<Longrightarrow> k' \<noteq> k
      \<Longrightarrow> val (store p v t') k' = val t' k'"
    and find_total: "inv t \<Longrightarrow> \<exists>t' r. find t k = Some (t', r)"
    and find_inv: "inv t \<Longrightarrow> find t k = Some (t', r) \<Longrightarrow> inv t'"
    and find_quiet: "inv t \<Longrightarrow> quiet t \<Longrightarrow> find t k = Some (t', r) \<Longrightarrow> quiet t'"
    and find_val: "inv t \<Longrightarrow> quiet t \<Longrightarrow> find t k = Some (t', r) \<Longrightarrow> val t' = val t"
    and find_hit: "inv t \<Longrightarrow> quiet t \<Longrightarrow> find t k = Some (t', r) \<Longrightarrow> r = None \<longleftrightarrow> val t k = None"
    and store_store: "store p v (store p u t) = store p v t"
begin

text \<open>Storing through the pointer of \<open>get\<close> updates one key of the abstract content.\<close>

lemma put_val:
  assumes "inv t" "quiet t" "room t k" "get t k = Some (t', p)"
  shows "val (store p v t') = (val t)(k := Some (Some v))"
proof
  fix k'
  show "val (store p v t') k' = ((val t)(k := Some (Some v))) k'"
    using store_val [OF assms(1,4)] store_frame [OF assms(1,4)] get_frame [OF assms]
    by (cases "k' = k") auto
qed

text \<open>A \<open>get\<close> alone adds an empty cell or changes nothing.\<close>

lemma get_val_update:
  assumes "inv t" "quiet t" "room t k" "get t k = Some (t', p)"
  shows "val t' = (val t)(k := Some (case val t k of Some v \<Rightarrow> v | None \<Rightarrow> None))"
proof
  fix k'
  show "val t' k' = ((val t)(k := Some (case val t k of Some v \<Rightarrow> v | None \<Rightarrow> None))) k'"
    using get_val [OF assms(1,2,4)] get_frame [OF assms] by (cases "k' = k") auto
qed

lemma put_inv:
  "inv t \<Longrightarrow> get t k = Some (t', p) \<Longrightarrow> inv (store p v t')"
  by (blast intro: store_inv get_inv)

lemma put_quiet:
  "inv t \<Longrightarrow> quiet t \<Longrightarrow> get t k = Some (t', p) \<Longrightarrow> quiet (store p v t')"
  by (simp add: store_quiet get_quiet)

text \<open>What was stored is found, through \<open>find\<close> and through a second \<open>get\<close>.\<close>

lemma put_find:
  assumes "inv t" "quiet t" "get t k = Some (t', p)" "find (store p v t') k = Some (t'', r)"
  shows "r \<noteq> None \<and> val t'' k = Some (Some v)"
  using find_hit [OF put_inv [OF assms(1,3)] put_quiet [OF assms(1,2,3)] assms(4)]
    find_val [OF put_inv [OF assms(1,3)] put_quiet [OF assms(1,2,3)] assms(4)]
    store_val [OF assms(1,3), of v]
  by simp

lemma put_get_load:
  assumes "inv t" "quiet t" "get t k = Some (t', p)" "get (store p v t') k = Some (t'', q)"
  shows "load t'' q = Some (Some v)"
  using get_load [OF put_inv [OF assms(1,3)] assms(4)]
    get_val [OF put_inv [OF assms(1,3)] put_quiet [OF assms(1,2,3)] assms(4)]
    store_val [OF assms(1,3), of v]
  by simp

end

end
