(* ===== verification/Cache_Correct.thy ===== *)
theory Cache_Correct
  imports Cache Keyed_Cells
begin

text \<open>
  Correctness of the hash table: the invariant is kept by every operation, what lookups
  return after an insertion or a clean-up, the interface the clients of the table use
  (locale \<open>keyed_cells\<close>), and what the rehash does to the stored entries.
\<close>

section \<open>Chains\<close>

lemma chain_find_SomeD: "chain_find k es = Some e \<Longrightarrow> e \<in> set es \<and> e_id e = k"
  by (induction es) (auto split: if_splits)

lemma chain_find_None_iff: "chain_find k es = None \<longleftrightarrow> k \<notin> e_id ` set es"
  by (induction es) auto

lemma chain_find_append:
  "chain_find k (es @ fs) = (case chain_find k es of None \<Rightarrow> chain_find k fs | Some e \<Rightarrow> Some e)"
  by (induction es) auto

lemma chain_find_filter:
  "distinct (map e_id es) \<Longrightarrow>
     chain_find k (filter P es)
       = (case chain_find k es of Some e \<Rightarrow> if P e then Some e else None | None \<Rightarrow> None)"
proof (induction es)
  case Nil
  then show ?case by simp
next
  case (Cons e es)
  then show ?case
    by (auto simp: chain_find_None_iff [of "e_id e" es, THEN iffD2])
qed

lemma chain_touch_id [simp]: "map e_id (chain_touch k now es) = map e_id es"
  by (induction es) auto

lemma chain_touch_addr [simp]: "map e_addr (chain_touch k now es) = map e_addr es"
  by (induction es) auto

lemma chain_find_touch:
  "chain_find k' (chain_touch k now es)
     = (if k' = k then map_option (\<lambda>e. e\<lparr>e_last := now\<rparr>) (chain_find k es) else chain_find k' es)"
  by (induction es) auto

lemma chain_find_map_upd:
  assumes "\<And>e. e_id (f e) = e_id e"
  shows "chain_find k (map f es) = map_option f (chain_find k es)"
  using assms by (induction es) auto

section \<open>Clean-up\<close>

definition stale :: "u64 \<Rightarrow> u64 \<Rightarrow> 'v entry \<Rightarrow> bool" where
  "stale expire now e \<longleftrightarrow> expire < now - e_last e"

lemma cleanup_chain_eq:
  "cleanup_chain expire now es cnt =
     (filter (\<lambda>e. \<not> stale expire now e) es,
      cnt - word_of_nat (length (filter (stale expire now) es)),
      filter (stale expire now) es)"
  by (induction es arbitrary: cnt) (auto simp: stale_def)

lemma cleanup_chains_eq:
  "cleanup_chains expire now ess cnt =
     (map (filter (\<lambda>e. \<not> stale expire now e)) ess,
      cnt - word_of_nat (length (filter (stale expire now) (concat ess))),
      filter (stale expire now) (concat ess))"
  by (induction ess arbitrary: cnt) (auto simp: cleanup_chain_eq)

text \<open>Whether the clean-up does its work, and whether it then rehashes.\<close>

definition cleanup_due :: "u64 \<Rightarrow> 'v cache \<Rightarrow> bool" where
  "cleanup_due now t \<longleftrightarrow> c_period t \<noteq> - 1 \<and> \<not> now - c_last_cleanup t < c_period t"

definition swept :: "u64 \<Rightarrow> 'v cache \<Rightarrow> 'v cache" where
  "swept now t = t\<lparr>c_last_cleanup := now,
     c_entries := map (filter (\<lambda>e. \<not> stale (c_expire t) now e)) (c_entries t),
     c_count := c_count t - word_of_nat (length (filter (stale (c_expire t) now) (concat (c_entries t)))),
     c_freed := c_freed t @ filter (stale (c_expire t) now) (concat (c_entries t))\<rparr>"

lemma cleanup_eq:
  "sysm_perform_cleanup_if_necessary now t =
     (if cleanup_due now t
      then if c_count (swept now t) < c_size (swept now t) div 4
           then sysm_cache_rehash (swept now t) else swept now t
      else t)"
  by (simp add: sysm_perform_cleanup_if_necessary_def cleanup_due_def cleanup_chains_eq swept_def)

lemma swept_fields [simp]:
  "c_size (swept now t) = c_size t" "c_next (swept now t) = c_next t"
  "c_leaked (swept now t) = c_leaked t" "c_period (swept now t) = c_period t"
  by (simp_all add: swept_def)

lemma cache_ix_swept [simp]: "cache_ix (swept now t) k = cache_ix t k"
  by (simp add: cache_ix_def)

lemma mset_filter_partition:
  "mset (filter P xs) + mset (filter (\<lambda>x. \<not> P x) xs) = mset xs"
  by (simp add: multiset_partition [symmetric])

lemma mset_all_entries_swept: "mset (all_entries (swept now t)) = mset (all_entries t)"
proof -
  let ?p = "stale (c_expire t) now"
  have "concat (c_entries (swept now t)) = filter (\<lambda>e. \<not> ?p e) (concat (c_entries t))"
    by (simp add: swept_def filter_concat)
  moreover have "mset (filter ?p (concat (c_entries t))) + mset (filter (\<lambda>e. \<not> ?p e) (concat (c_entries t)))
      = mset (concat (c_entries t))"
    by (rule mset_filter_partition)
  moreover have "c_freed (swept now t) = c_freed t @ filter ?p (concat (c_entries t))"
    by (simp add: swept_def)
  ultimately show ?thesis by (simp add: all_entries_def ac_simps)
qed

lemma all_entries_mset_cong:
  assumes "mset (all_entries t') = mset (all_entries t)"
  shows "distinct (map e_addr (all_entries t')) = distinct (map e_addr (all_entries t))"
    and "set (all_entries t') = set (all_entries t)"
proof -
  have "mset (map e_addr (all_entries t')) = mset (map e_addr (all_entries t))"
    using assms by simp
  then show "distinct (map e_addr (all_entries t')) = distinct (map e_addr (all_entries t))"
    by (rule mset_eq_imp_distinct_iff)
  show "set (all_entries t') = set (all_entries t)"
    using assms by (rule mset_eq_setD)
qed

lemma cache_inv_swept:
  assumes "cache_inv t"
  shows "cache_inv (swept now t)"
proof -
  note m = all_entries_mset_cong [OF mset_all_entries_swept [of now t]]
  have "\<forall>es \<in> set (c_entries (swept now t)). distinct (map e_id es)"
    using cache_invD(4) [OF assms] by (auto simp: swept_def intro: distinct_map_filter)
  with assms show ?thesis
    by (simp add: cache_inv_def m) (auto simp: swept_def)
qed

section \<open>Rehash\<close>

lemma new_size_nonzero: "(n * 2 + 1 :: u32) \<noteq> 0"
proof
  assume "n * 2 + 1 = 0"
  moreover have "odd (n * 2 + 1)" by simp
  ultimately show False by (metis even_zero)
qed

lemma rehash_walk_detached:
  "0 < n \<Longrightarrow> rehash_walk (replicate n []) n es = map (\<lambda>e. [e]) es"
  by (induction es) auto

lemma concat_map_singletons: "concat (map (\<lambda>e. [e]) es) = es"
  by (induction es) auto

lemma concat_detached:
  "0 < n \<Longrightarrow>
     concat (concat (map (rehash_walk (replicate n []) n) ess)) = concat ess"
  by (induction ess) (auto simp: rehash_walk_detached concat_map_singletons)

lemma rehash_fields [simp]:
  "c_entries (sysm_cache_rehash t) = replicate (unat (c_count t * 2 + 1)) []"
  "c_size (sysm_cache_rehash t) = c_count t * 2 + 1"
  "c_count (sysm_cache_rehash t) = c_count t"
  "c_next (sysm_cache_rehash t) = c_next t"
  "c_freed (sysm_cache_rehash t) = c_freed t"
  "c_period (sysm_cache_rehash t) = c_period t"
  by (simp_all add: sysm_cache_rehash_def Let_def)

lemma rehash_leaked:
  "concat (c_leaked (sysm_cache_rehash t)) = concat (c_leaked t) @ concat (c_entries t)"
  using unat_pos_u32 [OF new_size_nonzero [of "c_count t"]]
  by (simp add: sysm_cache_rehash_def Let_def concat_detached)

lemma mset_all_entries_rehash:
  "mset (all_entries (sysm_cache_rehash t)) = mset (all_entries t)"
  by (simp add: all_entries_def rehash_leaked)

lemma cache_inv_rehash:
  assumes "cache_inv t"
  shows "cache_inv (sysm_cache_rehash t)"
proof -
  note m = all_entries_mset_cong [OF mset_all_entries_rehash [of t]]
  show ?thesis
    using assms new_size_nonzero [of "c_count t"] by (simp add: cache_inv_def m)
qed

lemma cache_ix_rehash_lt: "cache_ix (sysm_cache_rehash t) k < unat (c_count t * 2 + 1)"
  using unat_pos_u32 [OF new_size_nonzero [of "c_count t"]] by (simp add: cache_ix_def)

lemma cache_lookup_rehash: "cache_lookup (sysm_cache_rehash t) k = None"
  using cache_ix_rehash_lt [of t k] by (simp add: cache_lookup_def)

lemma cache_inv_cleanup:
  "cache_inv t \<Longrightarrow> cache_inv (sysm_perform_cleanup_if_necessary now t)"
  by (simp add: cleanup_eq cache_inv_swept cache_inv_rehash)

section \<open>The invariant as a statement about keys and addresses\<close>

lemma cache_inv_ids:
  "cache_inv t \<longleftrightarrow>
     c_size t \<noteq> 0 \<and> length (map (map e_id) (c_entries t)) = unat (c_size t) \<and>
     (\<forall>i < length (map (map e_id) (c_entries t)). \<forall>k \<in> set (map (map e_id) (c_entries t) ! i). cache_ix t k = i) \<and>
     (\<forall>ks \<in> set (map (map e_id) (c_entries t)). distinct ks) \<and>
     distinct (map e_addr (all_entries t)) \<and>
     (\<forall>a \<in> set (map e_addr (all_entries t)). a < c_next t)"
  by (simp add: cache_inv_def)

lemma cache_inv_cong:
  assumes "c_size t' = c_size t" "c_next t' = c_next t"
    and "map (map e_id) (c_entries t') = map (map e_id) (c_entries t)"
    and "map e_addr (all_entries t') = map e_addr (all_entries t)"
  shows "cache_inv t' = cache_inv t"
  unfolding cache_inv_ids cache_ix_def assms ..

lemma map_concat_update:
  assumes "map f ys = map f (xss ! i)"
  shows "map f (concat (xss[i := ys])) = map f (concat xss)"
proof (cases "i < length xss")
  case True
  then show ?thesis
    using assms concat_split_nth [OF True] by (simp add: concat_list_update)
qed (simp add: list_update_beyond)

lemma map_map_update:
  "map f ys = map f (xss ! i) \<Longrightarrow> map (map f) (xss[i := ys]) = map (map f) xss"
  by (metis list_update_id map_update)

section \<open>A hit\<close>

definition cache_touch :: "u64 \<Rightarrow> 'v cache \<Rightarrow> u64 \<Rightarrow> 'v cache" where
  "cache_touch now t key =
     t\<lparr>c_entries := (c_entries t)[cache_ix t key :=
         chain_touch key now (c_entries t ! cache_ix t key)]\<rparr>"

lemma cache_touch_fields [simp]:
  "c_size (cache_touch now t k) = c_size t" "c_next (cache_touch now t k) = c_next t"
  "c_leaked (cache_touch now t k) = c_leaked t" "c_freed (cache_touch now t k) = c_freed t"
  "c_count (cache_touch now t k) = c_count t" "c_period (cache_touch now t k) = c_period t"
  "c_last_cleanup (cache_touch now t k) = c_last_cleanup t"
  by (simp_all add: cache_touch_def)

lemma cache_inv_touch: "cache_inv (cache_touch now t k) = cache_inv t"
  by (rule cache_inv_cong)
     (simp_all add: cache_touch_def map_map_update all_entries_def map_concat_update del: map_concat)

lemma cache_lookup_touch:
  assumes "cache_inv t"
  shows "cache_lookup (cache_touch now t k) k'
     = (if k' = k then map_option (\<lambda>e. e\<lparr>e_last := now\<rparr>) (cache_lookup t k) else cache_lookup t k')"
  using cache_ix_lt [OF assms, of k]
  by (auto simp: cache_lookup_def cache_ix_def cache_touch_def nth_list_update chain_find_touch)

section \<open>A miss\<close>

definition grown :: "'v cache \<Rightarrow> 'v cache" where
  "grown t = (let t1 = t\<lparr>c_count := c_count t + 1\<rparr>
              in if c_count t1 > c_size t1 then sysm_cache_rehash t1 else t1)"

definition cache_insert :: "u64 \<Rightarrow> 'v cache \<Rightarrow> u64 \<Rightarrow> 'v cache" where
  "cache_insert now t key =
     (chain_append (cache_ix (grown t) key)
        \<lparr>e_addr = c_next t, e_id = key, e_value = None, e_last = now\<rparr> (grown t))
        \<lparr>c_next := Suc (c_next t)\<rparr>"

lemma grown_next [simp]: "c_next (grown t) = c_next t"
  by (simp add: grown_def Let_def)

lemma cache_inv_count [simp]: "cache_inv (t\<lparr>c_count := n\<rparr>) = cache_inv t"
  by (simp add: cache_inv_def cache_ix_def all_entries_def)

lemma cache_inv_grown: "cache_inv t \<Longrightarrow> cache_inv (grown t)"
  by (simp add: grown_def Let_def cache_inv_rehash)

lemma cache_lookup_grown:
  "cache_lookup (grown t) k = (if c_count t + 1 > c_size t then None else cache_lookup t k)"
  by (simp add: grown_def Let_def cache_lookup_rehash) (simp add: cache_lookup_def cache_ix_def)

lemma cache_lookup_grown_None: "cache_lookup t k = None \<Longrightarrow> cache_lookup (grown t) k = None"
  by (simp add: cache_lookup_grown)

lemma cache_insert_fields [simp]:
  "c_size (cache_insert now t k) = c_size (grown t)"
  "c_next (cache_insert now t k) = Suc (c_next t)"
  "c_leaked (cache_insert now t k) = c_leaked (grown t)"
  "c_freed (cache_insert now t k) = c_freed (grown t)"
  "c_count (cache_insert now t k) = c_count t + 1"
  by (simp_all add: cache_insert_def chain_append_def grown_def Let_def)

lemma cache_inv_insert:
  assumes "cache_inv t" "cache_lookup t k = None"
  shows "cache_inv (cache_insert now t k)"
proof -
  let ?g = "grown t" and ?i = "cache_ix (grown t) k"
  let ?e = "\<lparr>e_addr = c_next t, e_id = k, e_value = None, e_last = now\<rparr>"
  have g: "cache_inv ?g" using assms(1) by (rule cache_inv_grown)
  note gD = cache_invD [OF g]
  have i: "?i < length (c_entries ?g)" using g by (rule cache_ix_lt)
  have new: "k \<notin> e_id ` set (c_entries ?g ! ?i)"
    using cache_lookup_grown_None [OF assms(2)] by (simp add: cache_lookup_def chain_find_None_iff)
  have ents: "c_entries (cache_insert now t k) = (c_entries ?g)[?i := c_entries ?g ! ?i @ [?e]]"
    by (simp add: cache_insert_def chain_append_def)
  have m: "mset (all_entries (cache_insert now t k)) = add_mset ?e (mset (all_entries ?g))"
    using concat_split_nth [OF i] i by (simp add: all_entries_def ents concat_list_update)
  have "\<forall>e \<in> set (all_entries ?g). e_addr e < c_next t" using gD(6) by simp
  then have fresh: "c_next t \<notin> e_addr ` set (all_entries ?g)" by auto
  have "mset (map e_addr (all_entries (cache_insert now t k)))
      = mset (c_next t # map e_addr (all_entries ?g))"
    using m by (simp add: image_mset.compositionality)
  then have "distinct (map e_addr (all_entries (cache_insert now t k)))
      = distinct (c_next t # map e_addr (all_entries ?g))"
    by (rule mset_eq_imp_distinct_iff)
  then have d: "distinct (map e_addr (all_entries (cache_insert now t k)))"
    using gD(5) fresh by simp
  have s: "set (all_entries (cache_insert now t k)) = insert ?e (set (all_entries ?g))"
    using arg_cong [OF m, of set_mset] by simp
  have ix: "cache_ix (cache_insert now t k) = cache_ix ?g"
    by (rule ext) (simp add: cache_ix_def)
  have "\<forall>j < length (c_entries ?g). \<forall>e \<in> set (c_entries (cache_insert now t k) ! j). cache_ix ?g (e_id e) = j"
    using gD(3) i by (auto simp: ents nth_list_update)
  moreover have "\<forall>es \<in> set (c_entries (cache_insert now t k)). distinct (map e_id es)"
    using gD(4) i new by (auto simp: ents dest!: subsetD [OF set_update_subset_insert])
  ultimately show ?thesis
    using gD(1,2,6) by (simp add: cache_inv_def ix d s ents) (auto simp: less_Suc_eq)
qed

lemma cache_lookup_insert:
  assumes "cache_inv t" "cache_lookup t k = None"
  shows "cache_lookup (cache_insert now t k) k'
     = (if k' = k then Some \<lparr>e_addr = c_next t, e_id = k, e_value = None, e_last = now\<rparr>
        else cache_lookup (grown t) k')"
proof -
  have i: "cache_ix (grown t) k < length (c_entries (grown t))"
    using cache_inv_grown [OF assms(1)] by (rule cache_ix_lt)
  have n: "chain_find k (c_entries (grown t) ! cache_ix (grown t) k) = None"
    using cache_lookup_grown_None [OF assms(2)] by (simp add: cache_lookup_def)
  have ix: "cache_ix (cache_insert now t k) = cache_ix (grown t)"
    by (rule ext) (simp add: cache_ix_def)
  have ents: "c_entries (cache_insert now t k) = (c_entries (grown t))[cache_ix (grown t) k :=
      c_entries (grown t) ! cache_ix (grown t) k @
        [\<lparr>e_addr = c_next t, e_id = k, e_value = None, e_last = now\<rparr>]]"
    by (simp add: cache_insert_def chain_append_def)
  show ?thesis
    using i n
    by (auto simp: cache_lookup_def ix ents nth_list_update chain_find_append split: option.splits)
qed

section \<open>The operations in terms of hit and miss\<close>

lemma sysm_cache_get_eq:
  assumes "cache_inv t0"
  shows "sysm_cache_get now1 now2 t0 k =
     (let t = sysm_perform_cleanup_if_necessary now1 t0
      in case cache_lookup t k of
           Some e \<Rightarrow> Some (cache_touch now2 t k, e_addr e)
         | None \<Rightarrow> Some (cache_insert now2 t k, c_next t))"
proof -
  define t where "t = sysm_perform_cleanup_if_necessary now1 t0"
  have "cache_inv t" unfolding t_def using assms by (rule cache_inv_cleanup)
  then have sz: "c_size t \<noteq> 0" by (rule cache_invD)
  have nx: "c_next (if c_count (t\<lparr>c_count := c_count t + 1\<rparr>) > c_size (t\<lparr>c_count := c_count t + 1\<rparr>)
      then sysm_cache_rehash (t\<lparr>c_count := c_count t + 1\<rparr>) else t\<lparr>c_count := c_count t + 1\<rparr>) = c_next t"
    by simp
  show ?thesis
    unfolding sysm_cache_get_def t_def [symmetric] Let_def
    using sz nx
    by (auto simp: cache_lookup_def cache_touch_def cache_insert_def grown_def Let_def
        split: option.splits)
qed

lemma sysm_cache_find_eq:
  assumes "cache_inv t0"
  shows "sysm_cache_find now1 now2 t0 k =
     (let t = sysm_perform_cleanup_if_necessary now1 t0
      in case cache_lookup t k of
           Some e \<Rightarrow> Some (cache_touch now2 t k, Some (e_addr e))
         | None \<Rightarrow> Some (t, None))"
  using cache_invD(1) [OF cache_inv_cleanup [OF assms, of now1]]
  by (auto simp: sysm_cache_find_def Let_def cache_lookup_def cache_touch_def split: option.splits)

section \<open>Pointers\<close>

lemma find_by_addr:
  "distinct (map e_addr es) \<Longrightarrow> e \<in> set es \<Longrightarrow> List.find (\<lambda>x. e_addr x = e_addr e) es = Some e"
  by (induction es) auto

lemma cache_lookup_mem:
  assumes "cache_inv t" "cache_lookup t k = Some e"
  shows "e \<in> set (concat (c_entries t))" "e_id e = k"
proof -
  have "e \<in> set (c_entries t ! cache_ix t k)" and id: "e_id e = k"
    using assms(2) chain_find_SomeD unfolding cache_lookup_def by metis+
  then show "e \<in> set (concat (c_entries t))"
    using cache_ix_lt [OF assms(1), of k] in_set_concat_nth by metis
  show "e_id e = k" by (rule id)
qed

lemma cache_addr_inj:
  assumes "cache_inv t" "cache_lookup t k = Some e" "cache_lookup t k' = Some e'"
    and "e_addr e = e_addr e'"
  shows "k = k'"
proof -
  have "e \<in> set (all_entries t)" "e' \<in> set (all_entries t)"
    using cache_lookup_mem(1) [OF assms(1)] assms(2,3) by (auto simp: all_entries_def)
  then have "e = e'"
    using cache_invD(5) [OF assms(1)] assms(4) by (auto simp: distinct_map dest: inj_onD)
  then show ?thesis using cache_lookup_mem(2) [OF assms(1)] assms(2,3) by metis
qed

lemma entry_load_lookup:
  assumes "cache_inv t" "cache_lookup t k = Some e"
  shows "entry_load t (e_addr e) = Some e"
proof -
  have "distinct (map e_addr (concat (c_entries t) @ concat (c_leaked t)))"
    using cache_invD(5) [OF assms(1), unfolded all_entries_def append_assoc [symmetric]]
    by (simp only: map_append distinct_append)
  then show ?thesis
    unfolding entry_load_def
    by (rule find_by_addr) (use cache_lookup_mem(1) [OF assms] in simp)
qed

definition stored :: "nat \<Rightarrow> 'v \<Rightarrow> 'v entry \<Rightarrow> 'v entry" where
  "stored a v e = (if e_addr e = a then e\<lparr>e_value := Some v\<rparr> else e)"

lemma stored_id [simp]: "e_id (stored a v e) = e_id e" "e_addr (stored a v e) = e_addr e"
  by (simp_all add: stored_def)

lemma entry_store_eq:
  "entry_store a v t = t\<lparr>c_entries := map (map (stored a v)) (c_entries t),
     c_leaked := map (map (stored a v)) (c_leaked t)\<rparr>"
  by (simp add: entry_store_def Let_def stored_def [abs_def])

lemma entry_store_fields [simp]:
  "c_size (entry_store a v t) = c_size t" "c_next (entry_store a v t) = c_next t"
  "c_count (entry_store a v t) = c_count t" "c_period (entry_store a v t) = c_period t"
  "c_last_cleanup (entry_store a v t) = c_last_cleanup t"
  by (simp_all add: entry_store_eq)

lemma c_freed_store [simp]: "c_freed (entry_store a v t) = c_freed t"
  by (simp add: entry_store_eq)

lemma cache_inv_store: "cache_inv (entry_store a v t) = cache_inv t"
  by (rule cache_inv_cong)
     (auto simp: entry_store_eq all_entries_def comp_def map_concat c_freed_store)

lemma cache_lookup_store:
  assumes "cache_inv t"
  shows "cache_lookup (entry_store a v t) k = map_option (stored a v) (cache_lookup t k)"
  using cache_ix_lt [OF assms, of k]
  by (simp add: cache_lookup_def cache_ix_def entry_store_eq chain_find_map_upd)

lemma cache_val_store:
  assumes "cache_inv t" "cache_lookup t k = Some e"
  shows "cache_val (entry_store (e_addr e) v t) = (cache_val t)(k := Some (Some v))"
proof
  fix k'
  show "cache_val (entry_store (e_addr e) v t) k' = ((cache_val t)(k := Some (Some v))) k'"
  proof (cases "cache_lookup t k'")
    case None
    then show ?thesis
      using assms by (auto simp: cache_val_def cache_lookup_store)
  next
    case (Some e')
    have "e_addr e' = e_addr e \<longleftrightarrow> k' = k"
      using cache_addr_inj [OF assms(1) Some assms(2)] Some assms(2) by auto
    then show ?thesis
      using assms Some by (auto simp: cache_val_def cache_lookup_store stored_def)
  qed
qed

section \<open>The interface, on the hash table\<close>

definition cache_quiet :: "u64 \<Rightarrow> 'v cache \<Rightarrow> bool" where
  "cache_quiet now t \<longleftrightarrow> \<not> cleanup_due now t"

definition cache_room :: "'v cache \<Rightarrow> u64 \<Rightarrow> bool" where
  "cache_room t k \<longleftrightarrow> cache_lookup t k \<noteq> None \<or> c_count t + 1 \<le> c_size t"

lemma cache_quiet_cong:
  "c_period t' = c_period t \<Longrightarrow> c_last_cleanup t' = c_last_cleanup t
     \<Longrightarrow> cache_quiet now t' = cache_quiet now t"
  by (simp add: cache_quiet_def cleanup_due_def)

lemma cleanup_quiet: "cache_quiet now t \<Longrightarrow> sysm_perform_cleanup_if_necessary now t = t"
  by (simp add: cleanup_eq cache_quiet_def)

lemma insert_quiet_fields:
  "c_period (cache_insert now t k) = c_period t"
  "c_last_cleanup (cache_insert now t k) = c_last_cleanup t"
  by (simp_all add: cache_insert_def chain_append_def grown_def Let_def sysm_cache_rehash_def)

text \<open>The entry a \<open>get\<close> returns, whether or not the clean-up ran.\<close>

lemma sysm_cache_get_lookup:
  assumes "cache_inv t" "sysm_cache_get now1 now2 t k = Some (t', p)"
  shows "cache_inv t' \<and> (\<exists>e. cache_lookup t' k = Some e \<and> e_addr e = p \<and> e_last e = now2)"
proof -
  define s where "s = sysm_perform_cleanup_if_necessary now1 t"
  have s: "cache_inv s" unfolding s_def using assms(1) by (rule cache_inv_cleanup)
  show ?thesis
  proof (cases "cache_lookup s k")
    case None
    then have "t' = cache_insert now2 s k" "p = c_next s"
      using assms by (simp_all add: sysm_cache_get_eq s_def Let_def)
    then show ?thesis
      using cache_inv_insert [OF s None] cache_lookup_insert [OF s None] by simp
  next
    case (Some e)
    then have "t' = cache_touch now2 s k" "p = e_addr e"
      using assms by (simp_all add: sysm_cache_get_eq s_def Let_def)
    then show ?thesis
      using s Some by (simp add: cache_inv_touch cache_lookup_touch)
  qed
qed

lemma sysm_cache_get_quiet:
  assumes "cache_inv t" "cache_quiet now1 t" "sysm_cache_get now1 now2 t k = Some (t', p)"
  shows "t' = (if cache_lookup t k = None then cache_insert now2 t k else cache_touch now2 t k)"
  using assms by (auto simp: sysm_cache_get_eq cleanup_quiet split: option.splits)

lemma sysm_cache_find_quiet:
  assumes "cache_inv t" "cache_quiet now1 t" "sysm_cache_find now1 now2 t k = Some (t', r)"
  shows "t' = (if cache_lookup t k = None then t else cache_touch now2 t k)
     \<and> r = map_option e_addr (cache_lookup t k)"
  using assms by (auto simp: sysm_cache_find_eq cleanup_quiet split: option.splits)

lemma cache_val_touch: "cache_inv t \<Longrightarrow> cache_val (cache_touch now t k) = cache_val t"
  by (rule ext) (simp add: cache_val_def cache_lookup_touch option.map_comp comp_def)

interpretation cache_cells: keyed_cells
  "sysm_cache_get now1 now2" "sysm_cache_find now1 now2" entry_val entry_store cache_val
  cache_inv "cache_quiet now1" cache_room
  for now1 now2
proof (unfold_locales, goal_cases)
  case (1 t k)
  then show ?case by (simp add: sysm_cache_get_eq Let_def split: option.split)
next
  case (2 t k t' p)
  then show ?case using sysm_cache_get_lookup by blast
next
  case (3 t k t' p)
  then show ?case
    using sysm_cache_get_quiet [OF 3] cache_quiet_cong [of "cache_insert now2 t k" t]
      cache_quiet_cong [of "cache_touch now2 t k" t]
    by (simp add: insert_quiet_fields)
next
  case (4 t k t' p)
  then show ?case
    using sysm_cache_get_quiet [OF 4]
    by (cases "cache_lookup t k") (simp_all add: cache_val_def cache_lookup_insert cache_lookup_touch)
next
  case (5 t k t' p k')
  then show ?case
    using sysm_cache_get_quiet [OF 5(1,2,4)]
    by (cases "cache_lookup t k")
       (simp_all add: cache_val_def cache_room_def cache_lookup_insert cache_lookup_touch
        cache_lookup_grown not_less [symmetric])
next
  case (6 t k t' p)
  then obtain e where "cache_inv t'" "cache_lookup t' k = Some e" "e_addr e = p"
    using sysm_cache_get_lookup by blast
  then show ?case
    using entry_load_lookup [of t' k e] by (simp add: entry_val_def cache_val_def)
next
  case (7 t p v)
  then show ?case by (simp add: cache_inv_store)
next
  case (8 p v t)
  show ?case by (rule cache_quiet_cong) simp_all
next
  case (9 t k t' p v)
  then obtain e where "cache_inv t'" "cache_lookup t' k = Some e" "e_addr e = p"
    using sysm_cache_get_lookup by blast
  then show ?case using cache_val_store [of t' k e v] by simp
next
  case (10 t k t' p k' v)
  then obtain e where "cache_inv t'" "cache_lookup t' k = Some e" "e_addr e = p"
    using sysm_cache_get_lookup by blast
  then show ?case using cache_val_store [of t' k e v] 10(3) by simp
next
  case (11 t k)
  then show ?case by (simp add: sysm_cache_find_eq Let_def split: option.split)
next
  case (12 t k t' r)
  then show ?case
    by (auto simp: sysm_cache_find_eq Let_def cache_inv_touch cache_inv_cleanup split: option.splits)
next
  case (13 t k t' r)
  then show ?case
    using sysm_cache_find_quiet [OF 13] cache_quiet_cong [of "cache_touch now2 t k" t] by simp
next
  case (14 t k t' r)
  then show ?case using sysm_cache_find_quiet [OF 14] by (simp add: cache_val_touch)
next
  case (15 t k t' r)
  then show ?case using sysm_cache_find_quiet [OF 15] by (simp add: cache_val_def)
next
  case (16 p v u t)
  show ?case by (cases t) (auto simp: entry_store_def Let_def)
qed

end
