(* ===== verification/Cache_Properties.thy ===== *)
theory Cache_Properties
  imports Cache_Correct
begin

text \<open>
  The properties of the hash table: every state a program can reach satisfies the
  invariant, \<open>get\<close> with a store through its pointer implements the update of a map as long
  as the table does not rehash, clean-up removes exactly the expired entries, destroying
  frees every entry on a chain once. A rehash detaches every stored entry, which the last
  properties state for both places that trigger it.
\<close>

section \<open>Reachable tables\<close>

inductive cache_step :: "'v cache \<Rightarrow> 'v cache \<Rightarrow> bool" where
  step_get: "sysm_cache_get now1 now2 t k = Some (t', p) \<Longrightarrow> cache_step t t'"
| step_find: "sysm_cache_find now1 now2 t k = Some (t', r) \<Longrightarrow> cache_step t t'"
| step_store: "cache_step t (entry_store p v t)"

inductive cache_reachable :: "'v cache \<Rightarrow> bool" where
  reach_new: "sz \<noteq> 0 \<Longrightarrow> cache_reachable (sysm_expired_cache_new sz period expire now)"
| reach_step: "cache_reachable t \<Longrightarrow> cache_step t t' \<Longrightarrow> cache_reachable t'"

inductive_cases cache_stepE: "cache_step t t'"

lemma cache_inv_new: "sz \<noteq> 0 \<Longrightarrow> cache_inv (sysm_expired_cache_new sz period expire now)"
  by (simp add: cache_inv_def sysm_expired_cache_new_def all_entries_def)

lemma cache_step_inv: "cache_step t t' \<Longrightarrow> cache_inv t \<Longrightarrow> cache_inv t'"
  by (erule cache_stepE)
     (auto intro: cache_cells.get_inv cache_cells.find_inv cache_cells.store_inv)

lemma cache_reachable_inv: "cache_reachable t \<Longrightarrow> cache_inv t"
  by (induction rule: cache_reachable.induct) (auto intro: cache_inv_new cache_step_inv)

section \<open>The fill level\<close>

definition cache_bounds :: "'v cache \<Rightarrow> bool" where
  "cache_bounds t \<longleftrightarrow>
     length (concat (c_entries t)) \<le> unat (c_count t) \<and> c_count t \<le> c_size t"

lemma unat_new_size: "unat n < 2 ^ 31 \<Longrightarrow> unat (n * 2 + 1 :: u32) = 2 * unat n + 1"
  by (simp add: unat_word_ariths)

lemma unat_Suc_u32: "unat n < 2 ^ 31 - 1 \<Longrightarrow> unat (n + 1 :: u32) = unat n + 1"
  by (simp add: unat_word_ariths)

lemma cache_bounds_rehash:
  "unat (c_count t) < 2 ^ 31 - 1 \<Longrightarrow> cache_bounds (sysm_cache_rehash t)"
  using unat_new_size [of "c_count t"] by (simp add: cache_bounds_def word_le_nat_alt)

lemma unat_minus_of_nat:
  assumes "m \<le> unat n"
  shows "unat (n - word_of_nat m :: u32) = unat n - m"
proof -
  have "m < 2 ^ 32" using assms unat_lt_u32 [of n] by simp
  then have "unat (word_of_nat m :: u32) = m" by (rule unat_word_of_nat_u32)
  then show ?thesis using assms by (simp add: unat_sub word_le_nat_alt)
qed

lemma cache_bounds_swept:
  assumes "cache_bounds t"
  shows "cache_bounds (swept now t)" "unat (c_count (swept now t)) \<le> unat (c_count t)"
proof -
  let ?all = "concat (c_entries t)" and ?p = "stale (c_expire t) now"
  have len: "length (filter ?p ?all) + length (filter (\<lambda>e. \<not> ?p e) ?all) = length ?all"
    by (rule sum_length_filter_compl)
  have le: "length (filter ?p ?all) \<le> unat (c_count t)"
    using assms len by (simp add: cache_bounds_def)
  have c: "unat (c_count (swept now t)) = unat (c_count t) - length (filter ?p ?all)"
    using unat_minus_of_nat [OF le] by (simp add: swept_def)
  have e: "concat (c_entries (swept now t)) = filter (\<lambda>e. \<not> ?p e) ?all"
    by (simp add: swept_def filter_concat)
  show "cache_bounds (swept now t)" "unat (c_count (swept now t)) \<le> unat (c_count t)"
    using assms len c e by (auto simp: cache_bounds_def word_le_nat_alt)
qed

lemma cache_bounds_cleanup:
  assumes "cache_bounds t" "unat (c_count t) < 2 ^ 31 - 1"
  shows "cache_bounds (sysm_perform_cleanup_if_necessary now t)"
    and "unat (c_count (sysm_perform_cleanup_if_necessary now t)) < 2 ^ 31 - 1"
  using assms cache_bounds_swept [OF assms(1), of now]
  by (auto simp: cleanup_eq intro: cache_bounds_rehash)

lemma cache_bounds_touch: "cache_bounds t \<Longrightarrow> cache_bounds (cache_touch now t k)"
proof -
  have "map e_addr (concat (c_entries (cache_touch now t k))) = map e_addr (concat (c_entries t))"
    by (simp add: cache_touch_def map_concat_update del: map_concat)
  then have "length (concat (c_entries (cache_touch now t k))) = length (concat (c_entries t))"
    by (metis length_map)
  then show "cache_bounds t \<Longrightarrow> cache_bounds (cache_touch now t k)"
    by (simp add: cache_bounds_def)
qed

lemma cache_bounds_grown:
  assumes "cache_bounds t" "unat (c_count t) < 2 ^ 31 - 1"
  shows "length (concat (c_entries (grown t))) \<le> unat (c_count t) \<and> c_count t + 1 \<le> c_size (grown t)"
proof (cases "c_count t + 1 > c_size t")
  case True
  have "unat (c_count t + 1) < 2 ^ 31"
    using assms(2) by (simp add: unat_Suc_u32 [OF assms(2)])
  then have "unat ((c_count t + 1) * 2 + 1) = 2 * unat (c_count t + 1) + 1"
    by (rule unat_new_size)
  with True show ?thesis by (simp add: grown_def Let_def word_le_nat_alt)
next
  case False
  with assms show ?thesis by (simp add: grown_def Let_def cache_bounds_def)
qed

lemma cache_bounds_insert:
  assumes "cache_inv t" "cache_bounds t" "unat (c_count t) < 2 ^ 31 - 1"
  shows "cache_bounds (cache_insert now t k)"
proof -
  have i: "cache_ix (grown t) k < length (c_entries (grown t))"
    using cache_inv_grown [OF assms(1)] by (rule cache_ix_lt)
  have "length (concat (c_entries (cache_insert now t k))) = length (concat (c_entries (grown t))) + 1"
    using concat_split_nth [OF i] i
    by (simp add: cache_insert_def chain_append_def concat_list_update)
  then show ?thesis
    using cache_bounds_grown [OF assms(2,3)] unat_Suc_u32 [OF assms(3)]
    by (simp add: cache_bounds_def)
qed

lemma cache_bounds_get:
  assumes "cache_inv t" "cache_bounds t" "unat (c_count t) < 2 ^ 31 - 1"
    and "sysm_cache_get now1 now2 t k = Some (t', p)"
  shows "cache_bounds t'"
proof -
  let ?s = "sysm_perform_cleanup_if_necessary now1 t"
  have "cache_inv ?s" "cache_bounds ?s" "unat (c_count ?s) < 2 ^ 31 - 1"
    using assms cache_inv_cleanup cache_bounds_cleanup by blast+
  then show ?thesis
    using assms(1,4)
    by (auto simp: sysm_cache_get_eq Let_def intro: cache_bounds_touch cache_bounds_insert
        split: option.splits)
qed

section \<open>Clean-up and rehash\<close>

lemma cache_lookup_swept:
  assumes "cache_inv t"
  shows "cache_lookup (swept now t) k
     = (case cache_lookup t k of
          Some e \<Rightarrow> if stale (c_expire t) now e then None else Some e
        | None \<Rightarrow> None)"
proof -
  have i: "cache_ix t k < length (c_entries t)" using assms by (rule cache_ix_lt)
  then have "distinct (map e_id (c_entries t ! cache_ix t k))"
    using cache_invD(4) [OF assms] by simp
  then show ?thesis
    using i by (auto simp: cache_lookup_def swept_def cache_ix_def chain_find_filter
        split: option.splits)
qed

lemma cache_get_full:
  assumes "cache_inv t" "cache_quiet now1 t" "cache_lookup t k = None" "c_count t + 1 > c_size t"
  shows "\<exists>t' p. sysm_cache_get now1 now2 t k = Some (t', p) \<and>
           (\<forall>k'. cache_val t' k' = (if k' = k then Some None else None))"
proof -
  have "sysm_cache_get now1 now2 t k = Some (cache_insert now2 t k, c_next t)"
    using assms by (simp add: sysm_cache_get_eq cleanup_quiet)
  moreover have "cache_val (cache_insert now2 t k) k' = (if k' = k then Some None else None)" for k'
    using assms by (simp add: cache_val_def cache_lookup_insert cache_lookup_grown)
  ultimately show ?thesis by blast
qed

section \<open>Properties\<close>

text \<open>C1: every table that can be reached from a new table of non-zero size by lookups,
  insertions and stores through returned pointers is well formed: as many buckets as its
  size says, every entry in the bucket of its key, no key twice on a chain, and no entry
  both on a chain, detached or freed.\<close>

theorem cache_reachable_wf: "cache_reachable t \<Longrightarrow> cache_inv t"
  by (rule cache_reachable_inv)

theorem cache_reachable_wf_witness:
  "cache_inv (sysm_cache_new 15 0 :: nat cache)"
proof -
  have "cache_reachable (sysm_expired_cache_new 15 (- 1) (- 1) 0 :: nat cache)"
    by (rule reach_new) simp
  then show ?thesis unfolding sysm_cache_new_def by (rule cache_reachable_wf)
qed

text \<open>\<open>sysm_cache_get\<close> on a well-formed table always returns, keeps the table well
  formed, and returns a pointer to the entry of the key, stamped with the clock; its value
  is the value the key had after the clean-up, or NULL when it had no entry.\<close>

theorem cache_get_returns_entry:
  assumes "cache_inv t"
  shows "\<exists>t' e. sysm_cache_get now1 now2 t k = Some (t', e_addr e) \<and> cache_inv t'
     \<and> cache_lookup t' k = Some e \<and> entry_load t' (e_addr e) = Some e
     \<and> e_id e = k \<and> e_last e = now2
     \<and> e_value e = (case cache_val (sysm_perform_cleanup_if_necessary now1 t) k of
                      Some v \<Rightarrow> v | None \<Rightarrow> None)"
proof -
  let ?s = "sysm_perform_cleanup_if_necessary now1 t"
  obtain t' p where g: "sysm_cache_get now1 now2 t k = Some (t', p)"
    using cache_cells.get_total [OF assms] by blast
  obtain e where e: "cache_inv t'" "cache_lookup t' k = Some e" "e_addr e = p" "e_last e = now2"
    using sysm_cache_get_lookup [OF assms g] by blast
  have s: "cache_inv ?s" using assms by (rule cache_inv_cleanup)
  have "e_value e = (case cache_val ?s k of Some v \<Rightarrow> v | None \<Rightarrow> None)"
    using g e(2) s
    by (auto simp: sysm_cache_get_eq [OF assms] Let_def cache_val_def cache_lookup_insert
        cache_lookup_touch split: option.splits)
  then show ?thesis
    using g e entry_load_lookup [OF e(1,2)] cache_lookup_mem(2) [OF e(1,2)] by auto
qed

theorem cache_get_returns_entry_witness:
  "\<exists>t' (e :: nat entry). sysm_cache_get 5 6 (sysm_cache_new 15 0 :: nat cache) 80 = Some (t', e_addr e)
     \<and> e_id e = 80"
proof -
  have "cache_inv (sysm_cache_new 15 0 :: nat cache)"
    by (simp add: sysm_cache_new_def cache_inv_new)
  from cache_get_returns_entry [OF this, of 5 6 80] show ?thesis by metis
qed

text \<open>C2: as long as the clean-up is not due and the table has room (the key is present, or
  one more entry does not exceed the size), \<open>entry = sysm_cache_get(t, k); entry->value = v\<close>
  is the update of a map at \<open>k\<close>: the key has the value, every other key is as before.\<close>

theorem cache_put_is_map_update:
  assumes "cache_inv t" "cache_quiet now1 t" "cache_room t k"
    and "sysm_cache_get now1 now2 t k = Some (t', p)"
  shows "cache_inv (entry_store p v t')
     \<and> cache_val (entry_store p v t') = (cache_val t)(k := Some (Some v))"
  using cache_cells.put_val [OF assms] cache_cells.put_inv [OF assms(1,4)] by simp

theorem cache_put_is_map_update_witness:
  "\<exists>t' p. sysm_cache_get 5 6 (sysm_cache_new 15 0 :: nat cache) 80 = Some (t', p)
     \<and> cache_val (entry_store p 7 t') 80 = Some (Some 7)"
proof -
  let ?t = "sysm_cache_new 15 0 :: nat cache"
  have i: "cache_inv ?t" by (simp add: sysm_cache_new_def cache_inv_new)
  have q: "cache_quiet 5 ?t"
    by (simp add: cache_quiet_def cleanup_due_def sysm_cache_new_def sysm_expired_cache_new_def)
  have r: "cache_room ?t 80"
    by (simp add: cache_room_def sysm_cache_new_def sysm_expired_cache_new_def)
  obtain t' p where g: "sysm_cache_get 5 6 ?t 80 = Some (t', p)"
    using cache_cells.get_total [OF i] by blast
  show ?thesis using cache_put_is_map_update [OF i q r g, of 7] g by auto
qed

text \<open>C3: the number of entries on the chains never exceeds the counter and the counter
  never exceeds the number of buckets, as long as the counter stays below \<open>2^31 - 1\<close>: the
  load factor after \<open>sysm_cache_get\<close> is at most 1.\<close>

theorem cache_get_load_factor:
  assumes "cache_inv t" "cache_bounds t" "unat (c_count t) < 2 ^ 31 - 1"
    and "sysm_cache_get now1 now2 t k = Some (t', p)"
  shows "length (concat (c_entries t')) \<le> unat (c_count t') \<and> c_count t' \<le> c_size t'"
  using cache_bounds_get [OF assms] by (simp add: cache_bounds_def)

theorem cache_get_load_factor_witness:
  "\<exists>t' p. sysm_cache_get 5 6 (sysm_cache_new 1 0 :: nat cache) 80 = Some (t', p) \<and> c_count t' \<le> c_size t'"
proof -
  let ?t = "sysm_cache_new 1 0 :: nat cache"
  have i: "cache_inv ?t" by (simp add: sysm_cache_new_def cache_inv_new)
  have b: "cache_bounds ?t" "unat (c_count ?t) < 2 ^ 31 - 1"
    by (simp_all add: cache_bounds_def sysm_cache_new_def sysm_expired_cache_new_def)
  obtain t' p where g: "sysm_cache_get 5 6 ?t 80 = Some (t', p)"
    using cache_cells.get_total [OF i] by blast
  show ?thesis using cache_get_load_factor [OF i b g] g by blast
qed

text \<open>C4: a clean-up that is due and leaves at least a quarter of the table in use removes
  exactly the entries not accessed for longer than the expiry period, and keeps every other
  key with its entry.\<close>

theorem cache_cleanup_exact:
  assumes "cache_inv t" "cleanup_due now t"
    and "\<not> c_count (swept now t) < c_size t div 4"
  shows "cache_lookup (sysm_perform_cleanup_if_necessary now t) k
     = (case cache_lookup t k of
          Some e \<Rightarrow> if c_expire t < now - e_last e then None else Some e
        | None \<Rightarrow> None)"
  using assms by (simp add: cleanup_eq cache_lookup_swept stale_def split: option.split)

theorem cache_cleanup_exact_witness:
  "\<exists>t :: nat cache. cleanup_due 100 t \<and> cache_lookup t 1 \<noteq> None
     \<and> cache_lookup (sysm_perform_cleanup_if_necessary 100 t) 1 = None"
proof -
  let ?t = "\<lparr>c_entries = [[\<lparr>e_addr = 0, e_id = 1, e_value = Some 3, e_last = 0\<rparr>]], c_count = 1,
     c_size = 1, c_expire = 20, c_period = 10, c_last_cleanup = 0, c_next = 1,
     c_leaked = [], c_freed = []\<rparr> :: nat cache"
  have i: "cache_inv ?t" by (simp add: cache_inv_def cache_ix_def all_entries_def)
  have d: "cleanup_due 100 ?t" by (simp add: cleanup_due_def)
  have n: "\<not> c_count (swept 100 ?t) < c_size ?t div 4" by (simp add: swept_def)
  have l: "cache_lookup ?t 1 \<noteq> None" by (simp add: cache_lookup_def cache_ix_def)
  have "cache_lookup (sysm_perform_cleanup_if_necessary 100 ?t) 1 = None"
    using cache_cleanup_exact [OF i d n, of 1] by (simp add: cache_lookup_def cache_ix_def)
  with d l show ?thesis by blast
qed

text \<open>Destroying a well-formed table frees every entry on a chain exactly once and no
  entry that was freed before; entries detached by a rehash are never freed.\<close>

theorem cache_destroy_frees_once:
  assumes "cache_inv t"
  shows "distinct (fst (sysm_cache_destroy t))
     \<and> set (fst (sysm_cache_destroy t)) = e_addr ` set (concat (c_entries t))
     \<and> set (fst (sysm_cache_destroy t)) \<inter> e_addr ` set (c_freed t) = {}
     \<and> set (fst (sysm_cache_destroy t)) \<inter> e_addr ` set (concat (c_leaked t)) = {}"
proof -
  have "distinct (map e_addr (concat (c_entries t)) @ map e_addr (concat (c_leaked t))
      @ map e_addr (c_freed t))"
    using cache_invD(5) [OF assms] by (simp only: all_entries_def map_append)
  moreover have "set (map e_addr xs) = e_addr ` set xs" for xs :: "'a entry list" by simp
  ultimately show ?thesis
    unfolding sysm_cache_destroy_def fst_conv distinct_append set_append by blast
qed

theorem cache_destroy_frees_once_witness:
  "distinct (fst (sysm_cache_destroy (sysm_cache_new 15 0 :: nat cache)))"
proof -
  have "cache_inv (sysm_cache_new 15 0 :: nat cache)"
    by (simp add: sysm_cache_new_def cache_inv_new)
  from cache_destroy_frees_once [OF this] show ?thesis by blast
qed

text \<open>C9: inserting a new key into a full table rehashes it, and the rehash puts no entry
  into the new buckets: afterwards the new key is the only one present.\<close>

theorem cache_insert_into_full_loses_all:
  assumes "cache_inv t" "cache_quiet now1 t" "cache_lookup t k = None"
    and "c_count t = c_size t" "c_count t \<noteq> - 1"
  shows "\<exists>t' p. sysm_cache_get now1 now2 t k = Some (t', p)
     \<and> (\<forall>k'. cache_val t' k' = (if k' = k then Some None else None))"
proof -
  have "unat (c_count t + 1) \<noteq> 0"
    using assms(5) by (simp add: unat_eq_0 eq_neg_iff_add_eq_0)
  then have "c_count t + 1 > c_size t"
    using assms(4) unat_lt_u32 [of "c_count t"]
    by (auto simp: word_less_nat_alt unat_word_ariths mod_Suc split: if_splits)
  then show ?thesis using cache_get_full [OF assms(1-3)] by blast
qed

theorem cache_insert_into_full_loses_all_witness:
  "\<exists>t :: nat cache. cache_val t 1 = Some (Some 3) \<and>
     (\<exists>t' p. sysm_cache_get 5 6 t 2 = Some (t', p) \<and> cache_val t' 1 = None)"
proof -
  let ?t = "\<lparr>c_entries = [[\<lparr>e_addr = 0, e_id = 1, e_value = Some 3, e_last = 0\<rparr>]], c_count = 1,
     c_size = 1, c_expire = - 1, c_period = - 1, c_last_cleanup = 0, c_next = 1,
     c_leaked = [], c_freed = []\<rparr> :: nat cache"
  have i: "cache_inv ?t" by (simp add: cache_inv_def cache_ix_def all_entries_def)
  have q: "cache_quiet 5 ?t" by (simp add: cache_quiet_def cleanup_due_def)
  have l: "cache_lookup ?t 2 = None" by (simp add: cache_lookup_def cache_ix_def)
  have v: "cache_val ?t 1 = Some (Some 3)" by (simp add: cache_val_def cache_lookup_def cache_ix_def)
  obtain t' p where g: "sysm_cache_get 5 6 ?t 2 = Some (t', p)"
      "\<forall>k'. cache_val t' k' = (if k' = 2 then Some None else None)"
    using cache_insert_into_full_loses_all [OF i q l, of 6] by auto
  from g(2) have "cache_val t' 1 = None" by simp
  with g(1) v show ?thesis by blast
qed

text \<open>A clean-up that is due and leaves less than a quarter of the table in use loses
  every entry, also those accessed just before.\<close>

theorem cache_cleanup_sparse_loses_all:
  assumes "cleanup_due now t" "c_count (swept now t) < c_size t div 4"
  shows "cache_lookup (sysm_perform_cleanup_if_necessary now t) k = None"
  using assms by (simp add: cleanup_eq cache_lookup_rehash)

theorem cache_cleanup_sparse_loses_all_witness:
  "\<exists>t :: nat cache. (\<exists>e. cache_lookup t 3 = Some e \<and> e_last e = 99)
     \<and> cache_lookup (sysm_perform_cleanup_if_necessary 100 t) 3 = None"
proof -
  let ?t = "\<lparr>c_entries = [[], [], [], [\<lparr>e_addr = 0, e_id = 3, e_value = Some 3, e_last = 99\<rparr>], [], [], [], []],
     c_count = 1, c_size = 8, c_expire = 20, c_period = 10, c_last_cleanup = 0, c_next = 1,
     c_leaked = [], c_freed = []\<rparr> :: nat cache"
  have d: "cleanup_due 100 ?t" by (simp add: cleanup_due_def)
  have n: "c_count (swept 100 ?t) < c_size ?t div 4"
    by (simp add: swept_def stale_def)
  have l: "\<exists>e. cache_lookup ?t 3 = Some e \<and> e_last e = 99"
    by (simp add: cache_lookup_def cache_ix_def)
  show ?thesis using cache_cleanup_sparse_loses_all [OF d n, of 3] l by blast
qed

end
