(* ===== verification/Lists.thy ===== *)
theory Lists
  imports Prelude
begin

text \<open>
  The growing arrays of \<^verbatim>\<open>sysm.c\<close> (\<open>sysm_*_list_t\<close>): nine structures with the same
  fields and their own \<open>create\<close>, \<open>grow\<close>, \<open>destroy\<close> and \<open>GROW\<close> macro. A cell of the array
  that was not written yet is \<open>None\<close>. Allocation is taken to succeed.
\<close>

section \<open>The structure\<close>

record 'a dynlist =
  dl_number :: nat
  dl_size :: nat
  dl_data :: "'a option list"

text \<open>\<open>malloc\<close> and \<open>realloc\<close> of an array of \<open>n\<close> cells.\<close>

definition cells_malloc :: "nat \<Rightarrow> 'a option list" where
  "cells_malloc n = replicate n None"

definition cells_realloc :: "'a option list \<Rightarrow> nat \<Rightarrow> 'a option list" where
  "cells_realloc d n = take n d @ replicate (n - length d) None"

text \<open>\<open>list->data[list->number++] = x\<close>; \<open>None\<close> when the index is outside the array.\<close>

definition dl_append :: "'a \<Rightarrow> 'a dynlist \<Rightarrow> 'a dynlist option" where
  "dl_append x l =
     (if dl_number l < length (dl_data l)
      then Some (l\<lparr>dl_data := (dl_data l)[dl_number l := Some x], dl_number := dl_number l + 1\<rparr>)
      else None)"

text \<open>The pattern of the readers: the \<open>GROW\<close> macro, then the append.\<close>

definition dl_push :: "('a dynlist \<Rightarrow> 'a dynlist) \<Rightarrow> 'a \<Rightarrow> 'a dynlist \<Rightarrow> 'a dynlist option" where
  "dl_push GROW x l = dl_append x (GROW l)"

fun dl_fill :: "('a dynlist \<Rightarrow> 'a dynlist) \<Rightarrow> 'a list \<Rightarrow> 'a dynlist \<Rightarrow> 'a dynlist option" where
  "dl_fill GROW [] l = Some l"
| "dl_fill GROW (x # xs) l = Option.bind (dl_push GROW x l) (dl_fill GROW xs)"

definition dl_contents :: "'a dynlist \<Rightarrow> 'a list" where
  "dl_contents l = map the (take (dl_number l) (dl_data l))"

definition dl_wf :: "'a dynlist \<Rightarrow> bool" where
  "dl_wf l \<longleftrightarrow> dl_number l \<le> dl_size l \<and> length (dl_data l) = dl_size l
     \<and> (\<forall>i < dl_number l. dl_data l ! i \<noteq> None)"

section \<open>The nine lists\<close>

definition SYSM_PROC_LIST_MAX :: nat where "SYSM_PROC_LIST_MAX = 256"
definition SYSM_PROC_ARGS_MAX :: nat where "SYSM_PROC_ARGS_MAX = 12"
definition SYSM_CPU_MAX :: nat where "SYSM_CPU_MAX = 4"
definition SYSM_FS_MAX :: nat where "SYSM_FS_MAX = 10"
definition SYSM_NET_ROUTE_LIST_MAX :: nat where "SYSM_NET_ROUTE_LIST_MAX = 6"
definition SYSM_NET_IFLIST_MAX :: nat where "SYSM_NET_IFLIST_MAX = 20"
definition SYSM_NET_CONNLIST_MAX :: nat where "SYSM_NET_CONNLIST_MAX = 20"
definition SYSM_WHO_LIST_MAX :: nat where "SYSM_WHO_LIST_MAX = 12"

definition sysm_proc_list_create :: "'a dynlist" where
  "sysm_proc_list_create =
     \<lparr>dl_number = 0, dl_size = SYSM_PROC_LIST_MAX, dl_data = cells_malloc SYSM_PROC_LIST_MAX\<rparr>"

definition sysm_proc_list_grow :: "'a dynlist \<Rightarrow> 'a dynlist" where
  "sysm_proc_list_grow l =
     l\<lparr>dl_data := cells_realloc (dl_data l) (dl_size l + SYSM_PROC_LIST_MAX),
       dl_size := dl_size l + SYSM_PROC_LIST_MAX\<rparr>"

definition SYSM_PROC_LIST_GROW :: "'a dynlist \<Rightarrow> 'a dynlist" where
  "SYSM_PROC_LIST_GROW l = (if dl_number l \<ge> dl_size l then sysm_proc_list_grow l else l)"

definition sysm_proc_list_destroy :: "'a dynlist \<Rightarrow> 'a dynlist" where
  "sysm_proc_list_destroy l =
     (if dl_size l \<noteq> 0 then l\<lparr>dl_data := [], dl_number := 0, dl_size := 0\<rparr> else l)"

definition sysm_proc_args_create :: "'a dynlist" where
  "sysm_proc_args_create =
     \<lparr>dl_number = 0, dl_size = SYSM_PROC_ARGS_MAX, dl_data = cells_malloc SYSM_PROC_ARGS_MAX\<rparr>"

definition sysm_proc_args_grow :: "'a dynlist \<Rightarrow> 'a dynlist" where
  "sysm_proc_args_grow l =
     l\<lparr>dl_data := cells_realloc (dl_data l) (dl_size l + SYSM_PROC_ARGS_MAX),
       dl_size := dl_size l + SYSM_PROC_ARGS_MAX\<rparr>"

definition SYSM_PROC_ARGS_GROW :: "'a dynlist \<Rightarrow> 'a dynlist" where
  "SYSM_PROC_ARGS_GROW l = (if dl_number l \<ge> dl_size l then sysm_proc_args_grow l else l)"

text \<open>The elements are freed one by one: the result lists them.\<close>

definition sysm_proc_args_destroy :: "'a dynlist \<Rightarrow> 'a dynlist \<times> 'a option list" where
  "sysm_proc_args_destroy l =
     (if dl_size l \<noteq> 0
      then (l\<lparr>dl_data := [], dl_number := 0, dl_size := 0\<rparr>, map (\<lambda>i. dl_data l ! i) [0 ..< dl_number l])
      else (l, []))"

definition sysm_cpu_info_list_create :: "'a dynlist" where
  "sysm_cpu_info_list_create =
     \<lparr>dl_number = 0, dl_size = SYSM_CPU_MAX, dl_data = cells_malloc SYSM_CPU_MAX\<rparr>"

definition sysm_cpu_info_list_grow :: "'a dynlist \<Rightarrow> 'a dynlist" where
  "sysm_cpu_info_list_grow l =
     l\<lparr>dl_data := cells_realloc (dl_data l) (dl_size l + SYSM_CPU_MAX),
       dl_size := dl_size l + SYSM_CPU_MAX\<rparr>"

definition SYSM_CPU_INFO_LIST_GROW :: "'a dynlist \<Rightarrow> 'a dynlist" where
  "SYSM_CPU_INFO_LIST_GROW l = (if dl_number l \<ge> dl_size l then sysm_cpu_info_list_grow l else l)"

definition sysm_cpu_info_list_destroy :: "'a dynlist \<Rightarrow> 'a dynlist" where
  "sysm_cpu_info_list_destroy l =
     (if dl_size l \<noteq> 0 then l\<lparr>dl_data := [], dl_number := 0, dl_size := 0\<rparr> else l)"

definition sysm_cpu_list_create :: "'a dynlist" where
  "sysm_cpu_list_create =
     \<lparr>dl_number = 0, dl_size = SYSM_CPU_MAX, dl_data = cells_malloc SYSM_CPU_MAX\<rparr>"

definition sysm_cpu_list_grow :: "'a dynlist \<Rightarrow> 'a dynlist" where
  "sysm_cpu_list_grow l =
     l\<lparr>dl_data := cells_realloc (dl_data l) (dl_size l + SYSM_CPU_MAX),
       dl_size := dl_size l + SYSM_CPU_MAX\<rparr>"

definition SYSM_CPU_LIST_GROW :: "'a dynlist \<Rightarrow> 'a dynlist" where
  "SYSM_CPU_LIST_GROW l = (if dl_number l \<ge> dl_size l then sysm_cpu_list_grow l else l)"

definition sysm_cpu_list_destroy :: "'a dynlist \<Rightarrow> 'a dynlist" where
  "sysm_cpu_list_destroy l =
     (if dl_size l \<noteq> 0 then l\<lparr>dl_data := [], dl_number := 0, dl_size := 0\<rparr> else l)"

definition sysm_file_system_list_create :: "'a dynlist" where
  "sysm_file_system_list_create =
     \<lparr>dl_number = 0, dl_size = SYSM_FS_MAX, dl_data = cells_malloc SYSM_FS_MAX\<rparr>"

definition sysm_file_system_list_grow :: "'a dynlist \<Rightarrow> 'a dynlist" where
  "sysm_file_system_list_grow l =
     l\<lparr>dl_data := cells_realloc (dl_data l) (dl_size l + SYSM_FS_MAX),
       dl_size := dl_size l + SYSM_FS_MAX\<rparr>"

definition SYSM_FILE_SYSTEM_LIST_GROW :: "'a dynlist \<Rightarrow> 'a dynlist" where
  "SYSM_FILE_SYSTEM_LIST_GROW l = (if dl_number l \<ge> dl_size l then sysm_file_system_list_grow l else l)"

definition sysm_file_system_list_destroy :: "'a dynlist \<Rightarrow> 'a dynlist" where
  "sysm_file_system_list_destroy l =
     (if dl_size l \<noteq> 0 then l\<lparr>dl_data := [], dl_number := 0, dl_size := 0\<rparr> else l)"

definition sysm_net_route_list_create :: "'a dynlist" where
  "sysm_net_route_list_create =
     \<lparr>dl_number = 0, dl_size = SYSM_NET_ROUTE_LIST_MAX, dl_data = cells_malloc SYSM_NET_ROUTE_LIST_MAX\<rparr>"

definition sysm_net_route_list_grow :: "'a dynlist \<Rightarrow> 'a dynlist" where
  "sysm_net_route_list_grow l =
     l\<lparr>dl_data := cells_realloc (dl_data l) (dl_size l + SYSM_NET_ROUTE_LIST_MAX),
       dl_size := dl_size l + SYSM_NET_ROUTE_LIST_MAX\<rparr>"

definition SYSM_NET_ROUTE_LIST_GROW :: "'a dynlist \<Rightarrow> 'a dynlist" where
  "SYSM_NET_ROUTE_LIST_GROW l = (if dl_number l \<ge> dl_size l then sysm_net_route_list_grow l else l)"

definition sysm_net_route_list_destroy :: "'a dynlist \<Rightarrow> 'a dynlist" where
  "sysm_net_route_list_destroy l =
     (if dl_size l \<noteq> 0 then l\<lparr>dl_data := [], dl_number := 0, dl_size := 0\<rparr> else l)"

definition sysm_net_interface_list_create :: "'a dynlist" where
  "sysm_net_interface_list_create =
     \<lparr>dl_number = 0, dl_size = SYSM_NET_IFLIST_MAX, dl_data = cells_malloc SYSM_NET_IFLIST_MAX\<rparr>"

definition sysm_net_interface_list_grow :: "'a dynlist \<Rightarrow> 'a dynlist" where
  "sysm_net_interface_list_grow l =
     l\<lparr>dl_data := cells_realloc (dl_data l) (dl_size l + SYSM_NET_IFLIST_MAX),
       dl_size := dl_size l + SYSM_NET_IFLIST_MAX\<rparr>"

definition SYSM_NET_IFLIST_GROW :: "'a dynlist \<Rightarrow> 'a dynlist" where
  "SYSM_NET_IFLIST_GROW l = (if dl_number l \<ge> dl_size l then sysm_net_interface_list_grow l else l)"

text \<open>The elements are freed one by one: the result lists them.\<close>

definition sysm_net_interface_list_destroy :: "'a dynlist \<Rightarrow> 'a dynlist \<times> 'a option list" where
  "sysm_net_interface_list_destroy l =
     (if dl_size l \<noteq> 0
      then (l\<lparr>dl_data := [], dl_number := 0, dl_size := 0\<rparr>, map (\<lambda>i. dl_data l ! i) [0 ..< dl_number l])
      else (l, []))"

definition sysm_net_connection_list_create :: "'a dynlist" where
  "sysm_net_connection_list_create =
     \<lparr>dl_number = 0, dl_size = SYSM_NET_CONNLIST_MAX, dl_data = cells_malloc SYSM_NET_CONNLIST_MAX\<rparr>"

definition sysm_net_connection_list_grow :: "'a dynlist \<Rightarrow> 'a dynlist" where
  "sysm_net_connection_list_grow l =
     l\<lparr>dl_data := cells_realloc (dl_data l) (dl_size l + SYSM_NET_CONNLIST_MAX),
       dl_size := dl_size l + SYSM_NET_CONNLIST_MAX\<rparr>"

definition SYSM_NET_CONNLIST_GROW :: "'a dynlist \<Rightarrow> 'a dynlist" where
  "SYSM_NET_CONNLIST_GROW l = (if dl_number l \<ge> dl_size l then sysm_net_connection_list_grow l else l)"

definition sysm_net_connection_list_destroy :: "'a dynlist \<Rightarrow> 'a dynlist" where
  "sysm_net_connection_list_destroy l =
     (if dl_size l \<noteq> 0 then l\<lparr>dl_data := [], dl_number := 0, dl_size := 0\<rparr> else l)"

definition sysm_who_list_create :: "'a dynlist" where
  "sysm_who_list_create =
     \<lparr>dl_number = 0, dl_size = SYSM_WHO_LIST_MAX, dl_data = cells_malloc SYSM_WHO_LIST_MAX\<rparr>"

definition sysm_who_list_grow :: "'a dynlist \<Rightarrow> 'a dynlist" where
  "sysm_who_list_grow l =
     l\<lparr>dl_data := cells_realloc (dl_data l) (dl_size l + SYSM_WHO_LIST_MAX),
       dl_size := dl_size l + SYSM_WHO_LIST_MAX\<rparr>"

definition SYSM_WHO_LIST_GROW :: "'a dynlist \<Rightarrow> 'a dynlist" where
  "SYSM_WHO_LIST_GROW l = (if dl_number l \<ge> dl_size l then sysm_who_list_grow l else l)"

definition sysm_who_list_destroy :: "'a dynlist \<Rightarrow> 'a dynlist" where
  "sysm_who_list_destroy l =
     (if dl_size l \<noteq> 0 then l\<lparr>dl_data := [], dl_number := 0, dl_size := 0\<rparr> else l)"

lemmas list_max_defs =
  SYSM_PROC_LIST_MAX_def SYSM_PROC_ARGS_MAX_def SYSM_CPU_MAX_def SYSM_FS_MAX_def SYSM_NET_ROUTE_LIST_MAX_def SYSM_NET_IFLIST_MAX_def SYSM_NET_CONNLIST_MAX_def SYSM_WHO_LIST_MAX_def

section \<open>The contract of the nine lists\<close>

locale growing_list =
  fixes create :: "'a dynlist"
    and GROW :: "'a dynlist \<Rightarrow> 'a dynlist"
  assumes create_wf: "dl_wf create"
    and create_number: "dl_number create = 0"
    and GROW_wf: "dl_wf l \<Longrightarrow> dl_wf (GROW l)"
    and GROW_number: "dl_number (GROW l) = dl_number l"
    and GROW_contents: "dl_wf l \<Longrightarrow> dl_contents (GROW l) = dl_contents l"
    and GROW_room: "dl_wf l \<Longrightarrow> dl_number l < dl_size (GROW l)"
begin

lemma push_total:
  assumes "dl_wf l"
  shows "\<exists>l'. dl_push GROW x l = Some l' \<and> dl_wf l' \<and> dl_contents l' = dl_contents l @ [x]
    \<and> dl_number l' = Suc (dl_number l)"
proof -
  let ?g = "GROW l"
  have g: "dl_wf ?g" "dl_number ?g < dl_size ?g" "dl_number ?g = dl_number l"
    using assms GROW_wf GROW_room GROW_number by auto
  then have lt: "dl_number ?g < length (dl_data ?g)" by (simp add: dl_wf_def)
  let ?l = "?g\<lparr>dl_data := (dl_data ?g)[dl_number ?g := Some x], dl_number := dl_number ?g + 1\<rparr>"
  have "dl_contents ?l = dl_contents ?g @ [x]"
    using lt by (simp add: dl_contents_def take_Suc_conv_app_nth)
  moreover have "dl_wf ?l"
    using g lt by (auto simp: dl_wf_def nth_list_update less_Suc_eq)
  moreover have "dl_push GROW x l = Some ?l"
    using lt by (simp add: dl_push_def dl_append_def)
  ultimately show ?thesis using g GROW_contents [OF assms] by auto
qed

lemma fill_total:
  "dl_wf l \<Longrightarrow> \<exists>l'. dl_fill GROW xs l = Some l' \<and> dl_wf l' \<and> dl_contents l' = dl_contents l @ xs
    \<and> dl_number l' = dl_number l + length xs"
proof (induction xs arbitrary: l)
  case Nil
  then show ?case by simp
next
  case (Cons x xs)
  obtain l1 where l1: "dl_push GROW x l = Some l1" "dl_wf l1"
      "dl_contents l1 = dl_contents l @ [x]" "dl_number l1 = Suc (dl_number l)"
    using push_total [OF Cons.prems, of x] by blast
  then show ?case using Cons.IH [OF l1(2)] by auto
qed

lemma create_contents: "dl_contents create = []"
  using create_number by (simp add: dl_contents_def)

lemma create_fill:
  "\<exists>l. dl_fill GROW xs create = Some l \<and> dl_wf l \<and> dl_contents l = xs \<and> dl_number l = length xs"
  using fill_total [OF create_wf, of xs] create_number by (simp add: dl_contents_def)

end

text \<open>All nine follow one scheme, with their own increment.\<close>

lemma growing_list_scheme:
  assumes m: "0 < m"
    and create: "create = \<lparr>dl_number = 0, dl_size = m, dl_data = cells_malloc m\<rparr>"
    and GROW: "\<And>l. GROW l = (if dl_number l \<ge> dl_size l
       then l\<lparr>dl_data := cells_realloc (dl_data l) (dl_size l + m), dl_size := dl_size l + m\<rparr> else l)"
  shows "growing_list create GROW"
proof
  show "dl_wf create" "dl_number create = 0"
    by (simp_all add: create dl_wf_def cells_malloc_def)
  fix l :: "'a dynlist"
  show "dl_number (GROW l) = dl_number l" by (simp add: GROW)
  assume l: "dl_wf l"
  show "dl_wf (GROW l)"
    using l by (auto simp: GROW dl_wf_def cells_realloc_def nth_append)
  show "dl_contents (GROW l) = dl_contents l"
    using l by (simp add: GROW dl_wf_def dl_contents_def cells_realloc_def)
  show "dl_number l < dl_size (GROW l)"
    using l m by (auto simp: GROW dl_wf_def)
qed

interpretation proc_list: growing_list sysm_proc_list_create SYSM_PROC_LIST_GROW
  by (rule growing_list_scheme [of SYSM_PROC_LIST_MAX])
     (simp_all add: list_max_defs sysm_proc_list_create_def sysm_proc_list_grow_def SYSM_PROC_LIST_GROW_def)

interpretation proc_args: growing_list sysm_proc_args_create SYSM_PROC_ARGS_GROW
  by (rule growing_list_scheme [of SYSM_PROC_ARGS_MAX])
     (simp_all add: list_max_defs sysm_proc_args_create_def sysm_proc_args_grow_def SYSM_PROC_ARGS_GROW_def)

interpretation cpu_info_list: growing_list sysm_cpu_info_list_create SYSM_CPU_INFO_LIST_GROW
  by (rule growing_list_scheme [of SYSM_CPU_MAX])
     (simp_all add: list_max_defs sysm_cpu_info_list_create_def sysm_cpu_info_list_grow_def SYSM_CPU_INFO_LIST_GROW_def)

interpretation cpu_list: growing_list sysm_cpu_list_create SYSM_CPU_LIST_GROW
  by (rule growing_list_scheme [of SYSM_CPU_MAX])
     (simp_all add: list_max_defs sysm_cpu_list_create_def sysm_cpu_list_grow_def SYSM_CPU_LIST_GROW_def)

interpretation file_system_list: growing_list sysm_file_system_list_create SYSM_FILE_SYSTEM_LIST_GROW
  by (rule growing_list_scheme [of SYSM_FS_MAX])
     (simp_all add: list_max_defs sysm_file_system_list_create_def sysm_file_system_list_grow_def SYSM_FILE_SYSTEM_LIST_GROW_def)

interpretation net_route_list: growing_list sysm_net_route_list_create SYSM_NET_ROUTE_LIST_GROW
  by (rule growing_list_scheme [of SYSM_NET_ROUTE_LIST_MAX])
     (simp_all add: list_max_defs sysm_net_route_list_create_def sysm_net_route_list_grow_def SYSM_NET_ROUTE_LIST_GROW_def)

interpretation net_interface_list: growing_list sysm_net_interface_list_create SYSM_NET_IFLIST_GROW
  by (rule growing_list_scheme [of SYSM_NET_IFLIST_MAX])
     (simp_all add: list_max_defs sysm_net_interface_list_create_def sysm_net_interface_list_grow_def SYSM_NET_IFLIST_GROW_def)

interpretation net_connection_list: growing_list sysm_net_connection_list_create SYSM_NET_CONNLIST_GROW
  by (rule growing_list_scheme [of SYSM_NET_CONNLIST_MAX])
     (simp_all add: list_max_defs sysm_net_connection_list_create_def sysm_net_connection_list_grow_def SYSM_NET_CONNLIST_GROW_def)

interpretation who_list: growing_list sysm_who_list_create SYSM_WHO_LIST_GROW
  by (rule growing_list_scheme [of SYSM_WHO_LIST_MAX])
     (simp_all add: list_max_defs sysm_who_list_create_def sysm_who_list_grow_def SYSM_WHO_LIST_GROW_def)

section \<open>Properties\<close>

text \<open>C8: appending any number of elements to a new list, with the \<open>GROW\<close> macro before each
  append as the readers do, never stores outside the array, and the list then holds exactly
  these elements in order, for each of the nine list types.\<close>

theorem lists_fill_exact:
  "(\<exists>l. dl_fill SYSM_PROC_LIST_GROW ps sysm_proc_list_create = Some l \<and> dl_wf l \<and> dl_contents l = ps)
   \<and> (\<exists>l. dl_fill SYSM_PROC_ARGS_GROW gs sysm_proc_args_create = Some l \<and> dl_wf l \<and> dl_contents l = gs)
   \<and> (\<exists>l. dl_fill SYSM_CPU_LIST_GROW cs sysm_cpu_list_create = Some l \<and> dl_wf l \<and> dl_contents l = cs)
   \<and> (\<exists>l. dl_fill SYSM_CPU_INFO_LIST_GROW ci sysm_cpu_info_list_create = Some l \<and> dl_wf l \<and> dl_contents l = ci)
   \<and> (\<exists>l. dl_fill SYSM_FILE_SYSTEM_LIST_GROW fs sysm_file_system_list_create = Some l \<and> dl_wf l \<and> dl_contents l = fs)
   \<and> (\<exists>l. dl_fill SYSM_NET_ROUTE_LIST_GROW rs sysm_net_route_list_create = Some l \<and> dl_wf l \<and> dl_contents l = rs)
   \<and> (\<exists>l. dl_fill SYSM_NET_IFLIST_GROW ns sysm_net_interface_list_create = Some l \<and> dl_wf l \<and> dl_contents l = ns)
   \<and> (\<exists>l. dl_fill SYSM_NET_CONNLIST_GROW os sysm_net_connection_list_create = Some l \<and> dl_wf l \<and> dl_contents l = os)
   \<and> (\<exists>l. dl_fill SYSM_WHO_LIST_GROW ws sysm_who_list_create = Some l \<and> dl_wf l \<and> dl_contents l = ws)"
  using proc_list.create_fill [of ps] proc_args.create_fill [of gs] cpu_list.create_fill [of cs]
    cpu_info_list.create_fill [of ci] file_system_list.create_fill [of fs]
    net_route_list.create_fill [of rs] net_interface_list.create_fill [of ns]
    net_connection_list.create_fill [of os] who_list.create_fill [of ws]
  by (intro conjI) blast+

end
