(* ===== verification/Address.thy ===== *)
theory Address
  imports Text
begin

text \<open>
  Network addresses (\<open>sysm_net_address_t\<close>): the union of an IPv4 word, four IPv6 words and
  a hardware address is kept as its 16 bytes in memory (little endian), so that reading one
  member after storing another means what it means in C. Comparison, printing and the
  reader of the hexadecimal addresses of \<^verbatim>\<open>/proc/net\<close>.
\<close>

section \<open>The union\<close>

datatype SYSM_AF = SYSM_AF_UNSPEC | SYSM_AF_INET | SYSM_AF_INET6 | SYSM_AF_LINK

record sysm_net_address =
  family :: SYSM_AF
  addr :: "u8 list"

definition le32_bytes :: "u32 \<Rightarrow> u8 list" where
  "le32_bytes w = map (\<lambda>i. word_of_nat (unat w div 256 ^ i mod 256)) [0, 1, 2, 3]"

definition le32 :: "u8 list \<Rightarrow> u32" where
  "le32 bs = word_of_nat (foldr (\<lambda>b a. unat b + 256 * a) (take 4 bs) 0)"

text \<open>Storing bytes at an offset of the union.\<close>

definition store_bytes :: "nat \<Rightarrow> u8 list \<Rightarrow> u8 list \<Rightarrow> u8 list" where
  "store_bytes off bs m = take off m @ bs @ drop (off + length bs) m"

definition addr_in :: "sysm_net_address \<Rightarrow> u32" where
  "addr_in a = le32 (addr a)"

definition addr_in6 :: "sysm_net_address \<Rightarrow> nat \<Rightarrow> u32" where
  "addr_in6 a i = le32 (drop (4 * i) (addr a))"

definition sysm_net_address_set :: "u32 \<Rightarrow> sysm_net_address \<Rightarrow> sysm_net_address" where
  "sysm_net_address_set val a =
     a\<lparr>addr := store_bytes 0 (le32_bytes val) (addr a), family := SYSM_AF_INET\<rparr>"

definition sysm_hwaddr_set_null :: "sysm_net_address \<Rightarrow> sysm_net_address" where
  "sysm_hwaddr_set_null a =
     a\<lparr>addr := store_bytes 0 (replicate 8 0) (addr a), family := SYSM_AF_LINK\<rparr>"

definition sysm_net_address_mac_set :: "u8 list \<Rightarrow> sysm_net_address \<Rightarrow> sysm_net_address" where
  "sysm_net_address_mac_set val a =
     a\<lparr>addr := store_bytes 0 val (addr a), family := SYSM_AF_LINK\<rparr>"

lemma length_le32_bytes [simp]: "length (le32_bytes w) = 4"
  by (simp add: le32_bytes_def)

lemma word_of_nat_mod_u8 [simp]: "unat (word_of_nat (n mod 256) :: u8) = n mod 256"
  by (simp add: unsigned_of_nat take_bit_nat_eq_self)

lemma bytes_value:
  assumes "n < 4294967296"
  shows "n mod 256 + 256 * (n div 256 mod 256 + 256 * (n div 65536 mod 256
     + 256 * (n div 16777216 mod 256))) = (n :: nat)"
proof -
  define a where "a = n div 256"
  define b where "b = a div 256"
  define c where "c = b div 256"
  have b: "n div 65536 = b" and c: "n div 16777216 = c"
    by (simp_all add: a_def b_def c_def div_mult2_eq [symmetric])
  have "c < 256" using assms c by (simp add: div_less_iff_less_mult flip: c)
  then have "c mod 256 = c" by simp
  moreover have "n mod 256 + 256 * a = n" "a mod 256 + 256 * b = a" "b mod 256 + 256 * c = b"
    by (simp_all add: a_def b_def c_def)
  ultimately show ?thesis unfolding b c a_def [symmetric] by (simp only:)
qed

lemma le32_le32_bytes [simp]: "le32 (le32_bytes w @ r) = w"
proof -
  have "unat w < 4294967296" using unat_lt_u32 [of w] by simp
  then have v: "unat w mod 256 + 256 * (unat w div 256 mod 256 + 256 * (unat w div 65536 mod 256
     + 256 * (unat w div 16777216 mod 256))) = unat w"
    by (rule bytes_value)
  have "take 4 (le32_bytes w @ r) = le32_bytes w" by simp
  then have "le32 (le32_bytes w @ r)
      = word_of_nat (unat w mod 256 + 256 * (unat w div 256 mod 256 + 256 * (unat w div 65536 mod 256
        + 256 * (unat w div 16777216 mod 256))))"
    unfolding le32_def le32_bytes_def by simp
  then show ?thesis unfolding v by simp
qed

lemma addr_in_set [simp]: "addr_in (sysm_net_address_set w a) = w"
  by (simp add: addr_in_def sysm_net_address_set_def store_bytes_def)

lemma family_set [simp]: "family (sysm_net_address_set w a) = SYSM_AF_INET"
  by (simp add: sysm_net_address_set_def)

lemma length_store_bytes:
  "off + length bs \<le> length m \<Longrightarrow> length (store_bytes off bs m) = length m"
  by (simp add: store_bytes_def)

section \<open>Comparison\<close>

text \<open>The sign of \<open>memcmp\<close>.\<close>

fun memcmp :: "u8 list \<Rightarrow> u8 list \<Rightarrow> int" where
  "memcmp (x # xs) (y # ys) = (if x < y then - 1 else if y < x then 1 else memcmp xs ys)"
| "memcmp _ _ = 0"

definition sysm_net_address_equals :: "sysm_net_address \<Rightarrow> sysm_net_address \<Rightarrow> int" where
  "sysm_net_address_equals addr1 addr2 =
     (if family addr1 \<noteq> family addr2 then EINVAL
      else case family addr1 of
             SYSM_AF_INET \<Rightarrow> memcmp (take 4 (addr addr1)) (take 4 (addr addr2))
           | SYSM_AF_INET6 \<Rightarrow> memcmp (take 16 (addr addr1)) (take 16 (addr addr2))
           | SYSM_AF_LINK \<Rightarrow> memcmp (take 8 (addr addr1)) (take 8 (addr addr2))
           | _ \<Rightarrow> EINVAL)"

lemma memcmp_eq_0: "length xs = length ys \<Longrightarrow> memcmp xs ys = 0 \<longleftrightarrow> xs = ys"
  by (induction xs ys rule: memcmp.induct) auto

section \<open>Printing\<close>

text \<open>One byte of the loop of \<open>sysm_inet_ntoa\<close>, with its dot.\<close>

definition ntoa_octet :: "u8 \<Rightarrow> cstring" where
  "ntoa_octet b =
     (let u = unat b
      in if u > 99
         then [char_of (48 + u div 100), char_of (48 + u mod 100 div 10),
               char_of (48 + u mod 100 mod 10), CHR ''.'']
         else if u > 9
         then [char_of (48 + u div 10), char_of (48 + u mod 10), CHR ''.'']
         else [char_of (48 + u), CHR ''.''])"

fun ntoa_loop :: "nat \<Rightarrow> u8 list \<Rightarrow> cstring" where
  "ntoa_loop (Suc n) (b # src) = ntoa_octet b @ ntoa_loop n src"
| "ntoa_loop _ _ = []"

text \<open>The last dot is overwritten by the NUL.\<close>

definition sysm_inet_ntoa :: "u32 \<Rightarrow> cstring" where
  "sysm_inet_ntoa address = butlast (ntoa_loop 4 (le32_bytes address))"

text \<open>\<open>sprintf\<close> with six \<open>%02X\<close> separated by colons.\<close>

definition sysm_ether_ntoa :: "u8 list \<Rightarrow> cstring" where
  "sysm_ether_ntoa ptr =
     hex_digits 2 (unat (ptr ! 0)) @ '':'' @ hex_digits 2 (unat (ptr ! 1)) @ '':'' @
     hex_digits 2 (unat (ptr ! 2)) @ '':'' @ hex_digits 2 (unat (ptr ! 3)) @ '':'' @
     hex_digits 2 (unat (ptr ! 4)) @ '':'' @ hex_digits 2 (unat (ptr ! 5))"

text \<open>
  \<open>inet_ntop\<close> for IPv6 is the parameter: an \<open>errno\<close> or the string. The result is the
  status and the string left in the caller's buffer.
\<close>

definition sysm_net_address_to_string ::
  "(u8 list \<Rightarrow> int + cstring) \<Rightarrow> sysm_net_address \<Rightarrow> int \<times> cstring" where
  "sysm_net_address_to_string inet_ntop6 address =
     (case family address of
        SYSM_AF_INET6 \<Rightarrow> (case inet_ntop6 (take 16 (addr address)) of
                            Inr s \<Rightarrow> (SYSM_OK, s) | Inl errno \<Rightarrow> (errno, []))
      | SYSM_AF_INET \<Rightarrow> (SYSM_OK, sysm_inet_ntoa (addr_in address))
      | SYSM_AF_UNSPEC \<Rightarrow> (SYSM_OK, sysm_inet_ntoa 0)
      | SYSM_AF_LINK \<Rightarrow> (SYSM_OK, sysm_ether_ntoa (take 8 (addr address))))"

lemma dec_digits_byte:
  assumes "n < 256"
  shows "dec_digits n =
     (if n > 99 then [char_of (48 + n div 100), char_of (48 + n mod 100 div 10), char_of (48 + n mod 100 mod 10)]
      else if n > 9 then [char_of (48 + n div 10), char_of (48 + n mod 10)]
      else [char_of (48 + n)])"
proof -
  have "n mod (10 * 10) = 10 * (n div 10 mod 10) + n mod 10" by (rule mod_mult2_eq)
  then have "n div 10 mod 10 = n mod 100 div 10" by simp
  moreover have "n div 10 div 10 = n div 100" by (simp add: div_mult2_eq [symmetric])
  moreover have "n mod 100 mod 10 = n mod 10" by (simp add: mod_mod_cancel)
  moreover have "n div 100 < 10" using assms by (simp add: div_less_iff_less_mult)
  moreover have "n div 10 < 10 \<longleftrightarrow> \<not> n > 99" by (auto simp: div_less_iff_less_mult)
  ultimately show ?thesis
    by (simp add: dec_digits.simps [of n] dec_digits.simps [of "n div 10"]
        dec_digits.simps [of "n div 100"])
qed

lemma ntoa_octet_eq: "ntoa_octet b = dec_digits (unat b) @ ''.''"
proof -
  have "unat b < 256" using unsigned_less [of b, where 'a = nat] by simp
  then show ?thesis by (simp add: ntoa_octet_def Let_def dec_digits_byte)
qed

lemma ntoa_loop_4:
  "ntoa_loop 4 [a, b, c, d] = dec_digits (unat a) @ ''.'' @ dec_digits (unat b) @ ''.'' @
     dec_digits (unat c) @ ''.'' @ dec_digits (unat d) @ ''.''"
  by (simp add: numeral_eq_Suc ntoa_octet_eq)

lemma sysm_inet_ntoa_eq:
  "sysm_inet_ntoa w =
     dec_digits (unat w mod 256) @ ''.'' @ dec_digits (unat w div 256 mod 256) @ ''.'' @
     dec_digits (unat w div 65536 mod 256) @ ''.'' @ dec_digits (unat w div 16777216 mod 256)"
  by (simp add: sysm_inet_ntoa_def le32_bytes_def ntoa_loop_4 butlast_append)

section \<open>Hexadecimal addresses\<close>

text \<open>The loop over the four words, its index running over the list.\<close>

fun convert_hex_in6 :: "cstring \<Rightarrow> nat list \<Rightarrow> u8 list \<Rightarrow> u8 list option" where
  "convert_hex_in6 ptr [] m = Some m"
| "convert_hex_in6 ptr (i # is) m = do {
     w \<leftarrow> hex2int ptr HEX_ENT_LEN;
     convert_hex_in6 (drop HEX_ENT_LEN ptr) is (store_bytes (4 * i) (le32_bytes w) m) }"

definition convert_hex_address :: "cstring \<Rightarrow> nat \<Rightarrow> sysm_net_address \<Rightarrow> sysm_net_address option" where
  "convert_hex_address ptr len a =
     (if len > HEX_ENT_LEN then do {
        m \<leftarrow> convert_hex_in6 ptr [0, 1, 2, 3] (addr a);
        Some (a\<lparr>addr := m, family := SYSM_AF_INET6\<rparr>) }
      else do {
        w \<leftarrow> (if len = HEX_ENT_LEN then hex2int ptr HEX_ENT_LEN else Some 0);
        Some (a\<lparr>addr := store_bytes 0 (le32_bytes w) (addr a), family := SYSM_AF_INET\<rparr>) })"

lemma drop_hex_digits [simp]: "drop HEX_ENT_LEN (hex_digits 8 n @ r) = r"
  by (simp add: HEX_ENT_LEN_def)

lemma convert_hex_in6_words:
  "length m = 16 \<Longrightarrow>
   convert_hex_in6 (hex_digits 8 (unat (w0 :: u32)) @ hex_digits 8 (unat (w1 :: u32)) @
       hex_digits 8 (unat (w2 :: u32)) @ hex_digits 8 (unat (w3 :: u32)) @ r) [0, 1, 2, 3] m
     = Some (le32_bytes w0 @ le32_bytes w1 @ le32_bytes w2 @ le32_bytes w3)"
  by (simp add: hex2int_hex_digits store_bytes_def del: drop_append)

end
