(* ===== verification/Double.thy ===== *)
theory Double
  imports Complex_Main Prelude
begin

text \<open>
  The type \<open>double\<close>: IEEE 754 binary64 with rounding to nearest, ties to even. A finite
  value is the rational number it stands for; the sign of zero is not kept (every divisor
  the code uses is a sum or a conversion whose zero is positive). Exponents have the range
  of the format, subnormal numbers and overflow to infinity included.
\<close>

section \<open>Rounding\<close>

fun bits :: "nat \<Rightarrow> nat" where
  "bits n = (if n = 0 then 0 else Suc (bits (n div 2)))"

declare bits.simps [simp del]

text \<open>The exponent \<open>k\<close> with \<open>2^k \<le> x < 2^(k+1)\<close>, for \<open>0 < x\<close>.\<close>

definition expo :: "rat \<Rightarrow> int" where
  "expo x = (if 1 \<le> x then int (bits (nat \<lfloor>x\<rfloor>)) - 1 else - int (bits (nat (\<lceil>1 / x\<rceil> - 1))))"

text \<open>The exponent of the last place.\<close>

definition ulp_expo :: "rat \<Rightarrow> int" where
  "ulp_expo x = max (expo x - 52) (- 1074)"

definition round_even :: "rat \<Rightarrow> int" where
  "round_even x =
     (let f = \<lfloor>x\<rfloor>; r = x - of_int f
      in if r < 1 / 2 then f else if 1 / 2 < r then f + 1 else if even f then f else f + 1)"

definition round_pos :: "rat \<Rightarrow> rat" where
  "round_pos x = of_int (round_even (x / 2 powi ulp_expo x)) * 2 powi ulp_expo x"

definition round_dbl :: "rat \<Rightarrow> rat" where
  "round_dbl x = (if x = 0 then 0 else if 0 < x then round_pos x else - round_pos (- x))"

lemma bits_bounds: "0 < n \<Longrightarrow> 2 ^ (bits n - 1) \<le> n \<and> n < 2 ^ bits n \<and> 0 < bits n"
proof (induction n rule: bits.induct)
  case (1 n)
  show ?case
  proof (cases "n div 2 = 0")
    case True
    with 1 have "n = 1" by simp
    then show ?thesis by (simp add: bits.simps [of "Suc 0"] bits.simps [of 0])
  next
    case False
    with 1 have ih: "2 ^ (bits (n div 2) - 1) \<le> n div 2" "n div 2 < 2 ^ bits (n div 2)" "0 < bits (n div 2)"
      by auto
    have b: "bits n = Suc (bits (n div 2))" using 1 by (simp add: bits.simps [of n])
    obtain k where k: "bits (n div 2) = Suc k" using ih(3) by (cases "bits (n div 2)") auto
    show ?thesis using ih b k by auto
  qed
qed

lemma expo_bounds:
  assumes "0 < x"
  shows "2 powi expo x \<le> x" "x < 2 powi (expo x + 1)"
proof -
  have "2 powi expo x \<le> x \<and> x < 2 powi (expo x + 1)"
  proof (cases "1 \<le> x")
    case True
    define n where "n = nat \<lfloor>x\<rfloor>"
    have n: "0 < n" using True by (simp add: n_def le_floor_iff less_le_trans [OF zero_less_one])
    have nx: "of_nat n \<le> x" "x < of_nat n + 1"
      using True floor_correct [of x] by (simp_all add: n_def of_nat_nat)
    note b = bits_bounds [OF n]
    have e: "expo x = int (bits n) - 1" using True by (simp add: expo_def n_def)
    have "(2 :: rat) powi expo x = 2 ^ (bits n - 1)"
      using b e by (metis One_nat_def Suc_leI of_nat_1 of_nat_diff power_int_of_nat)
    moreover have "(2 :: rat) ^ (bits n - 1) \<le> x"
      using b nx(1) by (metis dual_order.trans of_nat_le_iff of_nat_numeral of_nat_power)
    moreover have "(2 :: rat) powi (expo x + 1) = 2 ^ bits n" using e by simp
    moreover have "of_nat n + 1 \<le> (2 :: rat) ^ bits n"
      using b by (metis Suc_leI add.commute of_nat_Suc of_nat_le_iff of_nat_numeral of_nat_power)
    ultimately show ?thesis using nx by auto
  next
    case False
    define m where "m = nat (\<lceil>1 / x\<rceil> - 1)"
    have y: "1 < 1 / x" using False assms by simp
    then have c: "1 < \<lceil>1 / x\<rceil>" by (simp add: less_ceiling_iff)
    then have m: "0 < m" by (simp add: m_def)
    have mi: "int m = \<lceil>1 / x\<rceil> - 1" using c unfolding m_def by linarith
    then have "rat_of_nat m = of_int \<lceil>1 / x\<rceil> - 1" by (metis of_int_1 of_int_diff of_int_of_nat_eq)
    then have mx: "of_nat m < 1 / x" "1 / x \<le> of_nat m + 1"
      using ceiling_correct [of "1 / x"] by linarith+
    note b = bits_bounds [OF m]
    have e: "expo x = - int (bits m)" using False by (simp add: expo_def m_def)
    have "1 / x \<le> 2 ^ bits m"
      using mx(2) b by (metis Suc_leI add.commute dual_order.trans of_nat_Suc of_nat_le_iff of_nat_numeral of_nat_power)
    then have "1 / 2 ^ bits m \<le> x" using assms by (simp add: field_simps)
    moreover have "(2 :: rat) powi expo x = 1 / 2 ^ bits m"
      by (simp add: e power_int_minus_divide)
    moreover have "2 ^ (bits m - 1) < 1 / x"
      using mx(1) b by (metis le_less_trans of_nat_le_iff of_nat_numeral of_nat_power)
    then have "x < 1 / 2 ^ (bits m - 1)" using assms by (simp add: field_simps)
    moreover have "expo x + 1 = - int (bits m - 1)" using e b by simp
    then have "(2 :: rat) powi (expo x + 1) = 1 / 2 ^ (bits m - 1)"
      by (simp only: power_int_minus_divide power_int_of_nat)
    ultimately show ?thesis by simp
  qed
  then show "2 powi expo x \<le> x" "x < 2 powi (expo x + 1)" by auto
qed

lemma pow2_mono: "a \<le> b \<Longrightarrow> (2 :: rat) powi a \<le> 2 powi b"
  by (rule power_int_increasing) auto

lemma pow2_less_imp: "(2 :: rat) powi a < 2 powi b \<Longrightarrow> a < b"
  by (metis linorder_not_le pow2_mono)

lemma pow2_pos [simp]: "0 < (2 :: rat) powi a"
  by simp

lemma expo_mono: "0 < x \<Longrightarrow> x \<le> y \<Longrightarrow> expo x \<le> expo y"
  using expo_bounds [of x] expo_bounds [of y]
  by (metis add1_zle_eq add_le_cancel_right le_less_trans less_le_trans pow2_less_imp)

lemma expo_unique: "2 powi k \<le> x \<Longrightarrow> x < 2 powi (k + 1) \<Longrightarrow> expo x = k"
proof -
  assume k: "2 powi k \<le> x" "x < 2 powi (k + 1)"
  then have "0 < x" using pow2_pos [of k] by linarith
  note b = expo_bounds [OF this]
  have "k < expo x + 1" using k(1) b(2) by (intro pow2_less_imp) linarith
  moreover have "expo x < k + 1" using k(2) b(1) by (intro pow2_less_imp) linarith
  ultimately show ?thesis by simp
qed

lemma ulp_expo_mono: "0 < x \<Longrightarrow> x \<le> y \<Longrightarrow> ulp_expo x \<le> ulp_expo y"
  using expo_mono [of x y] by (simp add: ulp_expo_def)

lemma round_even_mono: "x \<le> y \<Longrightarrow> round_even x \<le> round_even y"
proof -
  assume xy: "x \<le> y"
  have "\<lfloor>x\<rfloor> \<le> \<lfloor>y\<rfloor>" using xy by (rule floor_mono)
  then consider "\<lfloor>x\<rfloor> = \<lfloor>y\<rfloor>" | "\<lfloor>x\<rfloor> + 1 \<le> \<lfloor>y\<rfloor>" by linarith
  then show ?thesis
  proof cases
    case 1
    with xy show ?thesis by (auto simp: round_even_def Let_def)
  next
    case 2
    have "round_even x \<le> \<lfloor>x\<rfloor> + 1" "\<lfloor>y\<rfloor> \<le> round_even y"
      by (auto simp: round_even_def Let_def)
    with 2 show ?thesis by linarith
  qed
qed

lemma round_even_of_int [simp]: "round_even (of_int n) = n"
  by (simp add: round_even_def)

lemma round_even_le: "x \<le> of_int n \<Longrightarrow> round_even x \<le> n"
  using round_even_mono [of x "of_int n"] by simp

lemma round_even_ge: "of_int n \<le> x \<Longrightarrow> n \<le> round_even x"
  using round_even_mono [of "of_int n" x] by simp

section \<open>Bounds, exactness and monotonicity of rounding\<close>

lemma pow2_ratio: "e \<le> k \<Longrightarrow> (2 :: rat) powi k / 2 powi e = of_int (2 ^ nat (k - e))"
  by (simp add: power_int_diff [symmetric] power_int_nonneg_exp)

lemma round_pos_le_pow2:
  assumes "0 < x" "x \<le> 2 powi k" "ulp_expo x \<le> k"
  shows "round_pos x \<le> 2 powi k"
proof -
  let ?e = "ulp_expo x"
  have "x / 2 powi ?e \<le> 2 powi k / 2 powi ?e"
    using assms(2) by (rule divide_right_mono) simp
  then have "x / 2 powi ?e \<le> of_int (2 ^ nat (k - ?e))"
    unfolding pow2_ratio [OF assms(3)] .
  then have "round_even (x / 2 powi ?e) \<le> 2 ^ nat (k - ?e)" by (rule round_even_le)
  then have "of_int (round_even (x / 2 powi ?e)) \<le> (of_int (2 ^ nat (k - ?e)) :: rat)"
    by (simp only: of_int_le_iff)
  then have "round_pos x \<le> of_int (2 ^ nat (k - ?e)) * 2 powi ?e"
    unfolding round_pos_def by (rule mult_right_mono) simp
  also have "\<dots> = 2 powi k" using assms(3) by (simp add: pow2_ratio [symmetric] del: of_int_power)
  finally show ?thesis .
qed

lemma round_pos_ge_pow2:
  assumes "0 < x" "2 powi k \<le> x" "ulp_expo x \<le> k"
  shows "2 powi k \<le> round_pos x"
proof -
  let ?e = "ulp_expo x"
  have "2 powi k / 2 powi ?e \<le> x / 2 powi ?e"
    using assms(2) by (rule divide_right_mono) simp
  then have "of_int (2 ^ nat (k - ?e)) \<le> x / 2 powi ?e"
    unfolding pow2_ratio [OF assms(3)] .
  then have "2 ^ nat (k - ?e) \<le> round_even (x / 2 powi ?e)" by (rule round_even_ge)
  then have "(of_int (2 ^ nat (k - ?e)) :: rat) \<le> of_int (round_even (x / 2 powi ?e))"
    by (simp only: of_int_le_iff)
  then have "of_int (2 ^ nat (k - ?e)) * 2 powi ?e \<le> round_pos x"
    unfolding round_pos_def by (rule mult_right_mono) simp
  moreover have "of_int (2 ^ nat (k - ?e)) * 2 powi ?e = (2 powi k :: rat)"
    using assms(3) by (simp add: pow2_ratio [symmetric] del: of_int_power)
  ultimately show ?thesis by simp
qed

lemma round_pos_nonneg: "0 < x \<Longrightarrow> 0 \<le> round_pos x"
  unfolding round_pos_def
  by (intro mult_nonneg_nonneg) (simp_all add: round_even_ge [of 0, simplified])

lemma round_pos_mono:
  assumes "0 < x" "x \<le> y"
  shows "round_pos x \<le> round_pos y"
proof (cases "ulp_expo x = ulp_expo y")
  case True
  have "round_even (x / 2 powi ulp_expo y) \<le> round_even (y / 2 powi ulp_expo y)"
    using assms by (intro round_even_mono divide_right_mono) auto
  then show ?thesis unfolding round_pos_def True by (intro mult_right_mono) auto
next
  case False
  then have lt: "ulp_expo x < ulp_expo y" using ulp_expo_mono [OF assms] by simp
  define k where "k = expo y"
  have y: "0 < y" using assms by simp
  have k: "ulp_expo y = k - 52" "expo x < k" "- 1022 < k"
    using lt by (auto simp: ulp_expo_def k_def)
  have "x \<le> 2 powi k"
    using expo_bounds(2) [OF assms(1)] pow2_mono [of "expo x + 1" k] k(2) by simp
  moreover have "ulp_expo x \<le> k" using k(2,3) by (simp add: ulp_expo_def)
  ultimately have "round_pos x \<le> 2 powi k" by (rule round_pos_le_pow2 [OF assms(1)])
  moreover have "2 powi k \<le> round_pos y"
    using y expo_bounds(1) [OF y] k(1) by (intro round_pos_ge_pow2) (auto simp: k_def)
  ultimately show ?thesis by simp
qed

lemma round_dbl_mono: "x \<le> y \<Longrightarrow> round_dbl x \<le> round_dbl y"
  using round_pos_mono [of x y] round_pos_mono [of "- y" "- x"] round_pos_nonneg [of y]
    round_pos_nonneg [of "- x"]
  by (auto simp: round_dbl_def)

text \<open>The representable numbers are fixed points of rounding.\<close>

lemma round_pos_exact:
  assumes "0 < m" "m < 2 ^ 53" "- 1074 \<le> e"
  shows "round_pos (of_int m * 2 powi e) = of_int m * 2 powi e"
proof -
  let ?x = "of_int m * 2 powi e :: rat"
  have x: "0 < ?x" using assms(1) by simp
  have "?x < 2 powi (53 + e)"
    using assms(2) by (simp add: power_int_add)
  then have "expo ?x < 53 + e"
    using expo_bounds(1) [OF x] by (intro pow2_less_imp) linarith
  then have le: "ulp_expo ?x \<le> e" using assms(3) by (simp add: ulp_expo_def)
  have q: "?x / 2 powi ulp_expo ?x = of_int (m * 2 ^ nat (e - ulp_expo ?x))"
    using pow2_ratio [OF le] by (simp add: times_divide_eq_right [symmetric] del: times_divide_eq_right)
  have "round_pos ?x = ?x / 2 powi ulp_expo ?x * 2 powi ulp_expo ?x"
    unfolding round_pos_def q round_even_of_int ..
  then show ?thesis by simp
qed

lemma round_dbl_of_int:
  assumes "0 \<le> m" "m < 2 ^ 53"
  shows "round_dbl (of_int m) = of_int m"
  using round_pos_exact [of m 0] assms by (auto simp: round_dbl_def)

lemma round_dbl_of_nat: "n < 2 ^ 53 \<Longrightarrow> round_dbl (of_nat n) = of_nat n"
  using round_dbl_of_int [of "int n"] by simp

lemma round_dbl_0 [simp]: "round_dbl 0 = 0"
  by (simp add: round_dbl_def)

lemma round_dbl_1 [simp]: "round_dbl 1 = 1"
  using round_dbl_of_nat [of 1] by simp

lemma round_dbl_nonneg: "0 \<le> x \<Longrightarrow> 0 \<le> round_dbl x"
  using round_dbl_mono [of 0 x] by simp

lemma round_even_pow2_bound:
  assumes "0 < x"
  shows "round_even (x / 2 powi ulp_expo x) \<le> 2 ^ 53" "0 \<le> round_even (x / 2 powi ulp_expo x)"
proof -
  have "x < 2 powi (53 + ulp_expo x)"
    by (rule less_le_trans [OF expo_bounds(2) [OF assms] pow2_mono]) (simp add: ulp_expo_def)
  then have "x / 2 powi ulp_expo x \<le> of_int (2 ^ 53)"
    by (simp add: power_int_add field_simps)
  then show "round_even (x / 2 powi ulp_expo x) \<le> 2 ^ 53" by (rule round_even_le)
  show "0 \<le> round_even (x / 2 powi ulp_expo x)"
    using assms by (intro round_even_ge) simp
qed

lemma round_dbl_pos: "0 < x \<Longrightarrow> round_dbl x = round_pos x"
  by (simp add: round_dbl_def)

lemma round_dbl_idem_pos:
  assumes "0 < x"
  shows "round_dbl (round_dbl x) = round_dbl x"
proof -
  let ?m = "round_even (x / 2 powi ulp_expo x)" and ?e = "ulp_expo x"
  have r: "round_dbl x = of_int ?m * 2 powi ?e"
    using assms by (simp add: round_dbl_def round_pos_def)
  have e: "- 1074 \<le> ?e" by (simp add: ulp_expo_def)
  consider "?m = 0" | "0 < ?m" "?m < 2 ^ 53" | "?m = 2 ^ 53"
    using round_even_pow2_bound [OF assms] by linarith
  then show ?thesis
  proof cases
    case 1
    then show ?thesis by (simp add: r)
  next
    case 2
    then have "0 < (of_int ?m * 2 powi ?e :: rat)" by simp
    then show ?thesis using round_pos_exact [OF 2 e] unfolding r by (simp only: round_dbl_pos)
  next
    case 3
    have "(of_int (2 ^ 53) * 2 powi ?e :: rat) = of_int (2 ^ 52) * 2 powi (?e + 1)"
      by (simp add: power_int_add)
    then have "round_dbl x = of_int (2 ^ 52) * 2 powi (?e + 1)" using 3 r by simp
    then show ?thesis
      using round_pos_exact [of "2 ^ 52" "?e + 1"] e by (simp add: round_dbl_def)
  qed
qed

lemma round_dbl_uminus: "round_dbl (- x) = - round_dbl x"
  by (auto simp: round_dbl_def)

lemma round_dbl_idem: "round_dbl (round_dbl x) = round_dbl x"
  using round_dbl_idem_pos [of x] round_dbl_idem_pos [of "- x"]
  by (cases "x = 0"; cases "0 < x") (auto simp: round_dbl_uminus)

section \<open>Values and operations\<close>

datatype dbl = Fin rat | PInf | NInf | NaN

definition to_dbl :: "rat \<Rightarrow> dbl" where
  "to_dbl x = (let r = round_dbl x
     in if r \<ge> 2 powi 1024 then PInf else if r \<le> - (2 powi 1024) then NInf else Fin r)"

definition u64_to_dbl :: "u64 \<Rightarrow> dbl" where
  "u64_to_dbl w = to_dbl (of_nat (unat w))"

definition int_to_dbl :: "int \<Rightarrow> dbl" where
  "int_to_dbl n = to_dbl (of_int n)"

fun dbl_add :: "dbl \<Rightarrow> dbl \<Rightarrow> dbl" where
  "dbl_add (Fin x) (Fin y) = to_dbl (x + y)"
| "dbl_add NaN _ = NaN"
| "dbl_add _ NaN = NaN"
| "dbl_add PInf NInf = NaN"
| "dbl_add NInf PInf = NaN"
| "dbl_add PInf _ = PInf"
| "dbl_add _ PInf = PInf"
| "dbl_add NInf _ = NInf"
| "dbl_add _ NInf = NInf"

definition inf_of_sign :: "rat \<Rightarrow> dbl" where
  "inf_of_sign s = (if s = 0 then NaN else if 0 < s then PInf else NInf)"

fun dbl_sign :: "dbl \<Rightarrow> rat" where
  "dbl_sign (Fin x) = sgn x"
| "dbl_sign PInf = 1"
| "dbl_sign NInf = - 1"
| "dbl_sign NaN = 0"

fun dbl_mult :: "dbl \<Rightarrow> dbl \<Rightarrow> dbl" where
  "dbl_mult (Fin x) (Fin y) = to_dbl (x * y)"
| "dbl_mult NaN _ = NaN"
| "dbl_mult _ NaN = NaN"
| "dbl_mult a b = inf_of_sign (dbl_sign a * dbl_sign b)"

text \<open>A zero divisor is a positive zero.\<close>

fun dbl_div :: "dbl \<Rightarrow> dbl \<Rightarrow> dbl" where
  "dbl_div (Fin x) (Fin y) = (if y = 0 then inf_of_sign (sgn x) else to_dbl (x / y))"
| "dbl_div NaN _ = NaN"
| "dbl_div _ NaN = NaN"
| "dbl_div (Fin x) _ = Fin 0"
| "dbl_div a (Fin y) = (if y = 0 then a else inf_of_sign (dbl_sign a * sgn y))"
| "dbl_div _ _ = NaN"

fun dbl_less :: "dbl \<Rightarrow> dbl \<Rightarrow> bool" where
  "dbl_less (Fin x) (Fin y) = (x < y)"
| "dbl_less NaN _ = False"
| "dbl_less _ NaN = False"
| "dbl_less NInf b = (b \<noteq> NInf)"
| "dbl_less a PInf = (a \<noteq> PInf)"
| "dbl_less _ _ = False"

definition dbl_le :: "dbl \<Rightarrow> dbl \<Rightarrow> bool" where
  "dbl_le a b \<longleftrightarrow> dbl_less a b \<or> (a = b \<and> a \<noteq> NaN)"

text \<open>Conversion to \<open>sysm_uint64_t\<close> truncates; out of range it is undefined.\<close>

fun dbl_to_u64 :: "dbl \<Rightarrow> u64 option" where
  "dbl_to_u64 (Fin x) = (if - 1 < x \<and> x < 2 ^ 64 then Some (word_of_nat (nat \<lfloor>x\<rfloor>)) else None)"
| "dbl_to_u64 _ = None"

lemma to_dbl_Fin:
  assumes "0 \<le> x" "x \<le> 2 ^ 1000"
  shows "to_dbl x = Fin (round_dbl x)"
proof -
  have "round_dbl x \<le> 2 powi 1000"
  proof (cases "x = 0")
    case False
    then have x: "0 < x" "x \<le> 2 powi 1000" using assms by simp_all
    then have "2 powi expo x \<le> (2 powi 1000 :: rat)" using expo_bounds(1) [of x] by linarith
    then have "\<not> 1000 < expo x"
      using pow2_mono [of 1001 "expo x"] by (auto dest!: zless_imp_add1_zle)
    then have "ulp_expo x \<le> 1000" by (simp add: ulp_expo_def)
    with x show ?thesis by (simp add: round_dbl_def round_pos_le_pow2 del: power_int_numeral)
  qed simp
  moreover have "(2 powi 1000 :: rat) < 2 powi 1024" "(0 :: rat) < 2 powi 1024" by simp_all
  moreover have "0 \<le> round_dbl x" using assms(1) by (rule round_dbl_nonneg)
  ultimately have "\<not> round_dbl x \<ge> 2 powi 1024" "\<not> round_dbl x \<le> - (2 powi 1024)" by linarith+
  then show ?thesis by (simp add: to_dbl_def del: power_int_numeral)
qed

lemma u64_rat_bound: "of_nat (unat (w :: u64)) < (2 ^ 64 :: rat)"
  using unat_lt_u64 [of w] by (metis of_nat_less_iff of_nat_numeral of_nat_power)

lemma u64_to_dbl_Fin: "u64_to_dbl w = Fin (round_dbl (of_nat (unat w)))"
proof -
  have "(of_nat (unat w) :: rat) \<le> 2 ^ 1000"
    using u64_rat_bound [of w] power_increasing [of 64 1000 "2 :: rat"] by linarith
  then show ?thesis unfolding u64_to_dbl_def by (intro to_dbl_Fin of_nat_0_le_iff)
qed

lemma u64_to_dbl_exact: "unat w < 2 ^ 53 \<Longrightarrow> u64_to_dbl w = Fin (of_nat (unat w))"
  using round_dbl_of_nat [of "unat w"] unfolding u64_to_dbl_Fin by simp

lemma dbl_to_u64_of_nat [simp]: "n < 2 ^ 64 \<Longrightarrow> dbl_to_u64 (Fin (of_nat n)) = Some (word_of_nat n)"
proof -
  assume "n < 2 ^ 64"
  then have "(of_nat n :: rat) < 2 ^ 64" by (metis of_nat_less_iff of_nat_numeral of_nat_power)
  moreover have "(- 1 :: rat) < of_nat n" by (rule less_le_trans [of _ 0]) simp_all
  ultimately show ?thesis by simp
qed

end
