(* ===== verification/Handle.thy ===== *)
theory Handle
  imports Cache Lists Address Double
begin

text \<open>
  The data of \<^verbatim>\<open>sysm.h\<close> that outlives a call: the handle \<open>sysm_t\<close> with its caches, and the
  operations that open and close it (\<open>sysm_open\<close>, \<open>sysm_os_open\<close>, \<open>sysm_close\<close>). The content of
  files, the answers of \<open>stat\<close>, \<open>sysconf\<close>, \<open>getpagesize\<close> and \<open>uname\<close> are arguments.
\<close>

section \<open>The structures\<close>

datatype linux_iostat_e = IOSTAT_NONE | IOSTAT_PARTITIONS | IOSTAT_DISKSTATS | IOSTAT_SYS

record linux_proc_stat =
  ps_pid :: int
  ps_ppid :: int
  ps_mtime :: int
  ps_vsize :: u64
  ps_rss :: u64
  ps_minor_faults :: u64
  ps_major_faults :: u64
  ps_tty :: int
  ps_pri :: int
  ps_ni :: int
  ps_start_time :: u64
  ps_utime :: u64
  ps_stime :: u64
  ps_name :: cstring
  ps_state :: char
  ps_processor :: int

record sysm_proc_cpu =
  pc_start_time :: u64
  pc_user :: u64
  pc_sys :: u64
  pc_total :: u64
  pc_last_time :: u64
  pc_percent :: dbl

record sysm_disk_usage =
  du_reads :: u64
  du_writes :: u64
  du_write_bytes :: u64
  du_read_bytes :: u64
  du_rtime :: u64
  du_wtime :: u64
  du_qtime :: u64
  du_time :: u64
  du_snaptime :: u64
  du_service_time :: dbl
  du_util :: dbl

record sysm_iodev =
  io_name :: cstring
  io_is_partition :: bool
  io_disk :: sysm_disk_usage

text \<open>A pointer to a cache that was not created yet is \<open>None\<close>.\<close>

text \<open>
  A buffer that is allocated once and grown: the null pointer, a live block of some size, or a
  pointer to a block that was freed.
\<close>

datatype heap_buf = Null | Live nat | Dangling

record sysm =
  cpu_list_cores :: int
  lcpu :: int
  ncpu :: u32
  s_version :: u64
  boot_time :: u64
  ticks :: int
  s_pid :: int
  errbuf :: cstring
  ifconf_buf :: heap_buf
  ifconf_len :: int
  self_path :: "cstring option"
  pids :: "int dynlist option"
  pagesize :: nat
  mtrr :: int
  proc_signal_offset :: int
  last_proc_stat :: linux_proc_stat
  iostat :: linux_iostat_e
  proc_net :: "cstring option"
  has_nptl :: bool
  proc_cpu :: "sysm_proc_cpu cache option"
  fsdev :: "sysm_iodev cache option"
  net_listen :: "sysm_net_address cache option"

section \<open>Opening\<close>

definition PROC_STAT :: cstring where "PROC_STAT = PROC_FS_ROOT @ ''stat''"
definition PROC_DISKSTATS :: cstring where "PROC_DISKSTATS = PROC_FS_ROOT @ ''diskstats''"
definition PROC_PARTITIONS :: cstring where "PROC_PARTITIONS = PROC_FS_ROOT @ ''partitions''"
definition SYS_BLOCK :: cstring where "SYS_BLOCK = ''/sys/block''"

text \<open>
  The loop over the lines of \<open>/proc/stat\<close> ends with an unconditional \<open>break\<close>, so it looks at
  the first line only.
\<close>

definition sysm_boot_time_get :: "files \<Rightarrow> sysm \<Rightarrow> sysm \<times> int" where
  "sysm_boot_time_get fs s =
     (case stream_of (fs PROC_STAT) of
        Inl e \<Rightarrow> (s, e)
      | Inr stream \<Rightarrow>
          (case fgets_lines BUFSIZ stream of
             [] \<Rightarrow> (s\<lparr>boot_time := 0\<rparr>, SYSM_OK)
           | line # _ \<Rightarrow>
               let ptr = cstr line
               in if strncmp_eq ptr ''btime'' 5
                  then (s\<lparr>boot_time := fst (strtoull 10 (sysm_skip_token ptr))\<rparr>, SYSM_OK)
                  else (s\<lparr>boot_time := 0\<rparr>, SYSM_OK)))"

text \<open>The loop \<open>while ((i >>= 1) > 0) pagesize++\<close>.\<close>

fun pagesize_loop :: "nat \<Rightarrow> nat \<Rightarrow> nat" where
  "pagesize_loop i acc = (if i div 2 > 0 then pagesize_loop (i div 2) (Suc acc) else acc)"

declare pagesize_loop.simps [simp del]

definition probe_iostat :: "(cstring \<Rightarrow> bool) \<Rightarrow> linux_iostat_e" where
  "probe_iostat exists =
     (if exists PROC_DISKSTATS then IOSTAT_DISKSTATS
      else if exists SYS_BLOCK then IOSTAT_SYS
      else if exists PROC_PARTITIONS then IOSTAT_PARTITIONS
      else IOSTAT_NONE)"

text \<open>
  \<open>fresh\<close> is the memory \<open>malloc\<close> returned. \<open>name.release\<close> is read from its third character;
  \<open>None\<close> when it is shorter than two.
\<close>

definition kernel_has_nptl :: "cstring \<Rightarrow> bool option" where
  "kernel_has_nptl release =
     (if length release < 2 then None else Some (atoi (drop 2 release) \<ge> 6))"

definition sysm_os_open ::
  "files \<Rightarrow> (cstring \<Rightarrow> bool) \<Rightarrow> nat \<Rightarrow> int \<Rightarrow> cstring \<Rightarrow> sysm \<Rightarrow> (sysm \<times> int) option" where
  "sysm_os_open fs exists page clk_tck release fresh =
     (let s = fresh\<lparr>pagesize := pagesize_loop page 0\<rparr>;
          (s, status) = sysm_boot_time_get fs s
      in if status \<noteq> SYSM_OK then Some (s, status)
         else do {
           nptl \<leftarrow> kernel_has_nptl release;
           Some (s\<lparr>ticks := clk_tck, mtrr := - 1, proc_signal_offset := - 1,
                   last_proc_stat := (last_proc_stat s)\<lparr>ps_pid := - 1\<rparr>, lcpu := - 1,
                   iostat := probe_iostat exists, proc_net := None, has_nptl := nptl\<rparr>, SYSM_OK) })"

definition sysm_open ::
  "files \<Rightarrow> (cstring \<Rightarrow> bool) \<Rightarrow> nat \<Rightarrow> int \<Rightarrow> cstring \<Rightarrow> sysm \<Rightarrow> (sysm \<times> int) option" where
  "sysm_open fs exists page clk_tck release fresh = do {
     (s, status) \<leftarrow> sysm_os_open fs exists page clk_tck release fresh;
     if status = SYSM_OK
     then Some (s\<lparr>cpu_list_cores := 0, s_pid := 0, ifconf_buf := Null, ifconf_len := 0,
                  self_path := None, pids := None, proc_cpu := None, fsdev := None,
                  net_listen := None\<rparr>, status)
     else Some (s, status) }"

definition sysm_pid_get :: "int \<Rightarrow> sysm \<Rightarrow> sysm \<times> int" where
  "sysm_pid_get getpid s = (s\<lparr>s_pid := getpid\<rparr>, getpid)"

section \<open>Closing\<close>

text \<open>
  What closing frees: how many blocks of each kind, and for each cache the entries and the
  values. Freeing a pointer to a block that was freed before is \<open>None\<close>.
\<close>

record freed =
  fr_ifconf :: nat
  fr_self_path :: nat
  fr_pids :: nat
  fr_proc_cpu :: "nat list \<times> sysm_proc_cpu list"
  fr_fsdev :: "nat list \<times> sysm_iodev list"
  fr_net_listen :: "nat list \<times> sysm_net_address list"
  fr_proc_net :: nat
  fr_sysm :: nat

definition free_buf :: "heap_buf \<Rightarrow> nat option" where
  "free_buf b = (case b of Null \<Rightarrow> Some 0 | Live _ \<Rightarrow> Some 1 | Dangling \<Rightarrow> None)"

definition free_if :: "'a option \<Rightarrow> nat" where
  "free_if p = (case p of None \<Rightarrow> 0 | Some _ \<Rightarrow> 1)"

definition destroy_if :: "'v cache option \<Rightarrow> nat list \<times> 'v list" where
  "destroy_if c = (case c of None \<Rightarrow> ([], []) | Some t \<Rightarrow> sysm_cache_destroy t)"

definition sysm_os_close :: "sysm \<Rightarrow> freed \<Rightarrow> freed \<times> int" where
  "sysm_os_close s fr = (fr\<lparr>fr_proc_net := free_if (proc_net s), fr_sysm := 1\<rparr>, SYSM_OK)"

definition sysm_close :: "sysm \<Rightarrow> (freed \<times> int) option" where
  "sysm_close s = do {
     n \<leftarrow> free_buf (ifconf_buf s);
     Some (sysm_os_close s
       \<lparr>fr_ifconf = n, fr_self_path = free_if (self_path s), fr_pids = free_if (pids s),
        fr_proc_cpu = destroy_if (proc_cpu s), fr_fsdev = destroy_if (fsdev s),
        fr_net_listen = destroy_if (net_listen s), fr_proc_net = 0, fr_sysm = 0\<rparr>) }"

section \<open>Properties\<close>

lemma pagesize_loop_power: "pagesize_loop (2 ^ k) acc = acc + k"
proof (induction k arbitrary: acc)
  case 0
  show ?case by (simp add: pagesize_loop.simps [of "Suc 0"])
next
  case (Suc k)
  have "pagesize_loop (2 ^ Suc k) acc = pagesize_loop (2 ^ k) (Suc acc)"
    by (simp add: pagesize_loop.simps [of "2 * 2 ^ k"])
  with Suc show ?case by simp
qed

text \<open>The macro \<open>pageshift\<close>: a number of pages in bytes.\<close>

definition pageshift :: "sysm \<Rightarrow> u64 \<Rightarrow> u64" where
  "pageshift s x = push_bit (pagesize s) x"

lemma boot_time_keeps_pagesize: "pagesize (fst (sysm_boot_time_get fs s)) = pagesize s"
  by (auto simp: sysm_boot_time_get_def Let_def split: sum.splits list.splits)

text \<open>On a handle opened with a page size \<open>2^k\<close>, \<open>pageshift\<close> multiplies a number of pages
  by the page size.\<close>

theorem open_pageshift_is_page_size:
  assumes "sysm_open fs exists (2 ^ k) clk_tck release fresh = Some (s, SYSM_OK)"
  shows "pageshift s x = x * 2 ^ k"
proof -
  have "pagesize s = pagesize_loop (2 ^ k) 0"
    using assms boot_time_keeps_pagesize [of fs "fresh\<lparr>pagesize := pagesize_loop (2 ^ k) 0\<rparr>"]
    by (auto simp: sysm_open_def sysm_os_open_def Let_def split: prod.splits if_splits bind_splits)
  then show ?thesis by (simp add: pageshift_def pagesize_loop_power push_bit_eq_mult)
qed

definition proc_stat_sample :: cstring where
  "proc_stat_sample = ''cpu  10 2 3 400'' @ [CHR 0x0A] @ ''btime 1510000000'' @ [CHR 0x0A]"

definition sample_files :: files where
  "sample_files f = (if f = PROC_STAT then Contents proc_stat_sample else Open_Fails ENOENT)"

definition zero_proc_stat :: linux_proc_stat where
  "zero_proc_stat = \<lparr>ps_pid = 0, ps_ppid = 0, ps_mtime = 0, ps_vsize = 0, ps_rss = 0,
     ps_minor_faults = 0, ps_major_faults = 0, ps_tty = 0, ps_pri = 0, ps_ni = 0,
     ps_start_time = 0, ps_utime = 0, ps_stime = 0, ps_name = [], ps_state = NUL,
     ps_processor = 0\<rparr>"

definition zero_sysm :: sysm where
  "zero_sysm = \<lparr>cpu_list_cores = 0, lcpu = 0, ncpu = 0, s_version = 0, boot_time = 0, ticks = 0,
     s_pid = 0, errbuf = [], ifconf_buf = Null, ifconf_len = 0, self_path = None, pids = None, pagesize = 0, mtrr = 0, proc_signal_offset = 0,
     last_proc_stat = zero_proc_stat, iostat = IOSTAT_NONE, proc_net = None, has_nptl = False,
     proc_cpu = None, fsdev = None, net_listen = None\<rparr>"

lemma sample_open:
  "\<exists>s. sysm_open sample_files (\<lambda>f. f = SYS_BLOCK) (2 ^ 12) 100 ''2.6.32'' zero_sysm = Some (s, SYSM_OK)"
proof -
  have "snd (sysm_boot_time_get sample_files s0) = SYSM_OK" for s0
    by (auto simp: sysm_boot_time_get_def sample_files_def Let_def split: list.splits)
  moreover have "kernel_has_nptl ''2.6.32'' \<noteq> None" by (simp add: kernel_has_nptl_def)
  ultimately show ?thesis
    by (auto simp: sysm_open_def sysm_os_open_def Let_def split: prod.splits bind_splits)
       (metis snd_conv)
qed

theorem open_pageshift_is_page_size_witness:
  "\<exists>s. sysm_open sample_files (\<lambda>f. f = SYS_BLOCK) (2 ^ 12) 100 ''2.6.32'' zero_sysm = Some (s, SYSM_OK)
     \<and> pageshift s 5 = 5 * 2 ^ 12"
  using sample_open open_pageshift_is_page_size by blast

text \<open>The boot time is read from the first line of \<open>/proc/stat\<close> only. The kernel prints the
  line of the processors first, so the boot time of a handle opened on such a file is 0.\<close>

theorem boot_time_only_first_line:
  assumes "fs PROC_STAT = Contents cs" "\<not> starts_with cs ''btime''"
  shows "boot_time (fst (sysm_boot_time_get fs s)) = 0"
proof (cases "fgets_lines BUFSIZ cs")
  case Nil
  then show ?thesis using assms by (simp add: sysm_boot_time_get_def)
next
  case (Cons line rest)
  have "take 5 (cstr line) \<noteq> ''btime''"
    using first_line_prefix [OF _ Cons, of 5 "''btime''"] assms(2) by (auto simp: BUFSIZ_def)
  then show ?thesis using assms(1) Cons
    by (simp add: sysm_boot_time_get_def strncmp_eq_def Let_def)
qed

theorem boot_time_only_first_line_witness:
  "boot_time (fst (sysm_boot_time_get sample_files zero_sysm)) = 0"
  by (rule boot_time_only_first_line [where cs = proc_stat_sample])
     (simp_all add: sample_files_def proc_stat_sample_def starts_with_def)

text \<open>Whether a kernel has native threads is decided by the second number of its release
  alone, so 2.6 and 4.15 pass the test and 3.2 fails it.\<close>

theorem kernel_has_nptl_reads_minor:
  assumes "isdigit major" "minor < 2 ^ 31"
  shows "kernel_has_nptl ([major, CHR ''.''] @ dec_digits minor @ CHR ''.'' # patch)
           = Some (6 \<le> minor)"
proof -
  have "atoi (dec_digits minor @ CHR ''.'' # patch) = int minor"
    using atoi_dec_digits [of "[]" "CHR ''.'' # patch" minor] assms(2)
    by (simp add: isdigit_def char_code_def)
  then show ?thesis by (simp add: kernel_has_nptl_def)
qed

theorem kernel_has_nptl_reads_minor_witness:
  "kernel_has_nptl (''3.'' @ dec_digits 2 @ ''.0-4'') = Some False
     \<and> kernel_has_nptl (''2.'' @ dec_digits 6 @ ''.32'') = Some True"
  using kernel_has_nptl_reads_minor [of "CHR ''3''" 2 "''0-4''"]
    kernel_has_nptl_reads_minor [of "CHR ''2''" 6 "''32''"]
  by (simp add: isdigit_def char_code_def)

end
