(* ===== verification/Cpu.thy ===== *)
theory Cpu
  imports Handle
begin

text \<open>
  Processors: the number of logical processors per socket from \<open>cpuid\<close>, the folding of logical
  processors, the parser of \<open>/proc/cpuinfo\<close> with the clean-up of model names, the CPU times of
  \<open>/proc/stat\<close>, and the percentages between two samples. \<open>cpuid\<close> is an argument.
\<close>

section \<open>Cores per socket\<close>

record cpuid_regs =
  eax :: u32
  ebx :: u32
  ecx :: u32
  edx :: u32

definition INTEL_ID :: u32 where "INTEL_ID = 0x756e6547"
definition AMD_ID :: u32 where "AMD_ID = 0x68747541"

text \<open>The function has no \<open>return\<close>; its callers ignore the value.\<close>

definition sysm_cpu_core_count :: "(u32 \<Rightarrow> cpuid_regs) \<Rightarrow> sysm \<Rightarrow> sysm" where
  "sysm_cpu_core_count cpuid s =
     (if lcpu s = - 1
      then let s = s\<lparr>lcpu := 1\<rparr>; id = cpuid 0
           in if ebx id = INTEL_ID \<or> ebx id = AMD_ID
              then let id = cpuid 1
                   in if edx id AND push_bit 28 1 \<noteq> 0
                      then s\<lparr>lcpu := uint (drop_bit 16 (ebx id AND 0x00FF0000))\<rparr>
                      else s
              else s
      else s)"

definition sysm_cpu_core_rollup :: "(u32 \<Rightarrow> cpuid_regs) \<Rightarrow> sysm \<Rightarrow> sysm \<times> bool" where
  "sysm_cpu_core_rollup cpuid s =
     (let rollup = (lcpu s = - 1);
          s = sysm_cpu_core_count cpuid s
      in (s, cpu_list_cores s = 0 \<and> rollup \<and> lcpu s > 1))"

text \<open>The comparison is between unsigned numbers; \<open>None\<close> is the division by 0.\<close>

definition sysm_cpu_socket_count :: "sysm \<Rightarrow> u32 option" where
  "sysm_cpu_socket_count s =
     (let n = ncpu s; l = (word_of_int (lcpu s) :: u32)
      in if n < l then Some n else if l = 0 then None else Some (n div l))"

section \<open>Model names\<close>

record sysm_cpu_info =
  ci_vendor :: cstring
  ci_model :: cstring
  ci_mhz :: i32
  ci_mhz_max :: int
  ci_mhz_min :: int
  ci_cache_size :: u64
  ci_total_sockets :: u32
  ci_total_cores :: u32
  ci_cores_per_socket :: int

definition cpu_models :: "(cstring \<times> cstring) list" where
  "cpu_models =
     [(''Xeon'', ''Xeon''), (''XEON'', ''Xeon''),
      (''Pentium III'', ''Pentium III''), (''Pentium II'', ''Pentium II''),
      (''Pentium(R) III'', ''Pentium III''), (''Pentium(R) 4'', ''Pentium 4''),
      (''Pentium(R) M'', ''Pentium M''), (''Pentium Pro'', ''Pentium Pro''),
      (''Celeron'', ''Celeron''),
      (''Opteron'', ''Opteron''), (''Athlon'', ''Athlon''), (''Duron'', ''Duron''),
      (''K6(tm)-III'', ''K6 III''), (''K6(tm) 3D+'', ''K6 3D+'')]"

fun model_lookup :: "cstring \<Rightarrow> (cstring \<times> cstring) list \<Rightarrow> cstring option" where
  "model_lookup ptr [] = None"
| "model_lookup ptr ((name, rname) # ms) =
     (if strncmp_eq ptr name (length name) then Some rname else model_lookup ptr ms)"

text \<open>
  The copy of the model is trimmed at both ends. The loop from the end is not stopped by the
  start of the array: for an empty model and for one of spaces only it leaves the array.
\<close>

definition trim_end :: "cstring \<Rightarrow> cstring option" where
  "trim_end s = (if \<forall>c \<in> set s. c = CHR '' '' then None
                 else Some (rev (dropWhile (\<lambda>c. c = CHR '' '') (rev s))))"

definition skip_vendor :: "cstring \<Rightarrow> cstring \<Rightarrow> cstring" where
  "skip_vendor vendor ptr =
     (if strncmp_eq ptr vendor (length vendor)
      then let ptr = drop (length vendor) ptr;
               ptr = (if starts_with ptr ''(R)'' then drop 3 ptr else ptr)
           in dropWhile (\<lambda>c. c = CHR '' '') ptr
      else ptr)"

definition sysm_cpu_model_adjust :: "sysm_cpu_info \<Rightarrow> sysm_cpu_info option" where
  "sysm_cpu_model_adjust info = do {
     model \<leftarrow> trim_end (ci_model info);
     let ptr = dropWhile (\<lambda>c. c = CHR '' '') model;
     let ptr = skip_vendor (ci_vendor info) ptr;
     let ptr = (if deref ptr = CHR ''-'' then tl ptr else ptr);
     Some (case model_lookup ptr cpu_models of
             Some rname \<Rightarrow> info\<lparr>ci_model := rname\<rparr>
           | None \<Rightarrow> info\<lparr>ci_model := ptr\<rparr>) }"

section \<open>The parser of cpuinfo\<close>

definition cpu_info_strval :: "cstring \<Rightarrow> cstring option" where
  "cpu_info_strval ptr = map_option (\<lambda>p. dropWhile isspace (tl p)) (strchr ptr (CHR '':''))"

text \<open>
  The value of a line, copied into an array of \<open>len\<close> characters, without its last character
  (the newline). The inner \<open>None\<close> is a line with no colon, which leaves the array alone. The
  outer \<open>None\<close> covers an empty value, where \<open>buf[slen - 1]\<close> lies before the array, and a value
  that fills the array, which the callers then read without a terminator. The function also
  stores a NUL at \<open>buf[len]\<close>, in the field behind the array: the two users below write out
  what that does to the structure.
\<close>

definition cpu_info_strcpy :: "cstring \<Rightarrow> nat \<Rightarrow> cstring option option" where
  "cpu_info_strcpy ptr len =
     (case cpu_info_strval ptr of
        None \<Rightarrow> Some None
      | Some p \<Rightarrow> if p = [] \<or> len \<le> length p then None else Some (Some (butlast p)))"

text \<open>The NUL behind \<open>vendor\<close> empties \<open>model\<close>; the one behind \<open>model\<close> clears a byte of \<open>mhz\<close>.\<close>

definition set_vendor :: "cstring \<Rightarrow> sysm_cpu_info \<Rightarrow> sysm_cpu_info option" where
  "set_vendor ptr info =
     (case cpu_info_strcpy ptr 128 of
        None \<Rightarrow> None
      | Some v \<Rightarrow>
          let info = (case v of None \<Rightarrow> info | Some v \<Rightarrow> info\<lparr>ci_vendor := v, ci_model := []\<rparr>)
          in Some (if ci_vendor info = ''GenuineIntel''
                   then info\<lparr>ci_vendor := ''Intel'', ci_model := []\<rparr>
                   else if ci_vendor info = ''AuthenticAMD''
                   then info\<lparr>ci_vendor := ''AMD'', ci_model := []\<rparr>
                   else info))"

definition set_model :: "cstring \<Rightarrow> sysm_cpu_info \<Rightarrow> sysm_cpu_info option" where
  "set_model ptr info =
     (case cpu_info_strcpy ptr 128 of
        None \<Rightarrow> None
      | Some None \<Rightarrow> sysm_cpu_model_adjust info
      | Some (Some v) \<Rightarrow>
          sysm_cpu_model_adjust (info\<lparr>ci_model := v, ci_mhz := ci_mhz info AND NOT 0xFF\<rparr>))"

text \<open>
  What a line stores, by its first character and its name. A number with no colon before it is
  read through a null pointer.
\<close>

definition cpu_info_line :: "cstring \<Rightarrow> sysm_cpu_info \<Rightarrow> sysm_cpu_info option" where
  "cpu_info_line ptr info =
     (if deref ptr = CHR ''v''
      then if strncmp_eq ptr ''vendor'' 6 then set_vendor ptr info else Some info
      else if deref ptr = CHR ''f''
      then if strncmp_eq ptr ''family'' 6 then set_model ptr info else Some info
      else if deref ptr = CHR ''m''
      then if strncmp_eq ptr ''model name'' 10 then set_model ptr info else Some info
      else if deref ptr = CHR ''c''
      then if strncmp_eq ptr ''cpu MHz'' 7
           then map_option (\<lambda>p. info\<lparr>ci_mhz := word_of_int (fst (strtol 10 p))\<rparr>) (cpu_info_strval ptr)
           else if strncmp_eq ptr ''cache size'' 10
           then map_option (\<lambda>p. info\<lparr>ci_cache_size := word_of_int (fst (strtol 10 p))\<rparr>) (cpu_info_strval ptr)
           else Some info
      else Some info)"

text \<open>
  One processor's block of lines, which a lone newline ends: the structure, whether a processor
  was found, and the lines left.
\<close>

fun cpu_info_loop ::
  "sysm_cpu_info \<Rightarrow> bool \<Rightarrow> char list list \<Rightarrow> (sysm_cpu_info \<times> bool \<times> char list list) option" where
  "cpu_info_loop info found [] = Some (info, found, [])"
| "cpu_info_loop info found (line # lines) =
     (let ptr = cstr line
      in if deref ptr = CHR 0x0A then Some (info, found, lines)
         else case cpu_info_line ptr info of
                None \<Rightarrow> None
              | Some info' \<Rightarrow>
                  cpu_info_loop info'
                    (found \<or> (deref ptr = CHR ''p'' \<and> strncmp_eq ptr ''processor'' 9)) lines)"

definition get_cpu_info ::
  "sysm_cpu_info \<Rightarrow> char list list \<Rightarrow> (sysm_cpu_info \<times> bool \<times> char list list) option" where
  "get_cpu_info info lines = cpu_info_loop (info\<lparr>ci_mhz := 0, ci_cache_size := 0\<rparr>) False lines"

section \<open>Clock frequencies\<close>

definition PATH_MAX :: nat where "PATH_MAX = 4096"

text \<open>C's division, which truncates, for a positive divisor.\<close>

definition c_div :: "int \<Rightarrow> int \<Rightarrow> int" where
  "c_div a b = sgn a * (\<bar>a\<bar> div b)"

definition cpu_freq_file :: "nat \<Rightarrow> cstring \<Rightarrow> cstring" where
  "cpu_freq_file num which =
     ''/sys/devices/system/cpu/cpu'' @ dec_digits num @ ''/cpufreq/cpuinfo_'' @ which @ ''_freq''"

definition get_cpuinfo_max_freq :: "files \<Rightarrow> nat \<Rightarrow> sysm_cpu_info \<Rightarrow> sysm_cpu_info option" where
  "get_cpuinfo_max_freq fs num info = do {
     r \<leftarrow> sysm_file2str fs (cpu_freq_file num ''max'') PATH_MAX (PATH_MAX - 1);
     Some (case r of Inr buf \<Rightarrow> info\<lparr>ci_mhz_max := c_div (atoi buf) 1000\<rparr>
                   | Inl _ \<Rightarrow> info\<lparr>ci_mhz_max := - 1\<rparr>) }"

definition get_cpuinfo_mim_freq :: "files \<Rightarrow> nat \<Rightarrow> sysm_cpu_info \<Rightarrow> sysm_cpu_info option" where
  "get_cpuinfo_mim_freq fs num info = do {
     r \<leftarrow> sysm_file2str fs (cpu_freq_file num ''min'') PATH_MAX (PATH_MAX - 1);
     Some (case r of Inr buf \<Rightarrow> info\<lparr>ci_mhz_min := c_div (atoi buf) 1000\<rparr>
                   | Inl _ \<Rightarrow> info\<lparr>ci_mhz_min := - 1\<rparr>) }"

section \<open>The list of processors\<close>

lemma cpu_info_loop_lines:
  "cpu_info_loop info found lines = Some (info', found', rest)
     \<Longrightarrow> length rest \<le> length lines \<and> (found' \<longrightarrow> found \<or> length rest < length lines)"
proof (induction lines arbitrary: info found)
  case Nil
  then show ?case by simp
next
  case (Cons line lines)
  show ?case
  proof (cases "deref (cstr line) = CHR 0x0A")
    case True
    with Cons.prems show ?thesis by simp
  next
    case False
    with Cons.prems obtain info1 found1 where "cpu_info_loop info1 found1 lines = Some (info', found', rest)"
      by (auto simp: Let_def split: option.splits)
    from Cons.IH [OF this] show ?thesis by auto
  qed
qed

lemma get_cpu_info_lines:
  "get_cpu_info info lines = Some (info', True, rest) \<Longrightarrow> length rest < length lines"
  using cpu_info_loop_lines by (fastforce simp: get_cpu_info_def)

text \<open>
  The loop over the blocks. \<open>cell\<close> is the content of \<open>data[number]\<close>: what the allocation left
  there (\<open>junk\<close>), or the block of a logical processor that was folded. The list is not written
  outside its array: \<open>None\<close> otherwise.
\<close>

function cpu_info_list_loop ::
  "files \<Rightarrow> sysm_cpu_info \<Rightarrow> bool \<Rightarrow> sysm \<Rightarrow> int \<Rightarrow> sysm_cpu_info \<Rightarrow> char list list
     \<Rightarrow> sysm_cpu_info dynlist \<Rightarrow> sysm_cpu_info dynlist option" where
  "cpu_info_list_loop fs junk core_rollup s i cell lines infos =
     (case get_cpu_info cell lines of
        None \<Rightarrow> None
      | Some (info, found, rest) \<Rightarrow>
          if \<not> found then Some infos
          else if core_rollup \<and> i mod lcpu s \<noteq> 0
          then cpu_info_list_loop fs junk core_rollup s (i + 1) info rest infos
          else do {
            let num = dl_number infos;
            info \<leftarrow> get_cpuinfo_max_freq fs num info;
            info \<leftarrow> get_cpuinfo_mim_freq fs num info;
            sockets \<leftarrow> sysm_cpu_socket_count s;
            infos \<leftarrow> dl_append (info\<lparr>ci_total_cores := ncpu s, ci_cores_per_socket := lcpu s,
                                     ci_total_sockets := sockets\<rparr>) infos;
            cpu_info_list_loop fs junk core_rollup s (if core_rollup then i + 1 else i) junk rest
              (SYSM_CPU_INFO_LIST_GROW infos) })"
  by pat_completeness auto
termination
  by (relation "measure (\<lambda>(fs, junk, core_rollup, s, i, cell, lines, infos). length lines)")
     (auto dest: get_cpu_info_lines)

definition PROC_CPUINFO :: cstring where "PROC_CPUINFO = PROC_FS_ROOT @ ''cpuinfo''"

definition sysm_cpu_info_list_get ::
  "(u32 \<Rightarrow> cpuid_regs) \<Rightarrow> files \<Rightarrow> int \<Rightarrow> sysm_cpu_info \<Rightarrow> sysm
     \<Rightarrow> (sysm \<times> (int + sysm_cpu_info dynlist)) option" where
  "sysm_cpu_info_list_get cpuid fs nprocessors_conf junk s =
     (let (s, core_rollup) = sysm_cpu_core_rollup cpuid s
      in case stream_of (fs PROC_CPUINFO) of
           Inl e \<Rightarrow> Some (s, Inl e)
         | Inr stream \<Rightarrow> do {
             let s = s\<lparr>ncpu := word_of_int nprocessors_conf\<rparr>;
             infos \<leftarrow> cpu_info_list_loop fs junk core_rollup s 0 junk
                       (fgets_lines BUFSIZ stream) sysm_cpu_info_list_create;
             Some (s, Inr infos) })"

section \<open>CPU times\<close>

record sysm_cpu =
  cu_user :: u64
  cu_sys :: u64
  cu_nice :: u64
  cu_idle :: u64
  cu_wait :: u64
  cu_hi :: u64
  cu_si :: u64
  cu_steal :: u64
  cu_total :: u64

definition zero_cpu :: sysm_cpu where
  "zero_cpu = \<lparr>cu_user = 0, cu_sys = 0, cu_nice = 0, cu_idle = 0, cu_wait = 0, cu_hi = 0,
               cu_si = 0, cu_steal = 0, cu_total = 0\<rparr>"

text \<open>Clock ticks in milliseconds, computed in \<open>double\<close>.\<close>

definition SYSM_TICK2MSEC :: "sysm \<Rightarrow> u64 \<Rightarrow> dbl" where
  "SYSM_TICK2MSEC s n = dbl_mult (u64_to_dbl n) (dbl_div (u64_to_dbl 1000) (int_to_dbl (ticks s)))"

text \<open>\<open>acc += SYSM_TICK2MSEC(strtoull(ptr, &ptr, 10))\<close>\<close>

definition add_ticks :: "sysm \<Rightarrow> u64 \<Rightarrow> cstring \<Rightarrow> (u64 \<times> cstring) option" where
  "add_ticks s acc ptr =
     (let (n, ptr) = strtoull 10 ptr
      in map_option (\<lambda>v. (v, ptr)) (dbl_to_u64 (dbl_add (u64_to_dbl acc) (SYSM_TICK2MSEC s n))))"

definition get_cpu_metrics :: "sysm \<Rightarrow> sysm_cpu \<Rightarrow> cstring \<Rightarrow> sysm_cpu option" where
  "get_cpu_metrics s cpu line = do {
     let ptr = sysm_skip_token line;
     (user, ptr) \<leftarrow> add_ticks s (cu_user cpu) ptr;
     (nice, ptr) \<leftarrow> add_ticks s (cu_nice cpu) ptr;
     (sys, ptr) \<leftarrow> add_ticks s (cu_sys cpu) ptr;
     (idle, ptr) \<leftarrow> add_ticks s (cu_idle cpu) ptr;
     (wait, hi, si, ptr) \<leftarrow>
       (if deref ptr = CHR '' ''
        then do {
          (wait, ptr) \<leftarrow> add_ticks s (cu_wait cpu) ptr;
          (hi, ptr) \<leftarrow> add_ticks s (cu_hi cpu) ptr;
          (si, ptr) \<leftarrow> add_ticks s (cu_si cpu) ptr;
          Some (wait, hi, si, ptr) }
        else Some (cu_wait cpu, cu_hi cpu, cu_si cpu, ptr));
     (steal, ptr) \<leftarrow>
       (if deref ptr = CHR '' '' then add_ticks s (cu_steal cpu) ptr else Some (cu_steal cpu, ptr));
     Some \<lparr>cu_user = user, cu_sys = sys, cu_nice = nice, cu_idle = idle, cu_wait = wait,
           cu_hi = hi, cu_si = si, cu_steal = steal,
           cu_total = user + nice + sys + idle + wait + hi + si + steal\<rparr> }"

text \<open>
  The lines after the first. A logical processor that is folded is added to the entry before,
  \<open>data[number - 1]\<close>.
\<close>

definition dl_last :: "'a dynlist \<Rightarrow> 'a option" where
  "dl_last l = (if dl_number l = 0 \<or> length (dl_data l) < dl_number l then None
                else dl_data l ! (dl_number l - 1))"

definition dl_set_last :: "'a \<Rightarrow> 'a dynlist \<Rightarrow> 'a dynlist" where
  "dl_set_last x l = l\<lparr>dl_data := (dl_data l)[dl_number l - 1 := Some x]\<rparr>"

fun cpu_list_loop ::
  "bool \<Rightarrow> sysm \<Rightarrow> int \<Rightarrow> char list list \<Rightarrow> sysm_cpu dynlist \<Rightarrow> sysm_cpu dynlist option" where
  "cpu_list_loop core_rollup s i [] cpus = Some cpus"
| "cpu_list_loop core_rollup s i (line # lines) cpus =
     (let ptr = cstr line
      in if \<not> strncmp_eq ptr ''cpu'' 3 then Some cpus
         else if core_rollup \<and> i mod lcpu s \<noteq> 0
         then do {
           cpu \<leftarrow> dl_last cpus;
           cpu \<leftarrow> get_cpu_metrics s cpu ptr;
           cpu_list_loop core_rollup s (i + 1) lines (dl_set_last cpu cpus) }
         else do {
           cpu \<leftarrow> get_cpu_metrics s zero_cpu ptr;
           cpus \<leftarrow> dl_append cpu (SYSM_CPU_LIST_GROW cpus);
           cpu_list_loop core_rollup s (i + 1) lines cpus })"

text \<open>With no first line the buffer for the totals is not written before it is read.\<close>

definition sysm_cpu_list_get ::
  "(u32 \<Rightarrow> cpuid_regs) \<Rightarrow> files \<Rightarrow> sysm \<Rightarrow> (sysm \<times> (int + sysm_cpu dynlist)) option" where
  "sysm_cpu_list_get cpuid fs s =
     (let (s, core_rollup) = sysm_cpu_core_rollup cpuid s
      in case stream_of (fs PROC_STAT) of
           Inl e \<Rightarrow> Some (s, Inl e)
         | Inr stream \<Rightarrow> do {
             let lines = fgets_lines BUFSIZ stream;
             cpus \<leftarrow> cpu_list_loop core_rollup s 0 (tl lines) sysm_cpu_list_create;
             if dl_number cpus = 0
             then if lines = [] then None
                  else do {
                    cpu \<leftarrow> get_cpu_metrics s zero_cpu (cstr (hd lines));
                    cpus \<leftarrow> dl_append cpu cpus;
                    Some (s, Inr cpus) }
             else Some (s, Inr cpus) })"

definition sysm_cpu_get :: "files \<Rightarrow> sysm \<Rightarrow> (int + sysm_cpu) option" where
  "sysm_cpu_get fs s = do {
     r \<leftarrow> sysm_file2str fs PROC_STAT BUFSIZ BUFSIZ;
     (case r of Inl status \<Rightarrow> Some (Inl status)
              | Inr buffer \<Rightarrow> map_option Inr (get_cpu_metrics s zero_cpu buffer)) }"

section \<open>Percentages\<close>

record sysm_cpu_perc =
  cp_user :: dbl
  cp_sys :: dbl
  cp_nice :: dbl
  cp_idle :: dbl
  cp_wait :: dbl
  cp_hi :: dbl
  cp_si :: dbl
  cp_steal :: dbl
  cp_combined :: dbl

text \<open>The difference of the counters is taken in \<open>sysm_uint64_t\<close> and then converted.\<close>

definition cpu_diff :: "u64 \<Rightarrow> u64 \<Rightarrow> dbl" where
  "cpu_diff current previous =
     (let d = u64_to_dbl (current - previous) in if dbl_less d (Fin 0) then Fin 0 else d)"

definition sysm_cpu_perc_cal :: "sysm_cpu \<Rightarrow> sysm_cpu \<Rightarrow> sysm_cpu_perc" where
  "sysm_cpu_perc_cal previous current =
     (let user = cpu_diff (cu_user current) (cu_user previous);
          sys = cpu_diff (cu_sys current) (cu_sys previous);
          nice = cpu_diff (cu_nice current) (cu_nice previous);
          idle = cpu_diff (cu_idle current) (cu_idle previous);
          wait = cpu_diff (cu_wait current) (cu_wait previous);
          hi = cpu_diff (cu_hi current) (cu_hi previous);
          si = cpu_diff (cu_si current) (cu_si previous);
          steal = cpu_diff (cu_steal current) (cu_steal previous);
          total = foldl dbl_add user [sys, nice, idle, wait, hi, si, steal]
      in \<lparr>cp_user = dbl_div user total, cp_sys = dbl_div sys total,
          cp_nice = dbl_div nice total, cp_idle = dbl_div idle total,
          cp_wait = dbl_div wait total, cp_hi = dbl_div hi total,
          cp_si = dbl_div si total, cp_steal = dbl_div steal total,
          cp_combined = foldl dbl_add (dbl_div user total)
                          [dbl_div sys total, dbl_div nice total, dbl_div wait total]\<rparr>)"

end
