(* ===== verification/Cpu_Properties.thy ===== *)
theory Cpu_Properties
  imports Cpu "HOL-Library.Sublist"
begin

text \<open>
  Properties of the processor component: the percentages of two samples, the folding of
  logical processors, and what the list of CPU times holds for a file as the kernel prints it.
\<close>

section \<open>Sums of non-negative doubles\<close>

definition dbl_ok :: "nat \<Rightarrow> rat \<Rightarrow> bool" where
  "dbl_ok n x \<longleftrightarrow> 0 \<le> x \<and> x \<le> 2 ^ n \<and> round_dbl x = x"

lemma round_dbl_pow2: "round_dbl (2 ^ n) = 2 ^ n"
  using round_pos_exact [of 1 "int n"] by (simp add: round_dbl_pos)

lemma dbl_ok_mono: "dbl_ok n x \<Longrightarrow> n \<le> m \<Longrightarrow> dbl_ok m x"
  by (auto simp: dbl_ok_def intro: order_trans [OF _ power_increasing])

lemma dbl_ok_0 [simp]: "dbl_ok n 0"
  by (simp add: dbl_ok_def)

lemma dbl_add_ok:
  assumes "dbl_ok n a" "dbl_ok n b" "n < 900"
  shows "dbl_add (Fin a) (Fin b) = Fin (round_dbl (a + b))" "dbl_ok (Suc n) (round_dbl (a + b))"
    and "a \<le> round_dbl (a + b)" "b \<le> round_dbl (a + b)"
proof -
  have ab: "0 \<le> a + b" "a + b \<le> 2 ^ Suc n" using assms by (auto simp: dbl_ok_def)
  moreover have "(2 :: rat) ^ Suc n \<le> 2 ^ 1000" using assms(3) by (intro power_increasing) auto
  ultimately show "dbl_add (Fin a) (Fin b) = Fin (round_dbl (a + b))"
    unfolding dbl_add.simps by (intro to_dbl_Fin) linarith+
  have "round_dbl (a + b) \<le> 2 ^ Suc n"
    using round_dbl_mono [OF ab(2)] round_dbl_pow2 [of "Suc n"] by simp
  with ab show "dbl_ok (Suc n) (round_dbl (a + b))"
    by (simp add: dbl_ok_def round_dbl_nonneg round_dbl_idem)
  show "a \<le> round_dbl (a + b)" "b \<le> round_dbl (a + b)"
    using assms round_dbl_mono [of a "a + b"] round_dbl_mono [of b "a + b"]
    by (auto simp: dbl_ok_def)
qed

lemma dbl_sum_ok:
  "dbl_ok n a \<Longrightarrow> \<forall>b \<in> set bs. dbl_ok n b \<Longrightarrow> n + length bs < 900
   \<Longrightarrow> \<exists>c. foldl dbl_add (Fin a) (map Fin bs) = Fin c \<and> dbl_ok (n + length bs) c \<and> a \<le> c
         \<and> (\<forall>b \<in> set bs. b \<le> c)"
proof (induction bs arbitrary: n a)
  case Nil
  then show ?case by simp
next
  case (Cons b bs)
  note add = dbl_add_ok [of n a b]
  have "dbl_ok (Suc n) (round_dbl (a + b))" "\<forall>b \<in> set bs. dbl_ok (Suc n) b"
    using Cons.prems add by (auto intro: dbl_ok_mono)
  from Cons.IH [OF this] Cons.prems obtain c where
    "foldl dbl_add (Fin (round_dbl (a + b))) (map Fin bs) = Fin c"
    "dbl_ok (Suc n + length bs) c" "round_dbl (a + b) \<le> c" "\<forall>b \<in> set bs. b \<le> c" by auto
  with add Cons.prems show ?case by force
qed

lemma dbl_div_ok:
  assumes "0 \<le> a" "a \<le> c" "0 < c"
  shows "\<exists>q. dbl_div (Fin a) (Fin c) = Fin q \<and> 0 \<le> q \<and> q \<le> 1"
proof -
  have q: "0 \<le> a / c" "a / c \<le> 1" using assms by auto
  moreover have "(1 :: rat) \<le> 2 ^ 1000" by (rule one_le_power) simp
  ultimately have "to_dbl (a / c) = Fin (round_dbl (a / c))" by (intro to_dbl_Fin) linarith+
  then show ?thesis
    using assms round_dbl_mono [OF q(2)] round_dbl_nonneg [OF q(1)] by simp
qed

section \<open>Percentages\<close>

definition cpu_delta :: "u64 \<Rightarrow> u64 \<Rightarrow> rat" where
  "cpu_delta current previous = round_dbl (of_nat (unat (current - previous)))"

lemma cpu_delta_nonneg: "0 \<le> cpu_delta c p"
  unfolding cpu_delta_def by (intro round_dbl_nonneg of_nat_0_le_iff)

lemma cpu_delta_ok: "dbl_ok 64 (cpu_delta c p)"
proof -
  have "cpu_delta c p \<le> round_dbl (2 ^ 64)"
    unfolding cpu_delta_def using u64_rat_bound [of "c - p"] by (intro round_dbl_mono) linarith
  with cpu_delta_nonneg show ?thesis
    by (simp only: dbl_ok_def round_dbl_pow2) (simp add: cpu_delta_def round_dbl_idem)
qed

lemma cpu_delta_pos: "c \<noteq> p \<Longrightarrow> 1 \<le> cpu_delta c p"
proof -
  assume "c \<noteq> p"
  then have "1 \<le> unat (c - p)" by (simp add: Suc_le_eq unat_gt_0)
  then have "(1 :: rat) \<le> of_nat (unat (c - p))" using of_nat_mono by fastforce
  from round_dbl_mono [OF this] show ?thesis by (simp only: cpu_delta_def round_dbl_1)
qed

lemma cpu_delta_same [simp]: "cpu_delta c c = 0"
  by (simp add: cpu_delta_def)

text \<open>The difference of unsigned counters is never negative: the clamp to 0 has no effect.\<close>

lemma cpu_diff_eq: "cpu_diff c p = Fin (cpu_delta c p)"
  using cpu_delta_nonneg [of c p]
  unfolding cpu_diff_def u64_to_dbl_Fin Let_def cpu_delta_def [symmetric] by simp

definition cpu_counters :: "sysm_cpu \<Rightarrow> u64 list" where
  "cpu_counters c = [cu_user c, cu_sys c, cu_nice c, cu_idle c, cu_wait c, cu_hi c, cu_si c, cu_steal c]"

definition perc_values :: "sysm_cpu_perc \<Rightarrow> dbl list" where
  "perc_values p = [cp_user p, cp_sys p, cp_nice p, cp_idle p, cp_wait p, cp_hi p, cp_si p, cp_steal p]"

definition dbl_fraction :: "dbl \<Rightarrow> bool" where
  "dbl_fraction d \<longleftrightarrow> (case d of Fin q \<Rightarrow> 0 \<le> q \<and> q \<le> 1 | _ \<Rightarrow> False)"

lemma perc_values_eq:
  obtains c where "perc_values (sysm_cpu_perc_cal p q)
      = map (\<lambda>d. dbl_div (Fin d) (Fin c)) (map2 cpu_delta (cpu_counters q) (cpu_counters p))"
    "\<forall>d \<in> set (map2 cpu_delta (cpu_counters q) (cpu_counters p)). 0 \<le> d \<and> d \<le> c"
    "foldl dbl_add (Fin (cpu_delta (cu_user q) (cu_user p)))
       (map Fin (tl (map2 cpu_delta (cpu_counters q) (cpu_counters p)))) = Fin c"
proof -
  obtain c where c: "foldl dbl_add (Fin (cpu_delta (cu_user q) (cu_user p)))
       (map Fin (tl (map2 cpu_delta (cpu_counters q) (cpu_counters p)))) = Fin c"
    "cpu_delta (cu_user q) (cu_user p) \<le> c"
    "\<forall>d \<in> set (tl (map2 cpu_delta (cpu_counters q) (cpu_counters p))). d \<le> c"
    using dbl_sum_ok [of 64 "cpu_delta (cu_user q) (cu_user p)"
        "tl (map2 cpu_delta (cpu_counters q) (cpu_counters p))"]
    by (auto simp: cpu_counters_def cpu_delta_ok)
  show ?thesis
    using c cpu_delta_nonneg
    by (intro that [of c]) (auto simp: cpu_counters_def perc_values_def sysm_cpu_perc_cal_def
        cpu_diff_eq Let_def)
qed

lemma perc_fractions:
  assumes "cpu_counters current \<noteq> cpu_counters previous"
  shows "list_all dbl_fraction (perc_values (sysm_cpu_perc_cal previous current))"
proof -
  let ?ds = "map2 cpu_delta (cpu_counters current) (cpu_counters previous)"
  obtain c where c: "perc_values (sysm_cpu_perc_cal previous current) = map (\<lambda>d. dbl_div (Fin d) (Fin c)) ?ds"
    "\<forall>d \<in> set ?ds. 0 \<le> d \<and> d \<le> c"
    by (rule perc_values_eq)
  have "\<exists>d \<in> set ?ds. 1 \<le> d"
    using assms by (auto simp: cpu_counters_def dest!: cpu_delta_pos)
  with c(2) have "0 < c" by force
  with c show ?thesis using dbl_div_ok [of _ c] by (fastforce simp: dbl_fraction_def list_all_iff)
qed

lemma to_dbl_0 [simp]: "to_dbl 0 = Fin 0"
  using to_dbl_Fin [of 0] by simp

lemma perc_same:
  assumes "cpu_counters current = cpu_counters previous"
  shows "list_all (\<lambda>d. d = NaN) (cp_combined (sysm_cpu_perc_cal previous current)
    # perc_values (sysm_cpu_perc_cal previous current))"
  using assms
  by (simp add: cpu_counters_def perc_values_def sysm_cpu_perc_cal_def cpu_diff_eq Let_def inf_of_sign_def)

text \<open>C15: when at least one counter changed between two samples, each of the eight percentages
  is a number between 0 and 1. Between two equal samples every one of them, and the combined one,
  is 0/0, which is not a number.\<close>

theorem cpu_perc_in_unit_interval:
  "if cpu_counters current = cpu_counters previous
   then list_all (\<lambda>d. d = NaN) (cp_combined (sysm_cpu_perc_cal previous current)
          # perc_values (sysm_cpu_perc_cal previous current))
   else list_all dbl_fraction (perc_values (sysm_cpu_perc_cal previous current))"
  by (cases "cpu_counters current = cpu_counters previous") (simp_all only: perc_same perc_fractions if_True if_False simp_thms)

definition sample_cpu :: "u64 \<Rightarrow> u64 \<Rightarrow> sysm_cpu" where
  "sample_cpu u i = zero_cpu\<lparr>cu_user := u, cu_idle := i\<rparr>"

theorem cpu_perc_in_unit_interval_witness:
  "list_all dbl_fraction (perc_values (sysm_cpu_perc_cal (sample_cpu 100 700) (sample_cpu 150 900)))
    \<and> cp_combined (sysm_cpu_perc_cal (sample_cpu 100 700) (sample_cpu 100 700)) = NaN"
  using cpu_perc_in_unit_interval [of "sample_cpu 150 900" "sample_cpu 100 700"]
    cpu_perc_in_unit_interval [of "sample_cpu 100 700" "sample_cpu 100 700"]
  by (simp add: cpu_counters_def sample_cpu_def zero_cpu_def)

text \<open>A counter that went backwards is not clamped to 0: the difference wraps around before
  it is compared with 0, and when no other counter changed the result is 100 percent.\<close>

theorem cpu_perc_backwards_is_full:
  assumes "cu_user current < cu_user previous"
    and "tl (cpu_counters current) = tl (cpu_counters previous)"
  shows "cp_user (sysm_cpu_perc_cal previous current) = Fin 1"
proof -
  let ?d = "cpu_delta (cu_user current) (cu_user previous)"
  have ok: "dbl_ok 64 ?d" by (rule cpu_delta_ok)
  have d: "1 \<le> ?d" using assms(1) by (intro cpu_delta_pos) auto
  have "dbl_add (Fin ?d) (Fin 0) = Fin ?d"
    using dbl_add_ok(1) [of 64 ?d 0] ok by (simp add: dbl_ok_def)
  then have "cp_user (sysm_cpu_perc_cal previous current) = dbl_div (Fin ?d) (Fin ?d)"
    using assms(2) by (simp add: cpu_counters_def sysm_cpu_perc_cal_def cpu_diff_eq Let_def)
  moreover have "to_dbl 1 = Fin 1" using to_dbl_Fin [of 1] one_le_power [of "2 :: rat" 1000] by simp
  ultimately show ?thesis using d by simp
qed

theorem cpu_perc_backwards_is_full_witness:
  "cp_user (sysm_cpu_perc_cal (sample_cpu 100 700) (sample_cpu 99 700)) = Fin 1"
  by (rule cpu_perc_backwards_is_full) (simp_all add: cpu_counters_def sample_cpu_def zero_cpu_def)

section \<open>Folding logical processors\<close>

text \<open>Only the first call on a handle can fold logical processors: whatever that call did,
  the next one on the handle it leaves does not fold.\<close>

theorem core_rollup_only_once:
  "snd (sysm_cpu_core_rollup cpuid2 (fst (sysm_cpu_core_rollup cpuid1 s))) = False"
proof -
  have "uint (w :: u32) \<noteq> - 1" for w using uint_ge_0 [of w] by linarith
  then have "lcpu (sysm_cpu_core_count cpuid1 s) \<noteq> - 1"
    by (auto simp: sysm_cpu_core_count_def Let_def simp del: uint_and)
  then show ?thesis by (simp add: sysm_cpu_core_rollup_def Let_def)
qed

section \<open>The CPU times of a file\<close>

lemma to_dbl_of_nat: "n < 2 ^ 53 \<Longrightarrow> to_dbl (of_nat n) = Fin (of_nat n)"
proof -
  assume n: "n < 2 ^ 53"
  then have "(of_nat n :: rat) \<le> of_nat (2 ^ 53)" by (intro of_nat_mono) simp
  then have "(of_nat n :: rat) \<le> 2 ^ 53" by simp
  also have "(2 :: rat) ^ 53 \<le> 2 ^ 1000" by (intro power_increasing) auto
  finally have "to_dbl (of_nat n) = Fin (round_dbl (of_nat n))"
    by (intro to_dbl_Fin of_nat_0_le_iff)
  with n show ?thesis by (simp add: round_dbl_of_nat)
qed

lemma u64_to_dbl_word_of_nat: "n < 2 ^ 53 \<Longrightarrow> u64_to_dbl (word_of_nat n) = Fin (of_nat n)"
proof -
  assume n: "n < 2 ^ 53"
  then have u: "unat (word_of_nat n :: u64) = n" by simp
  show ?thesis using u64_to_dbl_exact [of "word_of_nat n"] n unfolding u by simp
qed

text \<open>The tick rate divides 1000 on the usual kernels (100, 250 and 1000 Hz).\<close>

definition tick_millis :: "sysm \<Rightarrow> nat \<Rightarrow> bool" where
  "tick_millis s m \<longleftrightarrow> 0 < m \<and> m \<le> 1000 \<and> ticks s * int m = 1000"

lemma tick_millis_bounds: "tick_millis s m \<Longrightarrow> 0 < ticks s \<and> ticks s \<le> 1000"
proof -
  assume a: "tick_millis s m"
  then have p: "0 < ticks s" unfolding tick_millis_def
    by (metis of_nat_0_less_iff zero_less_mult_pos2 zero_less_numeral)
  moreover have "ticks s * 1 \<le> ticks s * int m"
    using a p by (intro mult_left_mono) (auto simp: tick_millis_def)
  moreover have "ticks s * int m = 1000" using a by (simp add: tick_millis_def)
  ultimately show ?thesis by linarith
qed

lemma SYSM_TICK2MSEC_exact:
  assumes "tick_millis s m" "n * m < 2 ^ 53"
  shows "SYSM_TICK2MSEC s (word_of_nat n) = Fin (of_nat (n * m))"
proof -
  define h where "h = nat (ticks s)"
  have t: "ticks s * int m = 1000" "0 < m" "m \<le> 1000" using assms(1) by (auto simp: tick_millis_def)
  then have "0 < ticks s" by (metis of_nat_0_less_iff zero_less_mult_pos2 zero_less_numeral)
  then have h1: "ticks s = int h" by (simp add: h_def)
  have "int (h * m) = int 1000" using t(1) by (simp add: h1)
  then have h2: "h * m = 1000" by (simp only: of_nat_eq_iff)
  note h = h1 h2
  have hz: "h \<noteq> 0" using h2 by (cases h) auto
  have "n \<le> n * m" using t(2) by (cases m) auto
  then have n: "n < 2 ^ 53" using assms(2) by (rule le_less_trans)
  have "h \<le> 1000" using h(2) by (metis dvd_imp_le dvd_triv_left zero_less_numeral)
  then have "int_to_dbl (ticks s) = Fin (of_nat h)"
    using to_dbl_of_nat [of h] by (simp add: int_to_dbl_def h(1))
  moreover have "u64_to_dbl 1000 = Fin 1000" using u64_to_dbl_exact [of 1000] by simp
  moreover have "1000 / of_nat h = (of_nat m :: rat)"
    using arg_cong [OF h(2), of "of_nat :: nat \<Rightarrow> rat"] hz by (simp add: field_simps)
  moreover note hz
  ultimately have "dbl_div (u64_to_dbl 1000) (int_to_dbl (ticks s)) = Fin (of_nat m)"
    using to_dbl_of_nat [of m] assms(1) by (simp add: tick_millis_def)
  moreover have "u64_to_dbl (word_of_nat n) = Fin (of_nat n)"
    using n by (rule u64_to_dbl_word_of_nat)
  ultimately show ?thesis
    using to_dbl_of_nat [OF assms(2)] by (simp add: SYSM_TICK2MSEC_def)
qed

lemma add_ticks_exact:
  assumes "tick_millis s m" "unat acc + n * m < 2 ^ 53" "at_space r"
  shows "add_ticks s acc (CHR '' '' # dec_digits n @ r) = Some (acc + word_of_nat (n * m), r)"
proof -
  have nm: "n * m < 2 ^ 53" "unat acc < 2 ^ 53" using assms(2) by auto
  moreover have "n \<le> n * m" using assms(1) by (auto simp: tick_millis_def)
  ultimately have "n < 2 ^ 53" by (metis le_less_trans)
  then have n: "n < 2 ^ 64" by simp
  have "dbl_add (u64_to_dbl acc) (SYSM_TICK2MSEC s (word_of_nat n)) = Fin (of_nat (unat acc + n * m))"
    using SYSM_TICK2MSEC_exact [OF assms(1) nm(1)] u64_to_dbl_exact [OF nm(2)] to_dbl_of_nat [OF assms(2)]
    by simp
  moreover have "dbl_to_u64 (Fin (of_nat (unat acc + n * m))) = Some (word_of_nat (unat acc + n * m))"
    using assms(2) by (intro dbl_to_u64_of_nat) simp
  moreover have "(word_of_nat (unat acc + n * m) :: u64) = acc + word_of_nat (n * m)" by simp
  ultimately show ?thesis using n assms(3) by (simp only: add_ticks_def strtoull_field) simp
qed

record cpu_row =
  r_user :: nat
  r_nice :: nat
  r_sys :: nat
  r_idle :: nat
  r_wait :: nat
  r_hi :: nat
  r_si :: nat
  r_steal :: nat

definition row_values :: "cpu_row \<Rightarrow> nat list" where
  "row_values r = [r_user r, r_nice r, r_sys r, r_idle r, r_wait r, r_hi r, r_si r, r_steal r]"

definition cpu_line :: "cstring \<Rightarrow> cpu_row \<Rightarrow> cstring \<Rightarrow> cstring" where
  "cpu_line name r rest = name @ spaced (map dec_digits (row_values r)) @ rest"

definition row_cpu :: "nat \<Rightarrow> cpu_row \<Rightarrow> sysm_cpu" where
  "row_cpu m r =
     \<lparr>cu_user = word_of_nat (r_user r * m), cu_sys = word_of_nat (r_sys r * m),
      cu_nice = word_of_nat (r_nice r * m), cu_idle = word_of_nat (r_idle r * m),
      cu_wait = word_of_nat (r_wait r * m), cu_hi = word_of_nat (r_hi r * m),
      cu_si = word_of_nat (r_si r * m), cu_steal = word_of_nat (r_steal r * m),
      cu_total = word_of_nat (sum_list (row_values r) * m)\<rparr>"

definition row_bounded :: "nat \<Rightarrow> cpu_row \<Rightarrow> bool" where
  "row_bounded b r \<longleftrightarrow> (\<forall>v \<in> set (row_values r). v < b)"

definition row_add :: "cpu_row \<Rightarrow> cpu_row \<Rightarrow> cpu_row" where
  "row_add a b =
     \<lparr>r_user = r_user a + r_user b, r_nice = r_nice a + r_nice b, r_sys = r_sys a + r_sys b,
      r_idle = r_idle a + r_idle b, r_wait = r_wait a + r_wait b, r_hi = r_hi a + r_hi b,
      r_si = r_si a + r_si b, r_steal = r_steal a + r_steal b\<rparr>"

definition zero_row :: cpu_row where
  "zero_row = \<lparr>r_user = 0, r_nice = 0, r_sys = 0, r_idle = 0, r_wait = 0, r_hi = 0, r_si = 0,
               r_steal = 0\<rparr>"

lemma row_cpu_zero: "row_cpu m zero_row = zero_cpu"
  by (simp add: row_cpu_def zero_row_def zero_cpu_def row_values_def)

lemma row_add_zero [simp]: "row_add zero_row r = r"
  by (simp add: row_add_def zero_row_def)

lemma get_cpu_metrics_line:
  assumes m: "tick_millis s m" and v: "row_bounded b a" "row_bounded b r" "2 * b * m \<le> 2 ^ 53"
    and name: "is_field name" and rest: "at_space rest"
  shows "get_cpu_metrics s (row_cpu m a) (cpu_line name r rest) = Some (row_cpu m (row_add a r))"
proof -
  have skip: "sysm_skip_token (name @ CHR '' '' # x) = CHR '' '' # x" for x
    using sysm_skip_token_skips [of "[]" name "CHR '' '' # x"] name by (simp add: is_field_def)
  have at: "at_space (CHR '' '' # x)" for x by (simp add: at_space_def)
  have add: "add_ticks s (word_of_nat (p * m)) (CHR '' '' # dec_digits n @ x)
      = Some (word_of_nat ((p + n) * m), x)"
    if "p \<in> set (row_values a)" "n \<in> set (row_values r)" "at_space x" for p n x
  proof -
    have "p + n < 2 * b" using that v by (force simp: row_bounded_def)
    moreover have "0 < m" using m by (simp add: tick_millis_def)
    ultimately have "(p + n) * m < 2 * b * m" by simp
    then have lt: "(p + n) * m < 2 ^ 53" using v(3) by (rule less_le_trans)
    then have "p * m + n * m < 2 ^ 53" by (simp add: distrib_right)
    moreover from this have "unat (word_of_nat (p * m) :: u64) = p * m"
      by (intro unat_word_of_nat_u64) simp
    ultimately have "add_ticks s (word_of_nat (p * m)) (CHR '' '' # dec_digits n @ x)
        = Some (word_of_nat (p * m) + word_of_nat (n * m), x)"
      using that(3) by (intro add_ticks_exact [OF m]) simp_all
    then show ?thesis by (simp add: distrib_right)
  qed
  have d: "deref (CHR '' '' # x) = CHR '' ''" for x by (simp add: deref_def)
  note adds = add [unfolded row_values_def, simplified]
  show ?thesis
    using rest
    by (simp add: get_cpu_metrics_def cpu_line_def row_values_def skip at adds d row_cpu_def
        row_add_def distrib_right)
qed

text \<open>The rows folded per socket: sums of \<open>l\<close> consecutive rows.\<close>

function chunks :: "nat \<Rightarrow> 'a list \<Rightarrow> 'a list list" where
  "chunks l xs = (if xs = [] \<or> l = 0 then [] else take l xs # chunks l (drop l xs))"
  by pat_completeness auto
termination
  by (relation "measure (\<lambda>(l, xs). length xs)") auto

declare chunks.simps [simp del]

definition socket_rows :: "nat \<Rightarrow> cpu_row list \<Rightarrow> cpu_row list" where
  "socket_rows l rows = map (foldl row_add zero_row) (chunks l rows)"

lemma chunks_Nil [simp]: "chunks l [] = []"
  by (simp add: chunks.simps)

lemma chunks_snoc:
  "0 < l \<Longrightarrow> chunks l (xs @ [x]) =
     (if l dvd length xs then chunks l xs @ [[x]]
      else butlast (chunks l xs) @ [last (chunks l xs) @ [x]])"
proof (induction l xs rule: chunks.induct)
  case (1 l xs)
  show ?case
  proof (cases "xs = []")
    case True
    with 1 show ?thesis by (simp add: chunks.simps [of l "[x]"])
  next
    case False
    have c: "chunks l (xs @ [x]) = take l (xs @ [x]) # chunks l (drop l (xs @ [x]))"
      "chunks l xs = take l xs # chunks l (drop l xs)"
      using False 1 by (simp_all add: chunks.simps [of l "xs @ [x]"] chunks.simps [of l xs])
    consider "length xs < l" | "l \<le> length xs" by linarith
    then show ?thesis
    proof cases
      case 1
      moreover have "\<not> l dvd length xs" using 1 False by (auto dest: dvd_imp_le)
      ultimately show ?thesis using c False by simp
    next
      case 2
      have ih: "chunks l (drop l xs @ [x]) =
          (if l dvd length (drop l xs) then chunks l (drop l xs) @ [[x]]
           else butlast (chunks l (drop l xs)) @ [last (chunks l (drop l xs)) @ [x]])"
        using 1 False by auto
      have dv: "l dvd length (drop l xs) \<longleftrightarrow> l dvd length xs"
        using 2 by (simp add: dvd_minus_self)
      show ?thesis
      proof (cases "l dvd length xs")
        case True
        with c ih dv 2 show ?thesis by simp
      next
        case False
        then have "drop l xs \<noteq> []" using 2 by auto
        then have "chunks l (drop l xs) \<noteq> []" using 1(2) by (simp add: chunks.simps [of l "drop l xs"])
        with c ih dv 2 False show ?thesis by simp
      qed
    qed
  qed
qed

lemma chunks_nonempty: "0 < l \<Longrightarrow> xs \<noteq> [] \<Longrightarrow> chunks l xs \<noteq> []"
  by (simp add: chunks.simps [of l xs])

lemma socket_rows_snoc:
  "0 < l \<Longrightarrow> socket_rows l (rs @ [r]) =
     (if l dvd length rs then socket_rows l rs @ [r]
      else butlast (socket_rows l rs) @ [row_add (last (socket_rows l rs)) r])"
proof -
  assume l: "0 < l"
  have "\<not> l dvd length rs \<Longrightarrow> chunks l rs \<noteq> []" using l by (intro chunks_nonempty) auto
  with l show ?thesis by (simp add: socket_rows_def chunks_snoc map_butlast last_map)
qed

lemma concat_chunks: "0 < l \<Longrightarrow> concat (chunks l xs) = xs"
  by (induction l xs rule: chunks.induct) (simp add: chunks.simps)

lemma length_chunk: "c \<in> set (chunks l xs) \<Longrightarrow> length c \<le> length xs \<and> set c \<subseteq> set xs"
proof (induction l xs rule: chunks.induct)
  case (1 l xs)
  then show ?case
    by (cases "xs = [] \<or> l = 0")
       (auto simp: chunks.simps [of l xs] dest: in_set_takeD in_set_dropD)
qed

lemma row_bounded_sum:
  "row_bounded a z \<Longrightarrow> \<forall>r \<in> set rs. row_bounded b r \<Longrightarrow> row_bounded (a + length rs * b) (foldl row_add z rs)"
proof (induction rs arbitrary: a z)
  case Nil
  then show ?case by simp
next
  case (Cons r rs)
  have "row_bounded (a + b) (row_add z r)"
    using Cons.prems by (auto simp: row_bounded_def row_values_def row_add_def intro: add_strict_mono)
  from Cons.IH [OF this] Cons.prems show ?case by (simp add: add.assoc)
qed

lemma socket_rows_bounded:
  assumes "\<forall>r \<in> set rs. row_bounded b r" "q \<in> set (socket_rows l rs)"
  shows "row_bounded (1 + length rs * b) q"
proof -
  obtain c where c: "c \<in> set (chunks l rs)" "q = foldl row_add zero_row c"
    using assms(2) by (auto simp: socket_rows_def)
  have "row_bounded 1 zero_row" by (simp add: row_bounded_def row_values_def zero_row_def)
  with assms(1) length_chunk [OF c(1)] have "row_bounded (1 + length c * b) q"
    unfolding c(2) by (intro row_bounded_sum) auto
  moreover have "1 + length c * b \<le> 1 + length rs * b"
    using length_chunk [OF c(1)] by simp
  ultimately show ?thesis by (auto simp: row_bounded_def intro: less_le_trans)
qed

lemma dl_last_contents:
  assumes "dl_wf l" "dl_contents l \<noteq> []"
  shows "dl_last l = Some (last (dl_contents l))"
proof -
  obtain k where k: "dl_number l = Suc k" using assms(2) by (cases "dl_number l") (auto simp: dl_contents_def)
  have lt: "k < length (dl_data l)" "dl_data l ! k \<noteq> None" using assms(1) k by (auto simp: dl_wf_def)
  then show ?thesis by (auto simp: dl_last_def dl_contents_def k take_Suc_conv_app_nth)
qed

lemma dl_set_last_contents:
  assumes "dl_wf l" "dl_contents l \<noteq> []"
  shows "dl_wf (dl_set_last x l)" "dl_contents (dl_set_last x l) = butlast (dl_contents l) @ [x]"
proof -
  obtain k where k: "dl_number l = Suc k" using assms(2) by (cases "dl_number l") (auto simp: dl_contents_def)
  have lt: "k < length (dl_data l)" using assms(1) k by (simp add: dl_wf_def)
  show "dl_wf (dl_set_last x l)"
    using assms(1) k by (auto simp: dl_set_last_def dl_wf_def nth_list_update)
  show "dl_contents (dl_set_last x l) = butlast (dl_contents l) @ [x]"
    using lt by (simp add: dl_set_last_def dl_contents_def k take_Suc_conv_app_nth)
qed

text \<open>A line as the kernel prints it for processor \<open>k\<close>.\<close>

definition cpu_k_line :: "nat \<times> cpu_row \<Rightarrow> cstring" where
  "cpu_k_line kr = cpu_line (''cpu'' @ dec_digits (fst kr)) (snd kr) []"

lemma cpu_name_field: "is_field (''cpu'' @ dec_digits k)"
  using is_field_dec_digits [of k] by (auto simp: is_field_def isspace_def char_code_def)

lemma cpu_line_NL: "cpu_line name r [] @ [c] = cpu_line name r [c]"
  by (simp add: cpu_line_def)

lemma cpu_k_line_prefix: "strncmp_eq (cpu_k_line kr @ x) ''cpu'' 3"
  by (simp add: strncmp_eq_def cpu_k_line_def cpu_line_def)

lemma length_spaced: "\<forall>t \<in> set ts. length t \<le> k \<Longrightarrow> length (spaced ts) \<le> length ts * Suc k"
  by (induction ts) auto

lemma spaced_plain: "c \<noteq> CHR '' '' \<Longrightarrow> \<forall>t \<in> set ts. c \<notin> set t \<Longrightarrow> c \<notin> set (spaced ts)"
  by (induction ts) auto

lemma cpu_line_is_line:
  assumes "length name \<le> 13" "CHR 0x0A \<notin> set name" "NUL \<notin> set name" "row_bounded (2 ^ 53) r"
  shows "is_line BUFSIZ (cpu_line name r [])"
proof -
  have "\<forall>t \<in> set (map dec_digits (row_values r)). length t \<le> 16"
  proof (clarsimp)
    fix v
    assume "v \<in> set (row_values r)"
    then have "v < 10 ^ 16" using assms(4) by (auto simp: row_bounded_def)
    then show "length (dec_digits v) \<le> 16" by (rule length_dec_digits) simp
  qed
  from length_spaced [OF this]
  have "length (spaced (map dec_digits (row_values r))) \<le> 8 * 17" by (simp add: row_values_def)
  moreover have "c \<notin> set (spaced (map dec_digits (row_values r)))" if "c = CHR 0x0A \<or> c = NUL" for c
  proof (rule spaced_plain)
    show "c \<noteq> CHR '' ''" using that by (auto simp: NUL_def)
    show "\<forall>t \<in> set (map dec_digits (row_values r)). c \<notin> set t" using that by auto
  qed
  ultimately show ?thesis using assms(1-3)
    by (simp add: is_line_def cpu_line_def BUFSIZ_def)
qed

definition fold_width :: "bool \<Rightarrow> sysm \<Rightarrow> nat" where
  "fold_width core_rollup s = (if core_rollup then nat (lcpu s) else 1)"

lemma cpu_list_loop_rows:
  assumes m: "tick_millis s m" and b: "2 * (1 + n * b) * m \<le> 2 ^ 53" and l: "core_rollup \<longrightarrow> 1 < lcpu s"
    and tail: "tail = [] \<or> \<not> strncmp_eq (cstr (hd tail)) ''cpu'' 3"
  shows "\<forall>kr \<in> set krs. row_bounded b (snd kr) \<and> is_line BUFSIZ (cpu_k_line kr) \<Longrightarrow>
     \<forall>r \<in> set rows. row_bounded b r \<Longrightarrow> length rows + length krs \<le> n \<Longrightarrow> dl_wf cpus \<Longrightarrow>
     dl_contents cpus = map (row_cpu m) (socket_rows (fold_width core_rollup s) rows) \<Longrightarrow>
     \<exists>cpus'. cpu_list_loop core_rollup s (int (length rows))
         (map (\<lambda>kr. cpu_k_line kr @ [CHR 0x0A]) krs @ tail) cpus = Some cpus' \<and> dl_wf cpus'
       \<and> dl_contents cpus' = map (row_cpu m) (socket_rows (fold_width core_rollup s) (rows @ map snd krs))"
proof (induction krs arbitrary: rows cpus)
  case Nil
  then show ?case using tail by (cases tail) (auto simp: Let_def)
next
  case (Cons kr krs)
  let ?w = "fold_width core_rollup s" and ?r = "snd kr" and ?line = "cpu_k_line kr @ [CHR 0x0A]"
  have w: "0 < ?w" using l by (cases core_rollup) (simp_all add: fold_width_def)
  have line: "cstr ?line = ?line" using Cons.prems(1) by (auto intro: cstr_line)
  have met: "get_cpu_metrics s (row_cpu m a) ?line = Some (row_cpu m (row_add a ?r))"
    if "row_bounded (1 + length rows * b) a" for a
  proof -
    have le: "1 + length rows * b \<le> 1 + n * b" using Cons.prems(3) by simp
    have n1: "1 \<le> n" using Cons.prems(3) by simp
    then have "b \<le> 1 + n * b" by (cases n) auto
    with that le Cons.prems(1) have "row_bounded (1 + n * b) a" "row_bounded (1 + n * b) ?r"
      by (auto simp: row_bounded_def intro: less_le_trans)
    then show ?thesis unfolding cpu_k_line_def cpu_line_NL
      by (intro get_cpu_metrics_line [OF m _ _ b] cpu_name_field) (simp_all add: at_space_def)
  qed
  have fold_iff: "core_rollup \<and> int (length rows) mod lcpu s \<noteq> 0 \<longleftrightarrow> \<not> ?w dvd length rows"
  proof (cases core_rollup)
    case True
    then obtain k where k: "lcpu s = int k" using l by (metis less_le_trans nonneg_int_cases not_less order.asym zero_less_one)
    show ?thesis using True by (simp add: fold_width_def k dvd_eq_mod_eq_0 flip: zmod_int)
  qed (simp add: fold_width_def)
  have "\<exists>cpus1. cpu_list_loop core_rollup s (int (length rows)) (?line # map (\<lambda>kr. cpu_k_line kr @ [CHR 0x0A]) krs @ tail) cpus
      = cpu_list_loop core_rollup s (int (length (rows @ [?r]))) (map (\<lambda>kr. cpu_k_line kr @ [CHR 0x0A]) krs @ tail) cpus1
      \<and> dl_wf cpus1 \<and> dl_contents cpus1 = map (row_cpu m) (socket_rows ?w (rows @ [?r]))"
  proof (cases "?w dvd length rows")
    case True
    have "row_bounded (1 + length rows * b) zero_row"
      by (simp add: row_bounded_def row_values_def zero_row_def)
    from met [OF this] have "get_cpu_metrics s zero_cpu ?line = Some (row_cpu m ?r)"
      by (simp add: row_cpu_zero)
    moreover obtain cpus1 where "dl_append (row_cpu m ?r) (SYSM_CPU_LIST_GROW cpus) = Some cpus1"
        "dl_wf cpus1" "dl_contents cpus1 = dl_contents cpus @ [row_cpu m ?r]"
      using cpu_list.push_total [OF Cons.prems(4), of "row_cpu m ?r"] by (auto simp: dl_push_def)
    ultimately show ?thesis using True fold_iff Cons.prems(5) w
      by (auto simp: line Let_def cpu_k_line_prefix socket_rows_snoc add.commute)
  next
    case False
    then have "rows \<noteq> []" by auto
    then have ne: "socket_rows ?w rows \<noteq> []" using w by (simp add: socket_rows_def chunks_nonempty)
    then have cne: "dl_contents cpus \<noteq> []" using Cons.prems(5) by simp
    have "row_bounded (1 + length rows * b) (last (socket_rows ?w rows))"
      by (rule socket_rows_bounded [OF Cons.prems(2) last_in_set [OF ne]])
    from met [OF this] show ?thesis
      using False fold_iff Cons.prems(5) w ne dl_last_contents [OF Cons.prems(4) cne]
        dl_set_last_contents [OF Cons.prems(4) cne]
      by (auto simp: line Let_def cpu_k_line_prefix socket_rows_snoc last_map map_butlast add.commute)
  qed
  then obtain cpus1 where c: "cpu_list_loop core_rollup s (int (length rows)) (?line # map (\<lambda>kr. cpu_k_line kr @ [CHR 0x0A]) krs @ tail) cpus
      = cpu_list_loop core_rollup s (int (length (rows @ [?r]))) (map (\<lambda>kr. cpu_k_line kr @ [CHR 0x0A]) krs @ tail) cpus1"
    "dl_wf cpus1" "dl_contents cpus1 = map (row_cpu m) (socket_rows ?w (rows @ [?r]))" by blast
  have "\<forall>r \<in> set (rows @ [?r]). row_bounded b r" using Cons.prems(1,2) by auto
  from Cons.IH [OF _ this _ c(2,3)] Cons.prems(1,3) show ?case unfolding list.map append.simps c(1)
    by simp
qed

text \<open>C16: on a \<open>/proc/stat\<close> as the kernel prints it (a line of totals, the lines of the
  processors, other lines), \<open>sysm_cpu_list_get\<close> returns the times of every processor in
  milliseconds, in the order of the file; when it folds logical processors it returns instead
  the sums of as many consecutive processors as a socket has. No numbers are lost to the
  arithmetic in \<open>double\<close> as long as the sums stay below \<open>2^53\<close>.\<close>

theorem cpu_list_get_exact:
  assumes stat: "fs PROC_STAT = Contents (text_file (totals # map cpu_k_line krs) @ tail)"
    and krs: "krs \<noteq> []" "\<forall>kr \<in> set krs. fst kr < 2 ^ 32 \<and> row_bounded b (snd kr)"
    and totals: "is_line BUFSIZ totals"
    and tail: "\<not> starts_with tail ''cpu''"
    and m: "tick_millis s m" "2 * (1 + length krs * b) * m \<le> 2 ^ 53"
  shows "\<exists>cpus. sysm_cpu_list_get cpuid fs s = Some (fst (sysm_cpu_core_rollup cpuid s), Inr cpus)
     \<and> dl_contents cpus = map (row_cpu m)
         (socket_rows (fold_width (snd (sysm_cpu_core_rollup cpuid s)) (fst (sysm_cpu_core_rollup cpuid s)))
            (map snd krs))"
proof -
  obtain s1 rollup where s1: "sysm_cpu_core_rollup cpuid s = (s1, rollup)" by (cases "sysm_cpu_core_rollup cpuid s")
  have ticks: "tick_millis s1 m" and roll: "rollup \<longrightarrow> 1 < lcpu s1"
    using m(1) s1 by (auto simp: tick_millis_def sysm_cpu_core_rollup_def sysm_cpu_core_count_def Let_def split: if_splits)
  have "b \<le> 2 * (1 + length krs * b) * m" using m(1) krs(1)
    by (cases krs; cases m) (auto simp: tick_millis_def)
  then have b: "b \<le> 2 ^ 53" using m(2) by (rule le_trans)
  have lines: "is_line BUFSIZ (cpu_k_line kr)" if "kr \<in> set krs" for kr
  proof -
    have "fst kr < 10 ^ 10" "row_bounded (2 ^ 53) (snd kr)"
      using krs(2) that b by (auto simp: row_bounded_def intro: less_le_trans)
    then show ?thesis unfolding cpu_k_line_def
      using length_dec_digits [of "fst kr" 10] dec_digits_plain(2) [of "fst kr"]
      by (intro cpu_line_is_line) (simp_all add: NUL_def)
  qed
  let ?tl = "fgets_lines BUFSIZ tail"
  have fl: "fgets_lines BUFSIZ (text_file (totals # map cpu_k_line krs) @ tail)
      = (totals @ [CHR 0x0A]) # map (\<lambda>kr. cpu_k_line kr @ [CHR 0x0A]) krs @ ?tl"
    using lines totals by (subst fgets_lines_text_file_append) auto
  have "?tl = [] \<or> \<not> strncmp_eq (cstr (hd ?tl)) ''cpu'' 3"
    using tail first_line_prefix [of BUFSIZ tail _ _ 3 "''cpu''"]
    by (cases ?tl) (auto simp: strncmp_eq_def BUFSIZ_def)
  from cpu_list_loop_rows [OF ticks m(2) roll this, of krs "[]" sysm_cpu_list_create]
  obtain cpus where c: "cpu_list_loop rollup s1 0 (map (\<lambda>kr. cpu_k_line kr @ [CHR 0x0A]) krs @ ?tl) sysm_cpu_list_create = Some cpus"
    "dl_wf cpus" "dl_contents cpus = map (row_cpu m) (socket_rows (fold_width rollup s1) (map snd krs))"
    using lines krs(2) cpu_list.create_wf cpu_list.create_number
    by (auto simp: dl_contents_def socket_rows_def)
  have "0 < fold_width rollup s1" using roll by (cases rollup) (simp_all add: fold_width_def)
  then have "dl_contents cpus \<noteq> []" using c(3) krs(1) by (simp add: socket_rows_def chunks_nonempty)
  then have "dl_number cpus \<noteq> 0" by (auto simp: dl_contents_def)
  with c s1 fl stat show ?thesis by (simp add: sysm_cpu_list_get_def)
qed

definition sample_row :: "nat \<Rightarrow> cpu_row" where
  "sample_row n = zero_row\<lparr>r_user := n, r_idle := 7 * n\<rparr>"

definition two_cpus :: files where
  "two_cpus f = (if f = PROC_STAT
     then Contents (text_file (cpu_line ''cpu '' (sample_row 9) [] # map cpu_k_line [(0, sample_row 4), (1, sample_row 5)])
            @ ''intr 0'')
     else Open_Fails ENOENT)"

theorem cpu_list_get_exact_witness:
  "\<exists>cpus. sysm_cpu_list_get (\<lambda>_. \<lparr>eax = 0, ebx = 0, ecx = 0, edx = 0\<rparr>) two_cpus
       (zero_sysm\<lparr>lcpu := 1, ticks := 100\<rparr>) = Some (zero_sysm\<lparr>lcpu := 1, ticks := 100\<rparr>, Inr cpus)
     \<and> dl_contents cpus = [row_cpu 10 (sample_row 4), row_cpu 10 (sample_row 5)]"
proof -
  let ?s = "zero_sysm\<lparr>lcpu := 1, ticks := 100\<rparr>" and ?id = "\<lambda>_. \<lparr>eax = 0, ebx = 0, ecx = 0, edx = 0\<rparr>"
  have r: "sysm_cpu_core_rollup ?id ?s = (?s, False)"
    by (simp add: sysm_cpu_core_rollup_def sysm_cpu_core_count_def)
  have "fold_width False ?s = 1" by (simp add: fold_width_def)
  then have w: "socket_rows (fold_width False ?s) [sample_row 4, sample_row 5] = [sample_row 4, sample_row 5]"
    by (simp add: socket_rows_def chunks.simps)
  have row: "row_bounded 100 (sample_row n)" if "n \<le> 9" for n
    using that by (simp add: row_bounded_def row_values_def sample_row_def zero_row_def)
  have line: "is_line BUFSIZ (cpu_line ''cpu '' (sample_row 9) [])"
    using row [of 9] by (intro cpu_line_is_line) (auto simp: NUL_def row_bounded_def)
  have "\<exists>cpus. sysm_cpu_list_get ?id two_cpus ?s = Some (fst (sysm_cpu_core_rollup ?id ?s), Inr cpus)
     \<and> dl_contents cpus = map (row_cpu 10)
         (socket_rows (fold_width (snd (sysm_cpu_core_rollup ?id ?s)) (fst (sysm_cpu_core_rollup ?id ?s)))
            (map snd [(0 :: nat, sample_row 4), (1, sample_row 5)]))"
    by (rule cpu_list_get_exact [where krs = "[(0, sample_row 4), (1, sample_row 5)]" and b = 100
          and tail = "''intr 0''" and totals = "cpu_line ''cpu '' (sample_row 9) []"])
       (use row line in \<open>simp_all add: two_cpus_def tick_millis_def starts_with_def\<close>)
  then show ?thesis by (simp add: r w)
qed

section \<open>Processor blocks\<close>

text \<open>
  The names of vendors and models that the parser is to store: the two vendors with a short name,
  and the short name of the first known family that starts the model, if there is one.
\<close>

definition short_vendor :: "cstring \<Rightarrow> cstring" where
  "short_vendor v = (if v = ''GenuineIntel'' then ''Intel'' else if v = ''AuthenticAMD'' then ''AMD'' else v)"

definition short_model :: "cstring \<Rightarrow> cstring" where
  "short_model core = (case find (\<lambda>(name, rname). prefix name core) cpu_models of
     Some (name, rname) \<Rightarrow> rname | None \<Rightarrow> core)"

text \<open>
  A model as the kernel prints it: the core of the name, with the short name of the vendor in
  front or without it. A vendor's name may be marked as registered, and spaces and a dash may
  follow it; spaces may end the line.
\<close>

record model_name =
  mn_brand :: "(bool \<times> nat) option"
  mn_dash :: bool
  mn_core :: cstring
  mn_trail :: nat

definition dashed_core :: "model_name \<Rightarrow> cstring" where
  "dashed_core nm = (if mn_dash nm then ''-'' else []) @ mn_core nm"

definition brand_text :: "cstring \<Rightarrow> model_name \<Rightarrow> cstring" where
  "brand_text short nm = (case mn_brand nm of None \<Rightarrow> []
     | Some (registered, n) \<Rightarrow> short @ (if registered then ''(R)'' else []) @ replicate n (CHR '' ''))"

definition model_text :: "cstring \<Rightarrow> model_name \<Rightarrow> cstring" where
  "model_text short nm = (brand_text short nm @ dashed_core nm) @ replicate (mn_trail nm) (CHR '' '')"

definition name_ok :: "cstring \<Rightarrow> model_name \<Rightarrow> bool" where
  "name_ok short nm \<longleftrightarrow>
     mn_core nm \<noteq> [] \<and> \<not> isspace (hd (mn_core nm)) \<and> hd (mn_core nm) \<noteq> CHR ''-'' \<and>
     \<not> prefix ''(R)'' (mn_core nm) \<and> last (mn_core nm) \<noteq> CHR '' '' \<and> NUL \<notin> set (mn_core nm) \<and>
     (mn_brand nm = None \<longrightarrow> \<not> prefix short (dashed_core nm)) \<and> length (model_text short nm) < 127"

lemma strncmp_eq_prefix: "n = length b \<Longrightarrow> strncmp_eq a b n = prefix b a"
  by (auto simp: strncmp_eq_def prefix_def) (metis append_take_drop_id)

lemma model_lookup_find:
  "model_lookup ptr ms = map_option snd (find (\<lambda>(name, rname). prefix name ptr) ms)"
  by (induction ms) (auto simp: strncmp_eq_prefix)

lemma starts_with_prefix: "starts_with s p = prefix p s"
  using strncmp_eq_prefix [of "length p" p s] by (simp add: starts_with_def strncmp_eq_def)

lemma dropWhile_spaces [simp]:
  "dropWhile (\<lambda>c. c = CHR '' '') (replicate n (CHR '' '') @ x) = dropWhile (\<lambda>c. c = CHR '' '') x"
  by (induction n) auto

lemma trim_end_replicate:
  "x \<noteq> [] \<Longrightarrow> last x \<noteq> CHR '' '' \<Longrightarrow> trim_end (x @ replicate n (CHR '' '')) = Some x"
  by (cases x rule: rev_cases) (auto simp: trim_end_def)

lemma dropWhile_hd: "x \<noteq> [] \<Longrightarrow> \<not> P (hd x) \<Longrightarrow> dropWhile P x = x"
  by (cases x) auto

lemma not_space_char: "\<not> isspace c \<Longrightarrow> c \<noteq> CHR '' '' \<and> c \<noteq> CHR 0x0A"
  by (auto simp: isspace_def char_code_def)

lemma skip_vendor_brand:
  assumes "name_ok short nm"
  shows "skip_vendor short (brand_text short nm @ dashed_core nm) = dashed_core nm"
proof (cases "mn_brand nm")
  case None
  then show ?thesis using assms
    by (simp add: skip_vendor_def brand_text_def name_ok_def strncmp_eq_prefix)
next
  case (Some b)
  obtain registered n where b: "b = (registered, n)" by force
  obtain c cs where c: "mn_core nm = c # cs" using assms by (cases "mn_core nm") (auto simp: name_ok_def)
  then have d: "dropWhile (\<lambda>c. c = CHR '' '') (dashed_core nm) = dashed_core nm"
    using assms not_space_char [of c] by (auto simp: name_ok_def dashed_core_def)
  have r: "starts_with (replicate n (CHR '' '') @ dashed_core nm) ''(R)'' = False"
    using assms by (cases n) (auto simp: starts_with_prefix dashed_core_def name_ok_def)
  show ?thesis
    using d r by (simp add: skip_vendor_def brand_text_def Some b strncmp_eq_prefix) (simp add: starts_with_def)
qed

lemma model_adjust_text:
  assumes "name_ok (ci_vendor info) nm" "ci_model info = model_text (ci_vendor info) nm"
    and "ci_vendor info \<noteq> []" "\<not> isspace (hd (ci_vendor info))"
  shows "sysm_cpu_model_adjust info = Some (info\<lparr>ci_model := short_model (mn_core nm)\<rparr>)"
proof -
  let ?t = "brand_text (ci_vendor info) nm @ dashed_core nm"
  have c: "mn_core nm \<noteq> []" "\<not> isspace (hd (mn_core nm))" "hd (mn_core nm) \<noteq> CHR ''-''" "last (mn_core nm) \<noteq> CHR '' ''"
    using assms(1) by (simp_all add: name_ok_def)
  have "trim_end (ci_model info) = Some ?t"
    unfolding assms(2) model_text_def using c by (intro trim_end_replicate) (auto simp: dashed_core_def)
  moreover have "dropWhile (\<lambda>c. c = CHR '' '') ?t = ?t"
    using c assms(3,4) not_space_char
    by (intro dropWhile_hd) (auto simp: brand_text_def dashed_core_def hd_append split: option.split)
  moreover have "(if deref (dashed_core nm) = CHR ''-'' then tl (dashed_core nm) else dashed_core nm) = mn_core nm"
    using c by (cases "mn_core nm") (auto simp: dashed_core_def deref_def)
  ultimately show ?thesis
    by (auto simp: sysm_cpu_model_adjust_def skip_vendor_brand [OF assms(1)] model_lookup_find short_model_def
        split: option.split)
qed

definition NL :: char where "NL = CHR 0x0A"

text \<open>
  A block of the file: the lines in the order of the kernel, any other lines between them. The labels
  differ between the architectures (\<open>vendor_id\<close> and \<open>model name\<close>, or \<open>vendor\<close> and \<open>family\<close>); the clock,
  with the digits of its fraction, and the cache may be missing.
\<close>

record cpu_block =
  cb_number :: nat
  cb_vendor_label :: cstring
  cb_vendor :: cstring
  cb_model_label :: cstring
  cb_name :: model_name
  cb_mhz :: "(nat \<times> cstring) option"
  cb_cache :: "nat option"
  cb_gap :: "nat \<Rightarrow> char list list"

definition info_line :: "cstring \<Rightarrow> cstring \<Rightarrow> char list" where
  "info_line label v = label @ '': '' @ v @ [NL]"

definition processor_line :: "nat \<Rightarrow> char list" where
  "processor_line k = info_line (''processor'' @ [CHR 0x09]) (dec_digits k)"

definition mhz_lines :: "(nat \<times> cstring) option \<Rightarrow> char list list" where
  "mhz_lines r = (case r of None \<Rightarrow> []
     | Some (mhz, fraction) \<Rightarrow> [info_line (''cpu MHz'' @ [CHR 0x09, CHR 0x09]) (dec_digits mhz @ ''.'' @ fraction)])"

definition cache_lines :: "nat option \<Rightarrow> char list list" where
  "cache_lines r = (case r of None \<Rightarrow> []
     | Some kb \<Rightarrow> [info_line (''cache size'' @ [CHR 0x09]) (dec_digits kb @ '' KB'')])"

definition block_lines :: "cpu_block \<Rightarrow> char list list" where
  "block_lines b =
     cb_gap b 0 @ [processor_line (cb_number b)] @
     cb_gap b 1 @ [info_line (cb_vendor_label b) (cb_vendor b)] @
     cb_gap b 2 @ [info_line (cb_model_label b) (model_text (short_vendor (cb_vendor b)) (cb_name b))] @
     cb_gap b 3 @ mhz_lines (cb_mhz b) @ cb_gap b 4 @ cache_lines (cb_cache b) @ cb_gap b 5"

text \<open>The lines the parser is not to use: those with none of its six keys, which are not blank.\<close>

definition ignored_line :: "char list \<Rightarrow> bool" where
  "ignored_line l \<longleftrightarrow> list_all (\<lambda>key. \<not> prefix key (cstr l))
     [[NL], ''processor'', ''vendor'', ''family'', ''model name'', ''cpu MHz'', ''cache size'']"

definition label_ok :: "cstring list \<Rightarrow> cstring \<Rightarrow> bool" where
  "label_ok keys label \<longleftrightarrow> list_ex (\<lambda>key. prefix key label) keys \<and> CHR '':'' \<notin> set label \<and> NUL \<notin> set label"

definition block_ok :: "cpu_block \<Rightarrow> bool" where
  "block_ok b \<longleftrightarrow>
     label_ok [''vendor''] (cb_vendor_label b) \<and> label_ok [''model name'', ''family''] (cb_model_label b) \<and>
     cb_vendor b \<noteq> [] \<and> \<not> isspace (hd (cb_vendor b)) \<and> NUL \<notin> set (cb_vendor b) \<and> length (cb_vendor b) < 127 \<and>
     name_ok (short_vendor (cb_vendor b)) (cb_name b) \<and>
     (case cb_mhz b of None \<Rightarrow> True | Some (mhz, fraction) \<Rightarrow> mhz < 2 ^ 31 \<and> list_all isdigit fraction) \<and>
     (case cb_cache b of None \<Rightarrow> True | Some kb \<Rightarrow> kb < 2 ^ 63) \<and>
     list_all (\<lambda>i. list_all ignored_line (cb_gap b i)) [0..<6]"

lemma strval_label:
  "CHR '':'' \<notin> set label \<Longrightarrow> cpu_info_strval (label @ CHR '':'' # v) = Some (dropWhile isspace v)"
proof -
  assume "CHR '':'' \<notin> set label"
  then have "dropWhile (\<lambda>x. x \<noteq> CHR '':'') (label @ CHR '':'' # v) = CHR '':'' # v"
    by (intro dropWhile_append_stop) auto
  then show ?thesis by (simp add: cpu_info_strval_def strchr_def)
qed

lemma char_classes [simp]:
  "isspace CHR '' ''" "isspace CHR 0x09" "\<not> isspace CHR ''-''" "\<not> isspace CHR '':''"
  "\<not> isdigit CHR ''.''" "\<not> isdigit CHR '' ''"
  by (simp_all add: isspace_def isdigit_def char_code_def)

lemma dropWhile_isspace_dec_digits [simp]: "dropWhile isspace (dec_digits n @ x) = dec_digits n @ x"
  using dec_digits_isdigit [of n] by (cases "dec_digits n") (auto simp: isdigit_not_isspace)

lemma strval_info_line:
  assumes "CHR '':'' \<notin> set label" "v \<noteq> []" "\<not> isspace (hd v)"
  shows "cpu_info_strval (info_line label v) = Some (v @ [NL])"
  using strval_label [OF assms(1), of "CHR '' '' # v @ [NL]"] dropWhile_hd [of "v @ [NL]" isspace] assms(2,3)
  by (simp add: info_line_def)

lemma strcpy_info_line:
  assumes "CHR '':'' \<notin> set label" "v \<noteq> []" "\<not> isspace (hd v)" "length v < 127"
  shows "cpu_info_strcpy (info_line label v) 128 = Some (Some v)"
  using strval_info_line [OF assms(1-3)] assms(4) by (simp add: cpu_info_strcpy_def)

lemma set_vendor_info_line:
  assumes "CHR '':'' \<notin> set label" "v \<noteq> []" "\<not> isspace (hd v)" "length v < 127"
  shows "set_vendor (info_line label v) i = Some (i\<lparr>ci_vendor := short_vendor v, ci_model := []\<rparr>)"
  using strcpy_info_line [OF assms] by (simp add: set_vendor_def short_vendor_def)

text \<open>What a line stores, by the key it starts with.\<close>

lemma cpu_info_line_key:
  "cpu_info_line p i =
     (if prefix ''vendor'' p then set_vendor p i
      else if prefix ''family'' p \<or> prefix ''model name'' p then set_model p i
      else if prefix ''cpu MHz'' p
      then map_option (\<lambda>q. i\<lparr>ci_mhz := word_of_int (fst (strtol 10 q))\<rparr>) (cpu_info_strval p)
      else if prefix ''cache size'' p
      then map_option (\<lambda>q. i\<lparr>ci_cache_size := word_of_int (fst (strtol 10 q))\<rparr>) (cpu_info_strval p)
      else Some i)"
  by (cases p) (simp_all add: cpu_info_line_def deref_def strncmp_eq_prefix NUL_def)

lemma cpu_info_loop_key:
  assumes "NUL \<notin> set p" "\<not> prefix [NL] p" "cpu_info_line p i = Some i'"
  shows "cpu_info_loop i found (p # lines) = cpu_info_loop i' (found \<or> prefix ''processor'' p) lines"
  using assms(2,3) cstr_id [OF assms(1)]
  by (cases p; cases "hd p = CHR ''p''") (auto simp: deref_def strncmp_eq_prefix NL_def NUL_def Let_def)

lemma cpu_info_loop_ignored:
  "list_all ignored_line ls \<Longrightarrow> cpu_info_loop i found (ls @ lines) = cpu_info_loop i found lines"
proof (induction ls)
  case (Cons l ls)
  then have "cpu_info_line (cstr l) i = Some i" "deref (cstr l) \<noteq> CHR 0x0A" "\<not> prefix ''processor'' (cstr l)"
    by (cases "cstr l"; auto simp: ignored_line_def cpu_info_line_key NL_def deref_def NUL_def)+
  with Cons show ?case by (simp add: Let_def strncmp_eq_prefix)
qed simp

lemma info_line_chars:
  "NUL \<notin> set label \<Longrightarrow> NUL \<notin> set v \<Longrightarrow> NUL \<notin> set (info_line label v)"
  by (auto simp: info_line_def NUL_def NL_def)

lemma loop_processor:
  "cpu_info_loop i found (processor_line k # lines) = cpu_info_loop i True lines"
  using dec_digits_plain(2) [of k]
  by (subst cpu_info_loop_key [where i' = i])
     (auto simp: processor_line_def info_line_def NL_def NUL_def cpu_info_line_key)

lemma loop_vendor:
  assumes "label_ok [''vendor''] label" "v \<noteq> []" "\<not> isspace (hd v)" "length v < 127" "NUL \<notin> set v"
  shows "cpu_info_loop i found (info_line label v # lines)
    = cpu_info_loop (i\<lparr>ci_vendor := short_vendor v, ci_model := []\<rparr>) found lines"
proof -
  obtain r where r: "label = ''vendor'' @ r" using assms(1) by (auto simp: label_ok_def prefix_def)
  have "CHR '':'' \<notin> set label" "NUL \<notin> set label" using assms(1) by (simp_all add: label_ok_def)
  then have "cpu_info_line (info_line label v) i = Some (i\<lparr>ci_vendor := short_vendor v, ci_model := []\<rparr>)"
    "NUL \<notin> set (info_line label v)"
    using set_vendor_info_line [OF _ assms(2-4)] info_line_chars assms(5)
    by (simp_all add: cpu_info_line_key) (simp_all add: r info_line_def)
  then show ?thesis by (subst cpu_info_loop_key) (auto simp: r info_line_def NL_def)
qed

text \<open>The NUL that ends the array of the model clears the low byte of the clock behind it.\<close>

lemma loop_model:
  assumes "label_ok [''model name'', ''family''] label" "name_ok (ci_vendor i) nm"
    and "ci_vendor i \<noteq> []" "\<not> isspace (hd (ci_vendor i))" "NUL \<notin> set (ci_vendor i)"
  shows "cpu_info_loop i found (info_line label (model_text (ci_vendor i) nm) # lines)
    = cpu_info_loop (i\<lparr>ci_model := short_model (mn_core nm), ci_mhz := ci_mhz i AND NOT 0xFF\<rparr>) found lines"
proof -
  let ?t = "model_text (ci_vendor i) nm" and ?m = "ci_mhz i AND NOT 0xFF"
  obtain r where r: "label = ''model name'' @ r \<or> label = ''family'' @ r"
    using assms(1) by (auto simp: label_ok_def prefix_def)
  have l: "CHR '':'' \<notin> set label" "NUL \<notin> set label" using assms(1) by (simp_all add: label_ok_def)
  have t: "?t \<noteq> []" "\<not> isspace (hd ?t)" "length ?t < 127" "NUL \<notin> set ?t"
    using assms(2-5) by (auto simp: name_ok_def model_text_def brand_text_def dashed_core_def hd_append NUL_def
        split: option.splits)
  have "set_model (info_line label ?t) i = Some (i\<lparr>ci_model := short_model (mn_core nm), ci_mhz := ?m\<rparr>)"
    using model_adjust_text [of "i\<lparr>ci_model := ?t, ci_mhz := ?m\<rparr>" nm] assms(2-4)
    by (simp add: set_model_def strcpy_info_line [OF l(1) t(1-3)])
  then have "cpu_info_line (info_line label ?t) i = Some (i\<lparr>ci_model := short_model (mn_core nm), ci_mhz := ?m\<rparr>)"
    using r by (auto simp: cpu_info_line_key info_line_def)
  with info_line_chars [OF l(2) t(4)] show ?thesis
    using r by (subst cpu_info_loop_key) (auto simp: info_line_def NL_def)
qed

lemma loop_mhz:
  assumes "case r of None \<Rightarrow> True | Some (mhz, fraction) \<Rightarrow> mhz < 2 ^ 31 \<and> list_all isdigit fraction"
  shows "cpu_info_loop i found (mhz_lines r @ lines)
    = cpu_info_loop (case r of None \<Rightarrow> i | Some (mhz, fraction) \<Rightarrow> i\<lparr>ci_mhz := word_of_nat mhz\<rparr>) found lines"
proof (cases r)
  case (Some p)
  obtain mhz fraction where p: "p = (mhz, fraction)" by force
  let ?l = "''cpu MHz'' @ [CHR 0x09, CHR 0x09]" and ?v = "dec_digits mhz @ ''.'' @ fraction"
  have f: "mhz < 2 ^ 31" "NUL \<notin> set fraction" using assms
    by (auto simp: Some p list_all_iff NUL_def isdigit_def char_code_def)
  have "strtol 10 (?v @ [NL]) = (int mhz, ''.'' @ fraction @ [NL])"
    using strtol_dec_digits [of "[]" "''.'' @ fraction @ [NL]" mhz] f(1) by simp
  moreover have "cpu_info_strval (info_line ?l ?v) = Some (?v @ [NL])"
    using dec_digits_isdigit [of mhz]
    by (intro strval_info_line) (cases "dec_digits mhz"; auto simp: isdigit_not_isspace)+
  ultimately have "cpu_info_line (info_line ?l ?v) i = Some (i\<lparr>ci_mhz := word_of_nat mhz\<rparr>)"
    by (simp add: cpu_info_line_key info_line_def)
  moreover have "NUL \<notin> set (info_line ?l ?v)"
    using dec_digits_plain(2) [of mhz] f(2) by (simp add: info_line_def NL_def NUL_def)
  ultimately show ?thesis
    by (simp only: Some p mhz_lines_def option.case prod.case append_Cons append_Nil)
       (subst cpu_info_loop_key, auto simp: info_line_def NL_def)
qed (simp add: mhz_lines_def)

lemma loop_cache:
  assumes "case r of None \<Rightarrow> True | Some kb \<Rightarrow> kb < 2 ^ 63"
  shows "cpu_info_loop i found (cache_lines r @ lines)
    = cpu_info_loop (case r of None \<Rightarrow> i | Some kb \<Rightarrow> i\<lparr>ci_cache_size := word_of_nat kb\<rparr>) found lines"
proof (cases r)
  case (Some kb)
  let ?l = "''cache size'' @ [CHR 0x09]" and ?v = "dec_digits kb @ '' KB''"
  have "strtol 10 (?v @ [NL]) = (int kb, '' KB'' @ [NL])"
    using strtol_dec_digits [of "[]" "'' KB'' @ [NL]" kb] assms by (simp add: Some)
  moreover have "cpu_info_strval (info_line ?l ?v) = Some (?v @ [NL])"
    using dec_digits_isdigit [of kb]
    by (intro strval_info_line) (cases "dec_digits kb"; auto simp: isdigit_not_isspace)+
  ultimately have "cpu_info_line (info_line ?l ?v) i = Some (i\<lparr>ci_cache_size := word_of_nat kb\<rparr>)"
    by (simp add: cpu_info_line_key info_line_def)
  moreover have "NUL \<notin> set (info_line ?l ?v)"
    using dec_digits_plain(2) [of kb] by (simp add: info_line_def NL_def NUL_def)
  ultimately show ?thesis
    by (simp only: Some cache_lines_def option.case append_Cons append_Nil)
       (subst cpu_info_loop_key, auto simp: info_line_def NL_def)
qed (simp add: cache_lines_def)

text \<open>C17: a block of \<open>/proc/cpuinfo\<close> of any vendor, with the lines in the order of the kernel and any
  other lines between them, is read into the structure it describes: the vendor, by its short name
  if it is Intel or AMD; the short name of the first known processor family that the model starts
  with, behind the vendor's name, or the model without the vendor's name if it is of no known family;
  the clock in MHz and the cache size in KB, which are 0 where the block has no line for them. The
  parser stops behind the blank line.\<close>

theorem get_cpu_info_block:
  assumes "block_ok b"
  shows "get_cpu_info info (block_lines b @ [NL] # rest)
    = Some (info\<lparr>ci_vendor := short_vendor (cb_vendor b), ci_model := short_model (mn_core (cb_name b)),
                 ci_mhz := (case cb_mhz b of None \<Rightarrow> 0 | Some (mhz, fraction) \<Rightarrow> word_of_nat mhz),
                 ci_cache_size := (case cb_cache b of None \<Rightarrow> 0 | Some kb \<Rightarrow> word_of_nat kb)\<rparr>, True, rest)"
proof -
  let ?v = "short_vendor (cb_vendor b)"
  have gap: "list_all ignored_line (cb_gap b 0)" "list_all ignored_line (cb_gap b 1)" "list_all ignored_line (cb_gap b 2)"
    "list_all ignored_line (cb_gap b 3)" "list_all ignored_line (cb_gap b 4)" "list_all ignored_line (cb_gap b 5)"
    using assms by (simp_all add: block_ok_def upt_rec numeral_nat)
  have v: "label_ok [''vendor''] (cb_vendor_label b)" "cb_vendor b \<noteq> []" "\<not> isspace (hd (cb_vendor b))"
    "length (cb_vendor b) < 127" "NUL \<notin> set (cb_vendor b)"
    and m: "label_ok [''model name'', ''family''] (cb_model_label b)" "name_ok ?v (cb_name b)"
    and n: "case cb_mhz b of None \<Rightarrow> True | Some (mhz, fraction) \<Rightarrow> mhz < 2 ^ 31 \<and> list_all isdigit fraction"
      "case cb_cache b of None \<Rightarrow> True | Some kb \<Rightarrow> kb < 2 ^ 63"
    using assms by (simp_all add: block_ok_def)
  have sv: "?v \<noteq> []" "\<not> isspace (hd ?v)" "NUL \<notin> set ?v"
    using v by (auto simp: short_vendor_def isspace_def char_code_def NUL_def)
  have blank: "cpu_info_loop i f ([NL] # rest) = Some (i, f, rest)" for i f
    by (simp add: deref_def NL_def cstr_def NUL_def)
  have model: "cpu_info_loop (i\<lparr>ci_vendor := ?v, ci_model := []\<rparr>) f
      (info_line (cb_model_label b) (model_text ?v (cb_name b)) # lines)
    = cpu_info_loop (i\<lparr>ci_vendor := ?v, ci_model := short_model (mn_core (cb_name b)),
        ci_mhz := ci_mhz i AND NOT 0xFF\<rparr>) f lines" for i f lines
    using loop_model [OF m(1), of "i\<lparr>ci_vendor := ?v, ci_model := []\<rparr>" "cb_name b"] m(2) sv
    by (simp del: cpu_info_loop.simps)
  note step = loop_processor loop_vendor [OF v] model loop_mhz [OF n(1)] loop_cache [OF n(2)] blank
  show ?thesis
    unfolding get_cpu_info_def block_lines_def append_assoc append_Cons append_Nil
    by (simp only: cpu_info_loop_ignored [OF gap(1)] cpu_info_loop_ignored [OF gap(2)] cpu_info_loop_ignored [OF gap(3)]
          cpu_info_loop_ignored [OF gap(4)] cpu_info_loop_ignored [OF gap(5)] cpu_info_loop_ignored [OF gap(6)] step)
       (simp split: option.split prod.split)
qed

definition blank_info :: sysm_cpu_info where
  "blank_info = \<lparr>ci_vendor = [], ci_model = [], ci_mhz = 0, ci_mhz_max = 0, ci_mhz_min = 0,
     ci_cache_size = 0, ci_total_sockets = 0, ci_total_cores = 0, ci_cores_per_socket = 0\<rparr>"

definition opteron_block :: cpu_block where
  "opteron_block =
     \<lparr>cb_number = 0, cb_vendor_label = ''vendor_id'' @ [CHR 0x09], cb_vendor = ''AuthenticAMD'',
      cb_model_label = ''model name'' @ [CHR 0x09],
      cb_name = \<lparr>mn_brand = Some (False, 1), mn_dash = False, mn_core = ''Opteron(tm) Processor 250'', mn_trail = 2\<rparr>,
      cb_mhz = Some (2405, ''457''), cb_cache = Some 1024,
      cb_gap = (\<lambda>i. if i = 2 then [info_line ''cpu family'' ''15'', info_line ''model'' ''37'']
                     else if i = 5 then [info_line ''fpu'' ''yes''] else [])\<rparr>"

definition itanium_block :: cpu_block where
  "itanium_block =
     \<lparr>cb_number = 1, cb_vendor_label = ''vendor     '', cb_vendor = ''GenuineIntel'',
      cb_model_label = ''family     '',
      cb_name = \<lparr>mn_brand = None, mn_dash = False, mn_core = ''Itanium 2'', mn_trail = 0\<rparr>,
      cb_mhz = Some (1300, ''000000''), cb_cache = None, cb_gap = (\<lambda>i. [])\<rparr>"

theorem get_cpu_info_block_witness:
  "get_cpu_info blank_info (block_lines opteron_block @ [NL] # [])
      = Some (blank_info\<lparr>ci_vendor := ''AMD'', ci_model := ''Opteron'', ci_mhz := word_of_nat 2405,
                ci_cache_size := word_of_nat 1024\<rparr>, True, [])
    \<and> get_cpu_info blank_info (block_lines itanium_block @ [NL] # [])
      = Some (blank_info\<lparr>ci_vendor := ''Intel'', ci_model := ''Itanium 2'', ci_mhz := word_of_nat 1300\<rparr>, True, [])"
proof -
  have l: "label_ok [''vendor''] (cb_vendor_label opteron_block)" "label_ok [''model name'', ''family''] (cb_model_label opteron_block)"
    "label_ok [''vendor''] (cb_vendor_label itanium_block)" "label_ok [''model name'', ''family''] (cb_model_label itanium_block)"
    by (simp_all add: label_ok_def opteron_block_def itanium_block_def NUL_def)
  have n: "name_ok ''AMD'' (cb_name opteron_block)" "name_ok ''Intel'' (cb_name itanium_block)"
    by (simp_all add: name_ok_def opteron_block_def itanium_block_def model_text_def brand_text_def dashed_core_def
        isspace_def char_code_def NUL_def numeral_nat)
  have g: "list_all (\<lambda>i. list_all ignored_line (cb_gap opteron_block i)) [0..<6]"
    "list_all (\<lambda>i. list_all ignored_line (cb_gap itanium_block i)) [0..<6]"
    by (simp_all add: opteron_block_def itanium_block_def ignored_line_def info_line_def cstr_def NUL_def NL_def upt_rec list_all_iff)
  have d: "list_all isdigit ''457''" "list_all isdigit ''000000''" "\<not> isspace CHR ''A''" "\<not> isspace CHR ''G''"
    by (simp_all add: isspace_def isdigit_def char_code_def)
  have ok: "block_ok opteron_block" "block_ok itanium_block"
    using l n g d by (simp_all add: block_ok_def opteron_block_def itanium_block_def short_vendor_def NUL_def)
  show ?thesis
    using get_cpu_info_block [OF ok(1), of blank_info "[]"] get_cpu_info_block [OF ok(2), of blank_info "[]"]
    by (simp add: opteron_block_def itanium_block_def short_vendor_def short_model_def cpu_models_def blank_info_def)
qed

end
