(* ===== verification/Memory.thy ===== *)
theory Memory
  imports Handle "HOL-Library.Sublist"
begin

text \<open>
  Memory, swap, load average and uptime: the readers of \<open>/proc/meminfo\<close>, \<open>/proc/mtrr\<close>,
  \<open>/proc/vmstat\<close>, \<open>/proc/loadavg\<close> and \<open>/proc/uptime\<close>.
\<close>

definition PROC_MEMINFO :: cstring where "PROC_MEMINFO = PROC_FS_ROOT @ ''meminfo''"
definition PROC_VMSTAT :: cstring where "PROC_VMSTAT = PROC_FS_ROOT @ ''vmstat''"
definition PROC_MTRR :: cstring where "PROC_MTRR = PROC_FS_ROOT @ ''mtrr''"
definition PROC_LOADAVG :: cstring where "PROC_LOADAVG = PROC_FS_ROOT @ ''loadavg''"
definition PROC_UPTIME :: cstring where "PROC_UPTIME = PROC_FS_ROOT @ ''uptime''"

section \<open>A value of meminfo\<close>

definition sysm_meminfo :: "cstring \<Rightarrow> cstring \<Rightarrow> nat \<Rightarrow> u64" where
  "sysm_meminfo buffer attr len =
     (case strstr buffer attr of
        None \<Rightarrow> 0
      | Some ptr \<Rightarrow>
          let (val, tok) = strtoull 0 (drop len ptr);
              tok = dropWhile (\<lambda>c. c = CHR '' '') tok
          in if deref tok = CHR ''k'' \<or> deref tok = CHR ''K'' then val * 1024
             else if deref tok = CHR ''M'' \<or> deref tok = CHR ''m'' then val * (1024 * 1024)
             else val)"

text \<open>\<open>MEMINFO_PARAM\<close>: the name with a colon and its length.\<close>

definition meminfo :: "cstring \<Rightarrow> cstring \<Rightarrow> u64" where
  "meminfo buffer a = sysm_meminfo buffer (a @ '':'') (length (a @ '':''))"

section \<open>Memory\<close>

record sysm_memory =
  me_total :: u64
  me_mtrr :: u64
  me_used :: u64
  me_free :: u64
  me_actual_used :: u64
  me_actual_free :: u64
  me_used_percent :: dbl
  me_free_percent :: dbl

text \<open>The sum of the sizes of the write-back ranges; \<open>None\<close> when the \<open>int\<close> overflows.\<close>

fun mtrr_loop :: "char list list \<Rightarrow> int \<Rightarrow> int option" where
  "mtrr_loop [] acc = Some acc"
| "mtrr_loop (line # lines) acc =
     (case strstr (cstr line) ''size='' of
        None \<Rightarrow> mtrr_loop lines acc
      | Some ptr \<Rightarrow>
          if strstr ptr ''write-back'' = None then mtrr_loop lines acc
          else let acc' = acc + atoi (dropWhile isspace (drop 5 ptr))
               in if - (2 ^ 31) \<le> acc' \<and> acc' < 2 ^ 31 then mtrr_loop lines acc' else None)"

text \<open>The handle keeps the sum: positive is a cached value, 0 is an earlier empty result.\<close>

definition get_mtrr :: "files \<Rightarrow> sysm \<Rightarrow> sysm_memory \<Rightarrow> (sysm \<times> sysm_memory \<times> int) option" where
  "get_mtrr fs s memory =
     (if mtrr s > 0 then Some (s, memory\<lparr>me_mtrr := word_of_int (mtrr s)\<rparr>, SYSM_OK)
      else if mtrr s = 0 then Some (s, memory, ENOENT)
      else case stream_of (fs PROC_MTRR) of
             Inl e \<Rightarrow> Some (s, memory, e)
           | Inr stream \<Rightarrow> do {
               m \<leftarrow> mtrr_loop (fgets_lines BUFSIZ stream) 0;
               Some (s\<lparr>mtrr := m\<rparr>, memory\<lparr>me_mtrr := word_of_int m\<rparr>, SYSM_OK) })"

definition percent_of :: "u64 \<Rightarrow> u64 \<Rightarrow> dbl" where
  "percent_of diff total_b = dbl_div (u64_to_dbl (diff * 100)) (u64_to_dbl total_b)"

definition memory_fill :: "cstring \<Rightarrow> sysm_memory \<Rightarrow> sysm_memory" where
  "memory_fill buffer memory =
     (let total_b = meminfo buffer ''MemTotal'';
          free = meminfo buffer ''MemFree'';
          used = total_b - free;
          kern = meminfo buffer ''Buffers'' + meminfo buffer ''Cached'';
          actual_free = free + kern;
          actual_used = used - kern;
          total_kb = total_b div 1024
      in memory\<lparr>me_total := total_b, me_free := free, me_used := used,
                me_actual_free := actual_free, me_actual_used := actual_used,
                me_used_percent := percent_of (total_kb - actual_free div 1024) total_kb,
                me_free_percent := percent_of (total_kb - actual_used div 1024) total_kb\<rparr>)"

definition sysm_memory_get ::
  "files \<Rightarrow> sysm \<Rightarrow> sysm_memory \<Rightarrow> (sysm \<times> sysm_memory \<times> int) option" where
  "sysm_memory_get fs s memory = do {
     r \<leftarrow> sysm_file2str fs PROC_MEMINFO BUFSIZ BUFSIZ;
     (case r of
        Inl status \<Rightarrow> Some (s, memory, status)
      | Inr buffer \<Rightarrow> get_mtrr fs s (memory_fill buffer memory)) }"

section \<open>Swap\<close>

record sysm_swap =
  sw_total :: u64
  sw_used :: u64
  sw_free :: u64
  sw_page_in :: u64
  sw_page_out :: u64

definition sysm_swap_get :: "files \<Rightarrow> sysm_swap \<Rightarrow> (sysm_swap \<times> int) option" where
  "sysm_swap_get fs swap = do {
     r \<leftarrow> sysm_file2str fs PROC_MEMINFO BUFSIZ BUFSIZ;
     (case r of
        Inl status \<Rightarrow> Some (swap, status)
      | Inr buffer \<Rightarrow>
          let total_b = meminfo buffer ''SwapTotal''; free = meminfo buffer ''SwapFree'';
              swap = swap\<lparr>sw_total := total_b, sw_free := free, sw_used := total_b - free,
                          sw_page_in := - 1, sw_page_out := - 1\<rparr>
          in do {
            r \<leftarrow> sysm_file2str fs PROC_VMSTAT BUFSIZ BUFSIZ;
            Some (case r of
                    Inl status \<Rightarrow> (swap, status)
                  | Inr buffer \<Rightarrow>
                      (case strstr buffer (CHR 0x0A # ''pswpin'') of
                         None \<Rightarrow> (swap, SYSM_OK)
                       | Some ptr \<Rightarrow>
                           let (page_in, ptr) = strtoull 10 (sysm_skip_token ptr);
                               (page_out, ptr) = strtoull 10 (sysm_skip_token ptr)
                           in (swap\<lparr>sw_page_in := page_in, sw_page_out := page_out\<rparr>, SYSM_OK))) }) }"

section \<open>Load average and uptime\<close>

text \<open>
  \<open>strtod\<close> on decimal numbers, with sign, fraction and exponent. Hexadecimal numbers,
  infinities and NaNs are not modelled: the files hold none.
\<close>

definition exponent_part :: "cstring \<Rightarrow> int \<times> cstring" where
  "exponent_part s =
     (if deref s = CHR ''e'' \<or> deref s = CHR ''E''
      then let t = tl s; neg = (deref t = CHR ''-'');
               u = (if neg \<or> deref t = CHR ''+'' then tl t else t);
               ds = takeWhile isdigit u
           in if ds = [] then (0, s)
              else (if neg then - int (digits_value 10 ds) else int (digits_value 10 ds), dropWhile isdigit u)
      else (0, s))"

definition strtod :: "cstring \<Rightarrow> dbl \<times> cstring" where
  "strtod s =
     (let (neg, t) = int_sign s;
          ip = takeWhile isdigit t; u = dropWhile isdigit t;
          fp = (if deref u = CHR ''.'' then takeWhile isdigit (tl u) else []);
          v = (if deref u = CHR ''.'' then dropWhile isdigit (tl u) else u)
      in if ip = [] \<and> fp = [] then (Fin 0, s)
         else let (e, w) = exponent_part v;
                  x = of_nat (digits_value 10 (ip @ fp)) * 10 powi (e - int (length fp))
              in (to_dbl (if neg then - x else x), w))"

definition sysm_loadavg_get :: "files \<Rightarrow> (int + dbl list) option" where
  "sysm_loadavg_get fs = do {
     r \<leftarrow> sysm_file2str fs PROC_LOADAVG BUFSIZ BUFSIZ;
     Some (case r of
             Inl status \<Rightarrow> Inl status
           | Inr buffer \<Rightarrow>
               let (l0, ptr) = strtod buffer; (l1, ptr) = strtod ptr; (l2, ptr) = strtod ptr
               in Inr [l0, l1, l2]) }"

definition sysm_uptime_get :: "files \<Rightarrow> (int + dbl) option" where
  "sysm_uptime_get fs = do {
     r \<leftarrow> sysm_file2str fs PROC_UPTIME BUFSIZ BUFSIZ;
     Some (case r of Inl status \<Rightarrow> Inl status | Inr buffer \<Rightarrow> Inr (fst (strtod buffer))) }"

section \<open>Properties of memory\<close>

text \<open>A line as the kernel prints it: the name, blanks, the number of kilobytes.\<close>

definition meminfo_line :: "cstring \<Rightarrow> nat \<Rightarrow> nat \<Rightarrow> cstring" where
  "meminfo_line name blanks n = name @ '':'' @ replicate blanks (CHR '' '') @ dec_digits n @ '' kB''"

definition meminfo_file :: "(cstring \<times> nat \<times> nat) list \<Rightarrow> char list" where
  "meminfo_file rows = text_file (map (\<lambda>(name, blanks, n). meminfo_line name blanks n) rows)"

lemma dec_digits_hd: "0 < n \<Longrightarrow> hd (dec_digits n) \<noteq> CHR ''0''"
proof (induction n rule: dec_digits.induct)
  case (1 n)
  show ?case
  proof (cases "n < 10")
    case True
    have "char_of (48 + n) \<noteq> CHR ''0''"
    proof
      assume "char_of (48 + n) = CHR ''0''"
      then have "char_code (char_of (48 + n)) = char_code (CHR ''0'')" by simp
      with True 1(2) show False by (simp add: char_code_def)
    qed
    with True show ?thesis by (simp add: dec_digits.simps [of n])
  next
    case False
    with 1 show ?thesis by (simp add: dec_digits.simps [of n])
  qed
qed

lemma strtoull_base_0:
  assumes "n < 2 ^ 64" "at_space rest"
  shows "strtoull 0 (replicate b (CHR '' '') @ dec_digits n @ rest) = (word_of_nat n, rest)"
proof -
  obtain d r where d: "dec_digits n = d # r" by (cases "dec_digits n") simp_all
  have ds: "\<forall>c \<in> set (dec_digits n). isdigit c" by (rule dec_digits_isdigit)
  have nd: "case rest of [] \<Rightarrow> True | c # _ \<Rightarrow> \<not> isdigit c" using assms(2) by (rule at_space_nodigit)
  have sign: "int_sign (replicate b (CHR '' '') @ dec_digits n @ rest) = (False, dec_digits n @ rest)"
    using int_sign_digits [of "replicate b (CHR '' '')" d "r @ rest"] ds d by simp
  have "int_prefix 0 (dec_digits n @ rest) = (if n = 0 then 8 else 10, dec_digits n @ rest)"
  proof (cases "n = 0")
    case True
    then have z: "dec_digits n = [CHR ''0'']" by (simp add: dec_digits.simps [of 0] char_of_def bit_0)
    have "rest ! 0 \<noteq> CHR ''x'' \<and> rest ! 0 \<noteq> CHR ''X''" if "rest \<noteq> []"
      using that assms(2) by (cases rest) (auto simp: at_space_def isspace_def char_code_def)
    then show ?thesis using True z by (cases rest) (auto simp: int_prefix_def deref_def)
  next
    case False
    then have "d \<noteq> CHR ''0''" using dec_digits_hd [of n] d by simp
    then show ?thesis using False d by (simp add: int_prefix_def deref_def)
  qed
  moreover have "takeWhile (is_digit_in 10) (dec_digits n @ rest) = dec_digits n"
    "dropWhile (is_digit_in 10) (dec_digits n @ rest) = rest"
    using ds nd by (auto intro!: takeWhile_append_stop dropWhile_append_stop split: list.splits)
  moreover have "takeWhile (is_digit_in 8) (dec_digits 0 @ rest) = dec_digits 0 \<and>
    dropWhile (is_digit_in 8) (dec_digits 0 @ rest) = rest \<and> digits_value 8 (dec_digits 0) = 0"
  proof -
    have "is_digit_in 8 (CHR ''0'')" by (simp add: is_digit_in_def digit_val_def isdigit_def char_code_def)
    moreover have "\<not> is_digit_in 8 c" if "isspace c" for c
      using that by (auto simp: is_digit_in_def digit_val_def isdigit_def isupper_def islower_def isspace_def)
    ultimately show ?thesis using assms(2)
      by (cases rest) (auto simp: dec_digits.simps [of 0] char_of_def bit_0 at_space_def digits_value_def
          digit_val_def isdigit_def char_code_def)
  qed
  ultimately show ?thesis using sign assms(1) by (auto simp: strtoull_def)
qed

text \<open>The first place where a name with its colon stands in a file of such lines.\<close>

lemma strstr_skip:
  "(\<And>a b. pre = a @ b \<Longrightarrow> b \<noteq> [] \<Longrightarrow> \<not> starts_with (b @ t) n) \<Longrightarrow> strstr (pre @ t) n = strstr t n"
proof (induction pre)
  case Nil
  then show ?case by simp
next
  case (Cons c pre)
  have "\<not> starts_with ((c # pre) @ t) n" using Cons.prems [of "[]" "c # pre"] by simp
  moreover have "strstr (pre @ t) n = strstr t n"
  proof (rule Cons.IH)
    fix a b assume "pre = a @ b" "b \<noteq> []"
    then show "\<not> starts_with (b @ t) n" using Cons.prems [of "c # a" b] by simp
  qed
  ultimately show ?case by simp
qed

lemma starts_with_colon:
  "starts_with u (name @ '':'') \<Longrightarrow> CHR '':'' \<notin> set name \<Longrightarrow> takeWhile (\<lambda>c. c \<noteq> CHR '':'') u = name"
proof -
  assume s: "starts_with u (name @ '':'')" and n: "CHR '':'' \<notin> set name"
  have "u = (name @ '':'') @ drop (length (name @ '':'')) u"
    using s unfolding starts_with_def by (metis append_take_drop_id)
  then obtain r where "u = name @ CHR '':'' # r" by simp
  with n show ?thesis by (auto intro: takeWhile_append_stop)
qed

definition label :: "cstring \<Rightarrow> bool" where
  "label name \<longleftrightarrow> CHR '':'' \<notin> set name \<and> CHR 0x0A \<notin> set name \<and> NUL \<notin> set name"

lemma meminfo_tail_plain:
  "CHR '':'' \<notin> set (replicate b (CHR '' '') @ dec_digits n @ '' kB'' @ [CHR 0x0A])"
  using dec_digits_isdigit [of n] by (auto simp: isdigit_def char_code_def)

lemma strstr_other_line:
  assumes "label name" "label nm" "\<not> suffix name nm"
  shows "strstr (meminfo_line nm b n @ [CHR 0x0A] @ t) (name @ '':'') = strstr t (name @ '':'')"
proof -
  let ?w = "replicate b (CHR '' '') @ dec_digits n @ '' kB'' @ [CHR 0x0A]"
  have "strstr ((nm @ CHR '':'' # ?w) @ t) (name @ '':'') = strstr t (name @ '':'')"
  proof (rule strstr_skip)
    fix p q assume pq: "nm @ CHR '':'' # ?w = p @ q" "q \<noteq> []"
    show "\<not> starts_with (q @ t) (name @ '':'')"
    proof
      assume "starts_with (q @ t) (name @ '':'')"
      then have tw: "takeWhile (\<lambda>c. c \<noteq> CHR '':'') (q @ t) = name"
        using assms(1) by (intro starts_with_colon) (auto simp: label_def)
      from pq(1) consider r where "nm = p @ r" "q = r @ CHR '':'' # ?w"
        | r where "p = nm @ CHR '':'' # r" "?w = r @ q"
        by (auto simp: append_eq_append_conv2 append_eq_Cons_conv Cons_eq_append_conv)
      then show False
      proof cases
        case 1
        have "CHR '':'' \<notin> set r" using 1(1) assms(2) by (auto simp: label_def)
        then have "takeWhile (\<lambda>c. c \<noteq> CHR '':'') (q @ t) = r"
          using 1(2) by (auto intro: takeWhile_append_stop)
        with tw 1(1) assms(3) show False by (simp add: suffix_def)
      next
        case 2
        then have nc: "CHR '':'' \<notin> set q" using meminfo_tail_plain [of b n] by (metis Un_iff set_append)
        have "last q = CHR 0x0A" using 2(2) pq(2) by (metis append.assoc append_is_Nil_conv last_appendR last_snoc not_Cons_self2)
        then have "CHR 0x0A \<in> set q" using pq(2) last_in_set by metis
        moreover have "takeWhile (\<lambda>c. c \<noteq> CHR '':'') (q @ t) = q @ takeWhile (\<lambda>c. c \<noteq> CHR '':'') t"
          using nc by (intro takeWhile_append2) auto
        ultimately show False using tw assms(1) by (auto simp: label_def)
      qed
    qed
  qed
  then show ?thesis by (simp add: meminfo_line_def)
qed

definition row_at :: "cstring \<Rightarrow> nat \<Rightarrow> (cstring \<times> nat \<times> nat) list \<Rightarrow> bool" where
  "row_at name n rows \<longleftrightarrow>
     (\<exists>pre b post. rows = pre @ (name, b, n) # post \<and> (\<forall>r \<in> set pre. \<not> suffix name (fst r)))"

lemma meminfo_row:
  assumes "\<forall>r \<in> set rows. label (fst r)" "row_at name n rows" "n < 2 ^ 64"
  shows "meminfo (meminfo_file rows) name = word_of_nat n * 1024"
proof -
  obtain pre b post where r: "rows = pre @ (name, b, n) # post" "\<forall>r \<in> set pre. \<not> suffix name (fst r)"
    using assms(2) by (auto simp: row_at_def)
  have lab: "label name" "\<forall>r \<in> set pre. label (fst r)" using assms(1) r(1) by auto
  have skip: "strstr (meminfo_file pre @ t) (name @ '':'') = strstr t (name @ '':'')" for t
    using r(2) lab(2)
  proof (induction pre)
    case Nil
    then show ?case by (simp add: meminfo_file_def text_file_def)
  next
    case (Cons q pre)
    obtain nm b' n' where q: "q = (nm, b', n')" by (cases q)
    then show ?case using Cons strstr_other_line [OF lab(1), of nm b' n' "meminfo_file pre @ t"]
      by (simp add: meminfo_file_def text_file_def)
  qed
  have "meminfo_file rows = meminfo_file pre @ meminfo_line name b n @ [CHR 0x0A] @ meminfo_file post"
    by (simp add: r(1) meminfo_file_def text_file_def)
  then have "strstr (meminfo_file rows) (name @ '':'')
      = Some (name @ '':'' @ replicate b (CHR '' '') @ dec_digits n @ '' kB'' @ [CHR 0x0A] @ meminfo_file post)"
    using skip starts_with_append [of "name @ '':''"]
    by (cases name) (simp_all add: meminfo_line_def)
  moreover have "strtoull 0 (replicate b (CHR '' '') @ dec_digits n @ '' kB'' @ [CHR 0x0A] @ meminfo_file post)
      = (word_of_nat n, '' kB'' @ [CHR 0x0A] @ meminfo_file post)"
    using assms(3) by (intro strtoull_base_0) (simp_all add: at_space_def)
  ultimately show ?thesis by (simp add: meminfo_def sysm_meminfo_def deref_def)
qed

lemma meminfo_file_plain: "\<forall>r \<in> set rows. label (fst r) \<Longrightarrow> NUL \<notin> set (meminfo_file rows)"
  by (induction rows) (auto simp: meminfo_file_def text_file_def meminfo_line_def label_def NUL_def
      dec_digits_plain(2) [unfolded NUL_def])

lemma percent_of_exact:
  assumes "d \<le> t" "t < 2 ^ 40" "0 < t"
  shows "percent_of (word_of_nat d) (word_of_nat t) = Fin (round_dbl (of_nat (d * 100) / of_nat t))"
    and "0 \<le> round_dbl (of_nat (d * 100) / of_nat t)" "round_dbl (of_nat (d * 100) / of_nat t) \<le> 100"
proof -
  have u: "u64_to_dbl (word_of_nat k) = Fin (of_nat k)" if "k < 2 ^ 53" for k
  proof -
    have k: "unat (word_of_nat k :: u64) = k" using that by simp
    show ?thesis using u64_to_dbl_exact [of "word_of_nat k"] that unfolding k by simp
  qed
  let ?q = "of_nat (d * 100) / of_nat t :: rat"
  have q: "0 \<le> ?q" "?q \<le> 100"
    using assms by (simp_all add: divide_le_eq)
  have "(100 :: rat) \<le> 2 ^ 10" by simp
  also have "(2 :: rat) ^ 10 \<le> 2 ^ 1000" by (intro power_increasing) simp_all
  finally have "?q \<le> 2 ^ 1000" using q(2) by (rule order_trans [rotated])
  with q(1) have "to_dbl ?q = Fin (round_dbl ?q)" by (rule to_dbl_Fin)
  moreover have "d * 100 < 2 ^ 53" "t < 2 ^ 53" using assms by auto
  moreover have "(word_of_nat d * 100 :: u64) = word_of_nat (d * 100)" by simp
  ultimately show "percent_of (word_of_nat d) (word_of_nat t) = Fin (round_dbl ?q)"
    using u [of "d * 100"] u [of t] assms(3) unfolding percent_of_def by simp
  show "0 \<le> round_dbl ?q" using q(1) by (rule round_dbl_nonneg)
  show "round_dbl ?q \<le> 100"
    using round_dbl_mono [OF q(2)] round_dbl_of_nat [of 100] by simp
qed

lemma kb_div: "n < 2 ^ 40 \<Longrightarrow> (word_of_nat n * 1024 :: u64) div 1024 = word_of_nat n"
proof -
  assume n: "n < 2 ^ 40"
  have "(word_of_nat n * 1024 :: u64) = word_of_nat (n * 1024)" by simp
  then have "unat ((word_of_nat n * 1024 :: u64) div 1024) = n"
    using n by (simp add: unat_div del: of_nat_mult)
  moreover have "unat (word_of_nat n :: u64) = n" using n by simp
  ultimately show ?thesis by (intro unsigned_word_eqI [where 'a = nat]) simp
qed

text \<open>C18: on a \<open>/proc/meminfo\<close> as the kernel prints it, \<open>sysm_memory_get\<close> computes the byte counts
  of its four lines, splits the total into used and free memory with and without the buffers
  and the page cache, and the two percentages are the exact quotients rounded once, between 0
  and 100.\<close>

theorem memory_get_exact:
  assumes f: "fs PROC_MEMINFO = Contents (meminfo_file rows)" "length (meminfo_file rows) < BUFSIZ"
    and rows: "\<forall>r \<in> set rows. label (fst r)"
    and at: "row_at ''MemTotal'' t rows" "row_at ''MemFree'' f rows" "row_at ''Buffers'' b rows"
      "row_at ''Cached'' c rows"
    and t: "f + b + c \<le> t" "0 < t" "t < 2 ^ 40"
  shows "\<exists>m. sysm_memory_get fs s memory = get_mtrr fs s m
     \<and> me_total m = 1024 * word_of_nat t \<and> me_free m = 1024 * word_of_nat f
     \<and> me_used m = 1024 * word_of_nat (t - f)
     \<and> me_actual_free m = 1024 * word_of_nat (f + b + c)
     \<and> me_actual_used m = 1024 * word_of_nat (t - (f + b + c))
     \<and> me_used_percent m = Fin (round_dbl (of_nat ((t - (f + b + c)) * 100) / of_nat t))
     \<and> me_free_percent m = Fin (round_dbl (of_nat ((f + b + c) * 100) / of_nat t))"
proof -
  have v: "meminfo (meminfo_file rows) ''MemTotal'' = word_of_nat t * 1024"
    "meminfo (meminfo_file rows) ''MemFree'' = word_of_nat f * 1024"
    "meminfo (meminfo_file rows) ''Buffers'' = word_of_nat b * 1024"
    "meminfo (meminfo_file rows) ''Cached'' = word_of_nat c * 1024"
    using at t by (auto intro!: meminfo_row [OF rows])
  define k where "k = f + b + c"
  have k: "k \<le> t" "k < 2 ^ 40" "t - k < 2 ^ 40" using t by (auto simp: k_def)
  have dk: "word_of_nat t - word_of_nat f = (word_of_nat (t - f) :: u64)"
    "word_of_nat t - word_of_nat k = (word_of_nat (t - k) :: u64)"
    "word_of_nat t - word_of_nat (t - k) = (word_of_nat k :: u64)"
    using t(1) k(1) by (simp_all add: of_nat_diff k_def)
  have af: "word_of_nat f * 1024 + (word_of_nat b * 1024 + word_of_nat c * 1024) = (word_of_nat k * 1024 :: u64)"
    by (simp add: k_def distrib_right add.assoc)
  have us: "word_of_nat t * 1024 - word_of_nat f * 1024 = (word_of_nat (t - f) * 1024 :: u64)"
    unfolding dk(1) [symmetric] by (simp add: left_diff_distrib)
  have au: "word_of_nat (t - f) * 1024 - (word_of_nat b * 1024 + word_of_nat c * 1024)
      = (word_of_nat (t - k) * 1024 :: u64)"
    unfolding us [symmetric] dk(2) [symmetric] by (simp add: k_def algebra_simps)
  have fill: "memory_fill (meminfo_file rows) memory
      = memory\<lparr>me_total := word_of_nat t * 1024, me_free := word_of_nat f * 1024,
              me_used := word_of_nat (t - f) * 1024, me_actual_free := word_of_nat k * 1024,
              me_actual_used := word_of_nat (t - k) * 1024,
              me_used_percent := percent_of (word_of_nat (t - k)) (word_of_nat t),
              me_free_percent := percent_of (word_of_nat k) (word_of_nat t)\<rparr>"
    by (simp only: memory_fill_def Let_def v us au af
        kb_div [OF t(3)] kb_div [OF k(2)] kb_div [OF k(3)] dk)
  have get: "sysm_memory_get fs s memory = get_mtrr fs s (memory_fill (meminfo_file rows) memory)"
    using f meminfo_file_plain [OF rows] by (simp add: sysm_memory_get_def sysm_file2str_fits)
  note pc = percent_of_exact(1) [OF k(1) t(3,2)] percent_of_exact(1) [OF diff_le_self t(3,2), of k]
  show ?thesis
    by (rule exI [of _ "memory_fill (meminfo_file rows) memory"], rule conjI, rule get,
        simp only: fill pc, simp only: k_def, cases memory, simp only: sysm_memory.simps mult.commute)
qed

definition sample_meminfo :: "(cstring \<times> nat \<times> nat) list" where
  "sample_meminfo = [(''MemTotal'', 7, 2000), (''MemFree'', 8, 700), (''Buffers'', 8, 100),
     (''Cached'', 9, 200), (''SwapCached'', 5, 3)]"

definition blank_memory :: sysm_memory where
  "blank_memory = \<lparr>me_total = 0, me_mtrr = 0, me_used = 0, me_free = 0, me_actual_used = 0,
     me_actual_free = 0, me_used_percent = NaN, me_free_percent = NaN\<rparr>"

definition memory_files :: "fileres \<Rightarrow> files" where
  "memory_files m f = (if f = PROC_MEMINFO then Contents (meminfo_file sample_meminfo)
     else if f = PROC_MTRR then m else Open_Fails ENOENT)"

lemma sample_meminfo_length: "length (meminfo_file sample_meminfo) < BUFSIZ"
  by (simp add: meminfo_file_def text_file_def meminfo_line_def sample_meminfo_def BUFSIZ_def
      dec_digits.simps)

lemma sample_meminfo_labels: "\<forall>r \<in> set sample_meminfo. label (fst r)"
  by (simp add: sample_meminfo_def label_def NUL_def)

lemma sample_meminfo_rows:
  "row_at ''MemTotal'' 2000 sample_meminfo" "row_at ''MemFree'' 700 sample_meminfo"
  "row_at ''Buffers'' 100 sample_meminfo" "row_at ''Cached'' 200 sample_meminfo"
  unfolding row_at_def sample_meminfo_def
  by (rule exI [of _ "[]"], simp)
     (rule exI [of _ "take 1 sample_meminfo"], simp add: sample_meminfo_def suffix_def,
      rule exI [of _ "take 2 sample_meminfo"], simp add: sample_meminfo_def suffix_def,
      rule exI [of _ "take 3 sample_meminfo"], simp add: sample_meminfo_def suffix_def)

theorem memory_get_exact_witness:
  "\<exists>m. sysm_memory_get (memory_files (Contents [])) zero_sysm blank_memory
       = get_mtrr (memory_files (Contents [])) zero_sysm m
     \<and> me_total m = 1024 * word_of_nat 2000 \<and> me_free m = 1024 * word_of_nat 700
     \<and> me_used m = 1024 * word_of_nat (2000 - 700)
     \<and> me_actual_free m = 1024 * word_of_nat (700 + 100 + 200)
     \<and> me_actual_used m = 1024 * word_of_nat (2000 - (700 + 100 + 200))
     \<and> me_used_percent m = Fin (round_dbl (of_nat ((2000 - (700 + 100 + 200)) * 100) / of_nat 2000))
     \<and> me_free_percent m = Fin (round_dbl (of_nat ((700 + 100 + 200) * 100) / of_nat 2000))"
  by (rule memory_get_exact [OF _ sample_meminfo_length sample_meminfo_labels sample_meminfo_rows])
     (simp_all add: memory_files_def)

lemma mtrr_loop_quiet:
  "\<forall>l \<in> set ls. strstr (cstr l) ''write-back'' = None \<Longrightarrow> mtrr_loop ls acc = Some acc"
proof (induction ls)
  case Nil
  show ?case by (rule mtrr_loop.simps)
next
  case (Cons l ls)
  have ih: "mtrr_loop ls acc = Some acc" using Cons by (meson list.set_intros(2))
  have l: "strstr (cstr l) ''write-back'' = None" using Cons.prems by (meson list.set_intros(1))
  show ?case
  proof (cases "strstr (cstr l) ''size=''")
    case None
    then show ?thesis by (simp only: mtrr_loop.simps option.case ih)
  next
    case (Some p)
    from strstr_Some [OF this] obtain pre where "cstr l = pre @ p" by blast
    with l have "strstr p ''write-back'' = None" by (rule strstr_None_suffix)
    with Some show ?thesis by (simp only: mtrr_loop.simps option.case ih simp_thms if_True)
  qed
qed

lemma memory_get_mtrr:
  assumes "fs PROC_MEMINFO = Contents cs" "length cs < BUFSIZ"
  shows "sysm_memory_get fs s m = get_mtrr fs s (memory_fill (cstr cs) m)"
  using assms by (simp add: sysm_memory_get_def sysm_file2str_fits)

lemma proc_names_distinct: "PROC_MTRR \<noteq> PROC_MEMINFO"
  by (simp add: PROC_MTRR_def PROC_MEMINFO_def)

text \<open>On a machine whose \<open>/proc/mtrr\<close> lists no write-back range, the first call on a handle
  succeeds and the second one fails with ENOENT, although it fills in the memory.\<close>

theorem memory_second_call_fails:
  assumes "fs PROC_MEMINFO = Contents cs" "length cs < BUFSIZ"
    and "fs PROC_MTRR = Contents ms" "\<forall>l \<in> set (fgets_lines BUFSIZ ms). strstr (cstr l) ''write-back'' = None"
    and "mtrr s = - 1"
  shows "\<exists>s' m1 m2. sysm_memory_get fs s memory1 = Some (s', m1, SYSM_OK)
     \<and> sysm_memory_get fs s' memory2 = Some (s', m2, ENOENT)"
proof -
  have "mtrr_loop (fgets_lines BUFSIZ ms) 0 = Some 0" using assms(4) by (rule mtrr_loop_quiet)
  then show ?thesis using assms(3,5) by (simp add: memory_get_mtrr [of fs cs, OF assms(1,2)] get_mtrr_def)
qed

theorem memory_second_call_fails_witness:
  "\<exists>s' m1 m2. sysm_memory_get (memory_files (Contents [])) (zero_sysm\<lparr>mtrr := - 1\<rparr>) blank_memory
       = Some (s', m1, SYSM_OK)
     \<and> sysm_memory_get (memory_files (Contents [])) s' blank_memory = Some (s', m2, ENOENT)"
  by (rule memory_second_call_fails [OF _ sample_meminfo_length, where ms = "[]"])
     (simp_all add: memory_files_def proc_names_distinct)

text \<open>A machine without \<open>/proc/mtrr\<close> has no memory statistics: whatever \<open>/proc/meminfo\<close>
  says, the first call fails with the error of opening \<open>/proc/mtrr\<close>.\<close>

theorem memory_needs_mtrr:
  assumes "fs PROC_MEMINFO = Contents cs" "length cs < BUFSIZ" "fs PROC_MTRR = Open_Fails e" "mtrr s = - 1"
  shows "\<exists>m. sysm_memory_get fs s memory = Some (s, m, e)"
  using assms(3,4) by (simp add: memory_get_mtrr [of fs cs, OF assms(1,2)] get_mtrr_def)

theorem memory_needs_mtrr_witness:
  "\<exists>m. sysm_memory_get (memory_files (Open_Fails ENOENT)) (zero_sysm\<lparr>mtrr := - 1\<rparr>) blank_memory
     = Some (zero_sysm\<lparr>mtrr := - 1\<rparr>, m, ENOENT)"
  by (rule memory_needs_mtrr [OF _ sample_meminfo_length])
     (simp_all add: memory_files_def proc_names_distinct)

end
