(* ===== verification/Format.thy ===== *)
theory Format
  imports Handle
begin

text \<open>
  Error texts, user and group names (\<^verbatim>\<open>sysm_format.c\<close>) and the version. The user and group
  databases and \<open>strerror_r\<close> are arguments.
\<close>

section \<open>Errors\<close>

definition sysm_error_str :: "int \<Rightarrow> cstring" where
  "sysm_error_str err =
     (if err = SYSM_ENOTIMPL then ''This method has not been implemented yet''
      else ''Error string not specified yet'')"

text \<open>
  \<open>strerror_r\<close> gives its return value and the text it stored. The buffer is truncated to
  \<open>buflen - 1\<close> characters when the default text replaces it.
\<close>

definition sysm_strerror_get :: "(int \<Rightarrow> int \<times> cstring) \<Rightarrow> int \<Rightarrow> nat \<Rightarrow> cstring" where
  "sysm_strerror_get strerror_r err buflen =
     (let (ret, text) = strerror_r err
      in if ret < 0 then take (buflen - 1) ''Unknown Error'' else text)"

definition sysm_strerror :: "(int \<Rightarrow> int \<times> cstring) \<Rightarrow> sysm \<Rightarrow> int \<Rightarrow> sysm \<times> cstring" where
  "sysm_strerror strerror_r s err =
     (if err < 0 then (s, errbuf s)
      else if err > SYSM_START_ERROR then (s, sysm_error_str err)
      else let buf = sysm_strerror_get strerror_r err 255 in (s\<lparr>errbuf := buf\<rparr>, buf))"

section \<open>Names\<close>

text \<open>
  A database lookup gives the function's return value, the \<open>errno\<close> it leaves, and the entry's
  name when there is one. The result is the text in the buffer (unchanged when \<open>None\<close>) and
  the status. Both functions report \<open>errno\<close>, not the value returned.
\<close>

type_synonym name_db = "int \<Rightarrow> int \<times> int \<times> cstring option"

definition sysm_user_name_get :: "name_db \<Rightarrow> int \<Rightarrow> nat \<Rightarrow> cstring option \<times> int" where
  "sysm_user_name_get getpwuid_r uid buflen =
     (let (ret, errno, pw) = getpwuid_r uid
      in if ret \<noteq> 0 then (None, errno)
         else case pw of None \<Rightarrow> (None, ENOENT)
                | Some pw_name \<Rightarrow> (Some (take (buflen - 1) pw_name), SYSM_OK))"

definition print_int :: "int \<Rightarrow> cstring" where
  "print_int n = (if n < 0 then CHR ''-'' # dec_digits (nat (- n)) else dec_digits (nat n))"

definition sysm_group_name_get :: "name_db \<Rightarrow> int \<Rightarrow> nat \<Rightarrow> cstring option \<times> int" where
  "sysm_group_name_get getgrgid_r gid buflen =
     (let (ret, errno, gr) = getgrgid_r gid
      in if ret \<noteq> 0 then (None, errno)
         else (Some (take (buflen - 1) (case gr of Some gr_name \<Rightarrow> gr_name | None \<Rightarrow> print_int gid)), SYSM_OK))"

section \<open>Version\<close>

record sysm_version =
  ve_version :: cstring
  ve_major :: int
  ve_minor :: int

definition sysm_version_get :: sysm_version where
  "sysm_version_get = \<lparr>ve_version = ''1.0.0'', ve_major = 1, ve_minor = 0\<rparr>"

end
