(* ===== verification/Proc.thy ===== *)
theory Proc
  imports Memory Cpu Format
begin

text \<open>
  Processes: the list of process numbers, the parser of \<open>/proc/PID/stat\<close> with its two-second
  cache in the handle, times, CPU usage, memory, owners, states, arguments, environment and
  resource limits. Directory listings, symbolic links, the clocks and the databases are
  arguments.
\<close>

section \<open>The list of processes\<close>

definition PROC_PSTAT :: cstring where "PROC_PSTAT = ''/stat''"
definition PROC_PSTATUS :: cstring where "PROC_PSTATUS = ''/status''"
definition PROC_SELF_STAT :: cstring where "PROC_SELF_STAT = PROC_FS_ROOT @ ''self/stat''"
definition PROC_SIGNAL_IX :: int where "PROC_SIGNAL_IX = 38"

text \<open>\<open>pid_t\<close> and \<open>int\<close> from an \<open>unsigned long\<close>.\<close>

definition int_of_ulong :: "u64 \<Rightarrow> int" where
  "int_of_ulong w = sint (ucast w :: i32)"

lemma int_of_ulong_small: "n < 2 ^ 31 \<Longrightarrow> int_of_ulong (word_of_nat n) = int n"
  by (simp add: int_of_ulong_def unsigned_of_nat take_bit_nat_eq_self signed_of_nat
      signed_take_bit_int_eq_self)

definition get_proc_signal_offset :: "files \<Rightarrow> int option" where
  "get_proc_signal_offset fs = do {
     r \<leftarrow> sysm_file2str fs PROC_SELF_STAT BUFSIZ BUFSIZ;
     Some (case r of Inl _ \<Rightarrow> 1
                   | Inr buffer \<Rightarrow> int (count_list buffer (CHR '' '')) - PROC_SIGNAL_IX + 1) }"

text \<open>\<open>while ((n > 0) && P(buffer[n--]));\<close>\<close>

function back_while :: "(char \<Rightarrow> bool) \<Rightarrow> char list \<Rightarrow> int \<Rightarrow> int" where
  "back_while P buffer n =
     (if 0 < n then if P (buffer ! nat n) then back_while P buffer (n - 1) else n - 1 else n)"
  by pat_completeness auto
termination
  by (relation "measure (\<lambda>(P, buffer, n). nat n)") auto

declare back_while.simps [simp del]

text \<open>\<open>while (offset-- > 0)\<close>: one field and the white space before it.\<close>

fun skip_back :: "nat \<Rightarrow> char list \<Rightarrow> int \<Rightarrow> int" where
  "skip_back 0 buffer n = n"
| "skip_back (Suc k) buffer n =
     skip_back k buffer (back_while (\<lambda>c. \<not> isdigit c) buffer (back_while isdigit buffer n))"

text \<open>
  Whether an entry of \<open>/proc\<close> is a thread, from the exit signal in its status line. The read
  may fill the buffer; the NUL is then stored behind it (\<open>None\<close>).
\<close>

definition proc_isthread :: "files \<Rightarrow> int \<Rightarrow> cstring \<Rightarrow> bool option" where
  "proc_isthread fs offset pidstr =
     (case fs (PROC_FS_ROOT @ pidstr @ PROC_PSTAT) of
        Open_Fails _ \<Rightarrow> Some False
      | Read_Fails _ \<Rightarrow> Some False
      | Contents cs \<Rightarrow>
          let bytes = take BUFSIZ cs; n = int (length bytes); buffer = bytes @ [NUL]
          in if BUFSIZ \<le> length bytes then None
             else let n = back_while (\<lambda>c. \<not> isdigit c) buffer (n - 1);
                      n = skip_back (nat offset) buffer n
                  in Some (\<not> (n < 3 \<or> starts_with (drop (nat n) buffer) ''17 '')))"

definition digit_name :: "cstring \<Rightarrow> bool" where
  "digit_name name \<longleftrightarrow> isdigit (deref name)"

fun proc_list_loop :: "files \<Rightarrow> sysm \<Rightarrow> cstring list \<Rightarrow> int dynlist \<Rightarrow> int dynlist option" where
  "proc_list_loop fs s [] l = Some l"
| "proc_list_loop fs s (name # names) l =
     (if \<not> digit_name name then proc_list_loop fs s names l
      else do {
        thread \<leftarrow> (if has_nptl s then Some False else proc_isthread fs (proc_signal_offset s) name);
        if thread then proc_list_loop fs s names l
        else do {
          l \<leftarrow> dl_append (int_of_ulong (fst (strtoull 10 name))) (SYSM_PROC_LIST_GROW l);
          proc_list_loop fs s names l } })"

text \<open>\<open>dir\<close> is the listing of \<open>/proc\<close>, or the error of opening it.\<close>

definition sysm_os_proc_list_get ::
  "files \<Rightarrow> int + cstring list \<Rightarrow> sysm \<Rightarrow> int dynlist \<Rightarrow> (sysm \<times> int dynlist \<times> int) option" where
  "sysm_os_proc_list_get fs dir s l =
     (case dir of
        Inl e \<Rightarrow> Some (s, l, e)
      | Inr names \<Rightarrow> do {
          s \<leftarrow> (if \<not> has_nptl s \<and> proc_signal_offset s = - 1
                then map_option (\<lambda>off. s\<lparr>proc_signal_offset := off\<rparr>) (get_proc_signal_offset fs)
                else Some s);
          l \<leftarrow> proc_list_loop fs s names l;
          Some (s, l, SYSM_OK) })"

text \<open>With a list of the caller, and with the handle's own list (a null pointer).\<close>

definition sysm_proc_list_get ::
  "files \<Rightarrow> int + cstring list \<Rightarrow> sysm \<Rightarrow> (sysm \<times> int dynlist \<times> int) option" where
  "sysm_proc_list_get fs dir s = sysm_os_proc_list_get fs dir s sysm_proc_list_create"

definition sysm_proc_list_get_own ::
  "files \<Rightarrow> int + cstring list \<Rightarrow> sysm \<Rightarrow> (sysm \<times> int dynlist \<times> int) option" where
  "sysm_proc_list_get_own fs dir s =
     (let l = (case pids s of None \<Rightarrow> sysm_proc_list_create | Some l \<Rightarrow> l\<lparr>dl_number := 0\<rparr>)
      in do {
        (s, l, status) \<leftarrow> sysm_os_proc_list_get fs dir (s\<lparr>pids := Some l\<rparr>) l;
        Some (s\<lparr>pids := Some l\<rparr>, l, status) })"

text \<open>\<open>kill\<close> is an argument: it gives the \<open>errno\<close> of a failure.\<close>

definition sysm_proc_signal :: "(int \<Rightarrow> int \<Rightarrow> int option) \<Rightarrow> int \<Rightarrow> int \<Rightarrow> int" where
  "sysm_proc_signal kill pid signum = (case kill pid signum of Some e \<Rightarrow> e | None \<Rightarrow> SYSM_OK)"

section \<open>The status line of a process\<close>

definition SYSM_LAST_PROC_EXPIRE :: int where "SYSM_LAST_PROC_EXPIRE = 2"
definition SYSM_PROC_NAME_LEN :: nat where "SYSM_PROC_NAME_LEN = 128"

text \<open>
  Everything after the process number, from the string in the buffer. An inner \<open>Inl\<close> is the
  error EINVAL; \<open>None\<close> is a line that ends before the state, a handle without clock ticks, or a
  time out of range.
\<close>

definition proc_stat_fields ::
  "sysm \<Rightarrow> cstring \<Rightarrow> linux_proc_stat \<Rightarrow> (linux_proc_stat + linux_proc_stat) option" where
  "proc_stat_fields s ptr pstat =
     (case strchr ptr (CHR ''('') of
        None \<Rightarrow> Some (Inl pstat)
      | Some ptr \<Rightarrow>
      let ptr = tl ptr
      in case strrchr ptr (CHR '')'') of
           None \<Rightarrow> Some (Inl pstat)
         | Some tmp \<Rightarrow>
         let len = length ptr - length tmp;
             len = (if SYSM_PROC_NAME_LEN \<le> len then SYSM_PROC_NAME_LEN - 1 else len);
             pstat = pstat\<lparr>ps_name := take len ptr\<rparr>;
             ptr = SYSM_SKIP_SPACE (tl tmp)
         in if ptr = [] then None
            else do {
              let pstat = pstat\<lparr>ps_state := deref ptr\<rparr>;
              let ptr = SYSM_SKIP_SPACE (tl ptr);
              let (ppid, ptr) = strtoull 10 ptr;
              let ptr = sysm_skip_multiple_token ptr 2;
              let (tty, ptr) = strtoull 10 ptr;
              let ptr = sysm_skip_multiple_token ptr 2;
              let (minor, ptr) = strtoull 10 ptr;
              let ptr = sysm_skip_token ptr;
              let (major, ptr) = strtoull 10 ptr;
              let ptr = sysm_skip_token ptr;
              (utime, ptr) \<leftarrow> (let (n, ptr) = strtoull 10 ptr
                 in map_option (\<lambda>v. (v, ptr)) (dbl_to_u64 (SYSM_TICK2MSEC s n)));
              (stime, ptr) \<leftarrow> (let (n, ptr) = strtoull 10 ptr
                 in map_option (\<lambda>v. (v, ptr)) (dbl_to_u64 (SYSM_TICK2MSEC s n)));
              let ptr = sysm_skip_multiple_token ptr 2;
              let (start, ptr) = strtoull 10 ptr;
              start \<leftarrow> (if (word_of_int (ticks s) :: u64) = 0 then None
                       else Some ((start div word_of_int (ticks s) + boot_time s) * 1000));
              let (vsize, ptr) = strtoull 10 ptr;
              let (rss, ptr) = strtoull 10 ptr;
              let ptr = sysm_skip_multiple_token ptr 14;
              let (processor, ptr) = strtoull 10 ptr;
              Some (Inr (pstat\<lparr>ps_ppid := int_of_ulong ppid, ps_tty := int_of_ulong tty,
                               ps_minor_faults := minor, ps_major_faults := major,
                               ps_utime := utime, ps_stime := stime, ps_start_time := start,
                               ps_vsize := vsize, ps_rss := pageshift s rss,
                               ps_processor := int_of_ulong processor\<rparr>)) })"

text \<open>\<open>timenow\<close> is the clock in seconds. The number and the time are stored before the file is read.\<close>

definition proc_stat_read :: "files \<Rightarrow> int \<Rightarrow> sysm \<Rightarrow> int \<Rightarrow> (sysm \<times> int) option" where
  "proc_stat_read fs timenow s pid =
     (let pstat = last_proc_stat s
      in if ps_pid pstat = pid \<and> timenow - ps_mtime pstat < SYSM_LAST_PROC_EXPIRE
         then Some (s, SYSM_OK)
         else let pstat = pstat\<lparr>ps_pid := pid, ps_mtime := timenow\<rparr>
              in do {
                r \<leftarrow> SYSM_PROC_FILE2STR fs BUFSIZ pid PROC_PSTAT;
                (case r of
                   Inl status \<Rightarrow> Some (s\<lparr>last_proc_stat := pstat\<rparr>, status)
                 | Inr buffer \<Rightarrow> do {
                     p \<leftarrow> proc_stat_fields s buffer pstat;
                     Some (case p of Inl pstat \<Rightarrow> (s\<lparr>last_proc_stat := pstat\<rparr>, EINVAL)
                                   | Inr pstat \<Rightarrow> (s\<lparr>last_proc_stat := pstat\<rparr>, SYSM_OK)) }) })"

section \<open>Times and CPU usage\<close>

record sysm_proc_time =
  pt_start_time :: u64
  pt_user :: u64
  pt_sys :: u64
  pt_total :: u64

definition sysm_proc_time_get ::
  "files \<Rightarrow> int \<Rightarrow> sysm \<Rightarrow> int \<Rightarrow> (sysm \<times> (int + sysm_proc_time)) option" where
  "sysm_proc_time_get fs timenow s pid = do {
     (s, status) \<leftarrow> proc_stat_read fs timenow s pid;
     if status \<noteq> SYSM_OK then Some (s, Inl status)
     else let pstat = last_proc_stat s
          in Some (s, Inr \<lparr>pt_start_time = ps_start_time pstat, pt_user = ps_utime pstat,
                          pt_sys = ps_stime pstat, pt_total = ps_utime pstat + ps_stime pstat\<rparr>) }"

definition PID_CACHE_CLEANUP_PERIOD :: u64 where "PID_CACHE_CLEANUP_PERIOD = 1000 * 60 * 10"
definition PID_CACHE_ENTRY_EXPIRE_PERIOD :: u64 where "PID_CACHE_ENTRY_EXPIRE_PERIOD = 1000 * 60 * 20"

definition zero_proc_cpu :: sysm_proc_cpu where
  "zero_proc_cpu = \<lparr>pc_start_time = 0, pc_user = 0, pc_sys = 0, pc_total = 0, pc_last_time = 0,
                    pc_percent = Fin 0\<rparr>"

text \<open>
  The clocks read on the way: \<open>now\<close> at the start, \<open>now0\<close> when the cache is created, \<open>now1\<close> and
  \<open>now2\<close> in \<open>sysm_cache_get\<close>, \<open>timenow\<close> in seconds. \<open>out\<close> is the caller's structure, whose
  first four fields \<open>sysm_proc_time_get\<close> writes through a cast.
\<close>

definition sysm_proc_cpu_get ::
  "files \<Rightarrow> int \<Rightarrow> u64 \<Rightarrow> u64 \<Rightarrow> u64 \<Rightarrow> u64 \<Rightarrow> sysm \<Rightarrow> int \<Rightarrow> sysm_proc_cpu
     \<Rightarrow> (sysm \<times> sysm_proc_cpu \<times> int) option" where
  "sysm_proc_cpu_get fs timenow now now0 now1 now2 s pid out = do {
     let t = (case proc_cpu s of
                None \<Rightarrow> sysm_expired_cache_new 128 PID_CACHE_CLEANUP_PERIOD
                          PID_CACHE_ENTRY_EXPIRE_PERIOD now0
              | Some t \<Rightarrow> t);
     (t, a) \<leftarrow> sysm_cache_get now1 now2 t (word_of_int pid);
     e \<leftarrow> entry_load t a;
     let previous = (case e_value e of Some v \<Rightarrow> v | None \<Rightarrow> zero_proc_cpu);
     let time_diff = now - pc_last_time previous;
     let previous = previous\<lparr>pc_last_time := now\<rparr>;
     let out = out\<lparr>pc_last_time := now\<rparr>;
     let t = entry_store a previous t;
     let s = s\<lparr>proc_cpu := Some t\<rparr>;
     if time_diff = 0 then Some (s, previous, SYSM_OK)
     else do {
       let otime = pc_total previous;
       (s, r) \<leftarrow> sysm_proc_time_get fs timenow s pid;
       (case r of
          Inl status \<Rightarrow> Some (s, out, status)
        | Inr pt \<Rightarrow>
            let out = out\<lparr>pc_start_time := pt_start_time pt, pc_user := pt_user pt,
                          pc_sys := pt_sys pt, pc_total := pt_total pt\<rparr>;
                s = s\<lparr>proc_cpu := Some (entry_store a out t)\<rparr>;
                otime = (if pc_total out < otime then 0 else otime)
            in if otime = 0 then Some (s, out\<lparr>pc_percent := Fin 0\<rparr>, SYSM_OK)
               else Some (s, out\<lparr>pc_percent :=
                       dbl_div (u64_to_dbl (pc_total out - otime)) (u64_to_dbl time_diff)\<rparr>, SYSM_OK)) } }"

section \<open>Memory, owner and state of a process\<close>

record sysm_proc_mem =
  pm_size :: u64
  pm_resident :: u64
  pm_share :: u64
  pm_minor_faults :: u64
  pm_major_faults :: u64
  pm_page_faults :: u64

text \<open>The status of reading the status line is overwritten.\<close>

definition sysm_proc_mem_get ::
  "files \<Rightarrow> int \<Rightarrow> sysm \<Rightarrow> int \<Rightarrow> sysm_proc_mem \<Rightarrow> (sysm \<times> sysm_proc_mem \<times> int) option" where
  "sysm_proc_mem_get fs timenow s pid m = do {
     (s, status) \<leftarrow> proc_stat_read fs timenow s pid;
     let pstat = last_proc_stat s;
     let m = m\<lparr>pm_minor_faults := ps_minor_faults pstat, pm_major_faults := ps_major_faults pstat,
               pm_page_faults := ps_minor_faults pstat + ps_major_faults pstat\<rparr>;
     r \<leftarrow> SYSM_PROC_FILE2STR fs BUFSIZ pid ''/statm'';
     (case r of
        Inl status \<Rightarrow> Some (s, m, status)
      | Inr ptr \<Rightarrow>
          let (sz, ptr) = strtoull 10 ptr; (resident, ptr) = strtoull 10 ptr; (share, ptr) = strtoull 10 ptr
          in Some (s, m\<lparr>pm_size := pageshift s sz, pm_resident := pageshift s resident,
                        pm_share := pageshift s share\<rparr>, SYSM_OK)) }"

record sysm_proc_own =
  po_uid :: int
  po_gid :: int
  po_euid :: int
  po_egid :: int

definition sysm_proc_own_get :: "files \<Rightarrow> int \<Rightarrow> sysm_proc_own \<Rightarrow> (sysm_proc_own \<times> int) option" where
  "sysm_proc_own_get fs pid own = do {
     r \<leftarrow> SYSM_PROC_FILE2STR fs BUFSIZ pid PROC_PSTATUS;
     Some (case r of
       Inl status \<Rightarrow> (own, status)
     | Inr buffer \<Rightarrow>
         (case strstr buffer (CHR 0x0A # ''Uid:'') of
            None \<Rightarrow> (own, ENOENT)
          | Some ptr \<Rightarrow>
              let (uid, ptr) = strtoull 10 (sysm_skip_token ptr); (euid, ptr) = strtoull 10 ptr;
                  own = own\<lparr>po_uid := int_of_ulong uid, po_euid := int_of_ulong euid\<rparr>
              in case strstr ptr (CHR 0x0A # ''Gid:'') of
                   None \<Rightarrow> (own, ENOENT)
                 | Some ptr \<Rightarrow>
                     let (gid, ptr) = strtoull 10 (sysm_skip_token ptr); (egid, ptr) = strtoull 10 ptr
                     in (own\<lparr>po_gid := int_of_ulong gid, po_egid := int_of_ulong egid\<rparr>, SYSM_OK))) }"

definition SYSM_OWNER_MAX :: nat where "SYSM_OWNER_MAX = 512"

record sysm_proc_owner =
  pw_user :: cstring
  pw_group :: cstring

text \<open>\<open>own0\<close> is the content of the uninitialised local structure.\<close>

definition sysm_proc_owner_get ::
  "files \<Rightarrow> name_db \<Rightarrow> name_db \<Rightarrow> sysm_proc_own \<Rightarrow> int \<Rightarrow> sysm_proc_owner \<Rightarrow> (sysm_proc_owner \<times> int) option" where
  "sysm_proc_owner_get fs getpwuid_r getgrgid_r own0 pid owner = do {
     (own, status) \<leftarrow> sysm_proc_own_get fs pid own0;
     if status \<noteq> SYSM_OK then Some (owner, status)
     else let (user, status) = sysm_user_name_get getpwuid_r (po_uid own) SYSM_OWNER_MAX;
              owner = (case user of Some u \<Rightarrow> owner\<lparr>pw_user := u\<rparr> | None \<Rightarrow> owner)
          in if status \<noteq> SYSM_OK then Some (owner, status)
             else let (group, status) = sysm_group_name_get getgrgid_r (po_gid own) SYSM_OWNER_MAX
                  in Some (case group of Some g \<Rightarrow> owner\<lparr>pw_group := g\<rparr> | None \<Rightarrow> owner, status) }"

record sysm_proc_state =
  pst_name :: cstring
  pst_state :: char
  pst_ppid :: int
  pst_tty :: int
  pst_priority :: int
  pst_nice :: int
  pst_processor :: int
  pst_threads :: u64

definition proc_status_get :: "files \<Rightarrow> int \<Rightarrow> sysm_proc_state \<Rightarrow> (sysm_proc_state \<times> int) option" where
  "proc_status_get fs pid st = do {
     r \<leftarrow> SYSM_PROC_FILE2STR fs BUFSIZ pid PROC_PSTATUS;
     Some (case r of
       Inl status \<Rightarrow> (st, status)
     | Inr buffer \<Rightarrow>
         (case strstr buffer (CHR 0x0A # ''Thread:'') of
            Some ptr \<Rightarrow> (st\<lparr>pst_threads := fst (strtoull 10 (sysm_skip_token ptr))\<rparr>, SYSM_OK)
          | None \<Rightarrow> (st\<lparr>pst_threads := - 1\<rparr>, SYSM_OK))) }"

definition sysm_proc_state_get ::
  "(u32 \<Rightarrow> cpuid_regs) \<Rightarrow> files \<Rightarrow> int \<Rightarrow> sysm \<Rightarrow> int \<Rightarrow> sysm_proc_state \<Rightarrow> (sysm \<times> sysm_proc_state \<times> int) option" where
  "sysm_proc_state_get cpuid fs timenow s pid st = do {
     (s, status) \<leftarrow> proc_stat_read fs timenow s pid;
     if status \<noteq> SYSM_OK then Some (s, st, status)
     else let pstat = last_proc_stat s;
              (s, rollup) = sysm_cpu_core_rollup cpuid s;
              st = st\<lparr>pst_name := ps_name pstat, pst_state := ps_state pstat, pst_ppid := ps_ppid pstat,
                      pst_tty := ps_tty pstat, pst_priority := ps_pri pstat, pst_nice := ps_ni pstat,
                      pst_processor := (if rollup then c_div (ps_processor pstat) (lcpu s)
                                        else ps_processor pstat)\<rparr>
          in do {
            (st, status) \<leftarrow> proc_status_get fs pid st;
            Some (s, st, status) } }"

record sysm_proc_stat =
  pn_total :: u64
  pn_sleeping :: u64
  pn_running :: u64
  pn_zombie :: u64
  pn_stopped :: u64
  pn_idle :: u64
  pn_threads :: u64

definition count_state :: "sysm_proc_state \<Rightarrow> sysm_proc_stat \<Rightarrow> sysm_proc_stat" where
  "count_state st ps =
     (let ps = (if pst_threads st \<noteq> - 1 then ps\<lparr>pn_threads := pn_threads ps + pst_threads st\<rparr> else ps);
          c = pst_state st
      in if c = CHR ''D'' then ps\<lparr>pn_idle := pn_idle ps + 1\<rparr>
         else if c = CHR ''R'' then ps\<lparr>pn_running := pn_running ps + 1\<rparr>
         else if c = CHR ''S'' then ps\<lparr>pn_sleeping := pn_sleeping ps + 1\<rparr>
         else if c = CHR ''T'' then ps\<lparr>pn_stopped := pn_stopped ps + 1\<rparr>
         else if c = CHR ''Z'' then ps\<lparr>pn_zombie := pn_zombie ps + 1\<rparr>
         else ps)"

text \<open>\<open>st0\<close> is the uninitialised local structure of an iteration.\<close>

fun proc_stat_loop ::
  "(u32 \<Rightarrow> cpuid_regs) \<Rightarrow> files \<Rightarrow> int \<Rightarrow> sysm_proc_state \<Rightarrow> sysm \<Rightarrow> int list \<Rightarrow> sysm_proc_stat
     \<Rightarrow> (sysm \<times> sysm_proc_stat) option" where
  "proc_stat_loop cpuid fs timenow st0 s [] ps = Some (s, ps)"
| "proc_stat_loop cpuid fs timenow st0 s (pid # rest) ps =
     (case sysm_proc_state_get cpuid fs timenow s pid st0 of
        None \<Rightarrow> None
      | Some (s, st, status) \<Rightarrow>
          proc_stat_loop cpuid fs timenow st0 s rest (if status \<noteq> SYSM_OK then ps else count_state st ps))"

definition sysm_proc_stat_get ::
  "(u32 \<Rightarrow> cpuid_regs) \<Rightarrow> files \<Rightarrow> int + cstring list \<Rightarrow> int \<Rightarrow> sysm_proc_state \<Rightarrow> sysm
     \<Rightarrow> (sysm \<times> sysm_proc_stat \<times> int) option" where
  "sysm_proc_stat_get cpuid fs dir timenow st0 s = do {
     let ps = \<lparr>pn_total = 0, pn_sleeping = 0, pn_running = 0, pn_zombie = 0, pn_stopped = 0,
               pn_idle = 0, pn_threads = - 1\<rparr>;
     (s, l, status) \<leftarrow> sysm_proc_list_get_own fs dir s;
     if status \<noteq> SYSM_OK then Some (s, ps, status)
     else do {
       (s, ps) \<leftarrow> proc_stat_loop cpuid fs timenow st0 s (dl_contents l)
                   (ps\<lparr>pn_total := word_of_nat (dl_number l)\<rparr>);
       Some (s, ps, SYSM_OK) } }"

section \<open>Arguments\<close>

text \<open>
  The loop over the buffer: the string at \<open>ptr\<close> and its NUL are one argument; the buffer has a
  NUL behind its last byte.
\<close>

function args_loop :: "char list \<Rightarrow> cstring dynlist \<Rightarrow> cstring dynlist option" where
  "args_loop bytes l =
     (if bytes = [] then Some l
      else let arg = cstr bytes
           in case dl_append arg (SYSM_PROC_ARGS_GROW l) of
                None \<Rightarrow> None
              | Some l \<Rightarrow> args_loop (drop (length arg + 1) bytes) l)"
  by pat_completeness auto
termination
  by (relation "measure (\<lambda>(bytes, l). length bytes)") auto

declare args_loop.simps [simp del]

definition sysm_os_proc_args_get ::
  "files \<Rightarrow> int \<Rightarrow> cstring dynlist \<Rightarrow> (cstring dynlist \<times> int) option" where
  "sysm_os_proc_args_get fs pid l = do {
     name \<leftarrow> SYSM_PROC_FILENAME BUFSIZ pid ''/cmdline'';
     (case fs name of
        Open_Fails e \<Rightarrow> Some (l, if e = ENOENT then ESRCH else e)
      | Read_Fails e \<Rightarrow> Some (l\<lparr>dl_number := 0\<rparr>, SYSM_OK)
      | Contents cs \<Rightarrow>
          if cs = [] then Some (l\<lparr>dl_number := 0\<rparr>, SYSM_OK)
          else map_option (\<lambda>l. (l, SYSM_OK)) (args_loop cs l)) }"

definition sysm_proc_args_get :: "files \<Rightarrow> int \<Rightarrow> (cstring dynlist \<times> int) option" where
  "sysm_proc_args_get fs pid = do {
     (l, status) \<leftarrow> sysm_os_proc_args_get fs pid sysm_proc_args_create;
     Some (if status \<noteq> SYSM_OK then fst (sysm_proc_args_destroy l) else l, status) }"

section \<open>Environment\<close>

datatype SYSM_PROC_ENV = SYSM_PROC_ENV_ALL | SYSM_PROC_ENV_KEY

definition ARG_BUF_MAX :: nat where "ARG_BUF_MAX = 131072"

text \<open>
  The callback receives the key, its length, the value and its length, and returns the new
  state of the caller with a status; another status than \<open>SYSM_OK\<close> ends the loop. A key that
  does not fit into its 128 characters is terminated outside of the array (\<open>None\<close>).
\<close>

type_synonym 'st env_getter = "'st \<Rightarrow> cstring \<Rightarrow> nat \<Rightarrow> cstring \<Rightarrow> nat \<Rightarrow> 'st \<times> int"

function env_loop :: "'st env_getter \<Rightarrow> 'st \<Rightarrow> char list \<Rightarrow> 'st option" where
  "env_loop getter st bytes =
     (if bytes = [] then Some st
      else let entry = cstr bytes
           in case strchr entry (CHR ''='') of
                None \<Rightarrow> Some st
              | Some eq \<Rightarrow>
                  let klen = length entry - length eq; val = tl eq; vlen = length val
                  in if 128 \<le> klen then None
                     else case getter st (take klen entry) klen val vlen of
                            (st, status) \<Rightarrow>
                              if status \<noteq> SYSM_OK then Some st
                              else env_loop getter st (drop (klen + 1 + vlen + 1) bytes))"
  by pat_completeness auto
termination
  by (relation "measure (\<lambda>(getter, st, bytes). length bytes)") auto

declare env_loop.simps [simp del]

text \<open>A failed read gives the length -1, and the NUL is stored before the buffer.\<close>

definition sysm_proc_env_get ::
  "files \<Rightarrow> (cstring \<Rightarrow> cstring option) \<Rightarrow> sysm \<Rightarrow> int \<Rightarrow> SYSM_PROC_ENV \<Rightarrow> cstring
     \<Rightarrow> 'st env_getter \<Rightarrow> 'st \<Rightarrow> ('st \<times> int) option" where
  "sysm_proc_env_get fs getenv s pid type key getter st =
     (if type = SYSM_PROC_ENV_KEY \<and> pid = s_pid s
      then Some (case getenv key of
             Some v \<Rightarrow> fst (getter st key (length key) v (length v))
           | None \<Rightarrow> st, SYSM_OK)
      else do {
        name \<leftarrow> SYSM_PROC_FILENAME BUFSIZ pid ''/environ'';
        (case fs name of
           Open_Fails e \<Rightarrow> Some (st, if e = ENOENT then ESRCH else e)
         | Read_Fails e \<Rightarrow> None
         | Contents cs \<Rightarrow>
             let bytes = take ARG_BUF_MAX cs
             in if ARG_BUF_MAX \<le> length bytes then None
                else map_option (\<lambda>st. (st, SYSM_OK)) (env_loop getter st bytes)) })"

section \<open>Executable and limits\<close>

record sysm_proc_exe =
  px_name :: cstring
  px_cwd :: cstring
  px_root :: cstring

definition SYSM_PATH_MAX :: nat where "SYSM_PATH_MAX = 4096"

text \<open>\<open>readlink\<close> gives the target of a link or an \<open>errno\<close>; at most \<open>SYSM_PATH_MAX\<close> bytes are stored.\<close>

definition read_proc_link ::
  "(cstring \<Rightarrow> int + cstring) \<Rightarrow> int \<Rightarrow> cstring \<Rightarrow> (int + cstring) option" where
  "read_proc_link readlink pid fname = do {
     name \<leftarrow> SYSM_PROC_FILENAME BUFSIZ pid fname;
     Some (map_sum id (take SYSM_PATH_MAX) (readlink name)) }"

definition sysm_proc_exe_get ::
  "(cstring \<Rightarrow> int + cstring) \<Rightarrow> int \<Rightarrow> sysm_proc_exe \<Rightarrow> (sysm_proc_exe \<times> int) option" where
  "sysm_proc_exe_get readlink pid x = do {
     cwd \<leftarrow> read_proc_link readlink pid ''/cwd'';
     (case cwd of Inl e \<Rightarrow> Some (x, e)
      | Inr cwd \<Rightarrow> do {
          let x = x\<lparr>px_cwd := cwd\<rparr>;
          name \<leftarrow> read_proc_link readlink pid ''/exe'';
          (case name of Inl e \<Rightarrow> Some (x, e)
           | Inr name \<Rightarrow> do {
               let x = x\<lparr>px_name := name\<rparr>;
               dir \<leftarrow> read_proc_link readlink pid ''/root'';
               Some (case dir of Inl e \<Rightarrow> (x, e) | Inr dir \<Rightarrow> (x\<lparr>px_root := dir\<rparr>, SYSM_OK)) }) }) }"

text \<open>
  The table of limits: the field, the resource number of Linux, and the unit the code divides
  by. \<open>RLIMIT_PSIZE\<close> is a number of the code's own, above \<open>RLIM_NLIMITS\<close>.
\<close>

datatype rlimit_field = Rl_cpu | Rl_file_size | Rl_data | Rl_stack | Rl_pipe_size | Rl_core
  | Rl_memory | Rl_processes | Rl_open_files | Rl_virtual_memory

definition RLIM_NLIMITS :: nat where "RLIM_NLIMITS = 16"
definition RLIM_INFINITY :: u64 where "RLIM_INFINITY = - 1"
definition RLIMIT_PSIZE :: nat where "RLIMIT_PSIZE = RLIM_NLIMITS + 3"
definition PIPE_BUF :: nat where "PIPE_BUF = 4096"

definition sysm_rlimits :: "(nat \<times> u64 \<times> rlimit_field) list" where
  "sysm_rlimits =
     [(0, 1, Rl_cpu), (1, 1024, Rl_file_size), (2, 1024, Rl_data), (3, 1024, Rl_stack),
      (RLIMIT_PSIZE, 512, Rl_pipe_size), (4, 1024, Rl_core), (5, 1024, Rl_memory),
      (6, 1, Rl_processes), (7, 1, Rl_open_files), (9, 1024, Rl_virtual_memory)]"

definition RlimitScale :: "u64 \<Rightarrow> u64 \<Rightarrow> u64" where
  "RlimitScale factor val = (if val \<noteq> RLIM_INFINITY then val div factor else val)"

text \<open>One limit: \<open>getrlimit\<close> gives the current and the largest value, or fails.\<close>

definition rlimit_value :: "(nat \<Rightarrow> (u64 \<times> u64) option) \<Rightarrow> u64 \<Rightarrow> nat \<Rightarrow> u64 \<Rightarrow> u64 \<times> u64" where
  "rlimit_value getrlimit child_max resource factor =
     (if RLIM_NLIMITS < resource
      then let v = (if resource = 6 then child_max
                    else if resource = RLIMIT_PSIZE then word_of_nat (PIPE_BUF div 512)
                    else RLIM_INFINITY)
           in (v, v)
      else case getrlimit resource of
             None \<Rightarrow> (RLIM_INFINITY, RLIM_INFINITY)
           | Some (c, m) \<Rightarrow> (RlimitScale factor c, RlimitScale factor m))"

type_synonym resource_limit = "rlimit_field \<Rightarrow> u64 \<times> u64"

definition sysm_resource_limit_get ::
  "(nat \<Rightarrow> (u64 \<times> u64) option) \<Rightarrow> u64 \<Rightarrow> resource_limit \<Rightarrow> resource_limit" where
  "sysm_resource_limit_get getrlimit child_max rlimit =
     foldl (\<lambda>rl (resource, factor, field). rl(field := rlimit_value getrlimit child_max resource factor))
       rlimit sysm_rlimits"

end
