(* ===== verification/Proc_Properties.thy ===== *)
theory Proc_Properties
  imports Proc Cpu_Properties Cache_Properties
begin

text \<open>
  Properties of the process component: the list of processes, which field of the status line
  each number comes from, the two-second cache of the status line, the CPU usage between two
  calls as an update of the abstract cache, the round trips of arguments and environment, and
  the summary of all processes.
\<close>

section \<open>The list of processes\<close>

definition pid_of_name :: "cstring \<Rightarrow> int" where
  "pid_of_name name = int_of_ulong (fst (strtoull 10 name))"

lemma proc_list_loop_nptl:
  "has_nptl s \<Longrightarrow> dl_wf l \<Longrightarrow>
     \<exists>l'. proc_list_loop fs s names l = Some l' \<and> dl_wf l'
        \<and> dl_contents l' = dl_contents l @ map pid_of_name (filter digit_name names)"
proof (induction names arbitrary: l)
  case Nil
  then show ?case by simp
next
  case (Cons name names)
  show ?case
  proof (cases "digit_name name")
    case True
    obtain l1 where "dl_append (pid_of_name name) (SYSM_PROC_LIST_GROW l) = Some l1" "dl_wf l1"
        "dl_contents l1 = dl_contents l @ [pid_of_name name]"
      using proc_list.push_total [OF Cons.prems(2), of "pid_of_name name"] by (auto simp: dl_push_def)
    with True Cons.IH [of l1] Cons.prems show ?thesis by (auto simp: pid_of_name_def)
  next
    case False
    with Cons show ?thesis by auto
  qed
qed

lemma dl_wf_reset: "dl_wf l \<Longrightarrow> dl_wf (l\<lparr>dl_number := 0\<rparr>)" "dl_contents (l\<lparr>dl_number := 0\<rparr>) = []"
  by (simp_all add: dl_wf_def dl_contents_def)

lemma proc_list_own:
  assumes "has_nptl s" "\<forall>l. pids s = Some l \<longrightarrow> dl_wf l"
  obtains s' l where "sysm_proc_list_get_own fs (Inr names) s = Some (s', l, SYSM_OK)"
    "dl_contents l = map pid_of_name (filter digit_name names)" "dl_wf l" "pids s' = Some l" "has_nptl s'"
proof -
  define l0 where "l0 = (case pids s of None \<Rightarrow> sysm_proc_list_create | Some l \<Rightarrow> l\<lparr>dl_number := 0\<rparr>)"
  have l0: "dl_wf l0" "dl_contents l0 = []"
    using assms(2) proc_list.create_wf proc_list.create_contents
    by (auto simp: l0_def dl_wf_reset split: option.splits)
  obtain l where "proc_list_loop fs (s\<lparr>pids := Some l0\<rparr>) names l0 = Some l" "dl_wf l"
      "dl_contents l = map pid_of_name (filter digit_name names)"
    using proc_list_loop_nptl [OF _ l0(1), of "s\<lparr>pids := Some l0\<rparr>" fs names] assms(1) l0(2) by auto
  with assms(1) show ?thesis
    by (intro that [of "s\<lparr>pids := Some l\<rparr>" l]) (simp_all add: sysm_proc_list_get_own_def sysm_os_proc_list_get_def flip: l0_def)
qed

text \<open>C10: on a kernel with native threads, listing the processes gives the number of every entry
  of \<open>/proc\<close> whose name starts with a digit, in the order of the directory and without
  storing outside the array, however often the handle's own list has been filled before.\<close>

theorem proc_list_exact:
  assumes "has_nptl s" "\<forall>l. pids s = Some l \<longrightarrow> dl_wf l"
  shows "\<exists>s' l. sysm_proc_list_get_own fs (Inr names) s = Some (s', l, SYSM_OK)
     \<and> dl_contents l = map pid_of_name (filter digit_name names)
     \<and> pids s' = Some l \<and> dl_wf l \<and> has_nptl s'"
  by (rule proc_list_own [OF assms, of fs names]) blast

theorem proc_list_exact_witness:
  "\<exists>s' l. sysm_proc_list_get_own (\<lambda>_. Open_Fails ENOENT) (Inr [''.'', ''1'', ''self'', ''42''])
       (zero_sysm\<lparr>has_nptl := True\<rparr>) = Some (s', l, SYSM_OK)
     \<and> dl_contents l = map pid_of_name (filter digit_name [''.'', ''1'', ''self'', ''42''])
     \<and> pids s' = Some l \<and> dl_wf l \<and> has_nptl s'"
  by (rule proc_list_exact) (simp_all add: zero_sysm_def)

section \<open>The status line\<close>

text \<open>A line with the fields 4 to 52 of the manual page, given as texts.\<close>

definition stat_line :: "nat \<Rightarrow> cstring \<Rightarrow> char \<Rightarrow> (nat \<Rightarrow> cstring) \<Rightarrow> cstring" where
  "stat_line pid name state tok =
     dec_digits pid @ '' ('' @ name @ '') '' @ [state] @ spaced (map tok [4 ..< 53]) @ [CHR 0x0A]"

definition stat_tokens :: "(nat \<Rightarrow> cstring) \<Rightarrow> (nat \<Rightarrow> nat) \<Rightarrow> bool" where
  "stat_tokens tok f \<longleftrightarrow>
     (\<forall>i. is_field (tok i) \<and> CHR '')'' \<notin> set (tok i)) \<and>
     (\<forall>i \<in> {4, 7, 10, 12, 14, 15, 18, 19, 20, 35}. tok i = dec_digits (f i) \<and> f i < 2 ^ 64)"

lemma at_space_blank [simp]: "at_space (CHR '' '' # x)" "at_space [CHR 0x0A]"
  by (simp_all add: at_space_def)

lemma skip_spaced:
  "\<forall>t \<in> set ts. is_field t \<Longrightarrow> length ts = k \<Longrightarrow> sysm_skip_multiple_token (spaced ts @ CHR '' '' # x) k = CHR '' '' # x"
  using skip_multiple_spaced [of ts "CHR '' '' # x"] by auto

lemma spaced_append: "spaced (xs @ ys) = spaced xs @ spaced ys"
  by (simp add: spaced_def)

lemma strrchr_last: "c \<notin> set b \<Longrightarrow> strrchr (a @ c # b) c = Some (c # b)"
proof -
  assume c: "c \<notin> set b"
  then have "takeWhile (\<lambda>x. x \<noteq> c) (rev b @ c # rev a) = rev b"
    by (intro takeWhile_append_stop) auto
  then show ?thesis by (simp add: strrchr_def)
qed

lemma strchr_first: "c \<notin> set a \<Longrightarrow> strchr (a @ c # b) c = Some (c # b)"
proof -
  assume c: "c \<notin> set a"
  then have "dropWhile (\<lambda>x. x \<noteq> c) (a @ c # b) = c # b"
    by (intro dropWhile_append_stop) auto
  then show ?thesis by (simp add: strchr_def)
qed

lemma strtoull_digits_at_space:
  "n < 2 ^ 64 \<Longrightarrow> at_space r \<Longrightarrow> strtoull 10 (dec_digits n @ r) = (word_of_nat n, r)"
  using strtoull_dec_digits [of "[]" r n] by (simp add: at_space_nodigit)

text \<open>The number after a field that is read, and the remaining text.\<close>

definition fields_from :: "(nat \<Rightarrow> cstring) \<Rightarrow> nat \<Rightarrow> cstring" where
  "fields_from tok i = spaced (map tok [i ..< 53]) @ [CHR 0x0A]"

lemma fields_from_step: "i < 53 \<Longrightarrow> fields_from tok i = CHR '' '' # tok i @ fields_from tok (Suc i)"
  by (simp add: fields_from_def upt_conv_Cons)

lemma at_space_fields_from [simp]: "at_space (fields_from tok i)"
  by (simp add: fields_from_def)

lemma skip_fields_from:
  assumes "stat_tokens tok f" "i + k \<le> 53"
  shows "sysm_skip_multiple_token (fields_from tok i) k = fields_from tok (i + k)"
  using assms(2)
proof (induction k arbitrary: i)
  case 0
  then show ?case by simp
next
  case (Suc k)
  have "sysm_skip_token (fields_from tok i) = fields_from tok (Suc i)"
    using Suc.prems assms(1) by (simp add: fields_from_step stat_tokens_def)
  with Suc show ?case by simp
qed

lemma read_fields_from:
  assumes "stat_tokens tok f" "i \<in> {4, 7, 10, 12, 14, 15, 18, 19, 20, 35}"
  shows "strtoull 10 (fields_from tok i) = (word_of_nat (f i), fields_from tok (Suc i))"
proof -
  have "tok i = dec_digits (f i)" "f i < 2 ^ 64" "i < 53"
    using assms unfolding stat_tokens_def by (auto simp del: power_numeral)
  then show ?thesis by (simp add: fields_from_step)
qed

lemma tick_rate_rat: "tick_millis s m \<Longrightarrow> n * m < 2 ^ 53 \<Longrightarrow>
    dbl_to_u64 (SYSM_TICK2MSEC s (word_of_nat n)) = Some (word_of_nat (n * m))"
  using SYSM_TICK2MSEC_exact [of s m n] dbl_to_u64_of_nat [of "n * m"] by simp

lemma proc_stat_fields_line:
  assumes tok: "stat_tokens tok f"
    and state: "\<not> isspace state" "state \<noteq> CHR '')''"
    and m: "tick_millis s m" "f 14 * m < 2 ^ 53" "f 15 * m < 2 ^ 53"
  shows "proc_stat_fields s (stat_line pid name state tok) pstat =
    Some (Inr (pstat\<lparr>ps_name := take 127 name, ps_state := state,
       ps_ppid := int_of_ulong (word_of_nat (f 4)), ps_tty := int_of_ulong (word_of_nat (f 7)),
       ps_minor_faults := word_of_nat (f 10), ps_major_faults := word_of_nat (f 12),
       ps_utime := word_of_nat (f 14 * m), ps_stime := word_of_nat (f 15 * m),
       ps_start_time := (word_of_nat (f 18) div word_of_int (ticks s) + boot_time s) * 1000,
       ps_vsize := word_of_nat (f 19), ps_rss := pageshift s (word_of_nat (f 20)),
       ps_processor := int_of_ulong (word_of_nat (f 35))\<rparr>))"
proof -
  have par: "CHR '')'' \<notin> set (CHR '' '' # state # fields_from tok 4)"
  proof -
    have "CHR '')'' \<notin> set (spaced ts)" if "\<forall>t \<in> set ts. CHR '')'' \<notin> set t" for ts
      using that by (intro spaced_plain) auto
    moreover have "\<forall>i. CHR '')'' \<notin> set (tok i)" using tok by (simp add: stat_tokens_def)
    ultimately show ?thesis using state(2) by (auto simp: fields_from_def)
  qed
  have line: "stat_line pid name state tok
      = (dec_digits pid @ [CHR '' '']) @ CHR ''('' # name @ CHR '')'' # CHR '' '' # state # fields_from tok 4"
    by (simp add: stat_line_def fields_from_def)
  have "CHR ''('' \<notin> set (dec_digits pid @ [CHR '' ''])"
    using dec_digits_isdigit [of pid] by (auto simp: isdigit_def char_code_def)
  then have c1: "strchr (stat_line pid name state tok) (CHR ''('')
      = Some (CHR ''('' # name @ CHR '')'' # CHR '' '' # state # fields_from tok 4)"
    unfolding line by (rule strchr_first)
  have c2: "strrchr (name @ CHR '')'' # CHR '' '' # state # fields_from tok 4) (CHR '')'')
      = Some (CHR '')'' # CHR '' '' # state # fields_from tok 4)"
    by (rule strrchr_last [OF par])
  have s1: "SYSM_SKIP_SPACE (CHR '' '' # state # fields_from tok 4) = state # fields_from tok 4"
    using state by (simp add: SYSM_SKIP_SPACE_def)
  have t4: "tok 4 = dec_digits (f 4)" "f 4 < 2 ^ 64" using tok by (auto simp: stat_tokens_def)
  have s2: "SYSM_SKIP_SPACE (fields_from tok 4) = dec_digits (f 4) @ fields_from tok 5"
    by (simp add: fields_from_step SYSM_SKIP_SPACE_def t4)
  have r4: "strtoull 10 (dec_digits (f 4) @ fields_from tok 5) = (word_of_nat (f 4), fields_from tok 5)"
    using t4(2) by (rule strtoull_digits_at_space) simp
  have sk: "sysm_skip_multiple_token (fields_from tok 5) 2 = fields_from tok 7"
    "sysm_skip_multiple_token (fields_from tok 8) 2 = fields_from tok 10"
    "sysm_skip_token (fields_from tok 11) = fields_from tok 12"
    "sysm_skip_token (fields_from tok 13) = fields_from tok 14"
    "sysm_skip_multiple_token (fields_from tok 16) 2 = fields_from tok 18"
    "sysm_skip_multiple_token (fields_from tok 21) 14 = fields_from tok 35"
    using skip_fields_from [OF tok, of 5 2] skip_fields_from [OF tok, of 8 2]
      skip_fields_from [OF tok, of 11 1] skip_fields_from [OF tok, of 13 1]
      skip_fields_from [OF tok, of 16 2] skip_fields_from [OF tok, of 21 14] by simp_all
  have rd: "strtoull 10 (fields_from tok 7) = (word_of_nat (f 7), fields_from tok 8)"
    "strtoull 10 (fields_from tok 10) = (word_of_nat (f 10), fields_from tok 11)"
    "strtoull 10 (fields_from tok 12) = (word_of_nat (f 12), fields_from tok 13)"
    "strtoull 10 (fields_from tok 14) = (word_of_nat (f 14), fields_from tok 15)"
    "strtoull 10 (fields_from tok 15) = (word_of_nat (f 15), fields_from tok 16)"
    "strtoull 10 (fields_from tok 18) = (word_of_nat (f 18), fields_from tok 19)"
    "strtoull 10 (fields_from tok 19) = (word_of_nat (f 19), fields_from tok 20)"
    "strtoull 10 (fields_from tok 20) = (word_of_nat (f 20), fields_from tok 21)"
    "strtoull 10 (fields_from tok 35) = (word_of_nat (f 35), fields_from tok 36)"
    using read_fields_from [OF tok] by simp_all
  have tk: "(word_of_int (ticks s) :: u64) \<noteq> 0"
  proof -
    have "0 < ticks s" "ticks s \<le> 1000" using m(1) tick_millis_bounds by auto
    then have "uint (word_of_int (ticks s) :: u64) = ticks s"
      by (simp add: unsigned_of_int take_bit_int_eq_self)
    with \<open>0 < ticks s\<close> show ?thesis by auto
  qed
  show ?thesis
    by (simp add: proc_stat_fields_def c1 c2 s1 s2 r4 sk rd tk deref_def Let_def
        SYSM_PROC_NAME_LEN_def tick_rate_rat [OF m(1,2)] tick_rate_rat [OF m(1,3)] min_def not_le)
qed

definition proc_path :: "int \<Rightarrow> cstring \<Rightarrow> cstring" where
  "proc_path pid fname = ''/proc/'' @ dec_digits (unat (word_of_int pid :: u32)) @ fname"

lemma SYSM_PROC_FILE2STR_path:
  "length fname \<le> 100 \<Longrightarrow> SYSM_PROC_FILE2STR fs BUFSIZ pid fname =
     (case sysm_file2str fs (proc_path pid fname) BUFSIZ BUFSIZ of
        None \<Rightarrow> None
      | Some (Inl r) \<Rightarrow> Some (Inl (if r = ENOENT then ESRCH else r))
      | Some (Inr b) \<Rightarrow> Some (Inr b))"
  using SYSM_PROC_FILENAME_eq [of fname BUFSIZ pid]
  by (simp add: SYSM_PROC_FILE2STR_def sysm_proc_file2str_def SYSM_PROC_FILENAME_def proc_path_def
      BUFSIZ_def split: option.splits sum.splits)

text \<open>C19: reading the status line of a process stores its name and state, and takes parent,
  terminal, faults and times from the fields the manual page gives them (4, 7, 10, 12, 14 and
  15). The start time, the virtual size, the resident pages and the processor come from the
  fields 18, 19, 20 and 35, which hold the priority, the nice value, the number of threads and
  a wait channel; the priority and the nice value are not read at all.\<close>

theorem proc_stat_read_fields:
  assumes stat: "fs (proc_path pid PROC_PSTAT) = Contents (stat_line n name state tok)"
    and plain: "NUL \<notin> set (stat_line n name state tok)" "length (stat_line n name state tok) < BUFSIZ"
    and tok: "stat_tokens tok f" "f 4 < 2 ^ 31" "f 7 < 2 ^ 31" "f 35 < 2 ^ 31"
    and state: "\<not> isspace state" "state \<noteq> CHR '')''"
    and m: "tick_millis s m" "f 14 * m < 2 ^ 53" "f 15 * m < 2 ^ 53"
    and stale: "ps_pid (last_proc_stat s) \<noteq> pid"
  shows "\<exists>s' p. proc_stat_read fs timenow s pid = Some (s', SYSM_OK) \<and> p = last_proc_stat s'
    \<and> ps_pid p = pid \<and> ps_mtime p = timenow \<and> ps_name p = take 127 name \<and> ps_state p = state
    \<and> ps_ppid p = int (f 4) \<and> ps_tty p = int (f 7)
    \<and> ps_minor_faults p = word_of_nat (f 10) \<and> ps_major_faults p = word_of_nat (f 12)
    \<and> ps_utime p = word_of_nat (f 14 * m) \<and> ps_stime p = word_of_nat (f 15 * m)
    \<and> ps_start_time p = (word_of_nat (f 18) div word_of_int (ticks s) + boot_time s) * 1000
    \<and> ps_vsize p = word_of_nat (f 19) \<and> ps_rss p = pageshift s (word_of_nat (f 20))
    \<and> ps_processor p = int (f 35)
    \<and> ps_pri p = ps_pri (last_proc_stat s) \<and> ps_ni p = ps_ni (last_proc_stat s)"
proof -
  have "SYSM_PROC_FILE2STR fs BUFSIZ pid PROC_PSTAT = Some (Inr (stat_line n name state tok))"
    using stat plain by (simp add: SYSM_PROC_FILE2STR_path sysm_file2str_fits PROC_PSTAT_def)
  then show ?thesis
    using stale proc_stat_fields_line [OF tok(1) state m, of n name]
    by (simp add: proc_stat_read_def Let_def int_of_ulong_small [OF tok(2)]
        int_of_ulong_small [OF tok(3)] int_of_ulong_small [OF tok(4)])
qed

text \<open>The witness: a process in state S with the numbers 100, 101, \<open>\<dots>\<close> in its fields.\<close>

definition sample_tok :: "nat \<Rightarrow> cstring" where "sample_tok i = dec_digits (100 + i mod 64)"
definition sample_field :: "nat \<Rightarrow> nat" where "sample_field i = 100 + i mod 64"

lemma sample_stat_tokens: "stat_tokens sample_tok sample_field"
proof -
  have "CHR '')'' \<notin> set (dec_digits k)" for k
    using dec_digits_isdigit [of k] by (auto simp: isdigit_def char_code_def)
  then show ?thesis by (auto simp: stat_tokens_def sample_tok_def sample_field_def)
qed

lemma sample_stat_line:
  "NUL \<notin> set (stat_line n ''sh'' (CHR ''S'') sample_tok)"
  "n < 10 ^ 10 \<Longrightarrow> length (stat_line n ''sh'' (CHR ''S'') sample_tok) < BUFSIZ"
proof -
  let ?ts = "map sample_tok [4 ..< 53]"
  have "NUL \<notin> set (spaced ?ts)"
    by (intro spaced_plain) (auto simp: NUL_def sample_tok_def dec_digits_plain(2) [unfolded NUL_def])
  then show "NUL \<notin> set (stat_line n ''sh'' (CHR ''S'') sample_tok)"
    by (simp add: stat_line_def) (simp add: NUL_def)
  have "\<forall>t \<in> set ?ts. length t \<le> 3"
    by (auto simp: sample_tok_def intro!: length_dec_digits intro: less_le_trans [of _ 164])
  from length_spaced [OF this] have "length (spaced ?ts) \<le> 49 * 4" by simp
  moreover assume "n < 10 ^ 10"
  then have "length (dec_digits n) \<le> 10" by (rule length_dec_digits) simp
  ultimately show "length (stat_line n ''sh'' (CHR ''S'') sample_tok) < BUFSIZ"
    by (simp add: stat_line_def BUFSIZ_def)
qed

definition sample_proc :: files where
  "sample_proc f = (if f = proc_path 42 PROC_PSTAT
     then Contents (stat_line 42 ''sh'' (CHR ''S'') sample_tok) else Open_Fails ENOENT)"

theorem proc_stat_read_fields_witness:
  "\<exists>s' p. proc_stat_read sample_proc 7 (zero_sysm\<lparr>ticks := 100\<rparr>) 42 = Some (s', SYSM_OK)
    \<and> p = last_proc_stat s'
    \<and> ps_pid p = 42 \<and> ps_mtime p = 7 \<and> ps_name p = take 127 ''sh'' \<and> ps_state p = CHR ''S''
    \<and> ps_ppid p = int (sample_field 4) \<and> ps_tty p = int (sample_field 7)
    \<and> ps_minor_faults p = word_of_nat (sample_field 10) \<and> ps_major_faults p = word_of_nat (sample_field 12)
    \<and> ps_utime p = word_of_nat (sample_field 14 * 10) \<and> ps_stime p = word_of_nat (sample_field 15 * 10)
    \<and> ps_start_time p = (word_of_nat (sample_field 18) div word_of_int (ticks (zero_sysm\<lparr>ticks := 100\<rparr>))
          + boot_time (zero_sysm\<lparr>ticks := 100\<rparr>)) * 1000
    \<and> ps_vsize p = word_of_nat (sample_field 19)
    \<and> ps_rss p = pageshift (zero_sysm\<lparr>ticks := 100\<rparr>) (word_of_nat (sample_field 20))
    \<and> ps_processor p = int (sample_field 35)
    \<and> ps_pri p = ps_pri (last_proc_stat (zero_sysm\<lparr>ticks := 100\<rparr>))
    \<and> ps_ni p = ps_ni (last_proc_stat (zero_sysm\<lparr>ticks := 100\<rparr>))"
  by (rule proc_stat_read_fields [where n = 42 and m = 10, OF _ _ _ sample_stat_tokens])
     (simp_all add: sample_proc_def sample_stat_line sample_stat_tokens sample_field_def isspace_def
      char_code_def tick_millis_def zero_sysm_def zero_proc_stat_def)

text \<open>The number of the process is stored before its file is read, so after a call that failed
  (the process does not exist) the next call within two seconds succeeds, without reading
  anything, and the handle still holds the data of the process read before.\<close>

theorem proc_stat_read_error_then_stale:
  assumes "fs (proc_path pid PROC_PSTAT) = Open_Fails ENOENT" "ps_pid (last_proc_stat s) \<noteq> pid"
    and "t2 - t1 < 2"
  shows "\<exists>s'. proc_stat_read fs t1 s pid = Some (s', ESRCH) \<and> proc_stat_read fs' t2 s' pid = Some (s', SYSM_OK)
     \<and> last_proc_stat s' = (last_proc_stat s)\<lparr>ps_pid := pid, ps_mtime := t1\<rparr>"
proof -
  have "SYSM_PROC_FILE2STR fs BUFSIZ pid PROC_PSTAT = Some (Inl ESRCH)"
    using assms(1) by (simp add: SYSM_PROC_FILE2STR_path sysm_file2str_def PROC_PSTAT_def)
  with assms(2,3) show ?thesis
    by (simp add: proc_stat_read_def Let_def SYSM_LAST_PROC_EXPIRE_def)
qed

theorem proc_stat_read_error_then_stale_witness:
  "\<exists>s'. proc_stat_read (\<lambda>_. Open_Fails ENOENT) 10 zero_sysm 42 = Some (s', ESRCH)
     \<and> proc_stat_read (\<lambda>_. Open_Fails ENOENT) 11 s' 42 = Some (s', SYSM_OK)
     \<and> last_proc_stat s' = (last_proc_stat zero_sysm)\<lparr>ps_pid := 42, ps_mtime := 10\<rparr>"
  by (rule proc_stat_read_error_then_stale) (simp_all add: zero_sysm_def zero_proc_stat_def)

section \<open>CPU usage\<close>

lemma proc_stat_fields_cong:
  assumes "ticks s' = ticks s" "boot_time s' = boot_time s" "pagesize s' = pagesize s"
  shows "proc_stat_fields s' ptr pstat = proc_stat_fields s ptr pstat"
proof -
  have "SYSM_TICK2MSEC s' = SYSM_TICK2MSEC s" "pageshift s' = pageshift s"
    using assms by (simp_all add: fun_eq_iff SYSM_TICK2MSEC_def pageshift_def)
  then show ?thesis by (simp only: proc_stat_fields_def assms)
qed

lemma sysm_proc_time_get_frame:
  "sysm_proc_time_get fs timenow (s\<lparr>proc_cpu := c\<rparr>) pid
     = map_option (\<lambda>(s', r). (s'\<lparr>proc_cpu := c\<rparr>, r)) (sysm_proc_time_get fs timenow s pid)"
proof -
  have f: "proc_stat_fields (s\<lparr>proc_cpu := c\<rparr>) ptr pstat = proc_stat_fields s ptr pstat" for ptr pstat
    by (rule proc_stat_fields_cong) simp_all
  have "proc_stat_read fs timenow (s\<lparr>proc_cpu := c\<rparr>) pid
      = map_option (\<lambda>(s', r). (s'\<lparr>proc_cpu := c\<rparr>, r)) (proc_stat_read fs timenow s pid)"
    by (cases "SYSM_PROC_FILE2STR fs BUFSIZ pid PROC_PSTAT")
       (auto simp: proc_stat_read_def Let_def f map_option_case split: sum.splits option.splits bind_splits)
  then show ?thesis
    by (cases "proc_stat_read fs timenow s pid") (auto simp: sysm_proc_time_get_def Let_def)
qed

definition cpu_sample :: "u64 \<Rightarrow> sysm_proc_time \<Rightarrow> sysm_proc_cpu \<Rightarrow> sysm_proc_cpu" where
  "cpu_sample now pt out =
     out\<lparr>pc_last_time := now, pc_start_time := pt_start_time pt, pc_user := pt_user pt,
         pc_sys := pt_sys pt, pc_total := pt_total pt\<rparr>"

text \<open>C11: for a process the handle has sampled before, the CPU usage is the growth of its CPU time
  divided by the time since that sample; and on the cache the call is the update of an
  abstract map at the process number, which leaves the samples of all other processes.\<close>

theorem proc_cpu_percent_between_samples:
  assumes t: "proc_cpu s = Some t" "cache_inv t" "cache_quiet now1 t"
    and previous: "cache_val t (word_of_int pid) = Some (Some previous)" "pc_total previous \<noteq> 0"
      "now \<noteq> pc_last_time previous"
    and time: "sysm_proc_time_get fs timenow s pid = Some (s1, Inr pt)" "pc_total previous \<le> pt_total pt"
  shows "\<exists>s' t'. sysm_proc_cpu_get fs timenow now now0 now1 now2 s pid out
       = Some (s', (cpu_sample now pt out)\<lparr>pc_percent :=
            dbl_div (u64_to_dbl (pt_total pt - pc_total previous)) (u64_to_dbl (now - pc_last_time previous))\<rparr>,
           SYSM_OK)
     \<and> proc_cpu s' = Some t' \<and> cache_inv t'
     \<and> cache_val t' = (cache_val t)(word_of_int pid := Some (Some (cpu_sample now pt out)))"
proof -
  let ?k = "word_of_int pid :: u64"
  obtain t1 a where g: "sysm_cache_get now1 now2 t ?k = Some (t1, a)"
    using cache_cells.get_total [OF t(2)] by blast
  have "cache_lookup t ?k \<noteq> None" using previous(1) by (auto simp: cache_val_def)
  then have room: "cache_room t ?k" by (simp add: cache_room_def)
  have "entry_val t1 a = Some (Some previous)"
    using cache_cells.get_load [OF t(2) g] cache_cells.get_val [OF t(2,3) g] previous(1) by simp
  then obtain e where e: "entry_load t1 a = Some e" "e_value e = Some previous"
    by (auto simp: entry_val_def)
  let ?t2 = "entry_store a (previous\<lparr>pc_last_time := now\<rparr>) t1"
  let ?t3 = "entry_store a (cpu_sample now pt out) ?t2"
  have t3: "?t3 = entry_store a (cpu_sample now pt out) t1" by (rule cache_cells.store_store)
  have "cache_val ?t3 = (cache_val t)(?k := Some (Some (cpu_sample now pt out)))"
    unfolding t3 by (rule cache_cells.put_val [OF t(2,3) room g])
  moreover have "cache_inv ?t3" unfolding t3 by (rule cache_cells.put_inv [OF t(2) g])
  moreover have "\<not> pt_total pt < pc_total previous" using time(2) by simp
  ultimately show ?thesis
    using previous(2,3) time(1) g e
    by (simp add: sysm_proc_cpu_get_def t(1) Let_def sysm_proc_time_get_frame cpu_sample_def)
qed

definition sample_sampled :: sysm where
  "sample_sampled = zero_sysm\<lparr>last_proc_stat := zero_proc_stat\<lparr>ps_pid := 42, ps_mtime := 7,
     ps_utime := 900, ps_stime := 100\<rparr>\<rparr>"

definition sample_previous :: sysm_proc_cpu where
  "sample_previous = zero_proc_cpu\<lparr>pc_total := 500, pc_last_time := 1000\<rparr>"

definition sample_time :: sysm_proc_time where
  "sample_time = \<lparr>pt_start_time = 0, pt_user = 900, pt_sys = 100, pt_total = 1000\<rparr>"

theorem proc_cpu_percent_between_samples_witness:
  "\<exists>t s' t'. sysm_proc_cpu_get sample_proc 7 2000 0 0 0 (sample_sampled\<lparr>proc_cpu := Some t\<rparr>) 42 zero_proc_cpu
       = Some (s', (cpu_sample 2000 sample_time zero_proc_cpu)\<lparr>pc_percent :=
            dbl_div (u64_to_dbl (pt_total sample_time - pc_total sample_previous))
              (u64_to_dbl (2000 - pc_last_time sample_previous))\<rparr>, SYSM_OK)
     \<and> proc_cpu s' = Some t' \<and> cache_inv t'
     \<and> cache_val t' = (cache_val t)(word_of_int 42 := Some (Some (cpu_sample 2000 sample_time zero_proc_cpu)))"
proof -
  let ?t0 = "sysm_expired_cache_new 128 PID_CACHE_CLEANUP_PERIOD PID_CACHE_ENTRY_EXPIRE_PERIOD 0 :: sysm_proc_cpu cache"
  have inv: "cache_inv ?t0" by (rule cache_inv_new) simp
  have quiet: "cache_quiet 0 ?t0"
    by (simp add: cache_quiet_def cleanup_due_def sysm_expired_cache_new_def PID_CACHE_CLEANUP_PERIOD_def)
  obtain t1 a where g: "sysm_cache_get 0 0 ?t0 (word_of_int 42) = Some (t1, a)"
    using cache_cells.get_total [OF inv] by blast
  define t where "t = entry_store a sample_previous t1"
  have tm: "sysm_proc_time_get sample_proc 7 (sample_sampled\<lparr>proc_cpu := Some t\<rparr>) 42
      = Some (sample_sampled\<lparr>proc_cpu := Some t\<rparr>, Inr sample_time)"
    by (simp add: sysm_proc_time_get_def proc_stat_read_def sample_sampled_def zero_proc_stat_def
        SYSM_LAST_PROC_EXPIRE_def sample_time_def)
  have inv': "cache_inv t" "cache_quiet 0 t"
    unfolding t_def using cache_cells.put_inv [OF inv g] cache_cells.put_quiet [OF inv quiet g] by auto
  have val: "cache_val t (word_of_int 42) = Some (Some sample_previous)"
    unfolding t_def by (rule cache_cells.store_val [OF inv g])
  show ?thesis
    by (rule exI [of _ t], rule proc_cpu_percent_between_samples [OF _ inv' val _ _ tm])
       (simp_all add: sample_previous_def sample_time_def)
qed

section \<open>Arguments and environment\<close>

definition nul_joined :: "cstring list \<Rightarrow> char list" where
  "nul_joined args = concat (map (\<lambda>a. a @ [NUL]) args)"

lemma cstr_append_NUL: "NUL \<notin> set a \<Longrightarrow> cstr (a @ NUL # x) = a"
  unfolding cstr_def by (rule takeWhile_append_stop) auto

lemma args_loop_joined:
  "\<forall>a \<in> set args. NUL \<notin> set a \<Longrightarrow> dl_wf l \<Longrightarrow>
     \<exists>l'. args_loop (nul_joined args) l = Some l' \<and> dl_wf l' \<and> dl_contents l' = dl_contents l @ args"
proof (induction args arbitrary: l)
  case Nil
  then show ?case by (simp add: nul_joined_def args_loop.simps)
next
  case (Cons a args)
  have c: "cstr (nul_joined (a # args)) = a"
    using Cons.prems(1) by (simp add: nul_joined_def cstr_append_NUL)
  have d: "drop (Suc (length a)) (nul_joined (a # args)) = nul_joined args"
    by (simp add: nul_joined_def)
  obtain l1 where "dl_append a (SYSM_PROC_ARGS_GROW l) = Some l1" "dl_wf l1" "dl_contents l1 = dl_contents l @ [a]"
    using proc_args.push_total [OF Cons.prems(2), of a] by (auto simp: dl_push_def)
  moreover have "nul_joined (a # args) \<noteq> []" by (simp add: nul_joined_def)
  ultimately show ?case
    using Cons.IH [of l1] Cons.prems by (simp add: args_loop.simps [of "nul_joined (a # args)"] c d)
qed

text \<open>C12: the arguments of a process, which the kernel joins with NULs, come back as the list they
  were, empty arguments and any number of them included.\<close>

theorem proc_args_roundtrip:
  assumes "fs (proc_path pid ''/cmdline'') = Contents (nul_joined args)" "\<forall>a \<in> set args. NUL \<notin> set a"
  shows "\<exists>l. sysm_proc_args_get fs pid = Some (l, SYSM_OK) \<and> dl_contents l = args"
proof -
  have n: "SYSM_PROC_FILENAME BUFSIZ pid ''/cmdline'' = Some (proc_path pid ''/cmdline'')"
    by (simp add: SYSM_PROC_FILENAME_eq proc_path_def BUFSIZ_def)
  obtain l where "args_loop (nul_joined args) sysm_proc_args_create = Some l" "dl_contents l = args"
    using args_loop_joined [OF assms(2) proc_args.create_wf] by (auto simp: proc_args.create_contents)
  then show ?thesis
    using assms(1) n
    by (cases args) (auto simp: sysm_proc_args_get_def sysm_os_proc_args_get_def nul_joined_def
        dl_contents_def)
qed

theorem proc_args_roundtrip_witness:
  "\<exists>l. sysm_proc_args_get (\<lambda>_. Contents (nul_joined [''ls'', '''', ''-l''])) 42 = Some (l, SYSM_OK)
     \<and> dl_contents l = [''ls'', '''', ''-l'']"
  by (rule proc_args_roundtrip) (simp_all add: NUL_def)

text \<open>The entries of an environment, given to the callback one by one until it stops.\<close>

definition env_bytes :: "(cstring \<times> cstring) list \<Rightarrow> char list" where
  "env_bytes kvs = nul_joined (map (\<lambda>(k, v). k @ ''='' @ v) kvs)"

fun env_calls :: "'st env_getter \<Rightarrow> 'st \<Rightarrow> (cstring \<times> cstring) list \<Rightarrow> 'st" where
  "env_calls getter st [] = st"
| "env_calls getter st ((k, v) # kvs) =
     (case getter st k (length k) v (length v) of
        (st', status) \<Rightarrow> if status \<noteq> SYSM_OK then st' else env_calls getter st' kvs)"

definition env_entry :: "cstring \<times> cstring \<Rightarrow> bool" where
  "env_entry kv \<longleftrightarrow> CHR ''='' \<notin> set (fst kv) \<and> NUL \<notin> set (fst kv) \<and> NUL \<notin> set (snd kv)"

lemma env_loop_step:
  assumes "env_entry (k, v)"
  shows "env_loop getter st (env_bytes ((k, v) # kvs)) =
     (if 128 \<le> length k then None
      else case getter st k (length k) v (length v) of
             (st', status) \<Rightarrow> if status \<noteq> SYSM_OK then Some st' else env_loop getter st' (env_bytes kvs))"
proof -
  have c: "cstr (env_bytes ((k, v) # kvs)) = k @ CHR ''='' # v"
    using assms cstr_append_NUL [of "k @ CHR ''='' # v"]
    by (simp add: env_bytes_def nul_joined_def env_entry_def NUL_def)
  have e: "strchr (k @ CHR ''='' # v) (CHR ''='') = Some (CHR ''='' # v)"
    using assms by (intro strchr_first) (simp add: env_entry_def)
  have ne: "env_bytes ((k, v) # kvs) \<noteq> []" by (simp add: env_bytes_def nul_joined_def)
  have d: "drop (Suc (Suc (length k + length v))) (env_bytes ((k, v) # kvs)) = env_bytes kvs"
    by (simp add: env_bytes_def nul_joined_def)
  show ?thesis
    by (simp add: env_loop.simps [of getter st "env_bytes ((k, v) # kvs)"] c e ne d Let_def
        split: prod.splits)
qed

lemma env_loop_calls:
  "\<forall>kv \<in> set kvs. env_entry kv \<and> length (fst kv) < 128
     \<Longrightarrow> env_loop getter st (env_bytes kvs) = Some (env_calls getter st kvs)"
proof (induction kvs arbitrary: st)
  case Nil
  then show ?case by (simp add: env_bytes_def nul_joined_def env_loop.simps)
next
  case (Cons kv kvs)
  obtain k v where "kv = (k, v)" by (cases kv)
  with Cons show ?case by (simp add: env_loop_step split: prod.split)
qed

text \<open>C13: reading the environment of another process gives the callback every key and value in
  order until it asks to stop, provided every key is shorter than 128 characters.\<close>

theorem proc_env_calls_getter:
  assumes "fs (proc_path pid ''/environ'') = Contents (env_bytes kvs)" "length (env_bytes kvs) < ARG_BUF_MAX"
    and "\<forall>kv \<in> set kvs. env_entry kv \<and> length (fst kv) < 128"
    and "type = SYSM_PROC_ENV_ALL \<or> pid \<noteq> s_pid s"
  shows "sysm_proc_env_get fs getenv s pid type key getter st = Some (env_calls getter st kvs, SYSM_OK)"
proof -
  have "SYSM_PROC_FILENAME BUFSIZ pid ''/environ'' = Some (proc_path pid ''/environ'')"
    by (simp add: SYSM_PROC_FILENAME_eq proc_path_def BUFSIZ_def)
  with assms show ?thesis by (auto simp: sysm_proc_env_get_def Let_def env_loop_calls)
qed

definition collect_env :: "(cstring \<times> cstring) list env_getter" where
  "collect_env st k klen v vlen = (st @ [(k, v)], SYSM_OK)"

theorem proc_env_calls_getter_witness:
  "sysm_proc_env_get (\<lambda>_. Contents (env_bytes [(''HOME'', ''/root''), (''A'', '''')])) (\<lambda>_. None) zero_sysm 42
     SYSM_PROC_ENV_ALL [] collect_env [] = Some (env_calls collect_env [] [(''HOME'', ''/root''), (''A'', '''')], SYSM_OK)"
  by (rule proc_env_calls_getter)
     (simp_all add: env_bytes_def nul_joined_def ARG_BUF_MAX_def env_entry_def NUL_def)

text \<open>A variable whose name has 128 characters or more is terminated outside of the array of
  128 characters that holds it: the call has no defined result.\<close>

theorem proc_env_long_key_overflows:
  assumes "fs (proc_path pid ''/environ'') = Contents (env_bytes ((k, v) # kvs))"
    and "length (env_bytes ((k, v) # kvs)) < ARG_BUF_MAX" "env_entry (k, v)" "128 \<le> length k"
    and "type = SYSM_PROC_ENV_ALL \<or> pid \<noteq> s_pid s"
  shows "sysm_proc_env_get fs getenv s pid type key getter st = None"
proof -
  have "SYSM_PROC_FILENAME BUFSIZ pid ''/environ'' = Some (proc_path pid ''/environ'')"
    by (simp add: SYSM_PROC_FILENAME_eq proc_path_def BUFSIZ_def)
  with assms show ?thesis by (auto simp: sysm_proc_env_get_def Let_def env_loop_step)
qed

theorem proc_env_long_key_overflows_witness:
  "sysm_proc_env_get (\<lambda>_. Contents (env_bytes [(replicate 128 (CHR ''K''), ''1'')])) (\<lambda>_. None) zero_sysm 42
     SYSM_PROC_ENV_ALL [] collect_env [] = None"
  by (rule proc_env_long_key_overflows [where kvs = "[]" and k = "replicate 128 (CHR ''K'')" and v = "''1''"])
     (simp_all add: env_bytes_def nul_joined_def ARG_BUF_MAX_def env_entry_def NUL_def)

section \<open>The summary of all processes\<close>

definition state_sum :: "sysm_proc_stat \<Rightarrow> nat" where
  "state_sum ps = unat (pn_idle ps) + unat (pn_running ps) + unat (pn_sleeping ps)
     + unat (pn_stopped ps) + unat (pn_zombie ps)"

lemma unat_inc_le: "unat (w + 1 :: u64) \<le> unat w + 1"
  by (simp add: unat_word_ariths)

lemma count_state_sum: "state_sum (count_state st ps) \<le> Suc (state_sum ps)"
  using unat_inc_le [of "pn_idle ps"] unat_inc_le [of "pn_running ps"] unat_inc_le [of "pn_sleeping ps"]
    unat_inc_le [of "pn_stopped ps"] unat_inc_le [of "pn_zombie ps"]
  by (auto simp: count_state_def state_sum_def Let_def)

lemma count_state_total [simp]: "pn_total (count_state st ps) = pn_total ps"
  by (simp add: count_state_def Let_def)

lemma proc_stat_loop_sum:
  "proc_stat_loop cpuid fs timenow st0 s ps_pids ps = Some (s', ps')
     \<Longrightarrow> state_sum ps' \<le> state_sum ps + length ps_pids \<and> pn_total ps' = pn_total ps"
proof (induction ps_pids arbitrary: s ps)
  case Nil
  then show ?case by simp
next
  case (Cons pid rest)
  from Cons.prems obtain s1 st status where
    "proc_stat_loop cpuid fs timenow st0 s1 rest (if status \<noteq> SYSM_OK then ps else count_state st ps) = Some (s', ps')"
    by (auto split: option.splits)
  from Cons.IH [OF this] show ?case
    using count_state_sum [of st ps] by (auto split: if_splits)
qed

lemma dl_wf_length: "dl_wf l \<Longrightarrow> length (dl_contents l) = dl_number l"
  by (simp add: dl_wf_def dl_contents_def)

text \<open>The summary counts every process of the directory once in the total, and the five state counters
  together never exceed it, whatever the files of the processes hold.\<close>

theorem proc_stat_counts:
  assumes "sysm_proc_stat_get cpuid fs (Inr names) timenow st0 s = Some (s', ps, status)"
    and "has_nptl s" "\<forall>l. pids s = Some l \<longrightarrow> dl_wf l" "length names < 2 ^ 64"
  shows "status = SYSM_OK \<and> unat (pn_total ps) = length (filter digit_name names)
    \<and> state_sum ps \<le> unat (pn_total ps)"
proof -
  obtain s1 l where l: "sysm_proc_list_get_own fs (Inr names) s = Some (s1, l, SYSM_OK)"
    "dl_contents l = map pid_of_name (filter digit_name names)" "dl_wf l"
    by (rule proc_list_own [OF assms(2,3)])
  have n: "dl_number l = length (filter digit_name names)"
    using dl_wf_length [OF l(3)] l(2) by simp
  let ?ps = "\<lparr>pn_total = word_of_nat (dl_number l), pn_sleeping = 0, pn_running = 0, pn_zombie = 0,
      pn_stopped = 0, pn_idle = 0, pn_threads = - 1\<rparr> :: sysm_proc_stat"
  have st: "status = SYSM_OK" and loop: "proc_stat_loop cpuid fs timenow st0 s1 (dl_contents l) ?ps = Some (s', ps)"
    using assms(1) l(1) by (auto simp: sysm_proc_stat_get_def split: bind_splits)
  have "dl_number l < 2 ^ 64" using n assms(4) le_less_trans [OF length_filter_le] by simp
  then have "unat (pn_total ?ps) = dl_number l" "state_sum ?ps = 0" by (simp_all add: state_sum_def)
  with proc_stat_loop_sum [OF loop] l(2) n st show ?thesis by simp
qed

definition blank_state :: sysm_proc_state where
  "blank_state = \<lparr>pst_name = [], pst_state = NUL, pst_ppid = 0, pst_tty = 0, pst_priority = 0,
     pst_nice = 0, pst_processor = 0, pst_threads = 0\<rparr>"

definition no_cpuid :: "u32 \<Rightarrow> cpuid_regs" where
  "no_cpuid n = \<lparr>eax = 0, ebx = 0, ecx = 0, edx = 0\<rparr>"

definition no_files :: files where "no_files f = Open_Fails ENOENT"

lemma proc_state_get_no_files: "sysm_proc_state_get cpuid no_files timenow s pid st \<noteq> None"
proof -
  have f: "SYSM_PROC_FILE2STR no_files BUFSIZ p n = Some (Inl ESRCH)" if "length n \<le> 100" for p n
    using that by (simp add: SYSM_PROC_FILE2STR_path sysm_file2str_def no_files_def)
  show ?thesis
    by (simp add: sysm_proc_state_get_def proc_stat_read_def proc_status_get_def f PROC_PSTAT_def
        PROC_PSTATUS_def Let_def split: prod.split)
qed

lemma proc_stat_loop_no_files: "\<exists>r. proc_stat_loop cpuid no_files timenow st0 s ps_pids ps = Some r"
proof (induction ps_pids arbitrary: s ps)
  case Nil
  then show ?case by simp
next
  case (Cons pid rest)
  obtain s1 st status where "sysm_proc_state_get cpuid no_files timenow s pid st0 = Some (s1, st, status)"
    using proc_state_get_no_files [of cpuid timenow s pid st0] by auto
  with Cons.IH show ?case by simp
qed

theorem proc_stat_counts_witness:
  "\<exists>s' ps. sysm_proc_stat_get no_cpuid no_files (Inr [''1'', ''self'', ''42'']) 7 blank_state
       (zero_sysm\<lparr>has_nptl := True\<rparr>) = Some (s', ps, SYSM_OK)
     \<and> unat (pn_total ps) = 2 \<and> state_sum ps \<le> 2"
proof -
  let ?s = "zero_sysm\<lparr>has_nptl := True\<rparr>" and ?names = "[''1'', ''self'', ''42'']"
  have wf: "has_nptl ?s" "\<forall>l. pids ?s = Some l \<longrightarrow> dl_wf l" by (simp_all add: zero_sysm_def)
  obtain s1 l where l: "sysm_proc_list_get_own no_files (Inr ?names) ?s = Some (s1, l, SYSM_OK)"
    by (rule proc_list_own [OF wf])
  have "\<exists>r. sysm_proc_stat_get no_cpuid no_files (Inr ?names) 7 blank_state ?s = Some r"
    using proc_stat_loop_no_files [of no_cpuid 7 blank_state s1 "dl_contents l"
        "\<lparr>pn_total = word_of_nat (dl_number l), pn_sleeping = 0, pn_running = 0, pn_zombie = 0,
          pn_stopped = 0, pn_idle = 0, pn_threads = - 1\<rparr>"]
    by (auto simp: sysm_proc_stat_get_def l)
  then obtain s' ps status where
    g: "sysm_proc_stat_get no_cpuid no_files (Inr ?names) 7 blank_state ?s = Some (s', ps, status)" by auto
  have "length (filter digit_name ?names) = 2"
    by (simp add: digit_name_def deref_def isdigit_def char_code_def)
  with proc_stat_counts [OF g wf] g show ?thesis by auto
qed

text \<open>What the kernel's status files hold: a line \<open>Threads:\<close>, none \<open>Thread:\<close>; a failed read
  sets \<open>errno\<close>.\<close>

definition kernel_status_files :: "files \<Rightarrow> bool" where
  "kernel_status_files fs \<longleftrightarrow>
     (\<forall>name cs. fs name = Contents cs \<longrightarrow> strstr (cstr (take BUFSIZ cs)) (CHR 0x0A # ''Thread:'') = None) \<and>
     (\<forall>name. fs name \<noteq> Read_Fails 0)"

lemma proc_status_threads:
  assumes "kernel_status_files fs" "proc_status_get fs pid st1 = Some (st, SYSM_OK)"
  shows "pst_threads st = - 1"
proof (cases "fs (proc_path pid PROC_PSTATUS)")
  case (Open_Fails e)
  then have "SYSM_PROC_FILE2STR fs BUFSIZ pid PROC_PSTATUS = Some (Inl ESRCH)"
    by (simp add: SYSM_PROC_FILE2STR_path PROC_PSTATUS_def sysm_file2str_def)
  with assms(2) show ?thesis by (simp add: proc_status_get_def status_codes)
next
  case (Read_Fails e)
  moreover have "e \<noteq> 0" using assms(1) Read_Fails by (auto simp: kernel_status_files_def)
  ultimately have "\<exists>r. SYSM_PROC_FILE2STR fs BUFSIZ pid PROC_PSTATUS = Some (Inl r) \<and> r \<noteq> 0"
    by (simp add: SYSM_PROC_FILE2STR_path PROC_PSTATUS_def sysm_file2str_def status_codes)
  with assms(2) show ?thesis by (auto simp: proc_status_get_def status_codes)
next
  case (Contents cs)
  then have "SYSM_PROC_FILE2STR fs BUFSIZ pid PROC_PSTATUS \<in> {None, Some (Inr (cstr (take BUFSIZ cs)))}"
    by (simp add: SYSM_PROC_FILE2STR_path PROC_PSTATUS_def sysm_file2str_def Let_def)
  moreover have "strstr (cstr (take BUFSIZ cs)) (CHR 0x0A # ''Thread:'') = None"
    using assms(1) Contents by (auto simp: kernel_status_files_def)
  ultimately show ?thesis using assms(2) by (auto simp: proc_status_get_def)
qed

lemma proc_state_threads:
  assumes "kernel_status_files fs"
    and "sysm_proc_state_get cpuid fs timenow s pid st0 = Some (s', st, SYSM_OK)"
  shows "pst_threads st = - 1"
  using assms(2) proc_status_threads [OF assms(1), of pid _ st]
  by (auto simp: sysm_proc_state_get_def Let_def split: bind_splits prod.splits if_splits)

lemma proc_stat_loop_threads:
  assumes "kernel_status_files fs"
  shows "proc_stat_loop cpuid fs timenow st0 s ps_pids ps = Some (s', ps') \<Longrightarrow> pn_threads ps' = pn_threads ps"
proof (induction ps_pids arbitrary: s ps)
  case Nil
  then show ?case by simp
next
  case (Cons pid rest)
  from Cons.prems obtain s1 st status where
    g: "sysm_proc_state_get cpuid fs timenow s pid st0 = Some (s1, st, status)" and
    l: "proc_stat_loop cpuid fs timenow st0 s1 rest (if status \<noteq> SYSM_OK then ps else count_state st ps) = Some (s', ps')"
    by (auto split: option.splits)
  have "status = SYSM_OK \<Longrightarrow> pst_threads st = - 1"
    using proc_state_threads [OF assms] g by simp
  then have "pn_threads (if status \<noteq> SYSM_OK then ps else count_state st ps) = pn_threads ps"
    by (auto simp: count_state_def Let_def)
  with Cons.IH [OF l] show ?case by simp
qed

text \<open>The number of threads is never counted: the code looks for a line \<open>Thread:\<close>, the kernel
  prints \<open>Threads:\<close>, and the summary reports \<open>2^64 - 1\<close> whatever the processes have.\<close>

theorem proc_stat_threads_unknown:
  assumes "kernel_status_files fs"
    and "sysm_proc_stat_get cpuid fs dir timenow st0 s = Some (s', ps, status)"
  shows "pn_threads ps = - 1"
  using assms(2)
  by (auto simp: sysm_proc_stat_get_def Let_def bind_eq_Some_conv split: if_splits
      dest!: proc_stat_loop_threads [OF assms(1)])

theorem proc_stat_threads_unknown_witness:
  "\<exists>s' ps status. sysm_proc_stat_get no_cpuid no_files (Inr []) 7 blank_state
       (zero_sysm\<lparr>has_nptl := True\<rparr>) = Some (s', ps, status) \<and> pn_threads ps = - 1"
proof -
  have wf: "has_nptl (zero_sysm\<lparr>has_nptl := True\<rparr>)" "\<forall>l. pids (zero_sysm\<lparr>has_nptl := True\<rparr>) = Some l \<longrightarrow> dl_wf l"
    by (simp_all add: zero_sysm_def)
  obtain s1 l where l: "sysm_proc_list_get_own no_files (Inr []) (zero_sysm\<lparr>has_nptl := True\<rparr>) = Some (s1, l, SYSM_OK)"
      "dl_contents l = []"
    using proc_list_own [OF wf, of no_files "[]" thesis] by simp
  then have "\<exists>s' ps status. sysm_proc_stat_get no_cpuid no_files (Inr []) 7 blank_state
       (zero_sysm\<lparr>has_nptl := True\<rparr>) = Some (s', ps, status)"
    by (simp add: sysm_proc_stat_get_def)
  moreover have "kernel_status_files no_files" by (simp add: kernel_status_files_def no_files_def)
  ultimately show ?thesis using proc_stat_threads_unknown by blast
qed

section \<open>Threads of kernels without NPTL\<close>

lemma back_while_run:
  "\<forall>c \<in> set p. P c \<Longrightarrow> \<not> P x \<Longrightarrow> a \<noteq> []
     \<Longrightarrow> back_while P (a @ x # p @ r) (int (length a + length p)) = int (length a) - 1"
proof (induction p arbitrary: r rule: rev_induct)
  case Nil
  then show ?case by (simp add: back_while.simps [of P "a @ x # r"])
next
  case (snoc c p)
  let ?buf = "a @ x # (p @ [c]) @ r" and ?n = "int (length a + length (p @ [c]))"
  have at: "?buf ! nat ?n = c"
    by (simp add: nth_append nth_Cons' nat_add_distrib)
  have "back_while P (a @ x # p @ c # r) (int (length a + length p)) = int (length a) - 1"
    using snoc by simp
  moreover have "back_while P ?buf ?n = back_while P ?buf (?n - 1)"
    unfolding back_while.simps [of P ?buf ?n] at using snoc.prems by simp
  ultimately show ?case by simp
qed

lemma skip_back_field:
  assumes "B0 \<noteq> []" "isdigit x" "t \<noteq> []" "\<forall>c \<in> set t. isdigit c"
  shows "back_while (\<lambda>c. \<not> isdigit c) (B0 @ x # CHR '' '' # t @ R)
      (back_while isdigit (B0 @ x # CHR '' '' # t @ R) (int (length (B0 @ x # CHR '' '' # t)) - 2))
    = int (length B0) - 1"
proof -
  obtain q y where t: "t = q @ [y]" using assms(3) by (cases t rule: rev_cases) auto
  have "back_while isdigit ((B0 @ [x]) @ CHR '' '' # q @ (y # R)) (int (length (B0 @ [x]) + length q))
      = int (length (B0 @ [x])) - 1"
    using assms(4) t by (intro back_while_run) (auto simp: isdigit_def char_code_def)
  then have 1: "back_while isdigit (B0 @ x # CHR '' '' # t @ R) (int (length (B0 @ x # CHR '' '' # t)) - 2)
      = int (length B0)"
    by (simp add: t)
  have "back_while (\<lambda>c. \<not> isdigit c) (B0 @ x # [] @ (CHR '' '' # t @ R)) (int (length B0 + length ([] :: char list)))
      = int (length B0) - 1"
    using assms(1,2) by (intro back_while_run) auto
  with 1 show ?thesis by simp
qed

lemma digits_snoc: "\<exists>q y. dec_digits n = q @ [y] \<and> isdigit y"
  using dec_digits_isdigit [of n] by (cases "dec_digits n" rule: rev_cases) auto

lemma skip_back_fields:
  "A \<noteq> [] \<Longrightarrow> skip_back (length ns) ((A @ dec_digits v) @ spaced (map dec_digits ns) @ R)
      (int (length ((A @ dec_digits v) @ spaced (map dec_digits ns))) - 2)
    = int (length (A @ dec_digits v)) - 2"
proof (induction ns arbitrary: R rule: rev_induct)
  case Nil
  then show ?case by simp
next
  case (snoc n ns)
  have "\<exists>B0 x. (A @ dec_digits v) @ spaced (map dec_digits ns) = B0 @ [x] \<and> isdigit x \<and> B0 \<noteq> []"
  proof (cases ns rule: rev_cases)
    case Nil
    then show ?thesis using digits_snoc [of v] snoc.prems by (metis append.assoc append_Nil2 append_is_Nil_conv
          list.simps(8) spaced_Nil)
  next
    case (snoc ms k)
    obtain q y where "dec_digits k = q @ [y]" "isdigit y" using digits_snoc [of k] by blast
    with snoc show ?thesis
      by (intro exI [of _ "A @ dec_digits v @ spaced (map dec_digits ms) @ CHR '' '' # q"] exI [of _ y])
         (simp add: spaced_append)
  qed
  then obtain B0 x where B: "(A @ dec_digits v) @ spaced (map dec_digits ns) = B0 @ [x]" "isdigit x" "B0 \<noteq> []"
    by blast
  let ?t = "dec_digits n"
  have len: "length A + (length (dec_digits v) + length (spaced (map dec_digits ns))) = Suc (length B0)"
    using arg_cong [OF B(1), of length] by simp
  have buf: "(A @ dec_digits v) @ spaced (map dec_digits (ns @ [n])) @ R = B0 @ x # CHR '' '' # ?t @ R"
    "length ((A @ dec_digits v) @ spaced (map dec_digits (ns @ [n]))) = length (B0 @ x # CHR '' '' # ?t)"
    using B(1) by (simp_all add: spaced_append len)
  have "back_while (\<lambda>c. \<not> isdigit c) (B0 @ x # CHR '' '' # ?t @ R)
      (back_while isdigit (B0 @ x # CHR '' '' # ?t @ R) (int (length (B0 @ x # CHR '' '' # ?t)) - 2))
    = int (length B0) - 1"
    using B by (intro skip_back_field) (simp_all add: dec_digits_isdigit)
  then have "skip_back (length (ns @ [n])) ((A @ dec_digits v) @ spaced (map dec_digits (ns @ [n])) @ R)
      (int (length ((A @ dec_digits v) @ spaced (map dec_digits (ns @ [n])))) - 2)
    = skip_back (length ns) (B0 @ x # CHR '' '' # ?t @ R) (int (length (B0 @ [x])) - 2)"
    unfolding buf by simp
  also have "\<dots> = skip_back (length ns) ((A @ dec_digits v) @ spaced (map dec_digits ns) @ (CHR '' '' # ?t @ R))
      (int (length ((A @ dec_digits v) @ spaced (map dec_digits ns))) - 2)"
    unfolding append.assoc [symmetric] B(1) by simp
  also have "\<dots> = int (length (A @ dec_digits v)) - 2" using snoc by blast
  finally show ?case .
qed

text \<open>A status line with the fields 4 to 37 as texts and the fields 38 to 52 as numbers.\<close>

definition signal_tokens :: "(nat \<Rightarrow> cstring) \<Rightarrow> (nat \<Rightarrow> nat) \<Rightarrow> bool" where
  "signal_tokens tok f \<longleftrightarrow>
     (\<forall>i. is_field (tok i) \<and> NUL \<notin> set (tok i)) \<and> (\<forall>i \<in> {38 ..< 53}. tok i = dec_digits (f i))"

lemma count_list_append_blank: "count_list (xs @ ys) c = count_list xs c + count_list ys c"
  by (induction xs) auto

lemma count_blanks_spaced: "\<forall>t \<in> set ts. is_field t \<Longrightarrow> count_list (spaced ts) (CHR '' '') = length ts"
proof (induction ts)
  case Nil
  then show ?case by simp
next
  case (Cons t ts)
  then have "CHR '' '' \<notin> set t" by (auto simp: is_field_def)
  then have "count_list t (CHR '' '') = 0" by (simp add: count_list_0_iff)
  with Cons show ?case by (simp add: count_list_append_blank)
qed

lemma last_two_17:
  assumes A: "A \<noteq> []" "\<not> isdigit (last A)"
  shows "starts_with (drop (length (A @ dec_digits v) - 2) ((A @ dec_digits v) @ CHR '' '' # R)) ''17 ''
     \<longleftrightarrow> v mod 100 = 17"
proof -
  have code: "char_of (48 + d) = c \<Longrightarrow> 48 + d = char_code c" if "d < 10" for c and d :: nat
    using that char_code_char_of [of "48 + d"] by auto
  have digit: "char_of (55 :: nat) = CHR ''7''" "char_of (49 :: nat) = CHR ''1''"
    using char_of_char [of "CHR ''7''", where 'a = nat] char_of_char [of "CHR ''1''", where 'a = nat]
    by simp_all
  have val: "char_code (CHR ''7'') = 55" "char_code (CHR ''1'') = 49" by (simp_all add: char_code_def)
  have c7: "char_of (48 + d) = CHR ''7'' \<longleftrightarrow> d = 7" if "d < 10" for d :: nat
    using code [OF that, of "CHR ''7''"] digit(1) unfolding val by auto
  have c1: "char_of (48 + d) = CHR ''1'' \<longleftrightarrow> d = 1" if "d < 10" for d :: nat
    using code [OF that, of "CHR ''1''"] digit(2) unfolding val by auto
  show ?thesis
  proof (cases "v < 10")
    case True
    obtain B b where B: "A = B @ [b]" using A(1) by (cases A rule: rev_cases) auto
    have "b \<noteq> CHR ''1''" using A(2) B by (auto simp: isdigit_def char_code_def)
    then show ?thesis using True B by (simp add: dec_digits.simps [of v] starts_with_def)
  next
    case False
    obtain q where q: "dec_digits (v div 10) = q @ [char_of (48 + v div 10 mod 10)]"
      by (cases "v div 10 < 10") (simp_all add: dec_digits.simps [of "v div 10"])
    have digits: "dec_digits v = q @ [char_of (48 + v div 10 mod 10), char_of (48 + v mod 10)]"
      using False q by (simp add: dec_digits.simps [of v])
    have "v mod 100 = 10 * (v div 10 mod 10) + v mod 10"
      using mod_mult2_eq [of v 10 10] by simp
    moreover have "10 * a + b = 17 \<longleftrightarrow> a = 1 \<and> b = 7" if "b < 10" for a b :: nat using that by presburger
    ultimately have "v mod 100 = 17 \<longleftrightarrow> v div 10 mod 10 = 1 \<and> v mod 10 = 7" by simp
    then show ?thesis using digits by (simp add: starts_with_def c1 c7)
  qed
qed

text \<open>On a kernel whose status lines have 52 fields, the offset computed from the program's own
  line makes the thread test of any entry look at its field 38, the exit signal: an entry is
  taken for a thread exactly when that number does not end in 17.\<close>

theorem proc_isthread_reads_exit_signal:
  assumes self: "fs PROC_SELF_STAT = Contents (stat_line n0 name0 state0 tok0)" "signal_tokens tok0 f0"
      "CHR '' '' \<notin> set name0" "NUL \<notin> set name0" "state0 \<noteq> CHR '' ''" "state0 \<noteq> NUL"
      "length (stat_line n0 name0 state0 tok0) < BUFSIZ"
    and entry: "fs (PROC_FS_ROOT @ pidstr @ PROC_PSTAT) = Contents (stat_line n name state tok)"
      "signal_tokens tok f" "length (stat_line n name state tok) < BUFSIZ"
  shows "get_proc_signal_offset fs = Some 14 \<and> proc_isthread fs 14 pidstr = Some (f 38 mod 100 \<noteq> 17)"
proof
  have "\<forall>i. NUL \<notin> set (tok0 i)" using self(2) by (simp add: signal_tokens_def)
  moreover have "NUL \<noteq> CHR '' ''" by (simp add: NUL_def)
  ultimately have "NUL \<notin> set (spaced (map tok0 [4 ..< 53]))" by (intro spaced_plain) auto
  moreover have "NUL \<notin> set '' ('' \<and> NUL \<notin> set '') '' \<and> NUL \<noteq> CHR 0x0A" by (simp add: NUL_def)
  ultimately have plain: "NUL \<notin> set (stat_line n0 name0 state0 tok0)"
    using self(4) self(6) [symmetric] dec_digits_plain(2) [of n0]
    unfolding stat_line_def set_append list.set by blast
  have "count_list (spaced (map tok0 [4 ..< 53])) (CHR '' '') = 49"
    using self(2) by (subst count_blanks_spaced) (auto simp: signal_tokens_def)
  moreover have "CHR '' '' \<notin> set (dec_digits n0)"
    using dec_digits_isdigit [of n0] by (auto simp: isdigit_def char_code_def)
  ultimately have "count_list (stat_line n0 name0 state0 tok0) (CHR '' '') = 51"
    using self(3,5) by (simp add: stat_line_def count_list_append_blank count_list_0_iff)
  then show "get_proc_signal_offset fs = Some 14"
    using self(1,7) plain by (simp add: get_proc_signal_offset_def sysm_file2str_fits PROC_SIGNAL_IX_def)
next
  define A where "A = dec_digits n @ '' ('' @ name @ '') '' @ [state] @ spaced (map tok [4 ..< 38]) @ [CHR '' '']"
  define ns where "ns = map f [39 ..< 53]"
  let ?fld = "(A @ dec_digits (f 38)) @ spaced (map dec_digits ns)"
  let ?line = "stat_line n name state tok"
  have upt: "[4 ..< 53] = [4 ..< 38] @ 38 # [39 ..< 53]"
    using upt_add_eq_append [of 4 38 15] upt_conv_Cons [of 38 53] by simp
  have "map tok [39 ..< 53] = map (dec_digits \<circ> f) [39 ..< 53]"
    using entry(2) by (intro map_cong) (simp_all add: signal_tokens_def del: upt_rec_numeral)
  then have "map tok [39 ..< 53] = map dec_digits ns" by (simp only: ns_def map_map)
  moreover have "tok 38 = dec_digits (f 38)" using entry(2) by (simp add: signal_tokens_def)
  ultimately have line: "?line = ?fld @ [CHR 0x0A]"
    by (simp add: stat_line_def upt spaced_append A_def)
  have ns: "length ns = 14" "ns \<noteq> []" by (simp_all add: ns_def)
  obtain ms k where k: "ns = ms @ [k]" using ns(2) by (cases ns rule: rev_cases) auto
  obtain q y where y: "dec_digits k = q @ [y]" "isdigit y" using digits_snoc by blast
  define a where "a = (A @ dec_digits (f 38)) @ spaced (map dec_digits ms) @ CHR '' '' # q"
  have fld: "?fld = a @ [y]" by (simp add: a_def k y spaced_append)
  have "back_while (\<lambda>c. \<not> isdigit c) (a @ y # [CHR 0x0A] @ [NUL]) (int (length a + length [CHR 0x0A])) = int (length a) - 1"
    using y(2) by (intro back_while_run) (auto simp: a_def A_def isdigit_def char_code_def)
  then have start: "back_while (\<lambda>c. \<not> isdigit c) (?line @ [NUL]) (int (length ?line) - 1) = int (length ?fld) - 2"
    unfolding line fld by simp
  have "A \<noteq> []" by (simp add: A_def)
  from skip_back_fields [OF this, of ns "f 38" "[CHR 0x0A, NUL]"]
  have skip: "skip_back 14 (?line @ [NUL]) (int (length ?fld) - 2) = int (length (A @ dec_digits (f 38))) - 2"
    by (simp add: line ns(1))
  have "5 \<le> length A" by (simp add: A_def)
  then have big: "3 \<le> int (length (A @ dec_digits (f 38))) - 2" by simp
  obtain j js where "ns = j # js" using ns(2) by (cases ns) auto
  then have rest: "?line @ [NUL] = (A @ dec_digits (f 38)) @ CHR '' '' # (dec_digits j @ spaced (map dec_digits js) @ [CHR 0x0A, NUL])"
    by (simp add: line)
  have "starts_with (drop (length (A @ dec_digits (f 38)) - 2) (?line @ [NUL])) ''17 '' \<longleftrightarrow> f 38 mod 100 = 17"
    unfolding rest by (intro last_two_17) (auto simp: A_def isdigit_def char_code_def)
  moreover have "nat (int (length (A @ dec_digits (f 38))) - 2) = length (A @ dec_digits (f 38)) - 2" by simp
  ultimately show "proc_isthread fs 14 pidstr = Some (f 38 mod 100 \<noteq> 17)"
    using entry(1,3) start skip big by (simp add: proc_isthread_def Let_def)
qed

text \<open>A shell (process 1, exit signal 17) and one of its threads (exit signal 38).\<close>

definition signal_tok :: "nat \<Rightarrow> nat \<Rightarrow> cstring" where
  "signal_tok v i = dec_digits (if i = 38 then v else i)"
definition signal_field :: "nat \<Rightarrow> nat \<Rightarrow> nat" where "signal_field v i = (if i = 38 then v else i)"

lemma sample_signal_tokens: "signal_tokens (signal_tok v) (signal_field v)"
  by (simp add: signal_tokens_def signal_tok_def signal_field_def)

definition sample_threads :: files where
  "sample_threads f = (if f = PROC_SELF_STAT \<or> f = PROC_FS_ROOT @ ''1'' @ PROC_PSTAT
     then Contents (stat_line 1 ''sh'' (CHR ''S'') (signal_tok 17))
     else if f = PROC_FS_ROOT @ ''2'' @ PROC_PSTAT then Contents (stat_line 2 ''sh'' (CHR ''S'') (signal_tok 38))
     else Open_Fails ENOENT)"

lemma proc_isthread_reads_exit_signal_witness:
  "get_proc_signal_offset sample_threads = Some 14
   \<and> proc_isthread sample_threads 14 ''1'' = Some False \<and> proc_isthread sample_threads 14 ''2'' = Some True"
proof -
  have len: "length (stat_line n ''sh'' (CHR ''S'') (signal_tok v)) < BUFSIZ" if "n < 100" "v < 100" for n v
  proof -
    let ?ts = "map (signal_tok v) [4 ..< 53]"
    have "\<forall>t \<in> set ?ts. length t \<le> 2"
      using that(2) by (auto simp: signal_tok_def intro!: length_dec_digits)
    from length_spaced [OF this] have "length (spaced ?ts) \<le> 147" by simp
    moreover have "length (dec_digits n) \<le> 2" using that(1) by (intro length_dec_digits) simp_all
    ultimately show ?thesis by (simp add: stat_line_def BUFSIZ_def)
  qed
  have thread: "get_proc_signal_offset sample_threads = Some 14
      \<and> proc_isthread sample_threads 14 p = Some (signal_field v 38 mod 100 \<noteq> 17)"
    if "sample_threads (PROC_FS_ROOT @ p @ PROC_PSTAT) = Contents (stat_line n ''sh'' (CHR ''S'') (signal_tok v))"
      "n < 100" "v < 100" for p n v
    using proc_isthread_reads_exit_signal [of sample_threads 1 "''sh''" "CHR ''S''" "signal_tok 17"
        "signal_field 17" p n "''sh''" "CHR ''S''" "signal_tok v" "signal_field v"]
      that sample_signal_tokens len len [of 1 17]
    by (simp add: sample_threads_def NUL_def)
  show ?thesis
    using thread [of "''1''" 1 17] thread [of "''2''" 2 38]
    by (simp add: sample_threads_def signal_field_def PROC_SELF_STAT_def PROC_FS_ROOT_def PROC_PSTAT_def)
qed

end
