(* ===== verification/Proc_Summary.thy ===== *)
theory Proc_Summary
  imports Proc_Properties
begin

text \<open>
  The summary of all processes, from the directory \<open>/proc\<close> and the files of its processes to the
  five counters: what \<open>sysm_proc_stat_get\<close> of \<open>sysm.c\<close> returns when every listed process either
  has files as the kernel writes them or has ended since the directory was read.
\<close>

section \<open>One process\<close>

text \<open>What the files of a process show: nothing, when it has ended, or its state letter.\<close>

definition has_stat_line :: "files \<Rightarrow> int \<Rightarrow> int \<Rightarrow> char \<Rightarrow> bool" where
  "has_stat_line fs hz pid c \<longleftrightarrow>
     (\<exists>n name tok f m. fs (proc_path pid PROC_PSTAT) = Contents (stat_line n name c tok)
        \<and> NUL \<notin> set (stat_line n name c tok) \<and> length (stat_line n name c tok) < BUFSIZ
        \<and> stat_tokens tok f \<and> 0 < m \<and> m \<le> 1000 \<and> hz * int m = 1000
        \<and> f 14 * m < 2 ^ 53 \<and> f 15 * m < 2 ^ 53)
     \<and> \<not> isspace c \<and> c \<noteq> CHR '')''"

definition has_status :: "files \<Rightarrow> int \<Rightarrow> bool" where
  "has_status fs pid \<longleftrightarrow>
     (\<exists>cs. fs (proc_path pid PROC_PSTATUS) = Contents cs \<and> length cs < BUFSIZ
        \<and> strstr (cstr cs) (CHR 0x0A # ''Thread:'') = None)"

definition proc_shows :: "files \<Rightarrow> int \<Rightarrow> int \<Rightarrow> char option \<Rightarrow> bool" where
  "proc_shows fs hz pid oc \<longleftrightarrow>
     (case oc of None \<Rightarrow> fs (proc_path pid PROC_PSTAT) = Open_Fails ENOENT
               | Some c \<Rightarrow> has_stat_line fs hz pid c \<and> has_status fs pid)"

lemma proc_stat_read_line:
  assumes "has_stat_line fs (ticks s) pid c" "ps_pid (last_proc_stat s) \<noteq> pid"
  obtains p where "proc_stat_read fs timenow s pid = Some (s\<lparr>last_proc_stat := p\<rparr>, SYSM_OK)"
    "ps_pid p = pid" "ps_state p = c"
proof -
  from assms(1) obtain n name tok f m where
    line: "fs (proc_path pid PROC_PSTAT) = Contents (stat_line n name c tok)"
      "NUL \<notin> set (stat_line n name c tok)" "length (stat_line n name c tok) < BUFSIZ"
    and tok: "stat_tokens tok f" and c: "\<not> isspace c" "c \<noteq> CHR '')''"
    and m: "tick_millis s m" "f 14 * m < 2 ^ 53" "f 15 * m < 2 ^ 53"
    by (auto simp: has_stat_line_def tick_millis_def)
  have "SYSM_PROC_FILE2STR fs BUFSIZ pid PROC_PSTAT = Some (Inr (stat_line n name c tok))"
    using line by (simp add: SYSM_PROC_FILE2STR_path sysm_file2str_fits PROC_PSTAT_def)
  then show thesis
    using assms(2) proc_stat_fields_line [OF tok c m, of n name]
    by (intro that) (simp add: proc_stat_read_def Let_def, simp_all)
qed

lemma proc_stat_read_gone:
  assumes "fs (proc_path pid PROC_PSTAT) = Open_Fails ENOENT" "ps_pid (last_proc_stat s) \<noteq> pid"
  obtains p where "proc_stat_read fs timenow s pid = Some (s\<lparr>last_proc_stat := p\<rparr>, ESRCH)" "ps_pid p = pid"
proof -
  have "SYSM_PROC_FILE2STR fs BUFSIZ pid PROC_PSTAT = Some (Inl ESRCH)"
    using assms(1) by (simp add: SYSM_PROC_FILE2STR_path PROC_PSTAT_def sysm_file2str_def)
  then show thesis
    using assms(2) by (intro that) (simp add: proc_stat_read_def Let_def, simp_all)
qed

lemma proc_status_get_has:
  "has_status fs pid \<Longrightarrow> proc_status_get fs pid st = Some (st\<lparr>pst_threads := - 1\<rparr>, SYSM_OK)"
  by (auto simp: has_status_def proc_status_get_def SYSM_PROC_FILE2STR_path sysm_file2str_fits PROC_PSTATUS_def)

lemma core_count_keeps [simp]:
  "last_proc_stat (sysm_cpu_core_count cpuid s) = last_proc_stat s"
  "ticks (sysm_cpu_core_count cpuid s) = ticks s"
  by (simp_all add: sysm_cpu_core_count_def Let_def)

text \<open>Reading the state leaves a handle on which another process can be read, and gives the letter
  the file shows.\<close>

lemma proc_state_get_letter:
  assumes "proc_shows fs (ticks s) pid oc" "ps_pid (last_proc_stat s) \<noteq> pid"
  obtains s' st status where "sysm_proc_state_get cpuid fs timenow s pid st0 = Some (s', st, status)"
    "ticks s' = ticks s" "ps_pid (last_proc_stat s') = pid"
    "case oc of None \<Rightarrow> status = ESRCH | Some c \<Rightarrow> status = SYSM_OK \<and> pst_state st = c \<and> pst_threads st = - 1"
proof (cases oc)
  case None
  then have "fs (proc_path pid PROC_PSTAT) = Open_Fails ENOENT" using assms(1) by (simp add: proc_shows_def)
  from proc_stat_read_gone [of fs pid s timenow, OF this assms(2)] obtain p where
    "proc_stat_read fs timenow s pid = Some (s\<lparr>last_proc_stat := p\<rparr>, ESRCH)" "ps_pid p = pid" .
  moreover have "ESRCH \<noteq> SYSM_OK" by (simp add: status_codes)
  ultimately show thesis using None by (intro that) (simp add: sysm_proc_state_get_def, simp_all)
next
  case (Some c)
  then have files: "has_stat_line fs (ticks s) pid c" "has_status fs pid"
    using assms(1) by (simp_all add: proc_shows_def)
  from proc_stat_read_line [OF files(1) assms(2)] obtain p where
    "proc_stat_read fs timenow s pid = Some (s\<lparr>last_proc_stat := p\<rparr>, SYSM_OK)" "ps_pid p = pid" "ps_state p = c" .
  with files(2) have "\<exists>st. sysm_proc_state_get cpuid fs timenow s pid st0
        = Some (sysm_cpu_core_count cpuid (s\<lparr>last_proc_stat := p\<rparr>), st, SYSM_OK)
      \<and> pst_state st = c \<and> pst_threads st = - 1"
    by (simp add: sysm_proc_state_get_def sysm_cpu_core_rollup_def Let_def proc_status_get_has)
  with Some \<open>ps_pid p = pid\<close> show thesis by (auto intro: that)
qed

section \<open>The loop and the summary\<close>

definition letters :: "(int \<Rightarrow> char option) \<Rightarrow> int list \<Rightarrow> char \<Rightarrow> nat" where
  "letters shown ps c = length (filter (\<lambda>pid. shown pid = Some c) ps)"

lemma letters_simps [simp]:
  "letters shown [] c = 0"
  "letters shown (pid # ps) c = (if shown pid = Some c then Suc (letters shown ps c) else letters shown ps c)"
  by (simp_all add: letters_def)

lemma letters_le: "letters shown ps c \<le> length ps"
  by (simp add: letters_def)

definition add_letters :: "(char \<Rightarrow> nat) \<Rightarrow> sysm_proc_stat \<Rightarrow> sysm_proc_stat" where
  "add_letters k ps = ps\<lparr>pn_idle := pn_idle ps + of_nat (k (CHR ''D'')),
     pn_running := pn_running ps + of_nat (k (CHR ''R'')), pn_sleeping := pn_sleeping ps + of_nat (k (CHR ''S'')),
     pn_stopped := pn_stopped ps + of_nat (k (CHR ''T'')), pn_zombie := pn_zombie ps + of_nat (k (CHR ''Z''))\<rparr>"

lemma count_state_add:
  "pst_threads st = - 1 \<Longrightarrow>
     add_letters k (count_state st ps) = add_letters (k(pst_state st := Suc (k (pst_state st)))) ps"
proof -
  assume t: "pst_threads st = - 1"
  consider "pst_state st = CHR ''D''" | "pst_state st = CHR ''R''" | "pst_state st = CHR ''S''"
    | "pst_state st = CHR ''T''" | "pst_state st = CHR ''Z''"
    | "pst_state st \<notin> {CHR ''D'', CHR ''R'', CHR ''S'', CHR ''T'', CHR ''Z''}" by blast
  then show ?thesis
    by cases (auto simp: t add_letters_def count_state_def add_ac)
qed

lemma proc_stat_loop_letters:
  assumes "\<forall>pid \<in> set ps_pids. proc_shows fs (ticks s) pid (shown pid)" "distinct ps_pids"
    and "ps_pid (last_proc_stat s) \<notin> set ps_pids"
  shows "\<exists>s'. proc_stat_loop cpuid fs timenow st0 s ps_pids ps = Some (s', add_letters (letters shown ps_pids) ps)"
  using assms
proof (induction ps_pids arbitrary: s ps)
  case Nil
  then show ?case by (simp add: add_letters_def)
next
  case (Cons pid rest)
  then have "proc_shows fs (ticks s) pid (shown pid)" "ps_pid (last_proc_stat s) \<noteq> pid" by auto
  from proc_state_get_letter [OF this, of cpuid timenow st0] obtain s1 st status where
    g: "sysm_proc_state_get cpuid fs timenow s pid st0 = Some (s1, st, status)"
      "ticks s1 = ticks s" "ps_pid (last_proc_stat s1) = pid"
    and res: "case shown pid of None \<Rightarrow> status = ESRCH
      | Some c \<Rightarrow> status = SYSM_OK \<and> pst_state st = c \<and> pst_threads st = - 1" .
  have rest: "\<exists>s'. proc_stat_loop cpuid fs timenow st0 s1 rest ps1 = Some (s', add_letters (letters shown rest) ps1)"
    for ps1 using Cons.prems g(2,3) by (intro Cons.IH) auto
  show ?case
  proof (cases "shown pid")
    case None
    with res have "status \<noteq> SYSM_OK" by (simp add: status_codes)
    with None rest [of ps] show ?thesis by (simp add: g(1) add_letters_def)
  next
    case (Some c)
    with res have st: "status = SYSM_OK" "pst_state st = c" "pst_threads st = - 1" by simp_all
    have "letters shown (pid # rest) = (letters shown rest)(c := Suc (letters shown rest c))"
      using Some by auto
    then have "add_letters (letters shown rest) (count_state st ps) = add_letters (letters shown (pid # rest)) ps"
      using count_state_add [OF st(3), of "letters shown rest" ps] st(2) by simp
    with rest [of "count_state st ps"] show ?thesis by (simp add: g(1) st(1) del: letters_simps)
  qed
qed

lemma proc_list_own_keeps:
  "sysm_proc_list_get_own fs dir s = Some (s', l, status) \<Longrightarrow> ticks s' = ticks s \<and> last_proc_stat s' = last_proc_stat s"
  by (auto simp: sysm_proc_list_get_own_def sysm_os_proc_list_get_def Let_def bind_eq_Some_conv
      split: sum.splits option.splits if_splits)

text \<open>C14: when every process of the directory has either ended or shows a state letter in its status
  line, the summary succeeds, its total is the number of listed processes, and each of its five
  counters is the number of those whose line shows the letter: D for idle, R for running, S for
  sleeping, T for stopped and Z for zombie. A process that ended meanwhile is in the total only,
  and the number of threads stays unknown.\<close>

theorem proc_stat_exact:
  fixes shown :: "int \<Rightarrow> char option"
  assumes "has_nptl s" "\<forall>l. pids s = Some l \<longrightarrow> dl_wf l" "length names < 2 ^ 64"
    and listed: "listed = map pid_of_name (filter digit_name names)" "distinct listed"
    and files: "\<forall>pid \<in> set listed. proc_shows fs (ticks s) pid (shown pid)"
    and fresh: "ps_pid (last_proc_stat s) \<notin> set listed"
  shows "\<exists>s' ps. sysm_proc_stat_get cpuid fs (Inr names) timenow st0 s = Some (s', ps, SYSM_OK)
    \<and> unat (pn_total ps) = length listed \<and> pn_threads ps = - 1
    \<and> unat (pn_idle ps) = letters shown listed (CHR ''D'') \<and> unat (pn_running ps) = letters shown listed (CHR ''R'')
    \<and> unat (pn_sleeping ps) = letters shown listed (CHR ''S'') \<and> unat (pn_stopped ps) = letters shown listed (CHR ''T'')
    \<and> unat (pn_zombie ps) = letters shown listed (CHR ''Z'')"
proof -
  obtain s1 l where l: "sysm_proc_list_get_own fs (Inr names) s = Some (s1, l, SYSM_OK)"
    "dl_contents l = listed" "dl_wf l"
    using proc_list_own [OF assms(1,2)] listed(1) by metis
  from proc_list_own_keeps [OF l(1)] have keeps: "ticks s1 = ticks s" "last_proc_stat s1 = last_proc_stat s" by auto
  have n: "dl_number l = length listed" using dl_wf_length [OF l(3)] l(2) by simp
  have small: "length listed < 2 ^ 64"
    using assms(3) listed(1) le_less_trans [OF length_filter_le] by simp
  let ?ps = "\<lparr>pn_total = word_of_nat (dl_number l), pn_sleeping = 0, pn_running = 0, pn_zombie = 0,
      pn_stopped = 0, pn_idle = 0, pn_threads = - 1\<rparr> :: sysm_proc_stat"
  obtain s' where "proc_stat_loop cpuid fs timenow st0 s1 listed ?ps = Some (s', add_letters (letters shown listed) ?ps)"
    using proc_stat_loop_letters [of listed fs s1 shown cpuid timenow st0 ?ps] files listed(2) fresh keeps
    by auto
  moreover have "unat (word_of_nat (letters shown listed c) :: u64) = letters shown listed c" for c
    using small le_less_trans [OF letters_le] by (intro unat_word_of_nat_u64) simp
  ultimately show ?thesis
    using l small by (simp add: sysm_proc_stat_get_def n add_letters_def)
qed

text \<open>The witness: process 1 stopped, process 42 sleeping, process 43 gone.\<close>

lemma sample_line:
  assumes "c \<noteq> NUL" "n < 10 ^ 10"
  shows "NUL \<notin> set (stat_line n ''sh'' c sample_tok)" "length (stat_line n ''sh'' c sample_tok) < BUFSIZ"
  using sample_stat_line(1) [of n] sample_stat_line(2) [of n] assms by (simp_all add: stat_line_def)

definition three_procs :: files where
  "three_procs f =
     (if f = proc_path 1 PROC_PSTAT then Contents (stat_line 1 ''sh'' (CHR ''T'') sample_tok)
      else if f = proc_path 42 PROC_PSTAT then Contents (stat_line 42 ''sh'' (CHR ''S'') sample_tok)
      else if f = proc_path 43 PROC_PSTAT then Open_Fails ENOENT
      else Contents ''Threads: 1'')"

lemma small_digits:
  "dec_digits (Suc 0) = ''1''" "dec_digits 42 = ''42''" "dec_digits 43 = ''43''"
  by (simp_all add: dec_digits.simps [of "Suc 0"] dec_digits.simps [of 42] dec_digits.simps [of 43]
      dec_digits.simps [of 4] char_of_def bit_0)

lemma three_procs_paths:
  "three_procs (proc_path 1 PROC_PSTAT) = Contents (stat_line 1 ''sh'' (CHR ''T'') sample_tok)"
  "three_procs (proc_path 42 PROC_PSTAT) = Contents (stat_line 42 ''sh'' (CHR ''S'') sample_tok)"
  "three_procs (proc_path 43 PROC_PSTAT) = Open_Fails ENOENT"
  "pid \<in> {1, 42} \<Longrightarrow> three_procs (proc_path pid PROC_PSTATUS) = Contents ''Threads: 1''"
  by (auto simp: three_procs_def proc_path_def PROC_PSTAT_def PROC_PSTATUS_def small_digits)

lemma sample_has_stat_line:
  assumes "fs (proc_path pid PROC_PSTAT) = Contents (stat_line n ''sh'' c sample_tok)" "n < 10000000000"
    and "c \<in> {CHR ''S'', CHR ''T''}"
  shows "has_stat_line fs 100 pid c"
proof -
  have "c \<noteq> NUL" "\<not> isspace c" "c \<noteq> CHR '')''"
    using assms(3) by (auto simp: NUL_def isspace_def char_code_def)
  moreover have "sample_field 14 * 10 < 2 ^ 53" "sample_field 15 * 10 < 2 ^ 53"
    by (simp_all add: sample_field_def)
  ultimately show ?thesis
    using assms(1) sample_line [of c n] assms(2) sample_stat_tokens
    unfolding has_stat_line_def
    by - (intro conjI, rule exI [of _ n], rule exI [of _ "''sh''"], rule exI [of _ sample_tok],
      rule exI [of _ sample_field], rule exI [of _ 10], simp_all)
qed

definition three_shown :: "int \<Rightarrow> char option" where
  "three_shown pid = (if pid = 1 then Some (CHR ''T'') else if pid = 42 then Some (CHR ''S'') else None)"

theorem proc_stat_exact_witness:
  "\<exists>s' ps. sysm_proc_stat_get no_cpuid three_procs (Inr [''1'', ''self'', ''42'', ''43'']) 7 blank_state
       (zero_sysm\<lparr>has_nptl := True, ticks := 100\<rparr>) = Some (s', ps, SYSM_OK)
    \<and> unat (pn_total ps) = length [1, 42, 43 :: int] \<and> pn_threads ps = - 1
    \<and> unat (pn_idle ps) = letters three_shown [1, 42, 43] (CHR ''D'')
    \<and> unat (pn_running ps) = letters three_shown [1, 42, 43] (CHR ''R'')
    \<and> unat (pn_sleeping ps) = letters three_shown [1, 42, 43] (CHR ''S'')
    \<and> unat (pn_stopped ps) = letters three_shown [1, 42, 43] (CHR ''T'')
    \<and> unat (pn_zombie ps) = letters three_shown [1, 42, 43] (CHR ''Z'')"
proof -
  have "has_stat_line three_procs 100 1 (CHR ''T'')" "has_stat_line three_procs 100 42 (CHR ''S'')"
    using sample_has_stat_line [of three_procs 1 1 "CHR ''T''"] sample_has_stat_line [of three_procs 42 42 "CHR ''S''"]
    by (simp_all add: three_procs_paths)
  moreover have "map pid_of_name [''1'', ''42'', ''43''] = [1, 42, 43]"
    using strtoull_dec_digits [of "[]" "[]" 1] strtoull_dec_digits [of "[]" "[]" 42]
      strtoull_dec_digits [of "[]" "[]" 43]
      int_of_ulong_small [of 1] int_of_ulong_small [of 42] int_of_ulong_small [of 43]
    by (simp add: pid_of_name_def small_digits)
  moreover have "has_status three_procs pid" if "pid \<in> {1, 42}" for pid
    using three_procs_paths(4) [OF that] by (simp add: has_status_def BUFSIZ_def NUL_def starts_with_def)
  ultimately show ?thesis
    by (intro proc_stat_exact)
      (simp_all add: zero_sysm_def zero_proc_stat_def proc_shows_def three_shown_def three_procs_paths
        digit_name_def deref_def isdigit_def char_code_def)
qed

end
