(* ===== verification/Connections.thy ===== *)
theory Connections
  imports Proc
begin

text \<open>
  The network connections (\<^verbatim>\<open>sysm.c\<close>): the reader of the tables under \<open>/proc/net\<close>, the walk over
  them with a call-back, and the three clients of the walk: the connection list (and the
  search for the process behind a port), the statistics of one port, and the statistics
  of all connections with their cache of listening addresses.
\<close>

section \<open>Connections\<close>

definition SYSM_NETCONN_CLIENT :: int where "SYSM_NETCONN_CLIENT = 1"
definition SYSM_NETCONN_SERVER :: int where "SYSM_NETCONN_SERVER = 2"
definition SYSM_NETCONN_TCP :: int where "SYSM_NETCONN_TCP = 16"
definition SYSM_NETCONN_UDP :: int where "SYSM_NETCONN_UDP = 32"
definition SYSM_NETCONN_RAW :: int where "SYSM_NETCONN_RAW = 64"

definition SYSM_TCP_LISTEN :: int where "SYSM_TCP_LISTEN = 10"
definition SYSM_TCP_UNKNOWN :: nat where "SYSM_TCP_UNKNOWN = 14"

record sysm_net_connection =
  nc_lo_port :: u64
  nc_lo_address :: sysm_net_address
  nc_re_port :: u64
  nc_re_address :: sysm_net_address
  nc_uid :: int
  nc_inode :: u64
  nc_type :: int
  nc_state :: int
  nc_se_q :: u64
  nc_re_q :: u64

section \<open>Reading a line\<close>

definition SKIP_WHILE :: "char \<Rightarrow> cstring \<Rightarrow> cstring" where
  "SKIP_WHILE c p = dropWhile (\<lambda>x. x = c) p"

definition SKIP_PAST :: "char \<Rightarrow> cstring \<Rightarrow> cstring" where
  "SKIP_PAST c p = SKIP_WHILE c (dropWhile (\<lambda>x. x \<noteq> c) p)"

text \<open>Moving a pointer forward inside its string; \<open>None\<close> behind the terminating NUL.\<close>

definition ptr_add :: "nat \<Rightarrow> cstring \<Rightarrow> cstring option" where
  "ptr_add k p = (if k \<le> length p then Some (drop k p) else None)"

text \<open>An address and its port: the length and the start of the address, the port, and the rest.\<close>

definition conn_endpoint :: "cstring \<Rightarrow> nat \<times> u64 \<times> cstring" where
  "conn_endpoint ptr =
     (let len = length (takeWhile (\<lambda>x. x \<noteq> CHR '':'') ptr);
          (port, p) = strtoull 16 (SKIP_WHILE (CHR '':'') (drop len ptr))
      in (len, port AND 0xffff, SKIP_WHILE (CHR '' '') p))"

text \<open>
  The body of the loop up to the call-back. \<open>conn\<close> is what the local structure holds before;
  an inner \<open>None\<close> is the \<open>continue\<close> of a connection the flags do not ask for.
\<close>

definition conn_line ::
  "int \<Rightarrow> int \<Rightarrow> sysm_net_connection \<Rightarrow> cstring \<Rightarrow> sysm_net_connection option option" where
  "conn_line flags type conn ptr =
     (let laddr = SKIP_PAST (CHR '' '') (SKIP_WHILE (CHR '' '') ptr);
          (laddr_len, lo_port, raddr) = conn_endpoint laddr;
          (raddr_len, re_port, ptr) = conn_endpoint raddr
      in if \<not> (re_port \<noteq> 0 \<and> flags AND SYSM_NETCONN_CLIENT \<noteq> 0 \<or>
               re_port = 0 \<and> flags AND SYSM_NETCONN_SERVER \<noteq> 0)
         then Some None
         else do {
           lo \<leftarrow> convert_hex_address laddr laddr_len (nc_lo_address conn);
           re \<leftarrow> convert_hex_address raddr raddr_len (nc_re_address conn);
           state \<leftarrow> hex2int ptr 2;
           ptr \<leftarrow> ptr_add 2 ptr;
           let ptr = SKIP_WHILE (CHR '' '') ptr;
           se_q \<leftarrow> hex2int ptr HEX_ENT_LEN;
           ptr \<leftarrow> ptr_add (HEX_ENT_LEN + 1) ptr;
           re_q \<leftarrow> hex2int ptr HEX_ENT_LEN;
           ptr \<leftarrow> ptr_add HEX_ENT_LEN ptr;
           let ptr = SKIP_WHILE (CHR '' '') ptr;
           let ptr = SKIP_PAST (CHR '' '') (SKIP_PAST (CHR '' '') ptr);
           let (uid, ptr) = strtoull 10 ptr;
           let ptr = SKIP_PAST (CHR '' '') (SKIP_WHILE (CHR '' '') ptr);
           let (inode, ptr) = strtoull 10 ptr;
           Some (Some \<lparr>nc_lo_port = lo_port, nc_lo_address = lo, nc_re_port = re_port,
             nc_re_address = re, nc_uid = int_of_ulong uid, nc_inode = inode, nc_type = type,
             nc_state = sint state, nc_se_q = ucast se_q, nc_re_q = ucast re_q\<rparr>) })"

section \<open>The walk\<close>

text \<open>
  What the reader asks the system: the files, \<open>stat\<close> of a path (whether it is executable by
  its owner), and the output of a command. The call-back has a state of its own; the walk ends
  a table when it returns something else than \<open>SYSM_OK\<close>.
\<close>

record net_env =
  ne_files :: files
  ne_stat :: "cstring \<Rightarrow> bool option"
  ne_popen :: "cstring \<Rightarrow> char list option"

type_synonym 'w add_connection = "'w \<Rightarrow> sysm_net_connection \<Rightarrow> ('w \<times> int) option"

definition xproc_open :: "net_env \<Rightarrow> cstring \<Rightarrow> char list option" where
  "xproc_open env command =
     (case ne_stat env command of
        None \<Rightarrow> None
      | Some x \<Rightarrow> if x then ne_popen env command
                  else (case stream_of (ne_files env command) of Inl _ \<Rightarrow> None | Inr st \<Rightarrow> Some st))"

definition NET_BUFFER :: nat where "NET_BUFFER = 8192"

fun proc_net_loop ::
  "'w add_connection \<Rightarrow> int \<Rightarrow> int \<Rightarrow> sysm_net_connection \<Rightarrow> char list list \<Rightarrow> 'w \<Rightarrow> 'w option" where
  "proc_net_loop add flags type conn0 [] w = Some w"
| "proc_net_loop add flags type conn0 (l # ls) w = do {
     c \<leftarrow> conn_line flags type conn0 (cstr l);
     (case c of
        None \<Rightarrow> proc_net_loop add flags type conn0 ls w
      | Some conn \<Rightarrow> do {
          (w, more) \<leftarrow> add w conn;
          if more \<noteq> SYSM_OK then Some w else proc_net_loop add flags type conn0 ls w }) }"

definition proc_net_read ::
  "net_env \<Rightarrow> cstring option \<Rightarrow> 'w add_connection \<Rightarrow> int \<Rightarrow> sysm_net_connection \<Rightarrow> cstring \<Rightarrow> int \<Rightarrow> 'w
     \<Rightarrow> ('w \<times> int) option" where
  "proc_net_read env netdir add flags conn0 fname type w =
     (let fp = (case netdir of
                  None \<Rightarrow> None
                | Some p \<Rightarrow> xproc_open env
                    (take (NET_BUFFER - 1) (p @ ''/'' @ drop (length PROC_FS_ROOT) fname)))
      in case (case fp of Some st \<Rightarrow> Inr st | None \<Rightarrow> stream_of (ne_files env fname)) of
           Inl errno \<Rightarrow> Some (w, errno)
         | Inr st \<Rightarrow> do {
             w \<leftarrow> proc_net_loop add flags type conn0 (tl (fgets_lines NET_BUFFER st)) w;
             Some (w, SYSM_OK) })"

text \<open>One protocol of \<open>sysm_net_connection_walk\<close>: its IPv4 table, then its IPv6 table, which may be missing.\<close>

definition walk_protocol ::
  "net_env \<Rightarrow> cstring option \<Rightarrow> 'w add_connection \<Rightarrow> int \<Rightarrow> sysm_net_connection \<Rightarrow> int \<Rightarrow> cstring \<Rightarrow> 'w
     \<Rightarrow> ('w \<times> int) option" where
  "walk_protocol env netdir add flags conn0 type name w =
     (if flags AND type = 0 then Some (w, SYSM_OK)
      else do {
        (w, status) \<leftarrow> proc_net_read env netdir add flags conn0 (PROC_FS_ROOT @ name) type w;
        if status \<noteq> SYSM_OK then Some (w, status)
        else do {
          (w, status) \<leftarrow> proc_net_read env netdir add flags conn0 (PROC_FS_ROOT @ name @ ''6'') type w;
          Some (w, if status = SYSM_OK \<or> status = ENOENT then SYSM_OK else status) } })"

definition sysm_net_connection_walk ::
  "net_env \<Rightarrow> cstring option \<Rightarrow> 'w add_connection \<Rightarrow> int \<Rightarrow> sysm_net_connection \<Rightarrow> 'w
     \<Rightarrow> ('w \<times> int) option" where
  "sysm_net_connection_walk env netdir add flags conn0 w = do {
     (w, status) \<leftarrow> walk_protocol env netdir add flags conn0 SYSM_NETCONN_TCP ''net/tcp'' w;
     if status \<noteq> SYSM_OK then Some (w, status)
     else do {
       (w, status) \<leftarrow> walk_protocol env netdir add flags conn0 SYSM_NETCONN_UDP ''net/udp'' w;
       if status \<noteq> SYSM_OK then Some (w, status)
       else walk_protocol env netdir add flags conn0 SYSM_NETCONN_RAW ''net/raw'' w } }"

section \<open>The connection list and the process behind a port\<close>

record net_conn_getter =
  ng_conn_list :: "sysm_net_connection dynlist option"
  ng_conn :: sysm_net_connection
  ng_port :: u64

definition proc_net_walker :: "net_conn_getter add_connection" where
  "proc_net_walker getter conn =
     (case ng_conn_list getter of
        Some l \<Rightarrow> do {
          l \<leftarrow> dl_append conn (SYSM_NET_CONNLIST_GROW l);
          Some (getter\<lparr>ng_conn_list := Some l\<rparr>, SYSM_OK) }
      | None \<Rightarrow>
          if ng_port getter = nc_lo_port conn \<and> nc_re_port conn = 0
          then Some (getter\<lparr>ng_conn := conn\<rparr>, 1)
          else Some (getter, SYSM_OK))"

text \<open>The members of the getter that the list does not use are not initialised: \<open>g0\<close>.\<close>

definition sysm_net_connection_list_get ::
  "net_env \<Rightarrow> sysm \<Rightarrow> net_conn_getter \<Rightarrow> sysm_net_connection \<Rightarrow> int
     \<Rightarrow> (sysm_net_connection dynlist \<times> int) option" where
  "sysm_net_connection_list_get env s g0 conn0 flags = do {
     (g, status) \<leftarrow> sysm_net_connection_walk env (proc_net s) proc_net_walker flags conn0
        (g0\<lparr>ng_conn_list := Some sysm_net_connection_list_create\<rparr>);
     l \<leftarrow> ng_conn_list g;
     Some (if status \<noteq> SYSM_OK then sysm_net_connection_list_destroy l else l, status) }"

definition sysm_net_connection_get ::
  "net_env \<Rightarrow> sysm \<Rightarrow> sysm_net_connection \<Rightarrow> sysm_net_connection \<Rightarrow> u64 \<Rightarrow> int
     \<Rightarrow> (sysm_net_connection \<times> int) option" where
  "sysm_net_connection_get env s conn0 netconn port flags = do {
     (g, status) \<leftarrow> sysm_net_connection_walk env (proc_net s) proc_net_walker flags conn0
        \<lparr>ng_conn_list = None, ng_conn = netconn, ng_port = port\<rparr>;
     Some (ng_conn g, status) }"

text \<open>
  \<open>opendir\<close> gives an error or the names in a directory, \<open>stat\<close> the owner and the inode of a path.
  Inside the loop over the file descriptors the name tested for a digit is that of the process.
\<close>

fun fd_loop :: "(cstring \<Rightarrow> (u32 \<times> u64) option) \<Rightarrow> u64 \<Rightarrow> cstring \<Rightarrow> cstring \<Rightarrow> cstring list \<Rightarrow> bool" where
  "fd_loop stat inode ent_name fd_name [] = False"
| "fd_loop stat inode ent_name fd_name (fd_ent # fd_ents) =
     (if \<not> digit_name ent_name then fd_loop stat inode ent_name fd_name fd_ents
      else case stat (fd_name @ ''/'' @ fd_ent) of
             None \<Rightarrow> fd_loop stat inode ent_name fd_name fd_ents
           | Some (_, ino) \<Rightarrow> ino = inode \<or> fd_loop stat inode ent_name fd_name fd_ents)"

fun port_loop ::
  "(cstring \<Rightarrow> int + cstring list) \<Rightarrow> (cstring \<Rightarrow> (u32 \<times> u64) option) \<Rightarrow> sysm_net_connection \<Rightarrow> cstring list
     \<Rightarrow> int" where
  "port_loop opendir stat netconn [] = 0"
| "port_loop opendir stat netconn (ent # ents) =
     (if \<not> digit_name ent then port_loop opendir stat netconn ents
      else let pid_name = PROC_FS_ROOT @ ''/'' @ ent in
        case stat pid_name of
          None \<Rightarrow> port_loop opendir stat netconn ents
        | Some (uid, _) \<Rightarrow>
            if uid \<noteq> word_of_int (nc_uid netconn) then port_loop opendir stat netconn ents
            else let fd_name = pid_name @ ''/fd'' in
              case opendir fd_name of
                Inl _ \<Rightarrow> port_loop opendir stat netconn ents
              | Inr fd_ents \<Rightarrow>
                  if fd_loop stat (nc_inode netconn) ent fd_name fd_ents
                  then int_of_ulong (fst (strtoull 10 ent))
                  else port_loop opendir stat netconn ents)"

definition zero_connection :: sysm_net_connection where
  "zero_connection = \<lparr>nc_lo_port = 0, nc_lo_address = \<lparr>family = SYSM_AF_UNSPEC, addr = replicate 16 0\<rparr>,
     nc_re_port = 0, nc_re_address = \<lparr>family = SYSM_AF_UNSPEC, addr = replicate 16 0\<rparr>, nc_uid = 0,
     nc_inode = 0, nc_type = 0, nc_state = 0, nc_se_q = 0, nc_re_q = 0\<rparr>"

definition sysm_proc_port_get ::
  "net_env \<Rightarrow> (cstring \<Rightarrow> int + cstring list) \<Rightarrow> (cstring \<Rightarrow> (u32 \<times> u64) option) \<Rightarrow> sysm
     \<Rightarrow> sysm_net_connection \<Rightarrow> int \<Rightarrow> u64 \<Rightarrow> (int \<times> int) option" where
  "sysm_proc_port_get env opendir stat s conn0 protocol port = do {
     (netconn, status) \<leftarrow> sysm_net_connection_get env s conn0 zero_connection port
        (SYSM_NETCONN_SERVER OR protocol);
     if status \<noteq> SYSM_OK then Some (0, status)
     else if nc_lo_port netconn \<noteq> port then Some (0, SYSM_OK)
     else (case opendir PROC_FS_ROOT of
             Inl errno \<Rightarrow> Some (0, errno)
           | Inr ents \<Rightarrow> Some (port_loop opendir stat netconn ents, SYSM_OK)) }"

section \<open>Statistics\<close>

record sysm_net_stat =
  ns_tcp_states :: "int list"
  ns_tcp_inbound_total :: u32
  ns_tcp_outbound_total :: u32
  ns_all_inbound_total :: u32
  ns_all_outbound_total :: u32

definition zero_net_stat :: sysm_net_stat where
  "zero_net_stat = \<lparr>ns_tcp_states = replicate SYSM_TCP_UNKNOWN 0, ns_tcp_inbound_total = 0,
     ns_tcp_outbound_total = 0, ns_all_inbound_total = 0, ns_all_outbound_total = 0\<rparr>"

text \<open>\<open>tcp_states[state]++\<close>; \<open>None\<close> outside the array. A counter is taken not to overflow.\<close>

definition count_tcp_state :: "int \<Rightarrow> sysm_net_stat \<Rightarrow> sysm_net_stat option" where
  "count_tcp_state state ns =
     (if 0 \<le> state \<and> nat state < length (ns_tcp_states ns)
      then Some (ns\<lparr>ns_tcp_states := (ns_tcp_states ns)[nat state := ns_tcp_states ns ! nat state + 1]\<rparr>)
      else None)"

definition net_stat_port_walker :: "sysm_net_address \<Rightarrow> u64 \<Rightarrow> sysm_net_stat add_connection" where
  "net_stat_port_walker address port ns conn =
     (if nc_type conn = SYSM_NETCONN_TCP
      then if nc_lo_port conn = port then
             let ns = ns\<lparr>ns_all_inbound_total := ns_all_inbound_total ns + 1\<rparr>;
                 ns = (if sysm_net_address_equals address (nc_lo_address conn) = SYSM_OK
                       then ns\<lparr>ns_tcp_inbound_total := ns_tcp_inbound_total ns + 1\<rparr> else ns)
             in map_option (\<lambda>ns. (ns, SYSM_OK)) (count_tcp_state (nc_state conn) ns)
           else if nc_re_port conn = port then
             let ns = ns\<lparr>ns_all_outbound_total := ns_all_outbound_total ns + 1\<rparr>;
                 ns = (if sysm_net_address_equals address (nc_re_address conn) = SYSM_OK
                       then ns\<lparr>ns_tcp_outbound_total := ns_tcp_outbound_total ns + 1\<rparr> else ns)
             in map_option (\<lambda>ns. (ns, SYSM_OK)) (count_tcp_state (nc_state conn) ns)
           else Some (ns, SYSM_OK)
      else Some (ns, SYSM_OK))"

definition sysm_net_stat_port_get ::
  "net_env \<Rightarrow> sysm \<Rightarrow> sysm_net_connection \<Rightarrow> int \<Rightarrow> sysm_net_address \<Rightarrow> u64 \<Rightarrow> (sysm_net_stat \<times> int) option" where
  "sysm_net_stat_port_get env s conn0 flags address port =
     sysm_net_connection_walk env (proc_net s) (net_stat_port_walker address port) flags conn0 zero_net_stat"

text \<open>
  The walk over all connections keeps the addresses of listening ports in the handle's cache.
  Every operation of the cache reads the clock twice: \<open>clock\<close> gives the readings in order and
  \<open>nw_reads\<close> counts them.
\<close>

record net_stat_walk =
  nw_listen :: "sysm_net_address cache"
  nw_stat :: sysm_net_stat
  nw_reads :: nat

definition sysm_net_listen_address_add ::
  "u64 \<Rightarrow> u64 \<Rightarrow> sysm_net_address cache \<Rightarrow> sysm_net_connection \<Rightarrow> sysm_net_address cache option" where
  "sysm_net_listen_address_add now1 now2 t conn = do {
     (t, p) \<leftarrow> sysm_cache_get now1 now2 t (nc_lo_port conn);
     value \<leftarrow> entry_val t p;
     if value \<noteq> None \<and> family (nc_lo_address conn) = SYSM_AF_INET6 then Some t
     else Some (entry_store p (nc_lo_address conn) t) }"

definition net_stat_totals :: "sysm_net_stat \<Rightarrow> sysm_net_stat" where
  "net_stat_totals ns = ns\<lparr>ns_all_inbound_total := ns_tcp_inbound_total ns,
     ns_all_outbound_total := ns_tcp_outbound_total ns\<rparr>"

definition net_stat_walker :: "(nat \<Rightarrow> u64) \<Rightarrow> net_stat_walk add_connection" where
  "net_stat_walker clock w conn =
     (let now1 = clock (nw_reads w); now2 = clock (Suc (nw_reads w));
          reads = Suc (Suc (nw_reads w))
      in do {
        w \<leftarrow> (if nc_type conn = SYSM_NETCONN_TCP
              then do {
                ns \<leftarrow> count_tcp_state (nc_state conn) (nw_stat w);
                if nc_state conn = SYSM_TCP_LISTEN
                then do {
                  t \<leftarrow> sysm_net_listen_address_add now1 now2 (nw_listen w) conn;
                  Some \<lparr>nw_listen = t, nw_stat = ns, nw_reads = reads\<rparr> }
                else do {
                  (t, found) \<leftarrow> sysm_cache_find now1 now2 (nw_listen w) (nc_lo_port conn);
                  let ns = (if found \<noteq> None
                    then ns\<lparr>ns_tcp_inbound_total := ns_tcp_inbound_total ns + 1\<rparr>
                    else ns\<lparr>ns_tcp_outbound_total := ns_tcp_outbound_total ns + 1\<rparr>);
                  Some \<lparr>nw_listen = t, nw_stat = ns, nw_reads = reads\<rparr> } }
              else Some w);
        Some (w\<lparr>nw_stat := net_stat_totals (nw_stat w)\<rparr>, SYSM_OK) })"

definition sysm_net_stat_get ::
  "net_env \<Rightarrow> (nat \<Rightarrow> u64) \<Rightarrow> sysm \<Rightarrow> sysm_net_connection \<Rightarrow> int \<Rightarrow> (sysm \<times> net_stat_walk \<times> int) option" where
  "sysm_net_stat_get env clock s conn0 flags =
     (let (t, reads) = (case net_listen s of
                          None \<Rightarrow> (sysm_cache_new 32 (clock 0), 1)
                        | Some t \<Rightarrow> (t, 0))
      in do {
        (w, status) \<leftarrow> sysm_net_connection_walk env (proc_net s) (net_stat_walker clock) flags conn0
           \<lparr>nw_listen = t, nw_stat = zero_net_stat, nw_reads = reads\<rparr>;
        Some (s\<lparr>net_listen := Some (nw_listen w)\<rparr>, w, status) })"

text \<open>
  The address a port listens on. \<open>clock\<close> serves the walk, \<open>now1\<close> and \<open>now2\<close> the first search,
  \<open>now3\<close> to \<open>now6\<close> the search and the \<open>get\<close> at the end. An entry without a value would be
  read through a null pointer (\<open>None\<close>).
\<close>

definition listen_search :: "u64 \<Rightarrow> u64 \<Rightarrow> sysm \<Rightarrow> u64 \<Rightarrow> (sysm \<times> bool) option" where
  "listen_search now1 now2 s port =
     (case net_listen s of
        None \<Rightarrow> Some (s, False)
      | Some t \<Rightarrow> do {
          (t, found) \<leftarrow> sysm_cache_find now1 now2 t port;
          Some (s\<lparr>net_listen := Some t\<rparr>, found \<noteq> None) })"

definition sysm_net_listen_address_get ::
  "net_env \<Rightarrow> (nat \<Rightarrow> u64) \<Rightarrow> u64 \<Rightarrow> u64 \<Rightarrow> u64 \<Rightarrow> u64 \<Rightarrow> u64 \<Rightarrow> u64 \<Rightarrow> sysm \<Rightarrow> sysm_net_connection \<Rightarrow> u64
     \<Rightarrow> (sysm \<times> (int + sysm_net_address)) option" where
  "sysm_net_listen_address_get env clock now1 now2 now3 now4 now5 now6 s conn0 port = do {
     (s, found) \<leftarrow> listen_search now1 now2 s port;
     (s, status) \<leftarrow> (if found then Some (s, SYSM_OK)
       else map_option (\<lambda>(s, _, status). (s, status))
              (sysm_net_stat_get env clock s conn0 (SYSM_NETCONN_SERVER OR SYSM_NETCONN_TCP)));
     if status \<noteq> SYSM_OK then Some (s, Inl status)
     else do {
       (s, found) \<leftarrow> listen_search now3 now4 s port;
       if \<not> found then Some (s, Inl ENOENT)
       else do {
         t \<leftarrow> net_listen s;
         (t, p) \<leftarrow> sysm_cache_get now5 now6 t port;
         value \<leftarrow> entry_val t p;
         address \<leftarrow> value;
         Some (s\<lparr>net_listen := Some t\<rparr>, Inr address) } } }"

end
