(* ===== verification/Scan.thy ===== *)
theory Scan
  imports Text
begin

text \<open>
  The conversions of \<open>sscanf\<close> and \<open>fscanf\<close> the sources use: \<open>%<w>s\<close>, \<open>%X\<close> and \<open>%<w>x\<close> into
  an \<open>int\<close>, \<open>%ld\<close> and \<open>%lu\<close>. A format is a list of conversions; the white space between them
  has no effect, since every conversion skips white space first.
\<close>

section \<open>Conversions\<close>

datatype conv = ConvStr nat | ConvHex "nat option" | ConvLong | ConvULong

datatype scanned = ScanStr cstring | ScanHex u32 | ScanLong int | ScanULong u64

definition scan_str :: "nat \<Rightarrow> char list \<Rightarrow> cstring option \<times> char list" where
  "scan_str w s =
     (let t = SYSM_SKIP_SPACE s; v = take w (takeWhile (\<lambda>c. \<not> isspace c) t)
      in (if v = [] then None else Some v, drop (length v) t))"

text \<open>
  A number may have a sign, and a hexadecimal one a prefix; the digit \<open>0\<close> of a prefix counts
  as one. The number is converted as \<open>strtoul\<close> does and stored into 32 bits. The characters
  that can start a number are consumed also when none follows.
\<close>

definition scan_prefix :: "cstring \<Rightarrow> nat" where
  "scan_prefix u = (if take 2 u = ''0x'' \<or> take 2 u = ''0X'' then 2 else 0)"

definition scan_hex :: "nat option \<Rightarrow> char list \<Rightarrow> u32 option \<times> char list" where
  "scan_hex w s =
     (let t = SYSM_SKIP_SPACE s;
          u = (case w of None \<Rightarrow> t | Some w \<Rightarrow> take w t);
          (neg, v) = int_sign u;
          p = scan_prefix v;
          ds = takeWhile (is_digit_in 16) (drop p v);
          n = fst (strtoull 16 ds);
          used = (length u - length v) + p + length ds
      in (if p = 0 \<and> ds = [] then None else Some (ucast (if neg then - n else n)), drop used t))"

definition scan_long :: "char list \<Rightarrow> int option \<times> char list" where
  "scan_long s =
     (let t = SYSM_SKIP_SPACE s; (n, r) = strtol 10 t
      in (if r = t then None else Some n, r))"

definition scan_ulong :: "char list \<Rightarrow> u64 option \<times> char list" where
  "scan_ulong s =
     (let t = SYSM_SKIP_SPACE s; (n, r) = strtoull 10 t
      in (if r = t then None else Some n, r))"

fun scan_conv :: "conv \<Rightarrow> char list \<Rightarrow> scanned option \<times> char list" where
  "scan_conv (ConvStr w) s = map_prod (map_option ScanStr) id (scan_str w s)"
| "scan_conv (ConvHex w) s = map_prod (map_option ScanHex) id (scan_hex w s)"
| "scan_conv ConvLong s = map_prod (map_option ScanLong) id (scan_long s)"
| "scan_conv ConvULong s = map_prod (map_option ScanULong) id (scan_ulong s)"

text \<open>
  The values converted before the first failure, and what is left of the input. A format that
  is used up ends with white space.
\<close>

fun scan_all :: "conv list \<Rightarrow> char list \<Rightarrow> scanned list \<times> char list" where
  "scan_all [] s = ([], SYSM_SKIP_SPACE s)"
| "scan_all (c # cs) s =
     (case scan_conv c s of
        (None, r) \<Rightarrow> ([], r)
      | (Some v, r) \<Rightarrow> let (vs, r) = scan_all cs r in (v # vs, r))"

text \<open>The result of \<open>scanf\<close> is \<open>EOF\<close> when the input ends before the first conversion.\<close>

definition scan_eof :: "char list \<Rightarrow> bool" where
  "scan_eof s \<longleftrightarrow> SYSM_SKIP_SPACE s = []"

text \<open>What the variable of the \<open>i\<close>-th conversion holds: its old value when it was not reached.\<close>

definition scan_str_at :: "nat \<Rightarrow> scanned list \<Rightarrow> cstring \<Rightarrow> cstring" where
  "scan_str_at i vs x = (if i < length vs then (case vs ! i of ScanStr v \<Rightarrow> v | _ \<Rightarrow> x) else x)"

definition scan_hex_at :: "nat \<Rightarrow> scanned list \<Rightarrow> u32 \<Rightarrow> u32" where
  "scan_hex_at i vs x = (if i < length vs then (case vs ! i of ScanHex v \<Rightarrow> v | _ \<Rightarrow> x) else x)"

definition scan_long_at :: "nat \<Rightarrow> scanned list \<Rightarrow> u64 \<Rightarrow> u64" where
  "scan_long_at i vs x =
     (if i < length vs then (case vs ! i of ScanLong v \<Rightarrow> word_of_int v | _ \<Rightarrow> x) else x)"

definition scan_ulong_at :: "nat \<Rightarrow> scanned list \<Rightarrow> u64 \<Rightarrow> u64" where
  "scan_ulong_at i vs x = (if i < length vs then (case vs ! i of ScanULong v \<Rightarrow> v | _ \<Rightarrow> x) else x)"

section \<open>Reading hexadecimal numbers\<close>

lemma is_digit_in_not_special:
  "is_digit_in 16 c \<Longrightarrow> \<not> isspace c \<and> c \<noteq> CHR '' '' \<and> c \<noteq> CHR '':'' \<and> c \<noteq> CHR ''-'' \<and> c \<noteq> CHR ''+''
     \<and> c \<noteq> CHR ''x'' \<and> c \<noteq> CHR ''X'' \<and> c \<noteq> NUL \<and> c \<noteq> CHR 0x0A"
  by (auto simp: is_digit_in_def digit_val_def isdigit_def isupper_def islower_def isspace_def
      char_code_def NUL_def split: if_splits)

definition is_hex :: "cstring \<Rightarrow> bool" where
  "is_hex ds \<longleftrightarrow> ds \<noteq> [] \<and> (\<forall>c \<in> set ds. is_digit_in 16 c)"

definition ends_hex :: "cstring \<Rightarrow> bool" where
  "ends_hex r \<longleftrightarrow> (case r of [] \<Rightarrow> True
     | c # _ \<Rightarrow> \<not> is_digit_in 16 c \<and> c \<noteq> CHR ''x'' \<and> c \<noteq> CHR ''X'')"

lemma int_sign_hex: "is_hex ds \<Longrightarrow> int_sign (ds @ r) = (False, ds @ r)"
  by (cases ds) (auto simp: is_hex_def int_sign_def deref_def is_digit_in_not_special)

lemma hex_no_prefix:
  assumes "is_hex ds" "ends_hex r"
  shows "int_prefix 16 (ds @ r) = (16, ds @ r)" "scan_prefix (ds @ r) = 0"
proof -
  obtain c cs where c: "ds = c # cs" using assms(1) by (cases ds) (auto simp: is_hex_def)
  have "cs @ r = [] \<or> hd (cs @ r) \<noteq> CHR ''x'' \<and> hd (cs @ r) \<noteq> CHR ''X''"
  proof (cases cs)
    case Nil
    then show ?thesis using assms(2) by (cases r) (auto simp: ends_hex_def)
  next
    case (Cons d ds')
    then show ?thesis using assms(1) c by (auto simp: is_hex_def is_digit_in_not_special)
  qed
  then show "int_prefix 16 (ds @ r) = (16, ds @ r)" "scan_prefix (ds @ r) = 0"
    by (cases "cs @ r"; auto simp: c int_prefix_def scan_prefix_def)+
qed

lemma takeWhile_hex:
  assumes "is_hex ds" "ends_hex r"
  shows "takeWhile (is_digit_in 16) (ds @ r) = ds" "dropWhile (is_digit_in 16) (ds @ r) = r"
  using assms by (auto simp: is_hex_def ends_hex_def split: list.splits
      intro!: takeWhile_append_stop dropWhile_append_stop)

lemma strtoull_hex:
  assumes "is_hex ds" "ends_hex r" "digits_value 16 ds < 2 ^ 64"
  shows "strtoull 16 (ds @ r) = (word_of_nat (digits_value 16 ds), r)"
proof -
  have "ds \<noteq> []" using assms(1) by (simp add: is_hex_def)
  with assms show ?thesis
    by (simp add: strtoull_def int_sign_hex hex_no_prefix takeWhile_hex)
qed

lemma is_hex_hex_digits: "0 < k \<Longrightarrow> is_hex (hex_digits k n)"
  using is_digit_in_hex_digits [of k n] by (auto simp: is_hex_def dest: arg_cong [of _ _ length])

lemma at_space_ends_hex: "at_space r \<Longrightarrow> ends_hex r"
  by (auto simp: at_space_def ends_hex_def isspace_def char_code_def is_digit_in_not_special
      split: list.splits dest: is_digit_in_not_special)

lemma hex_is_field: "is_hex ds \<Longrightarrow> is_field ds"
  by (auto simp: is_hex_def is_field_def is_digit_in_not_special)

section \<open>Reading fields\<close>

definition all_blank :: "char list \<Rightarrow> bool" where
  "all_blank sp \<longleftrightarrow> (\<forall>c \<in> set sp. isspace c)"

lemma skip_blanks: "all_blank sp \<Longrightarrow> SYSM_SKIP_SPACE (sp @ t) = SYSM_SKIP_SPACE t"
  by (induction sp) (auto simp: all_blank_def SYSM_SKIP_SPACE_def)

lemma skip_field:
  assumes "all_blank sp" "is_field t"
  shows "SYSM_SKIP_SPACE (sp @ t @ r) = t @ r"
proof -
  obtain c cs where "t = c # cs" "\<not> isspace c" using assms(2) by (cases t) (auto simp: is_field_def)
  then show ?thesis using skip_blanks [OF assms(1), of "t @ r"] by (simp add: SYSM_SKIP_SPACE_def)
qed

lemma takeWhile_field:
  "is_field t \<Longrightarrow> at_space r \<Longrightarrow> takeWhile (\<lambda>c. \<not> isspace c) (t @ r) = t"
  by (rule takeWhile_append_stop) (auto simp: is_field_def at_space_def split: list.splits)

lemma scan_str_eq:
  assumes "SYSM_SKIP_SPACE s = u" "take w (takeWhile (\<lambda>c. \<not> isspace c) u) = v" "v \<noteq> []"
  shows "scan_str w s = (Some v, drop (length v) u)"
  using assms(3) unfolding scan_str_def Let_def assms(1,2) by simp

lemma scan_str_field:
  assumes "all_blank sp" "is_field t" "length t \<le> w" "at_space r"
  shows "scan_str w (sp @ t @ r) = (Some t, r)"
proof -
  have "take w (takeWhile (\<lambda>c. \<not> isspace c) (t @ r)) = t"
    using assms(2-4) by (simp add: takeWhile_field del: takeWhile_append)
  then have "scan_str w (sp @ t @ r) = (Some t, drop (length t) (t @ r))"
    using assms(2) by (intro scan_str_eq [OF skip_field [OF assms(1,2)]]) (auto simp: is_field_def)
  then show ?thesis by simp
qed

text \<open>A field longer than the width is cut.\<close>

lemma scan_str_cut:
  assumes "all_blank sp" "is_field (t @ t')" "length t = w" "0 < w"
  shows "scan_str w (sp @ t @ t' @ r) = (Some t, t' @ r)"
proof -
  have "take w (takeWhile (\<lambda>c. \<not> isspace c) ((t @ t') @ r)) = t"
    using assms(2,3) by (simp add: is_field_def takeWhile_append2)
  moreover have "t \<noteq> []" using assms(3,4) by auto
  moreover have "SYSM_SKIP_SPACE (sp @ t @ t' @ r) = (t @ t') @ r"
    using skip_field [OF assms(1,2), of r] by simp
  ultimately have "scan_str w (sp @ t @ t' @ r) = (Some t, drop (length t) ((t @ t') @ r))"
    by (intro scan_str_eq) auto
  then show ?thesis by simp
qed

lemma scan_hex_field:
  assumes "all_blank sp" "is_hex ds" "at_space r" "digits_value 16 ds < 2 ^ 32"
    and "case w of None \<Rightarrow> True | Some k \<Rightarrow> length ds \<le> k"
  shows "scan_hex w (sp @ ds @ r) = (Some (word_of_nat (digits_value 16 ds)), r)"
proof -
  define r' where "r' = (case w of None \<Rightarrow> r | Some k \<Rightarrow> take (k - length ds) r)"
  have r': "ends_hex r'"
    using at_space_ends_hex [OF assms(3)] unfolding r'_def
    by (cases r; auto simp: ends_hex_def split: option.splits) (auto simp: take_Cons' split: if_splits)
  have u: "(case w of None \<Rightarrow> ds @ r | Some k \<Rightarrow> take k (ds @ r)) = ds @ r'"
    using assms(5) by (auto simp: r'_def split: option.splits)
  have "strtoull 16 (ds @ []) = (word_of_nat (digits_value 16 ds), [])"
    using assms(2,4) by (intro strtoull_hex) (auto simp: ends_hex_def)
  moreover have "ds \<noteq> []" using assms(2) by (simp add: is_hex_def)
  ultimately show ?thesis
    using skip_field [OF assms(1) hex_is_field [OF assms(2)], of r] assms(4) u
      int_sign_hex [OF assms(2), of r'] hex_no_prefix(2) [OF assms(2) r'] takeWhile_hex(1) [OF assms(2) r']
    by (simp add: scan_hex_def Let_def unsigned_of_nat take_bit_nat_eq_self)
qed

lemma scan_long_dec:
  assumes "all_blank sp" "at_space r" "n < 2 ^ 63"
  shows "scan_long (sp @ dec_digits n @ r) = (Some (int n), r)"
proof -
  have "SYSM_SKIP_SPACE (sp @ dec_digits n @ r) = dec_digits n @ r"
    by (rule skip_field) (simp_all add: assms(1))
  moreover have "strtol 10 (dec_digits n @ r) = (int n, r)"
    using strtol_dec_digits [of "[]" r n] assms(2,3) by (simp add: at_space_nodigit)
  moreover have "dec_digits n @ r \<noteq> r" by simp
  ultimately show ?thesis by (simp add: scan_long_def)
qed

lemma scan_ulong_dec:
  assumes "all_blank sp" "at_space r" "n < 2 ^ 64"
  shows "scan_ulong (sp @ dec_digits n @ r) = (Some (word_of_nat n), r)"
proof -
  have "SYSM_SKIP_SPACE (sp @ dec_digits n @ r) = dec_digits n @ r"
    by (rule skip_field) (simp_all add: assms(1))
  moreover have "strtoull 10 (dec_digits n @ r) = (word_of_nat n, r)"
    using strtoull_dec_digits [of "[]" r n] assms(2,3) by (simp add: at_space_nodigit)
  moreover have "dec_digits n @ r \<noteq> r" by simp
  ultimately show ?thesis by (simp add: scan_ulong_def)
qed

lemma scan_str_progress: "scan_str w s = (Some v, r) \<Longrightarrow> length r < length s"
proof -
  let ?u = "SYSM_SKIP_SPACE s"
  assume a: "scan_str w s = (Some v, r)"
  have "length (take w (takeWhile (\<lambda>c. \<not> isspace c) ?u)) \<le> length ?u"
    using length_takeWhile_le [of _ ?u] by (simp add: min.coboundedI1)
  with a have "v \<noteq> []" "r = drop (length v) ?u" "length v \<le> length ?u"
    unfolding scan_str_def Let_def by (auto split: if_splits)
  moreover have "length ?u \<le> length s"
    by (simp add: SYSM_SKIP_SPACE_def length_dropWhile_le)
  ultimately show ?thesis by (cases v) auto
qed

lemma length_skip_space: "length (SYSM_SKIP_SPACE s) \<le> length s"
  by (simp add: SYSM_SKIP_SPACE_def length_dropWhile_le)

lemma length_strtol: "length (snd (strtol 10 t)) \<le> length t"
  using length_dropWhile_le [of isspace t] length_dropWhile_le [of isdigit]
  by (auto simp: strtol_def Let_def int_sign_def int_prefix_def split: prod.splits
      intro!: order_trans [OF length_dropWhile_le] diff_le_self le_trans [of "_ - 1"])

lemma length_strtoull: "length (snd (strtoull 10 t)) \<le> length t"
  using length_dropWhile_le [of isspace t] length_dropWhile_le [of isdigit]
  by (auto simp: strtoull_def Let_def int_sign_def int_prefix_def split: prod.splits
      intro!: order_trans [OF length_dropWhile_le] diff_le_self le_trans [of "_ - 1"])

lemma scan_conv_shrinks: "length (snd (scan_conv c s)) \<le> length s"
  using length_skip_space [of s] length_strtol [of "SYSM_SKIP_SPACE s"]
    length_strtoull [of "SYSM_SKIP_SPACE s"]
  by (cases c) (auto simp: scan_str_def scan_hex_def scan_long_def scan_ulong_def Let_def split: prod.splits)

lemma scan_all_shrinks: "length (snd (scan_all cs s)) \<le> length s"
proof (induction cs arbitrary: s)
  case Nil
  show ?case by (simp add: length_skip_space)
next
  case (Cons c cs)
  have "length (snd (scan_all cs r)) \<le> length s" if "scan_conv c s = (v, r)" for v r
    using Cons [of r] scan_conv_shrinks [of c s] that by simp
  moreover have "length r \<le> length s" if "scan_conv c s = (v, r)" for v r
    using scan_conv_shrinks [of c s] that by simp
  ultimately show ?case by (auto split: prod.splits option.splits)
qed

section \<open>Rows of counters\<close>

text \<open>Counters are printed after at least one blank.\<close>

definition counters_text :: "(nat \<times> nat) list \<Rightarrow> cstring" where
  "counters_text cs = concat (map (\<lambda>(k, n). replicate (Suc k) (CHR '' '') @ dec_digits n) cs)"

lemma counters_text_Cons: "counters_text ((k, n) # cs) = replicate (Suc k) (CHR '' '') @ dec_digits n @ counters_text cs"
  by (simp add: counters_text_def)

lemma at_space_counters: "at_space r \<Longrightarrow> at_space (counters_text cs @ r)"
  by (cases cs) (auto simp: counters_text_def at_space_def)

lemma read_counter:
  assumes "n < 2 ^ 64" "at_space r"
  shows "strtoull 10 (counters_text ((k, n) # cs) @ r) = (word_of_nat n, counters_text cs @ r)"
  using strtoull_dec_digits [of "replicate (Suc k) (CHR '' '')" "counters_text cs @ r" n] assms
    at_space_nodigit [OF at_space_counters [OF assms(2), of cs]]
  by (simp add: counters_text_Cons)

lemma skip_counter:
  "at_space r \<Longrightarrow> sysm_skip_token (counters_text ((k, n) # cs) @ r) = counters_text cs @ r"
  using sysm_skip_token_skips [of "replicate (Suc k) (CHR '' '')" "dec_digits n" "counters_text cs @ r"]
    at_space_counters [of r cs] is_field_dec_digits [of n]
  by (simp add: counters_text_Cons at_space_def is_field_def)

lemma counters_line:
  assumes "list_all (\<lambda>(k, n). k < 16 \<and> n < 10 ^ 20) cs"
  shows "length (counters_text cs) \<le> 36 * length cs \<and> CHR 0x0A \<notin> set (counters_text cs)
    \<and> NUL \<notin> set (counters_text cs)"
  using assms
proof (induction cs)
  case Nil
  then show ?case by (simp add: counters_text_def)
next
  case (Cons c cs)
  obtain k n where c: "c = (k, n)" by (cases c)
  have "length (dec_digits n) \<le> 20" using Cons.prems c by (intro length_dec_digits) auto
  moreover have "NUL \<noteq> CHR '' ''" by (simp add: NUL_def)
  ultimately show ?case
    using Cons by (simp add: c counters_text_Cons del: replicate_Suc)
qed

lemma scan_counters:
  assumes "n \<le> length cs" "list_all (\<lambda>(_, n). n < 2 ^ 64) cs" "at_space r"
  shows "fst (scan_all (replicate n ConvULong) (counters_text cs @ r))
    = map (\<lambda>(_, n). ScanULong (word_of_nat n)) (take n cs)"
  using assms
proof (induction n arbitrary: cs)
  case 0
  then show ?case by simp
next
  case (Suc n)
  obtain k m ds where cs: "cs = (k, m) # ds" using Suc.prems(1) by (cases cs) auto
  have "scan_ulong (counters_text cs @ r) = (Some (word_of_nat m), counters_text ds @ r)"
    using scan_ulong_dec [of "replicate (Suc k) (CHR '' '')" "counters_text ds @ r" m] Suc.prems
      at_space_counters [of r ds]
    by (simp add: cs counters_text_Cons all_blank_def del: replicate_Suc)
  moreover have "fst (scan_all (replicate n ConvULong) (counters_text ds @ r))
      = map (\<lambda>(_, n). ScanULong (word_of_nat n)) (take n ds)"
    using Suc.prems by (intro Suc.IH) (simp_all add: cs)
  ultimately show ?case by (simp add: cs Let_def split: prod.splits) (metis fst_conv)
qed

end
