(* ===== verification/Connections_Properties.thy ===== *)
theory Connections_Properties
  imports Connections Cache_Properties Scan
begin

text \<open>
  Correctness of the connection tables: a line as the kernel prints it is read back, the walk
  over the tables is a fold of the call-back over the connections they list, and what the
  clients of the walk compute follows from that.
\<close>

section \<open>Reading hexadecimal numbers\<close>

declare hex_digits.simps(2) [simp del]

lemma hex_digits_avoid:
  assumes "\<not> is_digit_in 16 c"
  shows "c \<notin> set (hex_digits k n)"
  using assms is_digit_in_hex_digits [of k n] by auto

lemma special_not_hex [simp]:
  "\<not> is_digit_in 16 (CHR '' '')" "\<not> is_digit_in 16 (CHR '':'')" "\<not> is_digit_in 16 (CHR 0x0A)" "\<not> is_digit_in 16 NUL"
  using is_digit_in_not_special by blast+

lemma strtoull_hex_digits:
  assumes "k < 16" "r \<noteq> []" "\<not> is_digit_in 16 (hd r)" "hd r \<notin> {CHR ''x'', CHR ''X''}"
  shows "strtoull 16 (hex_digits (Suc k) n @ r) = (word_of_nat (n mod 16 ^ Suc k), r)"
proof -
  have "n mod 16 ^ Suc k < 16 ^ Suc k" by (rule mod_less_divisor) simp
  also have "\<dots> \<le> 16 ^ 16" using assms(1) by (intro power_increasing) auto
  finally have "digits_value 16 (hex_digits (Suc k) n) < 2 ^ 64"
    by (simp add: digits_value_hex_digits)
  moreover have "ends_hex r" using assms(2-4) by (cases r) (auto simp: ends_hex_def)
  ultimately show ?thesis
    using strtoull_hex [OF is_hex_hex_digits, of "Suc k" r n]
    by (simp add: digits_value_hex_digits)
qed

section \<open>Pointers\<close>

abbreviation blanks :: "nat \<Rightarrow> cstring" where "blanks k \<equiv> replicate k (CHR '' '')"

lemma SKIP_WHILE_stop: "r = [] \<or> hd r \<noteq> c \<Longrightarrow> SKIP_WHILE c (replicate k c @ r) = r"
  unfolding SKIP_WHILE_def by (rule dropWhile_append_stop) (auto split: list.splits)

lemma SKIP_WHILE_same: "r = [] \<or> hd r \<noteq> c \<Longrightarrow> SKIP_WHILE c r = r"
  using SKIP_WHILE_stop [of r c 0] by simp

text \<open>A token and the blanks behind it.\<close>

lemma SKIP_PAST_token:
  assumes "CHR '' '' \<notin> set t" "r \<noteq> []" "hd r \<noteq> CHR '' ''"
  shows "SKIP_PAST (CHR '' '') (t @ blanks (Suc k) @ r) = r"
proof -
  have "dropWhile (\<lambda>x. x \<noteq> CHR '' '') (t @ blanks (Suc k) @ r) = blanks (Suc k) @ r"
    using assms(1) by (intro dropWhile_append_stop) auto
  then show ?thesis using SKIP_WHILE_stop [of r "CHR '' ''" "Suc k"] assms(2,3)
    by (simp add: SKIP_PAST_def)
qed

lemma ptr_add_append: "length t = k \<Longrightarrow> ptr_add k (t @ r) = Some r"
  by (simp add: ptr_add_def)

section \<open>Lines of the kernel\<close>

text \<open>
  The numbers of a connection as the kernel prints them: \<open>k_slot\<close> is the line number with its
  leading blanks, an address is one word or four, \<open>k_timer\<close>, \<open>k_retr\<close> and \<open>k_timeout\<close> are the
  tokens the reader skips, \<open>k_rest\<close> is what follows the inode. \<open>%5u\<close> and \<open>%8d\<close> print leading
  blanks.
\<close>

record conn_row =
  k_lead :: nat
  k_slot :: nat
  k_local :: "u32 list"
  k_lport :: nat
  k_remote :: "u32 list"
  k_rport :: nat
  k_state :: nat
  k_tx :: u32
  k_rx :: u32
  k_timer :: cstring
  k_retr :: cstring
  k_pad1 :: nat
  k_uid :: nat
  k_pad2 :: nat
  k_timeout :: cstring
  k_inode :: nat
  k_rest :: cstring

definition hex_words :: "u32 list \<Rightarrow> cstring" where
  "hex_words ws = concat (map (\<lambda>w. hex_digits 8 (unat w)) ws)"

definition conn_tail :: "conn_row \<Rightarrow> cstring" where
  "conn_tail r = k_timer r @ blanks 1 @ k_retr r @ blanks (Suc (k_pad1 r)) @ dec_digits (k_uid r)
     @ blanks (Suc (k_pad2 r)) @ k_timeout r @ blanks 1 @ dec_digits (k_inode r) @ k_rest r"

definition conn_queues :: "conn_row \<Rightarrow> cstring" where
  "conn_queues r = hex_digits 2 (k_state r) @ blanks 1 @ hex_digits 8 (unat (k_tx r)) @ '':''
     @ hex_digits 8 (unat (k_rx r)) @ blanks 1 @ conn_tail r"

definition conn_end :: "u32 list \<Rightarrow> nat \<Rightarrow> cstring" where
  "conn_end ws port = hex_words ws @ '':'' @ hex_digits 4 port @ blanks 1"

definition conn_text :: "conn_row \<Rightarrow> cstring" where
  "conn_text r = blanks (k_lead r) @ (dec_digits (k_slot r) @ '':'') @ blanks 1
     @ conn_end (k_local r) (k_lport r) @ conn_end (k_remote r) (k_rport r) @ conn_queues r"

definition row_ok :: "conn_row \<Rightarrow> bool" where
  "row_ok r \<longleftrightarrow> length (k_local r) \<in> {1, 4} \<and> length (k_remote r) \<in> {1, 4}
     \<and> k_lport r < 65536 \<and> k_rport r < 65536 \<and> k_state r < 256
     \<and> is_field (k_timer r) \<and> is_field (k_retr r) \<and> is_field (k_timeout r)
     \<and> k_uid r < 2 ^ 31 \<and> k_inode r < 2 ^ 64
     \<and> (case k_rest r of [] \<Rightarrow> True | c # _ \<Rightarrow> \<not> isdigit c)"

text \<open>The address structure after reading the words: an IPv4 address leaves the rest of the union.\<close>

definition words_address :: "u32 list \<Rightarrow> sysm_net_address \<Rightarrow> sysm_net_address" where
  "words_address ws a =
     \<lparr>family = (if length ws = 1 then SYSM_AF_INET else SYSM_AF_INET6),
      addr = store_bytes 0 (concat (map le32_bytes ws)) (addr a)\<rparr>"

definition conn_of :: "int \<Rightarrow> sysm_net_connection \<Rightarrow> conn_row \<Rightarrow> sysm_net_connection" where
  "conn_of type conn0 r = \<lparr>nc_lo_port = word_of_nat (k_lport r),
     nc_lo_address = words_address (k_local r) (nc_lo_address conn0),
     nc_re_port = word_of_nat (k_rport r),
     nc_re_address = words_address (k_remote r) (nc_re_address conn0),
     nc_uid = int (k_uid r), nc_inode = word_of_nat (k_inode r), nc_type = type,
     nc_state = int (k_state r), nc_se_q = ucast (k_tx r), nc_re_q = ucast (k_rx r)\<rparr>"

definition wanted :: "int \<Rightarrow> conn_row \<Rightarrow> bool" where
  "wanted flags r \<longleftrightarrow> (if k_rport r = 0 then flags AND SYSM_NETCONN_SERVER \<noteq> 0
                       else flags AND SYSM_NETCONN_CLIENT \<noteq> 0)"

lemma port_mask:
  assumes "port < 65536"
  shows "(word_of_nat port :: u64) AND 0xffff = word_of_nat port"
proof -
  have "(word_of_nat port :: u64) AND 0xffff = take_bit 16 (word_of_nat port)"
    by (simp add: take_bit_eq_mask mask_eq_exp_minus_1)
  also have "\<dots> = word_of_nat (take_bit 16 port)" by (simp add: take_bit_of_nat)
  also have "take_bit 16 port = port" using assms by (simp add: take_bit_nat_eq_self)
  finally show ?thesis .
qed

lemma conn_endpoint_end:
  assumes "port < 65536" "r \<noteq> []" "hd r \<noteq> CHR '' ''"
  shows "conn_endpoint (conn_end ws port @ r) = (length ws * 8, word_of_nat port, r)"
proof -
  let ?p = "hex_digits 4 port @ blanks 1 @ r"
  have colon: "\<forall>c \<in> set (hex_words ws). c \<noteq> CHR '':''"
    using hex_digits_avoid [of "CHR '':''"] by (auto simp: hex_words_def)
  have len: "length (hex_words ws) = length ws * 8"
    by (induction ws) (simp_all add: hex_words_def)
  have t: "takeWhile (\<lambda>x. x \<noteq> CHR '':'') (hex_words ws @ CHR '':'' # ?p) = hex_words ws"
    using colon by (intro takeWhile_append_stop) auto
  have "hd ?p \<noteq> CHR '':''" "?p \<noteq> []"
    using is_digit_in_hex_digits [of 4 port] is_digit_in_not_special
    by (auto simp: eval_nat_numeral hd_append split: if_splits)
  then have s: "SKIP_WHILE (CHR '':'') (CHR '':'' # ?p) = ?p"
    using SKIP_WHILE_stop [of ?p "CHR '':''" 1] by (cases ?p) auto
  have "strtoull 16 ?p = (word_of_nat (port mod 16 ^ 4), blanks 1 @ r)"
    using strtoull_hex_digits [of 3 "blanks 1 @ r" port] by simp
  moreover have "(word_of_nat port :: u64) AND 0xffff = word_of_nat port"
    using assms(1) by (rule port_mask)
  moreover have "SKIP_WHILE (CHR '' '') (blanks 1 @ r) = r"
    using SKIP_WHILE_stop [of r "CHR '' ''" 1] assms(2,3) by (cases r) auto
  ultimately show ?thesis
    using assms(1) t s len by (simp add: conn_endpoint_def conn_end_def)
qed

lemma convert_hex_words:
  assumes "length ws \<in> {1, 4}" "length (addr a) = 16"
  shows "convert_hex_address (hex_words ws @ r) (length ws * 8) a = Some (words_address ws a)"
proof (cases "length ws = 1")
  case True
  then obtain w where "ws = [w]" by (auto simp: length_Suc_conv)
  then show ?thesis
    using hex2int_hex_digits [of w r]
    by (simp add: convert_hex_address_def HEX_ENT_LEN_def hex_words_def words_address_def)
next
  case False
  then obtain w0 w1 w2 w3 where ws: "ws = [w0, w1, w2, w3]"
    using assms(1) by (auto simp: length_Suc_conv eval_nat_numeral)
  then have "convert_hex_in6 (hex_words ws @ r) [0, 1, 2, 3] (addr a) = Some (concat (map le32_bytes ws))"
    using convert_hex_in6_words [OF assms(2), of w0 w1 w2 w3 r] by (simp add: hex_words_def)
  then show ?thesis
    using assms(2) by (simp add: ws convert_hex_address_def HEX_ENT_LEN_def words_address_def store_bytes_def)
qed

lemma hd_hex_digits: "0 < k \<Longrightarrow> is_digit_in 16 (hd (hex_digits k n @ r)) \<and> hex_digits k n @ r \<noteq> []"
  using is_digit_in_hex_digits [of k n] length_hex_digits [of k n]
  by (cases "hex_digits k n") auto

lemma hd_not_blank:
  "0 < k \<Longrightarrow> hd (hex_digits k n @ r) \<noteq> CHR '' ''"
  "is_field t \<Longrightarrow> hd (t @ r) \<noteq> CHR '' ''"
  "hd (dec_digits m @ r) \<noteq> CHR '' ''"
proof -
  show "0 < k \<Longrightarrow> hd (hex_digits k n @ r) \<noteq> CHR '' ''"
    using hd_hex_digits [of k n r] is_digit_in_not_special by blast
  show field: "hd (t @ r) \<noteq> CHR '' ''" if "is_field t" for t
    using that by (cases t) (auto simp: is_field_def isspace_def char_code_def)
  show "hd (dec_digits m @ r) \<noteq> CHR '' ''" by (rule field) simp
qed

lemma field_no_blank: "is_field t \<Longrightarrow> CHR '' '' \<notin> set t"
  by (auto simp: is_field_def isspace_def char_code_def)

lemma conn_text_start:
  "SKIP_PAST (CHR '' '') (SKIP_WHILE (CHR '' '') (conn_text r))
     = conn_end (k_local r) (k_lport r) @ conn_end (k_remote r) (k_rport r) @ conn_queues r"
  if "row_ok r"
proof -
  have "length (k_local r) \<noteq> 0" using that by (auto simp: row_ok_def)
  then obtain w ws where "k_local r = w # ws" by (cases "k_local r") auto
  then have e: "conn_end (k_local r) (k_lport r) @ R = hex_digits 8 (unat w) @ hex_words ws @ '':'' @ hex_digits 4 (k_lport r) @ blanks 1 @ R" for R
    by (simp add: conn_end_def hex_words_def)
  have "SKIP_WHILE (CHR '' '') (conn_text r) = (dec_digits (k_slot r) @ '':'') @ blanks (Suc 0)
      @ conn_end (k_local r) (k_lport r) @ conn_end (k_remote r) (k_rport r) @ conn_queues r"
    unfolding conn_text_def One_nat_def append.assoc by (intro SKIP_WHILE_stop disjI2 hd_not_blank)
  moreover have "CHR '' '' \<notin> set (dec_digits (k_slot r) @ '':'')"
    using field_no_blank [OF is_field_dec_digits] by simp
  then have "SKIP_PAST (CHR '' '') ((dec_digits (k_slot r) @ '':'') @ blanks (Suc 0)
      @ conn_end (k_local r) (k_lport r) @ conn_end (k_remote r) (k_rport r) @ conn_queues r)
    = conn_end (k_local r) (k_lport r) @ conn_end (k_remote r) (k_rport r) @ conn_queues r"
    using hd_hex_digits [of 8 "unat w"] by (intro SKIP_PAST_token) (auto simp: e hd_not_blank)
  ultimately show ?thesis by simp
qed

lemma conn_tail_read:
  assumes "row_ok r"
  shows "strtoull 10 (SKIP_PAST (CHR '' '') (SKIP_PAST (CHR '' '') (conn_tail r)))
      = (word_of_nat (k_uid r), blanks (Suc (k_pad2 r)) @ k_timeout r @ blanks 1 @ dec_digits (k_inode r) @ k_rest r)"
    and "strtoull 10 (SKIP_PAST (CHR '' '') (SKIP_WHILE (CHR '' '')
        (blanks (Suc (k_pad2 r)) @ k_timeout r @ blanks 1 @ dec_digits (k_inode r) @ k_rest r)))
      = (word_of_nat (k_inode r), k_rest r)"
proof -
  let ?u = "dec_digits (k_uid r) @ blanks (Suc (k_pad2 r)) @ k_timeout r @ blanks 1 @ dec_digits (k_inode r) @ k_rest r"
  let ?t = "k_timeout r @ blanks 1 @ dec_digits (k_inode r) @ k_rest r"
  have ok: "is_field (k_timer r)" "is_field (k_retr r)" "is_field (k_timeout r)"
    using assms by (simp_all add: row_ok_def)
  have "SKIP_PAST (CHR '' '') (conn_tail r) = k_retr r @ blanks (Suc (k_pad1 r)) @ ?u"
    unfolding conn_tail_def One_nat_def
    using ok by (intro SKIP_PAST_token field_no_blank hd_not_blank) (auto simp: is_field_def)
  moreover have "SKIP_PAST (CHR '' '') (k_retr r @ blanks (Suc (k_pad1 r)) @ ?u) = ?u"
    using ok by (intro SKIP_PAST_token field_no_blank hd_not_blank) auto
  ultimately show "strtoull 10 (SKIP_PAST (CHR '' '') (SKIP_PAST (CHR '' '') (conn_tail r)))
      = (word_of_nat (k_uid r), blanks (Suc (k_pad2 r)) @ ?t)"
    using strtoull_dec_digits [of "[]" "blanks (Suc (k_pad2 r)) @ ?t" "k_uid r"] assms
    by (simp add: row_ok_def isdigit_def char_code_def)
  have "SKIP_WHILE (CHR '' '') (blanks (Suc (k_pad2 r)) @ ?t) = ?t"
    using ok by (intro SKIP_WHILE_stop disjI2 hd_not_blank)
  moreover have "SKIP_PAST (CHR '' '') ?t = dec_digits (k_inode r) @ k_rest r"
    unfolding One_nat_def using ok by (intro SKIP_PAST_token field_no_blank hd_not_blank) auto
  ultimately show "strtoull 10 (SKIP_PAST (CHR '' '') (SKIP_WHILE (CHR '' '') (blanks (Suc (k_pad2 r)) @ ?t)))
      = (word_of_nat (k_inode r), k_rest r)"
    using strtoull_dec_digits [of "[]" "k_rest r" "k_inode r"] assms by (simp add: row_ok_def)
qed

lemma conn_queues_read:
  assumes "row_ok r"
  shows "hex2int (conn_queues r) 2 = Some (word_of_nat (k_state r))"
    and "ptr_add 2 (conn_queues r) = Some (drop 2 (conn_queues r))"
    and "SKIP_WHILE (CHR '' '') (drop 2 (conn_queues r)) = hex_digits 8 (unat (k_tx r)) @ '':''
     @ hex_digits 8 (unat (k_rx r)) @ blanks 1 @ conn_tail r"
proof -
  show "hex2int (conn_queues r) 2 = Some (word_of_nat (k_state r))"
    using hex2int_digits [OF is_digit_in_hex_digits [of 2 "k_state r"]] assms
    by (simp add: conn_queues_def digits_value_hex_digits row_ok_def)
  show "ptr_add 2 (conn_queues r) = Some (drop 2 (conn_queues r))"
    by (simp add: ptr_add_def conn_queues_def)
  show "SKIP_WHILE (CHR '' '') (drop 2 (conn_queues r)) = hex_digits 8 (unat (k_tx r)) @ '':''
     @ hex_digits 8 (unat (k_rx r)) @ blanks 1 @ conn_tail r"
    using SKIP_WHILE_stop [of "hex_digits 8 (unat (k_tx r)) @ '':'' @ hex_digits 8 (unat (k_rx r)) @ blanks 1 @ conn_tail r"
        "CHR '' ''" 1]
    by (simp add: conn_queues_def hd_not_blank)
qed

lemma conn_line_text:
  assumes "row_ok r" "length (addr (nc_lo_address conn0)) = 16" "length (addr (nc_re_address conn0)) = 16"
  shows "conn_line flags type conn0 (conn_text r) = Some (if wanted flags r then Some (conn_of type conn0 r) else None)"
proof -
  let ?tail = "conn_tail r" and ?rx = "hex_digits 8 (unat (k_rx r)) @ blanks 1 @ conn_tail r"
  let ?rest = "blanks (Suc (k_pad2 r)) @ k_timeout r @ blanks 1 @ dec_digits (k_inode r) @ k_rest r"
  note ok = assms(1) [unfolded row_ok_def]
  obtain w ws where w: "k_remote r = w # ws" using ok by (cases "k_remote r") auto
  have hd_q: "conn_queues r \<noteq> []" "hd (conn_queues r) \<noteq> CHR '' ''"
    using hd_hex_digits [of 2 "k_state r"] by (auto simp: conn_queues_def hd_not_blank)
  have "conn_end (k_remote r) (k_rport r) @ conn_queues r
      = hex_digits 8 (unat w) @ hex_words ws @ '':'' @ hex_digits 4 (k_rport r) @ blanks 1 @ conn_queues r"
    by (simp add: conn_end_def hex_words_def w)
  then have hd_r: "conn_end (k_remote r) (k_rport r) @ conn_queues r \<noteq> []"
    "hd (conn_end (k_remote r) (k_rport r) @ conn_queues r) \<noteq> CHR '' ''"
    using hd_hex_digits [of 8 "unat w"] by (auto simp: hd_not_blank)
  have ends: "conn_endpoint (conn_end (k_local r) (k_lport r) @ conn_end (k_remote r) (k_rport r) @ conn_queues r)
       = (length (k_local r) * 8, word_of_nat (k_lport r), conn_end (k_remote r) (k_rport r) @ conn_queues r)"
    "conn_endpoint (conn_end (k_remote r) (k_rport r) @ conn_queues r)
       = (length (k_remote r) * 8, word_of_nat (k_rport r), conn_queues r)"
    using ok hd_q hd_r by (simp_all add: conn_endpoint_end)
  have port: "(word_of_nat (k_rport r) :: u64) = 0 \<longleftrightarrow> k_rport r = 0"
    using ok unat_word_of_nat_u64 [of "k_rport r"] by (auto simp del: unat_word_of_nat_u64)
  have addr: "convert_hex_address (conn_end (k_local r) (k_lport r) @ conn_end (k_remote r) (k_rport r) @ conn_queues r)
       (length (k_local r) * 8) (nc_lo_address conn0) = Some (words_address (k_local r) (nc_lo_address conn0))"
    "convert_hex_address (conn_end (k_remote r) (k_rport r) @ conn_queues r)
       (length (k_remote r) * 8) (nc_re_address conn0) = Some (words_address (k_remote r) (nc_re_address conn0))"
    using ok assms(2,3) by (simp_all add: conn_end_def convert_hex_words del: insert_iff)
  have tx: "hex2int (hex_digits 8 (unat (k_tx r)) @ '':'' @ ?rx) HEX_ENT_LEN = Some (k_tx r)"
    "hex2int ?rx HEX_ENT_LEN = Some (k_rx r)" by (simp_all only: hex2int_hex_digits)
  have move: "ptr_add (HEX_ENT_LEN + 1) (hex_digits 8 (unat (k_tx r)) @ '':'' @ ?rx) = Some ?rx"
    "ptr_add HEX_ENT_LEN ?rx = Some (blanks 1 @ ?tail)"
    using ptr_add_append [of "hex_digits 8 (unat (k_tx r)) @ '':''" "HEX_ENT_LEN + 1" ?rx]
      ptr_add_append [of "hex_digits 8 (unat (k_rx r))" HEX_ENT_LEN "blanks 1 @ ?tail"]
    by (simp_all add: HEX_ENT_LEN_def)
  have uid: "int_of_ulong (word_of_nat (k_uid r)) = int (k_uid r)" using ok by (simp add: int_of_ulong_small)
  have state: "sint (word_of_nat (k_state r) :: u32) = int (k_state r)"
    using ok by (simp add: signed_of_nat signed_take_bit_int_eq_self)
  have "SKIP_WHILE (CHR '' '') (blanks 1 @ ?tail) = ?tail"
    using ok unfolding conn_tail_def by (intro SKIP_WHILE_stop disjI2 hd_not_blank) simp
  note steps = conn_text_start [OF assms(1)] ends addr conn_queues_read [OF assms(1)] tx move this
    conn_tail_read [OF assms(1)] uid state
  show ?thesis
  proof (cases "wanted flags r")
    case False
    then show ?thesis using port by (simp add: conn_line_def steps wanted_def split: if_splits)
  next
    case True
    then have "\<not> \<not> ((word_of_nat (k_rport r) :: u64) \<noteq> 0 \<and> flags AND SYSM_NETCONN_CLIENT \<noteq> 0 \<or>
         (word_of_nat (k_rport r) :: u64) = 0 \<and> flags AND SYSM_NETCONN_SERVER \<noteq> 0)"
      using port by (simp add: wanted_def split: if_splits)
    then show ?thesis
      unfolding conn_line_def Let_def steps prod.case if_not_P conn_of_def bind.bind_lunit
      using True by (simp only: if_True if_False simp_thms)
  qed
qed

section \<open>The walk is a fold\<close>

text \<open>A table is a header line and its rows, or the file is missing.\<close>

type_synonym net_table = "(cstring \<times> conn_row list) option"

definition shows_table :: "net_env \<Rightarrow> cstring \<Rightarrow> net_table \<Rightarrow> bool" where
  "shows_table env name t \<longleftrightarrow>
     (case t of
        None \<Rightarrow> ne_files env (PROC_FS_ROOT @ name) = Open_Fails ENOENT
      | Some (header, rows) \<Rightarrow>
          ne_files env (PROC_FS_ROOT @ name) = Contents (text_file (header # map conn_text rows))
          \<and> is_line NET_BUFFER header \<and> (\<forall>r \<in> set rows. row_ok r \<and> is_line NET_BUFFER (conn_text r)))"

text \<open>All six tables; those of IPv6 may be missing.\<close>

definition shows_tables :: "net_env \<Rightarrow> (cstring \<Rightarrow> net_table) \<Rightarrow> bool" where
  "shows_tables env tab \<longleftrightarrow>
     (\<forall>name \<in> {''net/tcp'', ''net/udp'', ''net/raw''}.
        shows_table env name (tab name) \<and> tab name \<noteq> None
        \<and> shows_table env (name @ ''6'') (tab (name @ ''6'')))"

definition table_conns :: "int \<Rightarrow> sysm_net_connection \<Rightarrow> int \<Rightarrow> net_table \<Rightarrow> sysm_net_connection list" where
  "table_conns flags conn0 type t =
     (case t of None \<Rightarrow> [] | Some (_, rows) \<Rightarrow> map (conn_of type conn0) (filter (wanted flags) rows))"

definition protocol_conns ::
  "int \<Rightarrow> sysm_net_connection \<Rightarrow> (cstring \<Rightarrow> net_table) \<Rightarrow> int \<Rightarrow> cstring \<Rightarrow> sysm_net_connection list list" where
  "protocol_conns flags conn0 tab type name =
     (if flags AND type = 0 then []
      else [table_conns flags conn0 type (tab name), table_conns flags conn0 type (tab (name @ ''6''))])"

definition net_conns ::
  "int \<Rightarrow> sysm_net_connection \<Rightarrow> (cstring \<Rightarrow> net_table) \<Rightarrow> sysm_net_connection list list" where
  "net_conns flags conn0 tab =
     protocol_conns flags conn0 tab SYSM_NETCONN_TCP ''net/tcp''
     @ protocol_conns flags conn0 tab SYSM_NETCONN_UDP ''net/udp''
     @ protocol_conns flags conn0 tab SYSM_NETCONN_RAW ''net/raw''"

text \<open>The specification of the walk: the call-back on every connection, ending a table when it says so.\<close>

fun visit :: "'w add_connection \<Rightarrow> sysm_net_connection list \<Rightarrow> 'w \<Rightarrow> 'w option" where
  "visit add [] w = Some w"
| "visit add (c # cs) w = do { (w, more) \<leftarrow> add w c; if more \<noteq> SYSM_OK then Some w else visit add cs w }"

fun visits :: "'w add_connection \<Rightarrow> sysm_net_connection list list \<Rightarrow> 'w \<Rightarrow> 'w option" where
  "visits add [] w = Some w"
| "visits add (cs # css) w = do { w \<leftarrow> visit add cs w; visits add css w }"

lemma visits_append: "visits add (css @ dss) w = Option.bind (visits add css w) (visits add dss)"
  by (induction css arbitrary: w) (auto simp: Option.bind_assoc split: bind_splits)

definition wide_conn :: "sysm_net_connection \<Rightarrow> bool" where
  "wide_conn c \<longleftrightarrow> length (addr (nc_lo_address c)) = 16 \<and> length (addr (nc_re_address c)) = 16"

lemma conn_line_file_line:
  assumes "row_ok r" "is_line NET_BUFFER (conn_text r)" "wide_conn conn0"
  shows "conn_line flags type conn0 (cstr (conn_text r @ [CHR 0x0A]))
    = Some (if wanted flags r then Some (conn_of type conn0 r) else None)"
proof -
  let ?r = "r\<lparr>k_rest := k_rest r @ [CHR 0x0A]\<rparr>"
  have "conn_text r @ [CHR 0x0A] = conn_text ?r" by (simp add: conn_text_def conn_queues_def conn_tail_def)
  moreover have "row_ok ?r" using assms(1) by (cases "k_rest r") (simp_all add: row_ok_def isdigit_def char_code_def)
  moreover have "wanted flags ?r = wanted flags r" "conn_of type conn0 ?r = conn_of type conn0 r"
    by (simp_all add: wanted_def conn_of_def)
  ultimately show ?thesis
    using conn_line_text [of ?r conn0 flags type] assms(3) unfolding cstr_line [OF assms(2)]
    by (simp add: wide_conn_def)
qed

lemma proc_net_loop_visit:
  assumes "\<forall>r \<in> set rows. row_ok r \<and> is_line NET_BUFFER (conn_text r)" "wide_conn conn0"
  shows "proc_net_loop add flags type conn0 (map (\<lambda>r. conn_text r @ [CHR 0x0A]) rows) w
    = visit add (map (conn_of type conn0) (filter (wanted flags) rows)) w"
  using assms(1)
proof (induction rows arbitrary: w)
  case Nil
  then show ?case by simp
next
  case (Cons r rows)
  then show ?case
    using conn_line_file_line [of r conn0 flags type] assms(2) by (auto split: bind_splits)
qed

lemma proc_net_read_visit:
  assumes "shows_table env name t" "wide_conn conn0"
  shows "proc_net_read env None add flags conn0 (PROC_FS_ROOT @ name) type w
    = (if t = None then Some (w, ENOENT)
       else map_option (\<lambda>w. (w, SYSM_OK)) (visit add (table_conns flags conn0 type t) w))"
proof (cases t)
  case None
  then show ?thesis using assms(1) by (simp add: shows_table_def proc_net_read_def)
next
  case (Some hr)
  obtain header rows where t: "t = Some (header, rows)" using Some by (cases hr) auto
  have "\<forall>l \<in> set (header # map conn_text rows). is_line NET_BUFFER l"
    using assms(1) by (auto simp: shows_table_def t)
  then have "tl (fgets_lines NET_BUFFER (text_file (header # map conn_text rows)))
      = map (\<lambda>r. conn_text r @ [CHR 0x0A]) rows"
    by (simp only: fgets_lines_text_file) (simp add: comp_def)
  then show ?thesis
    using assms proc_net_loop_visit [of rows conn0 add flags type w]
    by (auto simp: shows_table_def proc_net_read_def t table_conns_def bind_eq_None_conv split: bind_splits)
qed

lemma walk_protocol_visits:
  assumes "shows_table env name (tab name)" "tab name \<noteq> None"
    "shows_table env (name @ ''6'') (tab (name @ ''6''))" "wide_conn conn0"
  shows "walk_protocol env None add flags conn0 type name w
    = map_option (\<lambda>w. (w, SYSM_OK)) (visits add (protocol_conns flags conn0 tab type name) w)"
  using proc_net_read_visit [OF assms(1,4), of add flags type] assms(2)
    proc_net_read_visit [OF assms(3,4), of add flags type]
  by (auto simp: walk_protocol_def protocol_conns_def SYSM_OK_def ENOENT_def table_conns_def
      split: bind_splits)

lemma walk_is_fold:
  assumes "shows_tables env tab" "wide_conn conn0"
  shows "sysm_net_connection_walk env None add flags conn0 w
    = map_option (\<lambda>w. (w, SYSM_OK)) (visits add (net_conns flags conn0 tab) w)"
  using assms walk_protocol_visits [of env _ tab conn0 add flags]
  by (auto simp: sysm_net_connection_walk_def shows_tables_def net_conns_def visits_append
      split: bind_splits)

text \<open>C20: the walk over the tables of the kernel is the fold of the call-back over the connections
  the flags ask for: the IPv4 and IPv6 tables of TCP, then UDP, then raw sockets, each read up to
  the connection at which the call-back stops.\<close>

theorem net_connection_walk_is_fold:
  assumes "shows_tables env tab" "wide_conn conn0"
  shows "sysm_net_connection_walk env None add flags conn0 w
    = map_option (\<lambda>w. (w, SYSM_OK)) (visits add (net_conns flags conn0 tab) w)"
  using assms by (rule walk_is_fold)

text \<open>A host with two listening sockets, one connection to the first, and no IPv6.\<close>

definition sample_row :: "u32 \<Rightarrow> nat \<Rightarrow> u32 \<Rightarrow> nat \<Rightarrow> nat \<Rightarrow> conn_row" where
  "sample_row la lp ra rp st = \<lparr>k_lead = 3, k_slot = 0, k_local = [la], k_lport = lp, k_remote = [ra],
     k_rport = rp, k_state = st, k_tx = 0, k_rx = 0, k_timer = ''00:00000000'', k_retr = ''00000000'',
     k_pad1 = 2, k_uid = 1000, k_pad2 = 7, k_timeout = ''0'', k_inode = 31415, k_rest = '' 1''\<rparr>"

definition sample_rows :: "conn_row list" where
  "sample_rows = [sample_row 0 22 0 0 10, sample_row 16777343 631 0 0 10,
     sample_row 16777343 22 16777343 40000 1]"

definition sample_tab :: "cstring \<Rightarrow> net_table" where
  "sample_tab name = (if name = ''net/tcp'' then Some (''  sl'', sample_rows)
     else if name = ''net/udp'' \<or> name = ''net/raw'' then Some (''  sl'', []) else None)"

definition net_files :: "(cstring \<Rightarrow> net_table) \<Rightarrow> files" where
  "net_files tab f = (case tab (drop (length PROC_FS_ROOT) f) of
     None \<Rightarrow> Open_Fails ENOENT
   | Some (header, rows) \<Rightarrow> Contents (text_file (header # map conn_text rows)))"

definition sample_net :: net_env where
  "sample_net = \<lparr>ne_files = net_files sample_tab, ne_stat = (\<lambda>_. None), ne_popen = (\<lambda>_. None)\<rparr>"

lemma is_line_append:
  "is_line n l \<longleftrightarrow> (\<forall>c \<in> set l. c \<noteq> CHR 0x0A \<and> c \<noteq> NUL) \<and> length l + 1 < n"
  by (auto simp: is_line_def)

lemma sample_row_ok:
  assumes "lp < 65536" "rp < 65536" "st < 256"
  shows "row_ok (sample_row la lp ra rp st) \<and> is_line NET_BUFFER (conn_text (sample_row la lp ra rp st))"
proof
  show "row_ok (sample_row la lp ra rp st)"
    using assms by (simp add: row_ok_def sample_row_def is_field_def isspace_def isdigit_def char_code_def)
  have hex: "CHR 0x0A \<notin> set (hex_digits k n)" "NUL \<notin> set (hex_digits k n)" for k n
    using hex_digits_avoid [of "CHR 0x0A" k n] hex_digits_avoid [of NUL k n] by simp_all
  have num: "length (dec_digits 0) \<le> 5" "length (dec_digits 1000) \<le> 5" "length (dec_digits 31415) \<le> 5"
    by (rule length_dec_digits; simp)+
  show "is_line NET_BUFFER (conn_text (sample_row la lp ra rp st))"
    unfolding is_line_def using hex dec_digits_plain num
    by (auto simp: conn_text_def conn_end_def conn_queues_def conn_tail_def hex_words_def sample_row_def NET_BUFFER_def
        NUL_def [symmetric]) (simp_all add: NUL_def)
qed

lemma sample_tables: "shows_tables sample_net sample_tab"
proof -
  have "\<forall>r \<in> set sample_rows. row_ok r \<and> is_line NET_BUFFER (conn_text r)"
    unfolding sample_rows_def using sample_row_ok by simp
  moreover have "is_line NET_BUFFER ''  sl''" by (simp add: is_line_def NET_BUFFER_def NUL_def)
  ultimately show ?thesis
    by (simp add: shows_tables_def shows_table_def sample_net_def net_files_def sample_tab_def PROC_FS_ROOT_def)
qed

lemma wide_zero: "wide_conn zero_connection"
  by (simp add: wide_conn_def zero_connection_def)

theorem net_connection_walk_is_fold_witness:
  "sysm_net_connection_walk sample_net None (\<lambda>n c. Some (n + nc_lo_port c, SYSM_OK)) 19 zero_connection 0
     = Some (675, SYSM_OK)"
  unfolding net_connection_walk_is_fold [OF sample_tables wide_zero]
  by (simp add: net_conns_def protocol_conns_def table_conns_def sample_tab_def sample_rows_def wanted_def
      sample_row_def conn_of_def SYSM_NETCONN_TCP_def SYSM_NETCONN_UDP_def SYSM_NETCONN_RAW_def
      SYSM_NETCONN_SERVER_def SYSM_NETCONN_CLIENT_def)

section \<open>Call-backs that never stop\<close>

text \<open>
  The contract of a call-back that follows an abstract step on its state: in a state and for a
  connection that are \<open>ok\<close> it succeeds and asks for more. The walk then is the fold of the
  steps over all connections.
\<close>

fun steps_ok :: "('a \<Rightarrow> sysm_net_connection \<Rightarrow> bool) \<Rightarrow> ('a \<Rightarrow> sysm_net_connection \<Rightarrow> 'a) \<Rightarrow> 'a
    \<Rightarrow> sysm_net_connection list \<Rightarrow> bool" where
  "steps_ok ok step a [] = True"
| "steps_ok ok step a (c # cs) = (ok a c \<and> steps_ok ok step (step a c) cs)"

lemma steps_ok_append:
  "steps_ok ok step a (cs @ ds) \<longleftrightarrow> steps_ok ok step a cs \<and> steps_ok ok step (foldl step a cs) ds"
  by (induction cs arbitrary: a) auto

locale walk_callback =
  fixes add :: "'w add_connection"
    and R :: "'w \<Rightarrow> 'a \<Rightarrow> bool"
    and step :: "'a \<Rightarrow> sysm_net_connection \<Rightarrow> 'a"
    and ok :: "'a \<Rightarrow> sysm_net_connection \<Rightarrow> bool"
  assumes simulates: "R w a \<Longrightarrow> ok a c \<Longrightarrow> \<exists>w'. add w c = Some (w', SYSM_OK) \<and> R w' (step a c)"
begin

lemma visit_simulates:
  "R w a \<Longrightarrow> steps_ok ok step a cs \<Longrightarrow> \<exists>w'. visit add cs w = Some w' \<and> R w' (foldl step a cs)"
proof (induction cs arbitrary: w a)
  case Nil
  then show ?case by simp
next
  case (Cons c cs)
  then obtain w' where "add w c = Some (w', SYSM_OK)" "R w' (step a c)" using simulates by force
  then show ?case using Cons by simp
qed

lemma visits_simulate:
  "R w a \<Longrightarrow> steps_ok ok step a (concat css) \<Longrightarrow> \<exists>w'. visits add css w = Some w' \<and> R w' (foldl step a (concat css))"
proof (induction css arbitrary: w a)
  case Nil
  then show ?case by simp
next
  case (Cons cs css)
  then obtain w' where "visit add cs w = Some w'" "R w' (foldl step a cs)"
    using visit_simulates [of w a cs] by (auto simp: steps_ok_append)
  then show ?case using Cons by (simp add: steps_ok_append)
qed

text \<open>The walk of the program over the tables of the kernel.\<close>

lemma walk_simulates:
  assumes "shows_tables env tab" "wide_conn conn0" "R w a" "steps_ok ok step a (concat (net_conns flags conn0 tab))"
  shows "\<exists>w'. sysm_net_connection_walk env None add flags conn0 w = Some (w', SYSM_OK)
    \<and> R w' (foldl step a (concat (net_conns flags conn0 tab)))"
  using visits_simulate [OF assms(3,4)] by (auto simp: walk_is_fold [OF assms(1,2)])

end

section \<open>The connection list\<close>

definition getter_list :: "net_conn_getter \<Rightarrow> sysm_net_connection list \<Rightarrow> bool" where
  "getter_list g cs \<longleftrightarrow> (\<exists>l. ng_conn_list g = Some l \<and> dl_wf l \<and> dl_contents l = cs)"

lemma net_connlist_push:
  "dl_wf l \<Longrightarrow> \<exists>l'. dl_append c (SYSM_NET_CONNLIST_GROW l) = Some l' \<and> dl_wf l' \<and> dl_contents l' = dl_contents l @ [c]"
  using net_connection_list.push_total [of l c] by (auto simp: dl_push_def)

interpretation list_walk: walk_callback proc_net_walker getter_list "\<lambda>cs c. cs @ [c]" "\<lambda>_ _. True"
proof
  fix g cs c
  assume "getter_list g cs"
  then obtain l l' where "ng_conn_list g = Some l" "dl_append c (SYSM_NET_CONNLIST_GROW l) = Some l'"
      "dl_wf l'" "dl_contents l' = cs @ [c]"
    unfolding getter_list_def using net_connlist_push by metis
  then show "\<exists>g'. proc_net_walker g c = Some (g', SYSM_OK) \<and> getter_list g' (cs @ [c])"
    by (simp add: proc_net_walker_def getter_list_def)
qed

lemma foldl_snoc: "foldl (\<lambda>cs c. cs @ [c]) as cs = as @ cs"
  by (induction cs arbitrary: as) simp_all

lemma steps_ok_True: "steps_ok (\<lambda>_ _. True) step a cs"
  by (induction cs arbitrary: a) simp_all

text \<open>C21: the connection list holds exactly the connections of the tables that the flags ask for,
  in the order of the tables and of their lines.\<close>

theorem net_connection_list_exact:
  assumes "shows_tables env tab" "wide_conn conn0" "proc_net s = None"
  shows "\<exists>l. sysm_net_connection_list_get env s g0 conn0 flags = Some (l, SYSM_OK)
    \<and> dl_contents l = concat (net_conns flags conn0 tab)"
proof -
  have "getter_list (g0\<lparr>ng_conn_list := Some sysm_net_connection_list_create\<rparr>) []"
    using net_connection_list.create_wf net_connection_list.create_contents by (simp add: getter_list_def)
  from list_walk.walk_simulates [OF assms(1,2) this steps_ok_True, of flags]
  show ?thesis using assms(3) by (auto simp: sysm_net_connection_list_get_def getter_list_def foldl_snoc)
qed

theorem net_connection_list_exact_witness:
  "\<exists>l. sysm_net_connection_list_get sample_net zero_sysm \<lparr>ng_conn_list = None, ng_conn = zero_connection, ng_port = 0\<rparr>
      zero_connection 18 = Some (l, SYSM_OK) \<and> map nc_lo_port (dl_contents l) = [22, 631]"
proof -
  have "map nc_lo_port (concat (net_conns 18 zero_connection sample_tab)) = [22, 631]"
    by (simp add: net_conns_def protocol_conns_def table_conns_def sample_tab_def sample_rows_def wanted_def
      sample_row_def conn_of_def SYSM_NETCONN_TCP_def SYSM_NETCONN_UDP_def SYSM_NETCONN_RAW_def
      SYSM_NETCONN_SERVER_def SYSM_NETCONN_CLIENT_def)
  then show ?thesis
    using net_connection_list_exact [OF sample_tables wide_zero, of zero_sysm _ 18] by (fastforce simp: zero_sysm_def)
qed

section \<open>The process behind a port\<close>

text \<open>
  The socket the search settles on: in every table the first one listening on the port, and
  of these the one of the last table.
\<close>

definition on_port :: "u64 \<Rightarrow> sysm_net_connection \<Rightarrow> bool" where
  "on_port port c \<longleftrightarrow> nc_lo_port c = port \<and> nc_re_port c = 0"

definition port_socket :: "u64 \<Rightarrow> sysm_net_connection list list \<Rightarrow> sysm_net_connection option" where
  "port_socket port css = foldl (\<lambda>r cs. case List.find (on_port port) cs of None \<Rightarrow> r | Some c \<Rightarrow> Some c) None css"

text \<open>A process of the socket's owner with a descriptor on the socket's inode.\<close>

definition holds_socket ::
  "(cstring \<Rightarrow> int + cstring list) \<Rightarrow> (cstring \<Rightarrow> (u32 \<times> u64) option) \<Rightarrow> sysm_net_connection \<Rightarrow> cstring \<Rightarrow> bool" where
  "holds_socket opendir stat c ent \<longleftrightarrow>
     (let pid_name = PROC_FS_ROOT @ ''/'' @ ent; fd_name = pid_name @ ''/fd''
      in digit_name ent \<and> map_option fst (stat pid_name) = Some (word_of_int (nc_uid c))
         \<and> (case opendir fd_name of Inl _ \<Rightarrow> False
            | Inr fds \<Rightarrow> \<exists>fd \<in> set fds. map_option snd (stat (fd_name @ ''/'' @ fd)) = Some (nc_inode c)))"

lemma visit_port:
  "ng_conn_list g = None \<Longrightarrow> visit proc_net_walker cs g
     = Some (case List.find (on_port (ng_port g)) cs of None \<Rightarrow> g | Some c \<Rightarrow> g\<lparr>ng_conn := c\<rparr>)"
  by (induction cs) (auto simp: proc_net_walker_def on_port_def SYSM_OK_def)

lemma visits_port:
  "ng_conn_list g = None \<Longrightarrow> visits proc_net_walker css g
     = Some (g\<lparr>ng_conn := (case port_socket (ng_port g) css of None \<Rightarrow> ng_conn g | Some c \<Rightarrow> c)\<rparr>)"
proof (induction css arbitrary: g rule: rev_induct)
  case Nil
  then show ?case by (simp add: port_socket_def)
next
  case (snoc cs css)
  then show ?case by (auto simp: visits_append visit_port port_socket_def split: option.splits)
qed

lemma port_socket_port: "port_socket port css = Some c \<Longrightarrow> on_port port c"
proof (induction css arbitrary: c rule: rev_induct)
  case Nil
  then show ?case by (simp add: port_socket_def)
next
  case (snoc cs css)
  then show ?case by (auto simp: port_socket_def find_Some_iff split: option.splits)
qed

lemma fd_loop_iff:
  "digit_name ent \<Longrightarrow> fd_loop stat inode ent fd_name fds
     \<longleftrightarrow> (\<exists>fd \<in> set fds. map_option snd (stat (fd_name @ ''/'' @ fd)) = Some inode)"
  by (induction fds) (auto split: option.splits)

lemma port_loop_find:
  "port_loop opendir stat c ents
     = (case List.find (holds_socket opendir stat c) ents of None \<Rightarrow> 0 | Some ent \<Rightarrow> int_of_ulong (fst (strtoull 10 ent)))"
proof (induction ents)
  case Nil
  then show ?case by simp
next
  case (Cons ent ents)
  then show ?case
    by (cases "digit_name ent") (auto simp: holds_socket_def Let_def fd_loop_iff split: option.splits sum.splits)
qed

text \<open>C22: for a port other than 0 the search returns 0 when no socket of the protocol listens on
  it, and otherwise the first process in \<open>/proc\<close> that belongs to the socket's owner and has it
  open, 0 when there is none. When both tables of a protocol list a socket of the port, the one
  of the IPv6 table is looked for.\<close>

theorem proc_port_get_exact:
  assumes "shows_tables env tab" "wide_conn conn0" "proc_net s = None" "port \<noteq> 0"
  shows "sysm_proc_port_get env opendir stat s conn0 protocol port
    = Some (case port_socket port (net_conns (SYSM_NETCONN_SERVER OR protocol) conn0 tab) of
        None \<Rightarrow> (0, SYSM_OK)
      | Some c \<Rightarrow>
          (case opendir PROC_FS_ROOT of
             Inl errno \<Rightarrow> (0, errno)
           | Inr ents \<Rightarrow>
               (case List.find (holds_socket opendir stat c) ents of
                  None \<Rightarrow> 0 | Some ent \<Rightarrow> int_of_ulong (fst (strtoull 10 ent)), SYSM_OK)))"
proof -
  let ?css = "net_conns (SYSM_NETCONN_SERVER OR protocol) conn0 tab"
  have "sysm_net_connection_get env s conn0 zero_connection port (SYSM_NETCONN_SERVER OR protocol)
      = Some (case port_socket port ?css of None \<Rightarrow> zero_connection | Some c \<Rightarrow> c, SYSM_OK)"
    using assms(3) by (simp add: sysm_net_connection_get_def walk_is_fold [OF assms(1,2)] visits_port split: option.split)
  then show ?thesis
    using assms(4) port_socket_port [of port ?css]
    by (auto simp: sysm_proc_port_get_def port_loop_find on_port_def zero_connection_def split: option.splits sum.splits)
qed

definition sample_opendir :: "cstring \<Rightarrow> int + cstring list" where
  "sample_opendir d = (if d = PROC_FS_ROOT then Inr [''.'', ''1'', ''77'', ''net'']
     else if d = ''/proc//77/fd'' then Inr [''.'', ''0'', ''3''] else Inl EACCES)"

definition sample_stat :: "cstring \<Rightarrow> (u32 \<times> u64) option" where
  "sample_stat f = (if f = ''/proc//1'' then Some (0, 1) else if f = ''/proc//77'' then Some (1000, 2)
     else if f = ''/proc//77/fd/3'' then Some (1000, 31415) else None)"

theorem proc_port_get_exact_witness:
  "sysm_proc_port_get sample_net sample_opendir sample_stat zero_sysm zero_connection 16 631 = Some (77, SYSM_OK)
   \<and> sysm_proc_port_get sample_net sample_opendir sample_stat zero_sysm zero_connection 16 80 = Some (0, SYSM_OK)"
proof -
  let ?css = "net_conns (SYSM_NETCONN_SERVER OR 16) zero_connection sample_tab"
  let ?c = "conn_of SYSM_NETCONN_TCP zero_connection (sample_row 16777343 631 0 0 10)"
  have css: "port_socket 631 ?css = Some ?c" "port_socket 80 ?css = None"
    by (simp_all add: port_socket_def net_conns_def protocol_conns_def table_conns_def sample_tab_def sample_rows_def
        wanted_def sample_row_def conn_of_def SYSM_NETCONN_TCP_def SYSM_NETCONN_UDP_def SYSM_NETCONN_RAW_def
        SYSM_NETCONN_SERVER_def SYSM_NETCONN_CLIENT_def on_port_def)
  have "List.find (holds_socket sample_opendir sample_stat ?c) [''.'', ''1'', ''77'', ''net''] = Some ''77''"
    by (simp add: holds_socket_def sample_opendir_def sample_stat_def conn_of_def sample_row_def PROC_FS_ROOT_def
        digit_name_def deref_def isdigit_def char_code_def)
  moreover have "dec_digits 77 = ''77''" by code_simp
  then have "int_of_ulong (fst (strtoull 10 ''77'')) = 77"
    using strtoull_dec_digits [of "[]" "[]" 77] int_of_ulong_small [of 77] by simp
  moreover have "proc_net zero_sysm = None" by (simp add: zero_sysm_def)
  ultimately show ?thesis
    using proc_port_get_exact [OF sample_tables wide_zero, of zero_sysm 631 sample_opendir sample_stat 16]
      proc_port_get_exact [OF sample_tables wide_zero, of zero_sysm 80 sample_opendir sample_stat 16]
    by (simp add: css sample_opendir_def)
qed

end
