(* ===== verification/Net_Stat_Properties.thy ===== *)
theory Net_Stat_Properties
  imports Connections_Properties
begin

text \<open>
  The statistics over all connections: the call-back refines counting over an abstract map of
  listening addresses, as long as the cache of the handle has room; and what happens at the
  port that no longer fits.
\<close>

section \<open>The abstract counters\<close>

type_synonym listeners = "u64 \<Rightarrow> sysm_net_address option"

definition is_listener :: "sysm_net_connection \<Rightarrow> bool" where
  "is_listener c \<longleftrightarrow> nc_type c = SYSM_NETCONN_TCP \<and> nc_state c = SYSM_TCP_LISTEN"

text \<open>An IPv6 address does not replace an address that is already there.\<close>

definition listen_step :: "listeners \<Rightarrow> sysm_net_connection \<Rightarrow> listeners" where
  "listen_step L c =
     (if \<not> is_listener c \<or> L (nc_lo_port c) \<noteq> None \<and> family (nc_lo_address c) = SYSM_AF_INET6 then L
      else L(nc_lo_port c \<mapsto> nc_lo_address c))"

definition stat_step :: "listeners \<times> sysm_net_stat \<Rightarrow> sysm_net_connection \<Rightarrow> listeners \<times> sysm_net_stat" where
  "stat_step a c =
     (let (L, ns) = a;
          ns = (if nc_type c = SYSM_NETCONN_TCP
                then ns\<lparr>ns_tcp_states := (ns_tcp_states ns)[nat (nc_state c) := ns_tcp_states ns ! nat (nc_state c) + 1]\<rparr>
                else ns);
          ns = (if nc_type c \<noteq> SYSM_NETCONN_TCP \<or> is_listener c then ns
                else if L (nc_lo_port c) \<noteq> None then ns\<lparr>ns_tcp_inbound_total := ns_tcp_inbound_total ns + 1\<rparr>
                else ns\<lparr>ns_tcp_outbound_total := ns_tcp_outbound_total ns + 1\<rparr>)
      in (listen_step L c, net_stat_totals ns))"

definition stat_ok :: "listeners \<times> sysm_net_stat \<Rightarrow> sysm_net_connection \<Rightarrow> bool" where
  "stat_ok a c \<longleftrightarrow> (nc_type c = SYSM_NETCONN_TCP \<longrightarrow> 0 \<le> nc_state c \<and> nc_state c < int SYSM_TCP_UNKNOWN)
     \<and> (is_listener c \<longrightarrow> nc_lo_port c \<in> dom (fst a) \<or> card (dom (fst a)) < 32)"

section \<open>The cache of listening addresses\<close>

definition listen_cache :: "sysm_net_address cache \<Rightarrow> listeners \<Rightarrow> bool" where
  "listen_cache t L \<longleftrightarrow> cache_inv t \<and> c_period t = - 1 \<and> c_size t = 32 \<and> finite (dom L)
     \<and> card (dom L) \<le> 32 \<and> c_count t = word_of_nat (card (dom L)) \<and> cache_val t = (\<lambda>k. map_option Some (L k))"

lemma listen_cache_new: "listen_cache (sysm_cache_new 32 now) Map.empty"
proof -
  let ?t = "sysm_cache_new 32 now :: sysm_net_address cache"
  have inv: "cache_inv ?t" by (simp add: sysm_cache_new_def cache_inv_new)
  have "cache_val ?t k = None" for k
    using cache_ix_lt [OF inv, of k]
    by (simp add: cache_val_def cache_lookup_def sysm_cache_new_def sysm_expired_cache_new_def)
  then have "cache_val ?t = (\<lambda>k. map_option Some (Map.empty k))" by auto
  moreover have "c_period ?t = - 1 \<and> c_size ?t = 32 \<and> c_count ?t = 0"
    by (simp add: sysm_cache_new_def sysm_expired_cache_new_def)
  ultimately show ?thesis using inv by (simp add: listen_cache_def)
qed

lemma listen_cache_quiet: "listen_cache t L \<Longrightarrow> cache_quiet now t"
  by (simp add: listen_cache_def cache_quiet_def cleanup_due_def)

lemma listen_cache_lookup: "listen_cache t L \<Longrightarrow> cache_lookup t k = None \<longleftrightarrow> L k = None"
proof -
  assume "listen_cache t L"
  then have "cache_val t k = map_option Some (L k)" by (simp add: listen_cache_def)
  moreover have "cache_lookup t k = None \<longleftrightarrow> cache_val t k = None" by (simp add: cache_val_def)
  ultimately show ?thesis by simp
qed

lemma listen_cache_touch: "listen_cache t L \<Longrightarrow> listen_cache (cache_touch now t k) L"
  by (simp add: listen_cache_def cache_inv_touch cache_val_touch)

lemma listen_cache_find:
  assumes "listen_cache t L"
  shows "\<exists>t' r. sysm_cache_find now1 now2 t k = Some (t', r) \<and> (r \<noteq> None \<longleftrightarrow> L k \<noteq> None) \<and> listen_cache t' L"
proof -
  have inv: "cache_inv t" using assms by (simp add: listen_cache_def)
  obtain t' r where find: "sysm_cache_find now1 now2 t k = Some (t', r)"
    using cache_cells.find_total [OF inv] by blast
  then show ?thesis
    using sysm_cache_find_quiet [OF inv listen_cache_quiet [OF assms] find] assms listen_cache_lookup [OF assms, of k]
    by (cases "cache_lookup t k") (auto simp: listen_cache_touch)
qed

text \<open>Storing the address of a port through the pointer of \<open>sysm_cache_get\<close>.\<close>

lemma listen_cache_get:
  assumes "listen_cache t L" "k \<in> dom L \<or> card (dom L) < 32" "sysm_cache_get now1 now2 t k = Some (t', p)"
  shows "entry_val t' p = Some (L k)" "k \<in> dom L \<Longrightarrow> listen_cache t' L"
    "listen_cache (entry_store p a t') (L(k \<mapsto> a))"
proof -
  have inv: "cache_inv t" using assms(1) by (simp add: listen_cache_def)
  note quiet = listen_cache_quiet [OF assms(1)]
  have val: "cache_val t = (\<lambda>k. map_option Some (L k))" using assms(1) by (simp add: listen_cache_def)
  show "entry_val t' p = Some (L k)"
    using cache_cells.get_load [OF inv assms(3)] cache_cells.get_val [OF inv quiet assms(3)] val
    by (auto split: option.splits)
  have t': "t' = (if L k = None then cache_insert now2 t k else cache_touch now2 t k)"
    using sysm_cache_get_quiet [OF inv quiet assms(3)] listen_cache_lookup [OF assms(1)] by simp
  then show "k \<in> dom L \<Longrightarrow> listen_cache t' L" using assms(1) by (auto simp: listen_cache_touch)
  show "listen_cache (entry_store p a t') (L(k \<mapsto> a))"
  proof -
    have fin: "finite (dom L)" "card (dom L) \<le> 32" "c_count t = word_of_nat (card (dom L))"
      using assms(1) by (simp_all add: listen_cache_def)
    have count: "c_count t + 1 = word_of_nat (Suc (card (dom L)))" using fin(3) by (simp add: add.commute)
    have room: "c_count t + 1 \<le> c_size t" if "k \<notin> dom L"
    proof -
      have "card (dom L) < 32" using that assms(2) by blast
      then have "unat (c_count t + 1) = Suc (card (dom L))"
        unfolding count by (intro unat_word_of_nat_u32) simp
      moreover have "c_size t = 32" using assms(1) by (simp add: listen_cache_def)
      ultimately show ?thesis using \<open>card (dom L) < 32\<close> by (simp only: word_le_nat_alt) simp
    qed
    have "cache_room t k" using room listen_cache_lookup [OF assms(1), of k] by (auto simp: cache_room_def)
    from cache_cells.put_val [OF inv quiet this assms(3)]
    have "cache_val (entry_store p a t') = (\<lambda>x. map_option Some ((L(k \<mapsto> a)) x))" by (auto simp: val)
    moreover have "cache_inv (entry_store p a t')" using cache_cells.put_inv [OF inv assms(3)] .
    moreover have "c_period t' = - 1 \<and> c_size t' = 32 \<and> c_count t' = word_of_nat (card (dom (L(k \<mapsto> a))))"
    proof (cases "k \<in> dom L")
      case True
      then show ?thesis using t' assms(1) by (auto simp: listen_cache_def insert_absorb)
    next
      case False
      then have "c_size (grown t) = c_size t" using room by (simp add: grown_def Let_def not_less [symmetric])
      then show ?thesis using False t' assms(1) fin count
        by (simp add: listen_cache_def insert_quiet_fields domIff)
    qed
    moreover have "card (dom (L(k \<mapsto> a))) \<le> 32" using assms(2) fin(1,2) by (auto simp: card_insert_if)
    ultimately show ?thesis using fin(1) by (simp add: listen_cache_def)
  qed
qed

lemma listen_address_add_refines:
  assumes "listen_cache t L" "is_listener c" "nc_lo_port c \<in> dom L \<or> card (dom L) < 32"
  shows "\<exists>t'. sysm_net_listen_address_add now1 now2 t c = Some t' \<and> listen_cache t' (listen_step L c)"
proof -
  have inv: "cache_inv t" using assms(1) by (simp add: listen_cache_def)
  obtain t' p where get: "sysm_cache_get now1 now2 t (nc_lo_port c) = Some (t', p)"
    using cache_cells.get_total [OF inv] by blast
  show ?thesis
    using listen_cache_get [OF assms(1,3) get] assms(2)
    by (auto simp: sysm_net_listen_address_add_def get listen_step_def domIff)
qed

definition stat_rel :: "net_stat_walk \<Rightarrow> listeners \<times> sysm_net_stat \<Rightarrow> bool" where
  "stat_rel w a \<longleftrightarrow> listen_cache (nw_listen w) (fst a) \<and> nw_stat w = snd a
     \<and> length (ns_tcp_states (snd a)) = SYSM_TCP_UNKNOWN"

interpretation stat_walk: walk_callback "net_stat_walker clock" stat_rel stat_step stat_ok for clock
proof
  fix w a c
  assume rel: "stat_rel w a" and ok: "stat_ok a c"
  obtain L ns where a: "a = (L, ns)" by (cases a)
  show "\<exists>w'. net_stat_walker clock w c = Some (w', SYSM_OK) \<and> stat_rel w' (stat_step a c)"
  proof (cases "nc_type c = SYSM_NETCONN_TCP")
    case False
    then show ?thesis
      using rel by (simp add: a net_stat_walker_def stat_rel_def stat_step_def listen_step_def is_listener_def
          net_stat_totals_def Let_def)
  next
    case tcp: True
    have st: "count_tcp_state (nc_state c) ns = Some (ns\<lparr>ns_tcp_states := (ns_tcp_states ns)[nat (nc_state c) :=
        ns_tcp_states ns ! nat (nc_state c) + 1]\<rparr>)"
      using rel ok tcp by (simp add: a count_tcp_state_def stat_ok_def stat_rel_def nat_less_iff)
    have t: "listen_cache (nw_listen w) L" "nw_stat w = ns" using rel by (simp_all add: a stat_rel_def)
    show ?thesis
    proof (cases "is_listener c")
      case True
      obtain t' where "sysm_net_listen_address_add (clock (nw_reads w)) (clock (Suc (nw_reads w))) (nw_listen w) c = Some t'"
          "listen_cache t' (listen_step L c)"
        using listen_address_add_refines [OF t(1) True] ok True by (auto simp: stat_ok_def a)
      then show ?thesis
        using rel st t(2) True by (simp add: a net_stat_walker_def stat_rel_def stat_step_def is_listener_def
            net_stat_totals_def Let_def)
    next
      case False
      obtain t' r where "sysm_cache_find (clock (nw_reads w)) (clock (Suc (nw_reads w))) (nw_listen w) (nc_lo_port c) = Some (t', r)"
          "r \<noteq> None \<longleftrightarrow> L (nc_lo_port c) \<noteq> None" "listen_cache t' L"
        using listen_cache_find [OF t(1)] by blast
      then show ?thesis
        using rel st t(2) False tcp by (auto simp: a net_stat_walker_def stat_rel_def stat_step_def is_listener_def
            net_stat_totals_def listen_step_def Let_def)
    qed
  qed
qed

section \<open>What is counted\<close>

definition tcp_conn :: "sysm_net_connection \<Rightarrow> bool" where "tcp_conn c \<longleftrightarrow> nc_type c = SYSM_NETCONN_TCP"

text \<open>The connections whose local port one of the earlier sockets listens on.\<close>

fun inbound :: "u64 set \<Rightarrow> sysm_net_connection list \<Rightarrow> sysm_net_connection list" where
  "inbound P [] = []"
| "inbound P (c # cs) =
     (if is_listener c then inbound (insert (nc_lo_port c) P) cs
      else if tcp_conn c \<and> nc_lo_port c \<in> P then c # inbound P cs else inbound P cs)"

definition listen_ports :: "sysm_net_connection list \<Rightarrow> u64 set" where
  "listen_ports cs = set (map nc_lo_port (filter is_listener cs))"

definition outbound_count :: "sysm_net_connection list \<Rightarrow> nat" where
  "outbound_count cs = length (filter (\<lambda>c. tcp_conn c \<and> \<not> is_listener c) cs) - length (inbound {} cs)"

definition states_valid :: "sysm_net_connection list \<Rightarrow> bool" where
  "states_valid cs \<longleftrightarrow> (\<forall>c \<in> set cs. tcp_conn c \<longrightarrow> 0 \<le> nc_state c \<and> nc_state c < int SYSM_TCP_UNKNOWN)"

lemma dom_listen_step: "dom (listen_step L c) = (if is_listener c then insert (nc_lo_port c) (dom L) else dom L)"
  by (auto simp: listen_step_def)

lemma fst_stat_step [simp]: "fst (stat_step a c) = listen_step (fst a) c"
  by (cases a) (simp add: stat_step_def Let_def)

lemma listen_ports_Cons:
  "listen_ports (c # cs) = (if is_listener c then insert (nc_lo_port c) (listen_ports cs) else listen_ports cs)"
  by (auto simp: listen_ports_def)

lemma steps_ok_stat:
  assumes "states_valid cs" "finite (dom (fst a))" "card (dom (fst a) \<union> listen_ports cs) \<le> 32"
  shows "steps_ok stat_ok stat_step a cs"
  using assms
proof (induction cs arbitrary: a)
  case Nil
  then show ?case by simp
next
  case (Cons c cs)
  have fin: "finite (listen_ports (c # cs))" by (simp add: listen_ports_def)
  have dom: "dom (fst (stat_step a c)) \<union> listen_ports cs = dom (fst a) \<union> listen_ports (c # cs)"
    by (auto simp: dom_listen_step listen_ports_Cons)
  have "card (dom (fst a)) < 32" if "is_listener c" "nc_lo_port c \<notin> dom (fst a)"
  proof -
    have "card (insert (nc_lo_port c) (dom (fst a))) \<le> card (dom (fst a) \<union> listen_ports (c # cs))"
      using that(1) fin Cons.prems(2) by (intro card_mono) (auto simp: listen_ports_Cons)
    then show ?thesis using that(2) Cons.prems(2,3) by simp
  qed
  then have "stat_ok a c" using Cons.prems(1) by (auto simp: stat_ok_def states_valid_def tcp_conn_def)
  moreover have "finite (dom (fst (stat_step a c)))" using Cons.prems(2) by (simp add: dom_listen_step)
  ultimately show ?case
    using Cons.IH [of "stat_step a c"] Cons.prems dom by (simp add: states_valid_def)
qed

lemma length_inbound: "length (inbound P cs) \<le> length (filter (\<lambda>c. tcp_conn c \<and> \<not> is_listener c) cs)"
  by (induction P cs rule: inbound.induct) auto

lemma stat_step_facts:
  assumes "tcp_conn c \<longrightarrow> 0 \<le> nc_state c \<and> nc_state c < int SYSM_TCP_UNKNOWN" "length (ns_tcp_states ns) = SYSM_TCP_UNKNOWN"
    and "stat_step (L, ns) c = (L1, ns1)"
  shows "L1 = listen_step L c"
    "ns_tcp_inbound_total ns1 = ns_tcp_inbound_total ns
      + (if tcp_conn c \<and> \<not> is_listener c \<and> nc_lo_port c \<in> dom L then 1 else 0)"
    "ns_tcp_outbound_total ns1 = ns_tcp_outbound_total ns
      + (if tcp_conn c \<and> \<not> is_listener c \<and> nc_lo_port c \<notin> dom L then 1 else 0)"
    "net_stat_totals ns1 = ns1" "length (ns_tcp_states ns1) = SYSM_TCP_UNKNOWN"
    "\<forall>i < SYSM_TCP_UNKNOWN. ns_tcp_states ns1 ! i = ns_tcp_states ns ! i + (if tcp_conn c \<and> nc_state c = int i then 1 else 0)"
  using assms
  by (auto simp: stat_step_def net_stat_totals_def Let_def tcp_conn_def is_listener_def domIff nth_list_update)

text \<open>The counters after the connections \<open>cs\<close>, from the counters \<open>ns\<close> and the ports \<open>P\<close> before them.\<close>

definition counted :: "u64 set \<Rightarrow> sysm_net_connection list \<Rightarrow> sysm_net_stat \<Rightarrow> sysm_net_stat \<Rightarrow> bool" where
  "counted P cs ns ns' \<longleftrightarrow>
     ns_tcp_inbound_total ns' = ns_tcp_inbound_total ns + word_of_nat (length (inbound P cs))
     \<and> ns_tcp_outbound_total ns' + word_of_nat (length (inbound P cs))
        = ns_tcp_outbound_total ns + word_of_nat (length (filter (\<lambda>c. tcp_conn c \<and> \<not> is_listener c) cs))
     \<and> (\<forall>i < SYSM_TCP_UNKNOWN. ns_tcp_states ns' ! i
          = ns_tcp_states ns ! i + int (length (filter (\<lambda>c. tcp_conn c \<and> nc_state c = int i) cs)))
     \<and> (net_stat_totals ns = ns \<longrightarrow> net_stat_totals ns' = ns')"

lemma foldl_stat_step:
  "states_valid cs \<Longrightarrow> length (ns_tcp_states ns) = SYSM_TCP_UNKNOWN
   \<Longrightarrow> counted (dom L) cs ns (snd (foldl stat_step (L, ns) cs))"
proof (induction cs arbitrary: L ns)
  case Nil
  then show ?case by (simp add: counted_def)
next
  case (Cons c cs)
  obtain L1 ns1 where step: "stat_step (L, ns) c = (L1, ns1)" by (cases "stat_step (L, ns) c")
  have c: "tcp_conn c \<longrightarrow> 0 \<le> nc_state c \<and> nc_state c < int SYSM_TCP_UNKNOWN" "states_valid cs"
    using Cons.prems(1) by (auto simp: states_valid_def)
  note f = stat_step_facts [OF c(1) Cons.prems(2) step]
  have "counted (dom L1) cs ns1 (snd (foldl stat_step (L1, ns1) cs))"
    using Cons.IH [OF c(2) f(5)] .
  then show ?case
    unfolding counted_def using f step
    by (intro conjI) (auto simp: dom_listen_step is_listener_def tcp_conn_def algebra_simps)
qed

section \<open>The statistics of a fresh handle\<close>

lemma net_stat_get_simulates:
  fixes flags conn0 tab
  defines "cs \<equiv> concat (net_conns flags conn0 tab)"
  assumes "shows_tables env tab" "wide_conn conn0" "proc_net s = None" "net_listen s = None"
    and "states_valid cs" "card (listen_ports cs) \<le> 32"
  shows "\<exists>w. sysm_net_stat_get env clock s conn0 flags = Some (s\<lparr>net_listen := Some (nw_listen w)\<rparr>, w, SYSM_OK)
    \<and> stat_rel w (foldl stat_step (Map.empty, zero_net_stat) cs)"
proof -
  let ?w = "\<lparr>nw_listen = sysm_cache_new 32 (clock 0), nw_stat = zero_net_stat, nw_reads = 1\<rparr>"
  have "stat_rel ?w (Map.empty, zero_net_stat)"
    by (simp add: stat_rel_def listen_cache_new zero_net_stat_def)
  moreover have "steps_ok stat_ok stat_step (Map.empty, zero_net_stat) cs"
    using assms(6,7) by (intro steps_ok_stat) simp_all
  ultimately show ?thesis
    using stat_walk.walk_simulates [OF assms(2,3), of ?w "(Map.empty, zero_net_stat)" flags clock] assms(4,5)
    by (auto simp: sysm_net_stat_get_def cs_def)
qed

text \<open>C23: on a fresh handle, when the hosts listens on at most 32 ports, the statistics count for
  every state the TCP connections in it, as inbound those to a port some earlier line listens
  on, and as outbound the other connections that do not listen.\<close>

theorem net_stat_get_counts:
  fixes flags conn0 tab
  defines "cs \<equiv> concat (net_conns flags conn0 tab)"
  assumes "shows_tables env tab" "wide_conn conn0" "proc_net s = None" "net_listen s = None"
    and "states_valid cs" "card (listen_ports cs) \<le> 32"
  shows "\<exists>s' w. sysm_net_stat_get env clock s conn0 flags = Some (s', w, SYSM_OK)
    \<and> ns_tcp_inbound_total (nw_stat w) = word_of_nat (length (inbound {} cs))
    \<and> ns_tcp_outbound_total (nw_stat w) = word_of_nat (outbound_count cs)
    \<and> ns_all_inbound_total (nw_stat w) = ns_tcp_inbound_total (nw_stat w)
    \<and> ns_all_outbound_total (nw_stat w) = ns_tcp_outbound_total (nw_stat w)
    \<and> ns_tcp_states (nw_stat w) = map (\<lambda>i. int (length (filter (\<lambda>c. tcp_conn c \<and> nc_state c = int i) cs))) [0 ..< SYSM_TCP_UNKNOWN]"
proof -
  let ?a = "foldl stat_step (Map.empty, zero_net_stat) cs"
  obtain w where w: "sysm_net_stat_get env clock s conn0 flags = Some (s\<lparr>net_listen := Some (nw_listen w)\<rparr>, w, SYSM_OK)"
      "stat_rel w ?a"
    using net_stat_get_simulates [OF assms(2-5) assms(6,7) [unfolded cs_def]] unfolding cs_def by blast
  have ns: "nw_stat w = snd ?a" "length (ns_tcp_states (nw_stat w)) = SYSM_TCP_UNKNOWN"
    using w(2) by (simp_all add: stat_rel_def)
  have len: "length (ns_tcp_states zero_net_stat) = SYSM_TCP_UNKNOWN" by (simp add: zero_net_stat_def)
  have "counted {} cs zero_net_stat (nw_stat w)"
    using foldl_stat_step [OF assms(6) len, of Map.empty] by (simp add: ns(1))
  moreover have "ns_tcp_inbound_total zero_net_stat = 0" "ns_tcp_outbound_total zero_net_stat = 0"
      "net_stat_totals zero_net_stat = zero_net_stat" "\<forall>i < SYSM_TCP_UNKNOWN. ns_tcp_states zero_net_stat ! i = 0"
    by (simp_all add: zero_net_stat_def net_stat_totals_def)
  ultimately have c: "ns_tcp_inbound_total (nw_stat w) = word_of_nat (length (inbound {} cs))"
      "ns_tcp_outbound_total (nw_stat w) + word_of_nat (length (inbound {} cs))
        = word_of_nat (length (filter (\<lambda>c. tcp_conn c \<and> \<not> is_listener c) cs))"
      "net_stat_totals (nw_stat w) = nw_stat w"
      "\<forall>i < SYSM_TCP_UNKNOWN. ns_tcp_states (nw_stat w) ! i = int (length (filter (\<lambda>c. tcp_conn c \<and> nc_state c = int i) cs))"
    by (simp_all add: counted_def)
  have "ns_tcp_outbound_total (nw_stat w) = word_of_nat (outbound_count cs)"
    using c(2) length_inbound [of "{}" cs] by (simp add: outbound_count_def of_nat_diff eq_diff_eq)
  moreover have "ns_all_inbound_total (nw_stat w) = ns_tcp_inbound_total (nw_stat w)
      \<and> ns_all_outbound_total (nw_stat w) = ns_tcp_outbound_total (nw_stat w)"
    using arg_cong [OF c(3), of ns_all_inbound_total] arg_cong [OF c(3), of ns_all_outbound_total]
    by (simp add: net_stat_totals_def)
  moreover have "ns_tcp_states (nw_stat w) = map (\<lambda>i. int (length (filter (\<lambda>c. tcp_conn c \<and> nc_state c = int i) cs))) [0 ..< SYSM_TCP_UNKNOWN]"
    using c(4) ns(2) by (intro nth_equalityI) simp_all
  ultimately show ?thesis using w(1) c(1) by blast
qed

lemma sample_conns:
  "concat (net_conns 19 zero_connection sample_tab) = map (conn_of SYSM_NETCONN_TCP zero_connection) sample_rows"
  by (simp add: net_conns_def protocol_conns_def table_conns_def sample_tab_def sample_rows_def wanted_def
      sample_row_def SYSM_NETCONN_TCP_def SYSM_NETCONN_UDP_def SYSM_NETCONN_RAW_def SYSM_NETCONN_SERVER_def
      SYSM_NETCONN_CLIENT_def)

lemma sample_listeners:
  "states_valid (map (conn_of SYSM_NETCONN_TCP zero_connection) sample_rows)"
  "card (listen_ports (map (conn_of SYSM_NETCONN_TCP zero_connection) sample_rows)) \<le> 32"
proof -
  show "states_valid (map (conn_of SYSM_NETCONN_TCP zero_connection) sample_rows)"
    by (simp add: states_valid_def sample_rows_def conn_of_def sample_row_def SYSM_TCP_UNKNOWN_def)
  have "listen_ports (map (conn_of SYSM_NETCONN_TCP zero_connection) sample_rows) = {22, 631}"
    by (simp add: listen_ports_def sample_rows_def conn_of_def sample_row_def is_listener_def SYSM_TCP_LISTEN_def)
  then show "card (listen_ports (map (conn_of SYSM_NETCONN_TCP zero_connection) sample_rows)) \<le> 32"
    by (simp add: card_insert_if)
qed

theorem net_stat_get_counts_witness:
  "\<exists>s' w. sysm_net_stat_get sample_net (\<lambda>i. word_of_nat i) zero_sysm zero_connection 19 = Some (s', w, SYSM_OK)
    \<and> ns_tcp_inbound_total (nw_stat w) = 1 \<and> ns_tcp_outbound_total (nw_stat w) = 0
    \<and> ns_tcp_states (nw_stat w) = [0, 1, 0, 0, 0, 0, 0, 0, 0, 0, 2, 0, 0, 0]"
proof -
  let ?cs = "map (conn_of SYSM_NETCONN_TCP zero_connection) sample_rows"
  have in1: "inbound {} ?cs = [conn_of SYSM_NETCONN_TCP zero_connection (sample_row 16777343 22 16777343 40000 1)]"
    by (simp add: sample_rows_def conn_of_def sample_row_def is_listener_def SYSM_TCP_LISTEN_def tcp_conn_def)
  have out0: "outbound_count ?cs = 0"
    unfolding outbound_count_def in1
    by (simp add: sample_rows_def conn_of_def sample_row_def is_listener_def SYSM_TCP_LISTEN_def tcp_conn_def)
  have upt: "[0 ..< SYSM_TCP_UNKNOWN] = [0, 1, 2, 3, 4, 5, 6, 7, 8, 9, 10, 11, 12, 13]"
    by code_simp
  have "map (\<lambda>i. int (length (filter (\<lambda>c. tcp_conn c \<and> nc_state c = int i) ?cs))) [0 ..< SYSM_TCP_UNKNOWN]
      = [0, 1, 0, 0, 0, 0, 0, 0, 0, 0, 2, 0, 0, 0]"
    unfolding upt by (simp add: sample_rows_def conn_of_def sample_row_def tcp_conn_def)
  moreover have "proc_net zero_sysm = None" "net_listen zero_sysm = None" by (simp_all add: zero_sysm_def)
  ultimately show ?thesis
    using net_stat_get_counts [OF sample_tables wide_zero, of zero_sysm 19 "\<lambda>i. word_of_nat i", unfolded sample_conns]
      sample_listeners in1 out0
    by auto
qed

section \<open>The address behind a port\<close>

lemma fst_foldl_stat_step: "fst (foldl stat_step a cs) = foldl listen_step (fst a) cs"
  by (induction cs arbitrary: a) simp_all

text \<open>C24: on a fresh handle the search for the address a port listens on walks the listening TCP
  sockets, and returns the last IPv4 address of the port, or its first IPv6 address when it has
  no other, and ENOENT when nothing listens on the port.\<close>

theorem net_listen_address_get_exact:
  fixes conn0 tab
  defines "cs \<equiv> concat (net_conns (SYSM_NETCONN_SERVER OR SYSM_NETCONN_TCP) conn0 tab)"
  assumes "shows_tables env tab" "wide_conn conn0" "proc_net s = None" "net_listen s = None"
    and "states_valid cs" "card (listen_ports cs) \<le> 32"
  shows "\<exists>s'. sysm_net_listen_address_get env clock now1 now2 now3 now4 now5 now6 s conn0 port
    = Some (s', case foldl listen_step Map.empty cs port of None \<Rightarrow> Inl ENOENT | Some a \<Rightarrow> Inr a)"
proof -
  let ?flags = "SYSM_NETCONN_SERVER OR SYSM_NETCONN_TCP"
  let ?L = "foldl listen_step Map.empty cs"
  obtain w where w: "sysm_net_stat_get env clock s conn0 ?flags = Some (s\<lparr>net_listen := Some (nw_listen w)\<rparr>, w, SYSM_OK)"
      "stat_rel w (foldl stat_step (Map.empty, zero_net_stat) cs)"
    using net_stat_get_simulates [OF assms(2-5) assms(6,7) [unfolded cs_def]] unfolding cs_def by blast
  then have L: "listen_cache (nw_listen w) ?L" by (simp add: stat_rel_def fst_foldl_stat_step)
  obtain t1 r where find: "sysm_cache_find now3 now4 (nw_listen w) port = Some (t1, r)"
      "r \<noteq> None \<longleftrightarrow> ?L port \<noteq> None" "listen_cache t1 ?L"
    using listen_cache_find [OF L] by blast
  have "cache_inv t1" using find(3) by (simp add: listen_cache_def)
  then obtain t2 p where get: "sysm_cache_get now5 now6 t1 port = Some (t2, p)"
    using cache_cells.get_total by blast
  show ?thesis
  proof (cases "?L port")
    case None
    then show ?thesis using w(1) find(1,2) assms(5) by (simp add: sysm_net_listen_address_get_def listen_search_def)
  next
    case (Some a)
    then have "entry_val t2 p = Some (Some a)" using listen_cache_get(1) [OF find(3) _ get] by (auto simp: domIff)
    then show ?thesis
      using Some w(1) find(1,2) assms(5) get by (simp add: sysm_net_listen_address_get_def listen_search_def)
  qed
qed

theorem net_listen_address_get_exact_witness:
  "\<exists>s' a. sysm_net_listen_address_get sample_net (\<lambda>i. word_of_nat i) 1 2 3 4 5 6 zero_sysm zero_connection 631
     = Some (s', Inr a) \<and> sysm_inet_ntoa (addr_in a) = ''127.0.0.1''"
proof -
  let ?cs = "concat (net_conns (SYSM_NETCONN_SERVER OR SYSM_NETCONN_TCP) zero_connection sample_tab)"
  have cs: "?cs = map (conn_of SYSM_NETCONN_TCP zero_connection) [sample_row 0 22 0 0 10, sample_row 16777343 631 0 0 10]"
    by (simp add: net_conns_def protocol_conns_def table_conns_def sample_tab_def sample_rows_def wanted_def
      sample_row_def SYSM_NETCONN_TCP_def SYSM_NETCONN_UDP_def SYSM_NETCONN_RAW_def SYSM_NETCONN_SERVER_def
      SYSM_NETCONN_CLIENT_def)
  have ok: "states_valid ?cs"
    unfolding cs by (simp add: states_valid_def conn_of_def sample_row_def SYSM_TCP_UNKNOWN_def)
  have "listen_ports ?cs = {22, 631}"
    unfolding cs by (simp add: listen_ports_def conn_of_def sample_row_def is_listener_def SYSM_TCP_LISTEN_def)
  then have card: "card (listen_ports ?cs) \<le> 32" by (simp add: card_insert_if)
  have fresh: "proc_net zero_sysm = None" "net_listen zero_sysm = None" by (simp_all add: zero_sysm_def)
  let ?a = "words_address [16777343] (nc_lo_address zero_connection)"
  have "foldl listen_step Map.empty ?cs 631 = Some ?a"
    unfolding cs by (simp add: listen_step_def conn_of_def sample_row_def is_listener_def SYSM_TCP_LISTEN_def)
  then have "\<exists>s'. sysm_net_listen_address_get sample_net (\<lambda>i. word_of_nat i) 1 2 3 4 5 6 zero_sysm zero_connection 631
     = Some (s', Inr ?a)"
    using net_listen_address_get_exact [OF sample_tables wide_zero fresh ok card, of "\<lambda>i. word_of_nat i" 1 2 3 4 5 6 631] by simp
  moreover have "addr_in ?a = 16777343"
    using le32_le32_bytes [of 16777343] by (simp add: words_address_def addr_in_def store_bytes_def)
  moreover have "dec_digits 127 = ''127''" "dec_digits 0 = ''0''" "dec_digits 1 = ''1''" by code_simp+
  then have "sysm_inet_ntoa 16777343 = ''127.0.0.1''" by (simp add: sysm_inet_ntoa_eq)
  ultimately show ?thesis by auto
qed

section \<open>The port that does not fit\<close>

text \<open>When the cache holds 32 listening ports, adding another one forgets all of them, so that
  later connections to them count as outbound.\<close>

theorem listen_cache_full_forgets:
  assumes "listen_cache t L" "card (dom L) = 32" "is_listener c" "L (nc_lo_port c) = None"
  shows "\<exists>t'. sysm_net_listen_address_add now1 now2 t c = Some t'
    \<and> (\<forall>k. cache_val t' k = (if k = nc_lo_port c then Some (Some (nc_lo_address c)) else None))"
proof -
  have inv: "cache_inv t" using assms(1) by (simp add: listen_cache_def)
  have "c_count t = 32" "c_size t = 32" using assms(1,2) by (simp_all add: listen_cache_def)
  then have "c_count t + 1 > c_size t" by simp
  then obtain t1 p where get: "sysm_cache_get now1 now2 t (nc_lo_port c) = Some (t1, p)"
      "\<forall>k. cache_val t1 k = (if k = nc_lo_port c then Some None else None)"
    using cache_get_full [OF inv listen_cache_quiet [OF assms(1)]] listen_cache_lookup [OF assms(1)] assms(4) by blast
  have val: "entry_val t1 p = Some None" using cache_cells.get_load [OF inv get(1)] get(2) by simp
  have "cache_val (entry_store p (nc_lo_address c) t1) k
      = (if k = nc_lo_port c then Some (Some (nc_lo_address c)) else None)" for k
    using cache_cells.store_val [OF inv get(1)] cache_cells.store_frame [OF inv get(1), of k] get(2) by auto
  then show ?thesis using get(1) val by (simp add: sysm_net_listen_address_add_def)
qed

lemma listen_cache_fill:
  "n \<le> 32 \<Longrightarrow> \<exists>(t :: sysm_net_address cache) L. listen_cache t L \<and> dom L = word_of_nat ` {..< n}"
proof (induction n)
  case 0
  show ?case using listen_cache_new by (intro exI [of _ "sysm_cache_new 32 0"] exI [of _ Map.empty]) auto
next
  case (Suc n)
  then obtain t :: "sysm_net_address cache" and L where tL: "listen_cache t L" "dom L = word_of_nat ` {..< n}" by auto
  have "card (dom L) \<le> n" unfolding tL(2) by (rule order_trans [OF card_image_le]) simp_all
  then have room: "(word_of_nat n :: u64) \<in> dom L \<or> card (dom L) < 32" using Suc.prems by simp
  have "cache_inv t" using tL(1) by (simp add: listen_cache_def)
  then obtain t' p where "sysm_cache_get 0 0 t (word_of_nat n) = Some (t', p)"
    using cache_cells.get_total by blast
  note listen_cache_get(3) [OF tL(1) room this, of "nc_lo_address zero_connection"]
  moreover have "dom (L(word_of_nat n \<mapsto> nc_lo_address zero_connection)) = word_of_nat ` {..< Suc n}"
    using tL(2) by (simp add: lessThan_Suc)
  ultimately show ?case by blast
qed

theorem listen_cache_full_forgets_witness:
  "\<exists>(t :: sysm_net_address cache) L t'. card (dom L) = 32 \<and> cache_val t = (\<lambda>k. map_option Some (L k))
     \<and> sysm_net_listen_address_add 1 2 t (conn_of SYSM_NETCONN_TCP zero_connection (sample_row 0 80 0 0 10)) = Some t'
     \<and> cache_val t 7 \<noteq> None \<and> cache_val t' 7 = None"
proof -
  let ?c = "conn_of SYSM_NETCONN_TCP zero_connection (sample_row 0 80 0 0 10)"
  obtain t :: "sysm_net_address cache" and L where tL: "listen_cache t L" "dom L = word_of_nat ` {..< 32}"
    using listen_cache_fill [of 32] by auto
  have inj: "inj_on (word_of_nat :: nat \<Rightarrow> u64) {..< 32}"
    by (rule inj_on_inverseI [where g = unat]) simp
  have card: "card (dom L) = 32" unfolding tL(2) using card_image [OF inj] by simp
  have c: "is_listener ?c" "nc_lo_port ?c = 80"
    by (simp_all add: conn_of_def sample_row_def is_listener_def SYSM_TCP_LISTEN_def)
  have "(80 :: u64) \<notin> dom L"
  proof
    assume "80 \<in> dom L"
    then obtain n where "n < 32" "(80 :: u64) = word_of_nat n" unfolding tL(2) by auto
    then have "unat (80 :: u64) = unat (word_of_nat n :: u64)" by simp
    then show False using \<open>n < 32\<close> by simp
  qed
  then have none: "L (nc_lo_port ?c) = None" unfolding c(2) by (simp add: domIff)
  have "(7 :: u64) \<in> dom L" unfolding tL(2) by (rule image_eqI [of _ _ 7]) simp_all
  then have "cache_val t 7 \<noteq> None" using tL(1) by (auto simp: listen_cache_def)
  moreover have "cache_val t = (\<lambda>k. map_option Some (L k))" using tL(1) by (simp add: listen_cache_def)
  moreover obtain t' where "sysm_net_listen_address_add 1 2 t ?c = Some t'"
      "\<forall>k. cache_val t' k = (if k = 80 then Some (Some (nc_lo_address ?c)) else None)"
    using listen_cache_full_forgets [OF tL(1) card c(1) none, of 1 2] unfolding c(2) by blast
  ultimately show ?thesis using card by (intro exI [of _ t] exI [of _ L] exI [of _ t']) simp
qed

end
