(* ===== verification/Net_Port_Properties.thy ===== *)
theory Net_Port_Properties
  imports Net_Stat_Properties
begin

text \<open>
  The statistics of one port (\<open>sysm_net_stat_port_get\<close> of \<open>sysm.c\<close>): the call-back of the walk is a
  further instance of the contract \<open>walk_callback\<close>, whose abstract state is the list of
  connections seen so far. The structure it fills is a function of that list.
\<close>

definition local_conns :: "u64 \<Rightarrow> sysm_net_connection list \<Rightarrow> sysm_net_connection list" where
  "local_conns port cs = filter (\<lambda>c. tcp_conn c \<and> nc_lo_port c = port) cs"

definition remote_conns :: "u64 \<Rightarrow> sysm_net_connection list \<Rightarrow> sysm_net_connection list" where
  "remote_conns port cs = filter (\<lambda>c. tcp_conn c \<and> nc_lo_port c \<noteq> port \<and> nc_re_port c = port) cs"

definition state_conns :: "u64 \<Rightarrow> sysm_net_connection list \<Rightarrow> nat \<Rightarrow> nat" where
  "state_conns port cs i =
     length (filter (\<lambda>c. tcp_conn c \<and> (nc_lo_port c = port \<or> nc_re_port c = port) \<and> nc_state c = int i) cs)"

definition port_stat :: "sysm_net_address \<Rightarrow> u64 \<Rightarrow> sysm_net_connection list \<Rightarrow> sysm_net_stat" where
  "port_stat address port cs =
     \<lparr>ns_tcp_states = map (\<lambda>i. int (state_conns port cs i)) [0 ..< SYSM_TCP_UNKNOWN],
      ns_tcp_inbound_total = word_of_nat (length
        (filter (\<lambda>c. sysm_net_address_equals address (nc_lo_address c) = SYSM_OK) (local_conns port cs))),
      ns_tcp_outbound_total = word_of_nat (length
        (filter (\<lambda>c. sysm_net_address_equals address (nc_re_address c) = SYSM_OK) (remote_conns port cs))),
      ns_all_inbound_total = word_of_nat (length (local_conns port cs)),
      ns_all_outbound_total = word_of_nat (length (remote_conns port cs))\<rparr>"

lemma port_stat_Nil: "port_stat address port [] = zero_net_stat"
  by (simp add: port_stat_def zero_net_stat_def local_conns_def remote_conns_def state_conns_def
      map_replicate_const)

lemma conns_snoc:
  "local_conns port (cs @ [c]) = local_conns port cs @ (if tcp_conn c \<and> nc_lo_port c = port then [c] else [])"
  "remote_conns port (cs @ [c]) = remote_conns port cs
     @ (if tcp_conn c \<and> nc_lo_port c \<noteq> port \<and> nc_re_port c = port then [c] else [])"
  "state_conns port (cs @ [c]) i = state_conns port cs i
     + (if tcp_conn c \<and> (nc_lo_port c = port \<or> nc_re_port c = port) \<and> nc_state c = int i then 1 else 0)"
  by (simp_all add: local_conns_def remote_conns_def state_conns_def)

lemma count_tcp_state_snoc:
  assumes "tcp_conn c" "nc_lo_port c = port \<or> nc_re_port c = port"
    and "0 \<le> nc_state c" "nc_state c < int SYSM_TCP_UNKNOWN"
    and "ns_tcp_states ns = map (\<lambda>i. int (state_conns port cs i)) [0 ..< SYSM_TCP_UNKNOWN]"
  shows "count_tcp_state (nc_state c) ns
    = Some (ns\<lparr>ns_tcp_states := map (\<lambda>i. int (state_conns port (cs @ [c]) i)) [0 ..< SYSM_TCP_UNKNOWN]\<rparr>)"
proof -
  obtain k where k: "nc_state c = int k" "k < SYSM_TCP_UNKNOWN" using assms(3,4) by (metis nat_0_le nat_less_iff)
  have "(map (\<lambda>i. int (state_conns port cs i)) [0 ..< SYSM_TCP_UNKNOWN])[k := int (state_conns port cs k) + 1]
      = map (\<lambda>i. int (state_conns port (cs @ [c]) i)) [0 ..< SYSM_TCP_UNKNOWN]"
    using assms(1,2) k by (intro nth_equalityI) (auto simp: conns_snoc nth_list_update)
  then show ?thesis using assms(5) k by (simp add: count_tcp_state_def)
qed

definition port_ok :: "sysm_net_connection list \<Rightarrow> sysm_net_connection \<Rightarrow> bool" where
  "port_ok cs c \<longleftrightarrow> (tcp_conn c \<longrightarrow> 0 \<le> nc_state c \<and> nc_state c < int SYSM_TCP_UNKNOWN)"

lemma port_walker_step:
  assumes "port_ok cs c"
  shows "net_stat_port_walker address port (port_stat address port cs) c
    = Some (port_stat address port (cs @ [c]), SYSM_OK)"
proof -
  note count = count_tcp_state_snoc [of c port, where cs = cs]
  have off: "port_stat address port (cs @ [c]) = port_stat address port cs"
    if "\<not> (tcp_conn c \<and> (nc_lo_port c = port \<or> nc_re_port c = port))"
    using that by (auto simp: port_stat_def conns_snoc)
  consider (tcp_local) "tcp_conn c" "nc_lo_port c = port"
    | (tcp_remote) "tcp_conn c" "nc_lo_port c \<noteq> port" "nc_re_port c = port"
    | (other) "\<not> (tcp_conn c \<and> (nc_lo_port c = port \<or> nc_re_port c = port))" by blast
  then show ?thesis
  proof cases
    case tcp_local
    then show ?thesis
      using assms count [OF tcp_local(1)]
      by (simp add: net_stat_port_walker_def port_ok_def port_stat_def Let_def conns_snoc
          flip: tcp_conn_def)
  next
    case tcp_remote
    then show ?thesis
      using assms count [OF tcp_remote(1)]
      by (simp add: net_stat_port_walker_def port_ok_def port_stat_def Let_def conns_snoc
          flip: tcp_conn_def)
  next
    case other
    then show ?thesis using off by (auto simp: net_stat_port_walker_def simp flip: tcp_conn_def)
  qed
qed

interpretation port_walk: walk_callback "net_stat_port_walker address port"
    "\<lambda>ns cs. ns = port_stat address port cs" "\<lambda>cs c. cs @ [c]" port_ok for address port
  by unfold_locales (simp add: port_walker_step)

lemma states_valid_steps: "states_valid cs \<Longrightarrow> steps_ok port_ok (\<lambda>cs c. cs @ [c]) as cs"
  by (induction cs arbitrary: as) (auto simp: states_valid_def port_ok_def)

text \<open>C25: the statistics of a port are those of the connections that the flags ask for: a connection
  whose local port it is counts as inbound, another one whose remote port it is as outbound, once in
  the totals over all addresses and once more when that end has the given address; its state is
  counted in either case. Connections of other protocols are not counted.\<close>

theorem net_stat_port_get_exact:
  fixes flags conn0 tab
  defines "cs \<equiv> concat (net_conns flags conn0 tab)"
  assumes "shows_tables env tab" "wide_conn conn0" "proc_net s = None" "states_valid cs"
  shows "sysm_net_stat_port_get env s conn0 flags address port = Some (port_stat address port cs, SYSM_OK)"
  using port_walk.walk_simulates [OF assms(2,3) port_stat_Nil [symmetric]] states_valid_steps [OF assms(5)] assms(4)
  by (simp add: cs_def sysm_net_stat_port_get_def foldl_snoc)

lemma ipv4_equals_iff:
  assumes "length (addr x) = 16"
  shows "sysm_net_address_equals (words_address [v] x) (words_address [w] x) = SYSM_OK \<longleftrightarrow> v = w"
proof -
  have "take 4 (addr (words_address [u] x)) = le32_bytes u" for u
    by (simp add: words_address_def store_bytes_def)
  then have "sysm_net_address_equals (words_address [v] x) (words_address [w] x) = memcmp (le32_bytes v) (le32_bytes w)"
    by (simp add: sysm_net_address_equals_def) (simp add: words_address_def)
  moreover have "le32_bytes v = le32_bytes w \<longleftrightarrow> v = w" using le32_le32_bytes [of _ "[]"] by (metis append_Nil2)
  ultimately show ?thesis by (simp add: memcmp_eq_0 SYSM_OK_def)
qed

text \<open>The witness: on port 22 a socket listens, and one connection from the same machine is open.\<close>

theorem net_stat_port_get_exact_witness:
  "\<exists>ns. sysm_net_stat_port_get sample_net zero_sysm zero_connection 19
      (words_address [16777343] (nc_lo_address zero_connection)) 22 = Some (ns, SYSM_OK)
    \<and> ns_all_inbound_total ns = 2 \<and> ns_tcp_inbound_total ns = 1 \<and> ns_all_outbound_total ns = 0
    \<and> ns_tcp_states ns = [0, 1, 0, 0, 0, 0, 0, 0, 0, 0, 1, 0, 0, 0]"
proof -
  let ?cs = "map (conn_of SYSM_NETCONN_TCP zero_connection) sample_rows"
  let ?a = "words_address [16777343] (nc_lo_address zero_connection)"
  have upt: "[0 ..< SYSM_TCP_UNKNOWN] = [0, 1, 2, 3, 4, 5, 6, 7, 8, 9, 10, 11, 12, 13]"
    by code_simp
  have "local_conns 22 ?cs = map (conn_of SYSM_NETCONN_TCP zero_connection)
      [sample_row 0 22 0 0 10, sample_row 16777343 22 16777343 40000 1]" "remote_conns 22 ?cs = []"
    by (simp_all add: local_conns_def remote_conns_def sample_rows_def conn_of_def sample_row_def tcp_conn_def)
  moreover have "sysm_net_address_equals ?a ?a = SYSM_OK"
    "sysm_net_address_equals ?a (words_address [0] (nc_lo_address zero_connection)) \<noteq> SYSM_OK"
    by (simp_all add: ipv4_equals_iff zero_connection_def)
  moreover have "map (state_conns 22 ?cs) [0 ..< SYSM_TCP_UNKNOWN] = [0, 1, 0, 0, 0, 0, 0, 0, 0, 0, 1, 0, 0, 0]"
    unfolding upt by (simp add: state_conns_def sample_rows_def conn_of_def sample_row_def tcp_conn_def)
  ultimately show ?thesis
    using net_stat_port_get_exact [OF sample_tables wide_zero, of zero_sysm 19 ?a 22, unfolded sample_conns]
      sample_listeners(1)
    by (simp add: zero_sysm_def port_stat_def conn_of_def sample_row_def upt)
qed

end
