(* ===== verification/Jvm.thy ===== *)
theory Jvm
  imports Address Double
begin

text \<open>
  What the binding to Java uses of the Java Native Interface. A virtual machine knows the
  classes it can load with the fields their objects have, the static objects it holds, how many
  more objects and strings it can create, the exception that is pending and the number of
  global references. Objects are values: a class and the contents of the fields.

  A call is \<open>None\<close> where the interface leaves it undefined: any call but the few that are
  allowed while an exception is pending, a class or a field id that is the null pointer, a field
  id of another class or of another type.
\<close>

section \<open>Values, objects and exceptions\<close>

datatype jvalue =
    JLong u64
  | JInt u32
  | JDouble dbl
  | JChar u16
  | JString cstring
  | JInts "u32 list"
  | JNull

type_synonym jclass = cstring

text \<open>A field id names the class it was asked of, the field and its signature.\<close>

type_synonym jfieldID = "jclass \<times> cstring \<times> cstring"

record jobject =
  jo_class :: jclass
  jo_fields :: "cstring \<Rightarrow> jvalue"

datatype throwable =
    Thrown jclass cstring
  | Instance jclass
  | NoClassDefFoundError cstring
  | NoSuchFieldError cstring cstring
  | OutOfMemoryError

record jvm =
  jv_classes :: "jclass \<Rightarrow> (cstring \<times> cstring) list option"
  jv_statics :: "jclass \<Rightarrow> cstring \<times> cstring \<Rightarrow> throwable option"
  jv_room :: nat
  jv_pending :: "throwable option"
  jv_globals :: nat

definition STRING_SIG :: cstring where "STRING_SIG = ''Ljava/lang/String;''"

text \<open>The signatures of the fields a value may be stored in.\<close>

fun jvalue_fits :: "jvalue \<Rightarrow> cstring \<Rightarrow> bool" where
  "jvalue_fits (JLong _) sig = (sig = ''J'')"
| "jvalue_fits (JInt _) sig = (sig = ''I'')"
| "jvalue_fits (JDouble _) sig = (sig = ''D'')"
| "jvalue_fits (JChar _) sig = (sig = ''C'')"
| "jvalue_fits (JString _) sig = (sig = STRING_SIG)"
| "jvalue_fits (JInts _) sig = (sig = ''[I'')"
| "jvalue_fits JNull sig = (sig = STRING_SIG \<or> sig = ''[I'')"

section \<open>Classes and field ids\<close>

definition quiet :: "jvm \<Rightarrow> bool" where "quiet vm \<longleftrightarrow> jv_pending vm = None"

definition FindClass :: "jvm \<Rightarrow> cstring \<Rightarrow> (jvm \<times> jclass option) option" where
  "FindClass vm name =
     (if \<not> quiet vm then None
      else Some (case jv_classes vm name of
          None \<Rightarrow> (vm\<lparr>jv_pending := Some (NoClassDefFoundError name)\<rparr>, None)
        | Some _ \<Rightarrow> (vm, Some name)))"

definition GetObjectClass :: "jvm \<Rightarrow> jobject \<Rightarrow> jclass option" where
  "GetObjectClass vm obj = (if \<not> quiet vm then None else Some (jo_class obj))"

definition GetFieldID :: "jvm \<Rightarrow> jclass \<Rightarrow> cstring \<Rightarrow> cstring \<Rightarrow> (jvm \<times> jfieldID option) option" where
  "GetFieldID vm cls name sig =
     (if \<not> quiet vm then None
      else case jv_classes vm cls of
          None \<Rightarrow> None
        | Some decls \<Rightarrow>
            Some (if (name, sig) \<in> set decls then (vm, Some (cls, name, sig))
                  else (vm\<lparr>jv_pending := Some (NoSuchFieldError name sig)\<rparr>, None)))"

text \<open>A static field of a class, and the object in it.\<close>

definition GetStaticField :: "jvm \<Rightarrow> jclass option \<Rightarrow> cstring \<Rightarrow> cstring \<Rightarrow> throwable option" where
  "GetStaticField vm cls name sig =
     (if \<not> quiet vm then None else do { c \<leftarrow> cls; jv_statics vm c (name, sig) })"

definition NewGlobalRef :: "jvm \<Rightarrow> jvm option" where
  "NewGlobalRef vm = (if \<not> quiet vm then None else Some (vm\<lparr>jv_globals := Suc (jv_globals vm)\<rparr>))"

definition DeleteGlobalRef :: "jvm \<Rightarrow> jvm" where
  "DeleteGlobalRef vm = vm\<lparr>jv_globals := jv_globals vm - 1\<rparr>"

section \<open>Fields\<close>

definition SetField :: "jvm \<Rightarrow> jobject \<Rightarrow> jfieldID option \<Rightarrow> jvalue \<Rightarrow> jobject option" where
  "SetField vm obj fid v =
     (if \<not> quiet vm then None
      else do {
        (cls, name, sig) \<leftarrow> fid;
        if cls = jo_class obj \<and> jvalue_fits v sig
        then Some (obj\<lparr>jo_fields := (jo_fields obj)(name := v)\<rparr>)
        else None })"

definition GetLongField :: "jvm \<Rightarrow> jobject \<Rightarrow> jfieldID option \<Rightarrow> u64 option" where
  "GetLongField vm obj fid =
     (if \<not> quiet vm then None
      else do {
        (cls, name, sig) \<leftarrow> fid;
        if cls = jo_class obj \<and> sig = ''J''
        then (case jo_fields obj name of JLong n \<Rightarrow> Some n | _ \<Rightarrow> None)
        else None })"

section \<open>Exceptions and new objects\<close>

definition ThrowNew :: "jvm \<Rightarrow> jclass option \<Rightarrow> cstring \<Rightarrow> jvm option" where
  "ThrowNew vm cls msg =
     (if \<not> quiet vm then None else do { c \<leftarrow> cls; Some (vm\<lparr>jv_pending := Some (Thrown c msg)\<rparr>) })"

definition Throw :: "jvm \<Rightarrow> throwable \<Rightarrow> jvm option" where
  "Throw vm t = (if \<not> quiet vm then None else Some (vm\<lparr>jv_pending := Some t\<rparr>))"

text \<open>Something is created, or the memory of the machine is used up.\<close>

definition jvm_new :: "jvm \<Rightarrow> 'a \<Rightarrow> (jvm \<times> 'a option) option" where
  "jvm_new vm x =
     (if \<not> quiet vm then None
      else Some (if jv_room vm = 0 then (vm\<lparr>jv_pending := Some OutOfMemoryError\<rparr>, None)
                 else (vm\<lparr>jv_room := jv_room vm - 1\<rparr>, Some x)))"

definition NewStringUTF :: "jvm \<Rightarrow> cstring \<Rightarrow> (jvm \<times> jvalue) option" where
  "NewStringUTF vm s = do {
     (vm, r) \<leftarrow> jvm_new vm s;
     Some (vm, case r of None \<Rightarrow> JNull | Some s \<Rightarrow> JString s) }"

text \<open>
  An object of a class without a constructor run: every field has the zero of its type. An
  array of a given length; a negative length is excluded.
\<close>

definition zero_field :: "(cstring \<times> cstring) list \<Rightarrow> cstring \<Rightarrow> jvalue" where
  "zero_field decls name =
     (case map_of decls name of
        Some sig \<Rightarrow> if sig = ''J'' then JLong 0 else if sig = ''I'' then JInt 0
          else if sig = ''D'' then JDouble (Fin 0) else if sig = ''C'' then JChar 0 else JNull
      | None \<Rightarrow> JNull)"

definition AllocObject :: "jvm \<Rightarrow> jclass \<Rightarrow> (jvm \<times> jobject option) option" where
  "AllocObject vm cls = do {
     decls \<leftarrow> jv_classes vm cls;
     jvm_new vm \<lparr>jo_class = cls, jo_fields = zero_field decls\<rparr> }"

definition NewArray :: "jvm \<Rightarrow> nat \<Rightarrow> (jvm \<times> unit option) option" where
  "NewArray vm n = (if n < 2 ^ 31 then jvm_new vm () else None)"

section \<open>Properties\<close>

named_theorems jvm_calls \<open>what a call does when it is allowed\<close>

lemma FindClass_loaded [jvm_calls]:
  "quiet vm \<Longrightarrow> jv_classes vm name = Some decls \<Longrightarrow> FindClass vm name = Some (vm, Some name)"
  by (simp add: FindClass_def)

lemma GetObjectClass_quiet [jvm_calls]: "quiet vm \<Longrightarrow> GetObjectClass vm obj = Some (jo_class obj)"
  by (simp add: GetObjectClass_def)

lemma GetFieldID_declared [jvm_calls]:
  "quiet vm \<Longrightarrow> jv_classes vm cls = Some decls \<Longrightarrow> (name, sig) \<in> set decls
     \<Longrightarrow> GetFieldID vm cls name sig = Some (vm, Some (cls, name, sig))"
  by (simp add: GetFieldID_def)

lemma NewStringUTF_room [jvm_calls]:
  "quiet vm \<Longrightarrow> jv_room vm = Suc n \<Longrightarrow> NewStringUTF vm s = Some (vm\<lparr>jv_room := n\<rparr>, JString s)"
  by (simp add: NewStringUTF_def jvm_new_def)

lemma quiet_updates [simp]:
  "quiet (vm\<lparr>jv_room := n\<rparr>) = quiet vm" "quiet (vm\<lparr>jv_globals := g\<rparr>) = quiet vm"
  "\<not> quiet (vm\<lparr>jv_pending := Some t\<rparr>)"
  by (simp_all add: quiet_def)

lemma NewGlobalRef_Some: "NewGlobalRef vm = Some vm' \<longleftrightarrow> quiet vm \<and> vm' = vm\<lparr>jv_globals := Suc (jv_globals vm)\<rparr>"
  by (auto simp: NewGlobalRef_def)

lemma no_call_pending:
  assumes "\<not> quiet vm"
  shows "FindClass vm name = None" "GetObjectClass vm obj = None" "GetFieldID vm cls name sig = None"
    "SetField vm obj fid v = None" "GetLongField vm obj fid = None" "ThrowNew vm c msg = None"
    "NewStringUTF vm s = None" "NewGlobalRef vm = None" "Throw vm t = None"
  using assms
  by (simp_all add: FindClass_def GetObjectClass_def GetFieldID_def SetField_def GetLongField_def
      ThrowNew_def NewStringUTF_def jvm_new_def NewGlobalRef_def Throw_def)

end
