(* ===== verification/Disk.thy ===== *)
theory Disk
  imports Memory Scan Proc
begin

text \<open>
  File systems and disks: the list of mounted file systems and their types (\<^verbatim>\<open>sysm.c\<close>), the
  cache of I/O devices (\<^verbatim>\<open>sysm_util.c\<close>), and the three readers of disk statistics with the
  computation of service time and utilisation (\<^verbatim>\<open>sysm.c\<close>). \<open>stat\<close>, the table of mounts and
  the clock are arguments.
\<close>

section \<open>File systems\<close>

datatype sysm_file_system_type_e =
  SYSM_FSTYPE_UNKNOWN | SYSM_FSTYPE_NONE | SYSM_FSTYPE_LOCAL_DISK | SYSM_FSTYPE_NETWORK
| SYSM_FSTYPE_RAM_DISK | SYSM_FSTYPE_CDROM | SYSM_FSTYPE_SWAP | SYSM_FSTYPE_MAX

definition SYSM_FS_NAME_LEN :: nat where "SYSM_FS_NAME_LEN = SYSM_PATH_MAX"
definition SYSM_FS_INFO_LEN :: nat where "SYSM_FS_INFO_LEN = 256"

record sysm_file_system =
  fs_dir_name :: cstring
  fs_dev_name :: cstring
  fs_type_name :: cstring
  fs_sys_type_name :: cstring
  fs_options :: cstring
  fs_type :: sysm_file_system_type_e
  fs_flags :: u64

definition fs_set :: "sysm_file_system_type_e \<Rightarrow> bool \<Rightarrow> sysm_file_system \<Rightarrow> sysm_file_system" where
  "fs_set ty b fsp = (if b then fsp\<lparr>fs_type := ty\<rparr> else fsp)"

definition sysm_common_fs_type_get :: "sysm_file_system \<Rightarrow> sysm_file_system" where
  "sysm_common_fs_type_get fsp =
     (let type = fs_sys_type_name fsp; c = deref type
      in if c = CHR ''n'' then fs_set SYSM_FSTYPE_NETWORK (strncmp_eq type ''nfs'' 3) fsp
         else if c = CHR ''s'' then
           (if type = ''smbfs'' then fs_set SYSM_FSTYPE_NETWORK True fsp
            else fs_set SYSM_FSTYPE_SWAP (type = ''swap'') fsp)
         else if c = CHR ''a'' then fs_set SYSM_FSTYPE_NETWORK (type = ''afs'') fsp
         else if c = CHR ''i'' then fs_set SYSM_FSTYPE_CDROM (type = ''iso9660'') fsp
         else if c = CHR ''c'' then
           (if type = ''cvfs'' then fs_set SYSM_FSTYPE_LOCAL_DISK True fsp
            else fs_set SYSM_FSTYPE_NETWORK (type = ''cifs'') fsp)
         else if c = CHR ''m'' then
           fs_set SYSM_FSTYPE_LOCAL_DISK (type = ''msdos'' \<or> type = ''minix'') fsp
         else if c = CHR ''h'' then fs_set SYSM_FSTYPE_LOCAL_DISK (type = ''hpfs'') fsp
         else if c = CHR ''v'' then
           (if type = ''vxfs'' then fs_set SYSM_FSTYPE_LOCAL_DISK True fsp
            else fs_set SYSM_FSTYPE_LOCAL_DISK (type = ''vfat'') fsp)
         else if c = CHR ''z'' then fs_set SYSM_FSTYPE_LOCAL_DISK (type = ''zfs'') fsp
         else fsp)"

definition sysm_os_fs_type_get :: "sysm_file_system \<Rightarrow> sysm_file_system" where
  "sysm_os_fs_type_get fsp =
     (let type = fs_sys_type_name fsp; c = deref type; disk = fs_set SYSM_FSTYPE_LOCAL_DISK
      in if c = CHR ''e'' then disk (strncmp_eq type ''ext'' 3) fsp
         else if c = CHR ''g'' then disk (type = ''gfs'') fsp
         else if c = CHR ''h'' then disk (type = ''hpfs'') fsp
         else if c = CHR ''j'' then disk (strncmp_eq type ''jfs'' 3) fsp
         else if c = CHR ''o'' then disk (strncmp_eq type ''ocfs'' 4) fsp
         else if c = CHR ''p'' then disk (strncmp_eq type ''psfs'' 4) fsp
         else if c = CHR ''r'' then disk (type = ''reiserfs'') fsp
         else if c = CHR ''v'' then disk (type = ''vzfs'') fsp
         else if c = CHR ''x'' then disk (type = ''xfs'' \<or> type = ''xiafs'') fsp
         else fsp)"

definition fstype_names :: "sysm_file_system_type_e \<Rightarrow> cstring" where
  "fstype_names ty =
     (case ty of SYSM_FSTYPE_UNKNOWN \<Rightarrow> ''unknown'' | SYSM_FSTYPE_NONE \<Rightarrow> ''none''
      | SYSM_FSTYPE_LOCAL_DISK \<Rightarrow> ''local'' | SYSM_FSTYPE_NETWORK \<Rightarrow> ''remote''
      | SYSM_FSTYPE_RAM_DISK \<Rightarrow> ''ram'' | SYSM_FSTYPE_CDROM \<Rightarrow> ''cdrom''
      | SYSM_FSTYPE_SWAP \<Rightarrow> ''swap'' | SYSM_FSTYPE_MAX \<Rightarrow> [])"

text \<open>The type that is set, tried in turn; then its name.\<close>

definition sysm_fs_type_get :: "sysm_file_system \<Rightarrow> sysm_file_system" where
  "sysm_fs_type_get fsp =
     (let unknown = (\<lambda>f. fs_type f = SYSM_FSTYPE_UNKNOWN);
          fsp = (if unknown fsp then sysm_os_fs_type_get fsp else fsp);
          fsp = (if unknown fsp then sysm_common_fs_type_get fsp else fsp);
          fsp = fs_set SYSM_FSTYPE_NONE (unknown fsp) fsp;
          fsp = fs_set SYSM_FSTYPE_NONE (fs_type fsp = SYSM_FSTYPE_MAX) fsp
      in fsp\<lparr>fs_type_name := fstype_names (fs_type fsp)\<rparr>)"

text \<open>An entry of the table of mounts, and \<open>strcpy\<close> into the arrays of the structure.\<close>

record mntent =
  mnt_fsname :: cstring
  mnt_dir :: cstring
  mnt_type :: cstring
  mnt_opts :: cstring

definition copy_fits :: "nat \<Rightarrow> cstring \<Rightarrow> cstring option" where
  "copy_fits n s = (if length s < n then Some s else None)"

definition mount_entry :: "u64 \<Rightarrow> mntent \<Rightarrow> sysm_file_system option" where
  "mount_entry flags0 ent = do {
     dir \<leftarrow> copy_fits SYSM_FS_NAME_LEN (mnt_dir ent);
     dev \<leftarrow> copy_fits SYSM_FS_NAME_LEN (mnt_fsname ent);
     ty \<leftarrow> copy_fits SYSM_FS_INFO_LEN (mnt_type ent);
     opts \<leftarrow> copy_fits SYSM_FS_INFO_LEN (mnt_opts ent);
     Some (sysm_fs_type_get \<lparr>fs_dir_name = dir, fs_dev_name = dev, fs_type_name = [],
       fs_sys_type_name = ty, fs_options = opts, fs_type = SYSM_FSTYPE_UNKNOWN, fs_flags = flags0\<rparr>) }"

fun mount_loop :: "u64 \<Rightarrow> mntent list \<Rightarrow> sysm_file_system dynlist \<Rightarrow> sysm_file_system dynlist option" where
  "mount_loop flags0 [] fslist = Some fslist"
| "mount_loop flags0 (ent # ents) fslist = do {
     fsp \<leftarrow> mount_entry flags0 ent;
     fslist \<leftarrow> dl_append fsp (SYSM_FILE_SYSTEM_LIST_GROW fslist);
     mount_loop flags0 ents fslist }"

text \<open>\<open>mounts\<close> is an error or the entries \<open>getmntent_r\<close> gives; \<open>flags0\<close> is never initialised.\<close>

definition sysm_file_system_list_get ::
  "int + mntent list \<Rightarrow> u64 \<Rightarrow> (int + sysm_file_system dynlist) option" where
  "sysm_file_system_list_get mounts flags0 =
     (case mounts of
        Inl errno \<Rightarrow> Some (Inl errno)
      | Inr ents \<Rightarrow> map_option Inr (mount_loop flags0 ents sysm_file_system_list_create))"

section \<open>The cache of devices\<close>

record stat_sb =
  sb_ino :: u64
  sb_dev :: u64
  sb_rdev :: u64
  sb_isblk :: bool

definition SYSM_FSDEV_ID :: "stat_sb \<Rightarrow> u64" where
  "SYSM_FSDEV_ID sb = (if sb_isblk sb then sb_rdev sb else sb_ino sb + sb_dev sb)"

definition SYSM_DEV_PREFIX :: cstring where "SYSM_DEV_PREFIX = ''/dev/''"

definition SYSM_NAME_IS_DEV :: "cstring \<Rightarrow> bool" where
  "SYSM_NAME_IS_DEV dev = strncmp_eq dev SYSM_DEV_PREFIX (length SYSM_DEV_PREFIX)"

definition zero_disk :: sysm_disk_usage where
  "zero_disk = \<lparr>du_reads = 0, du_writes = 0, du_write_bytes = 0, du_read_bytes = 0, du_rtime = 0,
     du_wtime = 0, du_qtime = 0, du_time = 0, du_snaptime = 0, du_service_time = Fin 0, du_util = Fin 0\<rparr>"

text \<open>
  What the system answers. \<open>de_neg1\<close> is what the target makes of \<open>-1.0\<close> converted to an
  unsigned integer, which the language leaves open; \<open>de_junk\<close> and \<open>de_uptime\<close> are the values of
  variables that were not initialised.
\<close>

record disk_env =
  de_files :: files
  de_stat :: "cstring \<Rightarrow> int + stat_sb"
  de_mounts :: "int + mntent list"
  de_clock :: "nat \<Rightarrow> u64"
  de_neg1 :: u64
  de_junk :: "nat \<Rightarrow> u64"
  de_uptime :: dbl

text \<open>A call on the cache reads the clock twice; \<open>n\<close> counts the readings.\<close>

definition fsdev_get ::
  "disk_env \<Rightarrow> nat \<Rightarrow> sysm_iodev cache \<Rightarrow> u64 \<Rightarrow> (sysm_iodev cache \<times> nat \<times> nat) option" where
  "fsdev_get env n t key =
     map_option (\<lambda>(t, p). (t, p, n + 2)) (sysm_cache_get (de_clock env n) (de_clock env (Suc n)) t key)"

definition new_iodev :: "bool \<Rightarrow> cstring \<Rightarrow> sysm_iodev option" where
  "new_iodev part name = do {
     name \<leftarrow> copy_fits 256 name;
     Some \<lparr>io_name = name, io_is_partition = part, io_disk = zero_disk\<rparr> }"

fun iodev_loop ::
  "disk_env \<Rightarrow> sysm_file_system list \<Rightarrow> nat \<Rightarrow> sysm_iodev cache \<Rightarrow> (sysm_iodev cache \<times> nat) option" where
  "iodev_loop env [] n t = Some (t, n)"
| "iodev_loop env (fsp # fsps) n t =
     (if fs_type fsp \<noteq> SYSM_FSTYPE_LOCAL_DISK then iodev_loop env fsps n t
      else case de_stat env (fs_dir_name fsp) of
             Inl _ \<Rightarrow> iodev_loop env fsps n t
           | Inr sb \<Rightarrow> do {
               (t, ent, n) \<leftarrow> fsdev_get env n t (SYSM_FSDEV_ID sb);
               value \<leftarrow> entry_val t ent;
               if value \<noteq> None then iodev_loop env fsps n t
               else if SYSM_NAME_IS_DEV (fs_dev_name fsp) then do {
                 iodev \<leftarrow> new_iodev True (fs_dev_name fsp);
                 iodev_loop env fsps n (entry_store ent iodev t) }
               else iodev_loop env fsps n t })"

text \<open>
  The result is the entry whose value is the device; an inner \<open>None\<close> is the null pointer. The
  entry is looked up before the loop and read after it.
\<close>

definition iodev_name :: "cstring \<Rightarrow> cstring \<times> bool" where
  "iodev_name dirname =
     (if deref dirname \<noteq> CHR ''/'' then (take (SYSM_FS_NAME_LEN - 1) (SYSM_DEV_PREFIX @ dirname), True)
      else (dirname, SYSM_NAME_IS_DEV dirname))"

definition iodev_fill ::
  "disk_env \<Rightarrow> cstring \<Rightarrow> bool \<Rightarrow> nat \<Rightarrow> sysm_iodev cache \<Rightarrow> nat \<Rightarrow> (sysm_iodev cache \<times> nat \<times> nat option) option" where
  "iodev_fill env dirname is_dev n t entry =
     (if is_dev then do {
        iodev \<leftarrow> new_iodev False dirname;
        Some (entry_store entry iodev t, n, Some entry) }
      else do {
        res \<leftarrow> sysm_file_system_list_get (de_mounts env) (de_junk env 0);
        (case res of
           Inl _ \<Rightarrow> Some (t, n, None)
         | Inr fslist \<Rightarrow> do {
             (t, n) \<leftarrow> iodev_loop env (dl_contents fslist) n t;
             value \<leftarrow> entry_val t entry;
             Some (t, n, case value of
               Some iodev \<Rightarrow> if io_name iodev \<noteq> [] then Some entry else None
             | None \<Rightarrow> None) }) })"

definition sysm_iodev_get ::
  "disk_env \<Rightarrow> nat \<Rightarrow> sysm \<Rightarrow> cstring \<Rightarrow> (sysm \<times> nat \<times> nat option) option" where
  "sysm_iodev_get env n s dirname =
     (let (t, n) = (case fsdev s of
                      None \<Rightarrow> (sysm_cache_new 15 (de_clock env n), Suc n)
                    | Some t \<Rightarrow> (t, n));
          (dirname, is_dev) = iodev_name dirname
      in case de_stat env dirname of
           Inl _ \<Rightarrow> Some (s\<lparr>fsdev := Some t\<rparr>, n, None)
         | Inr sb \<Rightarrow> do {
             (t, entry, n) \<leftarrow> fsdev_get env n t (SYSM_FSDEV_ID sb);
             value \<leftarrow> entry_val t entry;
             (t, n, iodev) \<leftarrow> (if value \<noteq> None then Some (t, n, Some entry)
                              else iodev_fill env dirname is_dev n t entry);
             Some (s\<lparr>fsdev := Some t\<rparr>, n, iodev) })"

end
