(* ===== verification/Disk_Usage.thy ===== *)
theory Disk_Usage
  imports Disk
begin

text \<open>
  The statistics of a disk (\<^verbatim>\<open>sysm.c\<close>): the readers of \<open>/sys/block\<close>, \<open>/proc/diskstats\<close> and
  \<open>/proc/partitions\<close>, and service time and utilisation since the previous call for the device,
  whose statistics the cache of devices keeps.
\<close>

section \<open>The readers\<close>

definition disk_stats_init :: "u64 \<Rightarrow> sysm_disk_usage" where
  "disk_stats_init neg1 = \<lparr>du_reads = neg1, du_writes = neg1, du_write_bytes = neg1, du_read_bytes = neg1,
     du_rtime = neg1, du_wtime = neg1, du_qtime = neg1, du_time = neg1, du_snaptime = 0,
     du_service_time = Fin (- 1), du_util = Fin (- 1)\<rparr>"

text \<open>\<open>entry->value\<close> of a device that was found, and a store into it.\<close>

definition iodev_at :: "sysm \<Rightarrow> nat \<Rightarrow> sysm_iodev option" where
  "iodev_at s p = do { t \<leftarrow> fsdev s; value \<leftarrow> entry_val t p; value }"

definition iodev_set :: "nat \<Rightarrow> sysm_iodev \<Rightarrow> sysm \<Rightarrow> sysm" where
  "iodev_set p iodev s = s\<lparr>fsdev := map_option (entry_store p iodev) (fsdev s)\<rparr>"

definition print_int :: "int \<Rightarrow> cstring" where
  "print_int n = (if n < 0 then CHR ''-'' # dec_digits (nat (- n)) else dec_digits (nat n))"

text \<open>
  The number of a partition is cut off the name of the cached device itself. A name without a
  digit is searched past its end (\<open>None\<close>). Each reader gives the handle, the device that was
  found, the usage, and the status.
\<close>

definition sys_stat_file :: "cstring \<Rightarrow> (cstring \<times> cstring) option" where
  "sys_stat_file name =
     (let digits = dropWhile (\<lambda>c. \<not> isdigit c) name;
          stem = takeWhile (\<lambda>c. \<not> isdigit c) name;
          base = (if SYSM_NAME_IS_DEV name then drop (length SYSM_DEV_PREFIX) stem else stem);
          partition = int_of_ulong (fst (strtoull 0 digits))
      in if digits = [] then None
         else Some (stem, take 1024 (SYS_BLOCK @ ''/'' @ base @ ''/'' @ base @ print_int partition @ ''/stat'')))"

definition get_iostat_sys ::
  "disk_env \<Rightarrow> nat \<Rightarrow> sysm \<Rightarrow> cstring \<Rightarrow> sysm_disk_usage
     \<Rightarrow> (sysm \<times> nat option \<times> sysm_disk_usage \<times> int) option" where
  "get_iostat_sys env n s dirname disk = do {
     (s, n, found) \<leftarrow> sysm_iodev_get env n s dirname;
     (case found of
        None \<Rightarrow> Some (s, None, disk, ENXIO)
      | Some p \<Rightarrow> do {
          iodev \<leftarrow> iodev_at s p;
          (stem, stat) \<leftarrow> sys_stat_file (io_name iodev);
          let s = iodev_set p (iodev\<lparr>io_name := stem\<rparr>) s;
          res \<leftarrow> sysm_file2str (de_files env) stat 1025 1025;
          (case res of
             Inl status \<Rightarrow> Some (s, Some p, disk, status)
           | Inr ptr \<Rightarrow>
               let (reads, ptr) = strtoull 10 (sysm_skip_token ptr);
                   (writes, ptr) = strtoull 10 (sysm_skip_token ptr)
               in Some (s, Some p, disk\<lparr>du_reads := reads, du_writes := writes, du_read_bytes := - 1,
                    du_write_bytes := - 1, du_util := Fin (- 1)\<rparr>, SYSM_OK)) }) }"

text \<open>The device numbers as the C library splits them.\<close>

definition ST_MAJOR :: "stat_sb \<Rightarrow> u64" where
  "ST_MAJOR sb = (drop_bit 8 (sb_rdev sb) AND 0xfff) OR (drop_bit 32 (sb_rdev sb) AND 0xfffff000)"

definition ST_MINOR :: "stat_sb \<Rightarrow> u64" where
  "ST_MINOR sb = (sb_rdev sb AND 0xff) OR (drop_bit 12 (sb_rdev sb) AND 0xffffff00)"

definition DSTAT_FMT :: "conv list" where
  "DSTAT_FMT = replicate 11 ConvULong"

text \<open>The conversions of one row, and what is stored; a variable that was not reached is \<open>junk\<close>.\<close>

definition dstat_fields :: "(nat \<Rightarrow> u64) \<Rightarrow> cstring \<Rightarrow> sysm_disk_usage \<Rightarrow> sysm_disk_usage" where
  "dstat_fields junk ptr disk =
     (let vs = fst (scan_all DSTAT_FMT ptr); num = length vs;
          v = (\<lambda>i. scan_ulong_at i vs (junk i));
          rio = v 0; rmerge = v 1; rsect = v 2; ruse = v 3; wio = v 4; wsect = v 6; wuse = v 7;
          use = v 9; aveq = v 10;
          disk = (if num = 11 then disk\<lparr>du_rtime := ruse, du_wtime := wuse, du_time := use, du_qtime := aveq\<rparr>
                  else if num = 4 then disk\<lparr>du_time := - 1, du_qtime := - 1\<rparr> else disk);
          (wio, rsect, wsect) = (if num = 4 then (rsect, rmerge, ruse) else (wio, rsect, wsect))
      in disk\<lparr>du_reads := rio, du_writes := wio, du_read_bytes := rsect * 512, du_write_bytes := wsect * 512\<rparr>)"

fun dstat_loop ::
  "(nat \<Rightarrow> u64) \<Rightarrow> stat_sb \<Rightarrow> char list list \<Rightarrow> sysm_disk_usage \<Rightarrow> sysm_disk_usage
     \<Rightarrow> sysm_disk_usage \<times> sysm_disk_usage \<times> int" where
  "dstat_loop junk sb [] disk device_usage = (disk, device_usage, ENOENT)"
| "dstat_loop junk sb (b # bs) disk device_usage =
     (let (major, ptr) = strtoull 10 (cstr b); (minor, ptr) = strtoull 10 ptr
      in if major = ST_MAJOR sb \<and> (minor = ST_MINOR sb \<or> minor = 0) then
           let disk = dstat_fields junk (sysm_skip_token ptr) disk
           in if minor = ST_MINOR sb then (disk, device_usage, SYSM_OK)
              else dstat_loop junk sb bs disk disk
         else dstat_loop junk sb bs disk device_usage)"

definition get_iostat_proc_dstat ::
  "disk_env \<Rightarrow> nat \<Rightarrow> sysm \<Rightarrow> cstring \<Rightarrow> sysm_disk_usage
     \<Rightarrow> (sysm \<times> nat option \<times> sysm_disk_usage \<times> sysm_disk_usage \<times> int) option" where
  "get_iostat_proc_dstat env n s dirname disk = do {
     let device_usage = disk_stats_init (de_neg1 env);
     (s, n, found) \<leftarrow> sysm_iodev_get env n s dirname;
     (case found of
        None \<Rightarrow> Some (s, None, disk, device_usage, ENXIO)
      | Some p \<Rightarrow> do {
          iodev \<leftarrow> iodev_at s p;
          (case de_stat env (io_name iodev) of
             Inl errno \<Rightarrow> Some (s, Some p, disk, device_usage, errno)
           | Inr sb \<Rightarrow>
               (case stream_of (de_files env PROC_DISKSTATS) of
                  Inl errno \<Rightarrow> Some (s, Some p, disk, device_usage, errno)
                | Inr st \<Rightarrow>
                    Some (s, Some p, dstat_loop (de_junk env) sb (fgets_lines 1025 st) disk device_usage))) }) }"

definition procp_fields :: "cstring \<Rightarrow> sysm_disk_usage \<Rightarrow> sysm_disk_usage" where
  "procp_fields ptr disk =
     (let ptr = sysm_skip_token ptr;
          ptr = sysm_skip_token ptr;
          (reads, ptr) = strtoull 10 ptr;
          ptr = sysm_skip_token ptr;
          (read_bytes, ptr) = strtoull 10 ptr;
          (rtime, ptr) = strtoull 10 ptr;
          (writes, ptr) = strtoull 10 ptr;
          ptr = sysm_skip_token ptr;
          (write_bytes, ptr) = strtoull 10 ptr;
          (wtime, ptr) = strtoull 10 ptr;
          ptr = sysm_skip_token ptr;
          (time, ptr) = strtoull 10 ptr;
          (qtime, ptr) = strtoull 10 ptr
      in disk\<lparr>du_reads := reads, du_read_bytes := read_bytes * 512, du_rtime := rtime, du_writes := writes,
           du_write_bytes := write_bytes * 512, du_wtime := wtime, du_time := time, du_qtime := qtime\<rparr>)"

fun procp_loop :: "stat_sb \<Rightarrow> char list list \<Rightarrow> sysm_disk_usage \<Rightarrow> sysm_disk_usage \<times> int" where
  "procp_loop sb [] disk = (disk, ENOENT)"
| "procp_loop sb (b # bs) disk =
     (let (major, ptr) = strtoull 10 (cstr b); (minor, ptr) = strtoull 10 ptr
      in if major = ST_MAJOR sb \<and> minor = ST_MINOR sb then (procp_fields ptr disk, SYSM_OK)
         else procp_loop sb bs disk)"

definition get_iostat_procp ::
  "disk_env \<Rightarrow> nat \<Rightarrow> sysm \<Rightarrow> cstring \<Rightarrow> sysm_disk_usage
     \<Rightarrow> (sysm \<times> nat option \<times> sysm_disk_usage \<times> int) option" where
  "get_iostat_procp env n s dirname disk = do {
     (s, n, found) \<leftarrow> sysm_iodev_get env n s dirname;
     (case found of
        None \<Rightarrow> Some (s, None, disk, ENXIO)
      | Some p \<Rightarrow> do {
          iodev \<leftarrow> iodev_at s p;
          (case de_stat env (io_name iodev) of
             Inl errno \<Rightarrow> Some (s, Some p, disk, errno)
           | Inr sb \<Rightarrow>
               (case stream_of (de_files env PROC_PARTITIONS) of
                  Inl errno \<Rightarrow> Some (s, Some p, disk, errno)
                | Inr st \<Rightarrow>
                    let (disk, status) = procp_loop sb (drop 1 (fgets_lines 1025 st)) disk
                    in Some (s, Some p, disk, status))) }) }"

section \<open>Service time and utilisation\<close>

definition HZ :: dbl where "HZ = Fin 100"

text \<open>
  The block after the reading: \<open>old\<close> is what the device kept of the previous call. A number of
  seconds outside \<open>sysm_uint64_t\<close> is \<open>None\<close>.
\<close>

definition disk_rates :: "sysm_disk_usage \<Rightarrow> u64 \<Rightarrow> sysm_disk_usage \<Rightarrow> sysm_disk_usage" where
  "disk_rates old snaptime disk =
     (let disk = disk\<lparr>du_snaptime := snaptime\<rparr>;
          interval = u64_to_dbl (if du_snaptime old \<noteq> 0 then snaptime - du_snaptime old else snaptime);
          ios = (du_reads disk - du_reads old) + (du_writes disk - du_writes old);
          busy = u64_to_dbl (du_time disk - du_time old);
          disk = disk\<lparr>du_service_time :=
            (if du_time disk = - 1 then Fin (- 1)
             else let tput = dbl_div (dbl_mult (u64_to_dbl ios) HZ) interval;
                      util = dbl_mult (dbl_div busy interval) HZ
                  in if tput \<noteq> Fin 0 then dbl_div util tput else Fin 0)\<rparr>
      in disk\<lparr>du_util := (if du_qtime disk = - 1 then Fin (- 1) else dbl_div (dbl_div busy interval) (Fin 1000))\<rparr>)"

text \<open>
  On a partition the times of the whole device are used; they are kept for the next call, and
  only the two results are stored into the caller's structure.
\<close>

definition disk_account ::
  "disk_env \<Rightarrow> sysm \<Rightarrow> nat \<Rightarrow> sysm_disk_usage \<Rightarrow> sysm_disk_usage \<Rightarrow> (sysm \<times> sysm_disk_usage) option" where
  "disk_account env s p disk device_usage = do {
     res \<leftarrow> sysm_uptime_get (de_files env);
     snaptime \<leftarrow> dbl_to_u64 (case res of Inr uptime \<Rightarrow> uptime | Inl _ \<Rightarrow> de_uptime env);
     iodev \<leftarrow> iodev_at s p;
     let part = (io_is_partition iodev \<and> iostat s = IOSTAT_DISKSTATS);
     let d = disk_rates (io_disk iodev) snaptime (if part then device_usage else disk);
     let s = iodev_set p (iodev\<lparr>io_disk := d\<rparr>) s;
     Some (s, if part then disk\<lparr>du_service_time := du_service_time d, du_util := du_util d\<rparr> else d) }"

definition sysm_disk_usage_get ::
  "disk_env \<Rightarrow> nat \<Rightarrow> sysm \<Rightarrow> cstring \<Rightarrow> (sysm \<times> sysm_disk_usage \<times> int) option" where
  "sysm_disk_usage_get env n s name = do {
     let disk = disk_stats_init (de_neg1 env);
     (s, iodev, disk, device_usage, status) \<leftarrow>
       (case iostat s of
          IOSTAT_SYS \<Rightarrow> map_option (\<lambda>(s, p, disk, status). (s, p, disk, disk, status))
            (get_iostat_sys env n s name disk)
        | IOSTAT_DISKSTATS \<Rightarrow> get_iostat_proc_dstat env n s name disk
        | IOSTAT_PARTITIONS \<Rightarrow> map_option (\<lambda>(s, p, disk, status). (s, p, disk, disk, status))
            (get_iostat_procp env n s name disk)
        | IOSTAT_NONE \<Rightarrow> Some (s, None, disk, disk, ENOENT));
     (case iodev of
        Some p \<Rightarrow>
          if status = SYSM_OK
          then map_option (\<lambda>(s, disk). (s, disk, status)) (disk_account env s p disk device_usage)
          else Some (s, disk, status)
      | None \<Rightarrow> Some (s, disk, status)) }"

end
