(* ===== verification/Interfaces.thy ===== *)
theory Interfaces
  imports Handle Scan
begin

text \<open>
  Routes, network interfaces, name servers and logged-in users (\<^verbatim>\<open>sysm.c\<close>). The answers of
  \<open>socket\<close>, \<open>ioctl\<close>, \<open>gethostname\<close> and \<open>getdomainname\<close> and the records of the file of
  users are arguments.
\<close>

section \<open>Routes\<close>

definition SYSM_RTF_UP :: u64 where "SYSM_RTF_UP = 1"
definition SYSM_RTF_GATEWAY :: u64 where "SYSM_RTF_GATEWAY = 2"
definition RTF_UP :: u32 where "RTF_UP = 1"

record sysm_net_route =
  nr_destination :: sysm_net_address
  nr_gateway :: sysm_net_address
  nr_mask :: sysm_net_address
  nr_flags :: u64
  nr_refcnt :: u64
  nr_use :: u64
  nr_metric :: u64
  nr_mtu :: u64
  nr_window :: u64
  nr_irtt :: u64
  nr_ifname :: cstring

definition ROUTE_FMT :: "conv list" where
  "ROUTE_FMT = [ConvStr 16, ConvStr 128, ConvStr 128, ConvHex None, ConvLong, ConvLong, ConvLong,
     ConvStr 128, ConvLong, ConvLong, ConvLong]"

definition NET_ROUTE :: cstring where "NET_ROUTE = PROC_FS_ROOT @ ''net/route''"

text \<open>
  One line, into an array cell that holds \<open>r0\<close>. An address of 128 characters does not leave
  room for its NUL (\<open>None\<close>). The inner \<open>None\<close> is a line that is not kept.
\<close>

definition route_line :: "sysm_net_route \<Rightarrow> cstring \<Rightarrow> sysm_net_route option option" where
  "route_line r0 buffer =
     (let vs = fst (scan_all ROUTE_FMT buffer); num = length vs;
          net_addr = scan_str_at 1 vs []; gate_addr = scan_str_at 2 vs [];
          mask_addr = scan_str_at 7 vs [];
          flags = scan_hex_at 3 vs 0
      in if 128 \<le> length net_addr \<or> 128 \<le> length gate_addr \<or> 128 \<le> length mask_addr then None
         else if num < 10 \<or> flags AND RTF_UP = 0 then Some None
         else do {
           destination \<leftarrow> hex2int net_addr HEX_ENT_LEN;
           gateway \<leftarrow> hex2int gate_addr HEX_ENT_LEN;
           mask \<leftarrow> hex2int mask_addr HEX_ENT_LEN;
           Some (Some \<lparr>nr_destination = sysm_net_address_set destination (nr_destination r0),
             nr_gateway = sysm_net_address_set gateway (nr_gateway r0),
             nr_mask = sysm_net_address_set mask (nr_mask r0),
             nr_flags = scast flags,
             nr_refcnt = scan_long_at 4 vs (nr_refcnt r0), nr_use = scan_long_at 5 vs (nr_use r0),
             nr_metric = scan_long_at 6 vs (nr_metric r0), nr_mtu = scan_long_at 8 vs (nr_mtu r0),
             nr_window = scan_long_at 9 vs (nr_window r0), nr_irtt = scan_long_at 10 vs (nr_irtt r0),
             nr_ifname = scan_str_at 0 vs (nr_ifname r0)\<rparr>) })"

text \<open>A line that is not kept gives its cell back; the list may have grown for it.\<close>

fun route_loop :: "sysm_net_route \<Rightarrow> char list list \<Rightarrow> sysm_net_route dynlist \<Rightarrow> sysm_net_route dynlist option" where
  "route_loop r0 [] l = Some l"
| "route_loop r0 (b # bs) l = do {
     let l = SYSM_NET_ROUTE_LIST_GROW l;
     route \<leftarrow> route_line r0 (cstr b);
     l \<leftarrow> (case route of None \<Rightarrow> Some l | Some r \<Rightarrow> dl_append r l);
     route_loop r0 bs l }"

definition sysm_net_route_list_get ::
  "files \<Rightarrow> sysm_net_route \<Rightarrow> (int + sysm_net_route dynlist) option" where
  "sysm_net_route_list_get fs r0 =
     (case stream_of (fs NET_ROUTE) of
        Inl errno \<Rightarrow> Some (Inl errno)
      | Inr st \<Rightarrow> map_option Inr
          (route_loop r0 (drop 1 (fgets_lines 1024 st)) sysm_net_route_list_create))"

section \<open>Name servers and default gateway\<close>

definition SYSM_INET6_ADDRSTRLEN :: nat where "SYSM_INET6_ADDRSTRLEN = 46"
definition MAX_INTERFACE_NAME_LEN :: nat where "MAX_INTERFACE_NAME_LEN = 256"
definition SYSM_MAXDOMAINNAMELEN :: nat where "SYSM_MAXDOMAINNAMELEN = 256"
definition SYSM_MAXHOSTNAMELEN :: nat where "SYSM_MAXHOSTNAMELEN = 256"

record sysm_net_info =
  ni_default_gateway :: cstring
  ni_default_gateway_interface :: cstring
  ni_host_name :: cstring
  ni_domain_name :: cstring
  ni_primary_dns :: cstring
  ni_secondary_dns :: cstring

fun gateway_loop :: "(u8 list \<Rightarrow> int + cstring) \<Rightarrow> sysm_net_route list \<Rightarrow> sysm_net_info \<Rightarrow> sysm_net_info" where
  "gateway_loop ntop [] netinfo = netinfo"
| "gateway_loop ntop (r # rs) netinfo =
     (if nr_flags r AND SYSM_RTF_GATEWAY \<noteq> 0 \<and> addr_in (nr_destination r) = 0
      then netinfo\<lparr>ni_default_gateway := snd (sysm_net_address_to_string ntop (nr_gateway r)),
             ni_default_gateway_interface := take MAX_INTERFACE_NAME_LEN (nr_ifname r)\<rparr>
      else gateway_loop ntop rs netinfo)"

definition sysm_get_default_gateway ::
  "files \<Rightarrow> (u8 list \<Rightarrow> int + cstring) \<Rightarrow> sysm_net_route \<Rightarrow> sysm_net_info \<Rightarrow> (sysm_net_info \<times> int) option" where
  "sysm_get_default_gateway fs ntop r0 netinfo = do {
     res \<leftarrow> sysm_net_route_list_get fs r0;
     (case res of
        Inl status \<Rightarrow> Some (netinfo, status)
      | Inr l \<Rightarrow> Some (gateway_loop ntop (dl_contents l) netinfo, SYSM_OK)) }"

text \<open>
  The name server of a line, without the line's last character (the newline). On an empty rest
  the store goes to the character before it, which belongs to the buffer too.
\<close>

definition nameserver_of :: "cstring \<Rightarrow> cstring option" where
  "nameserver_of buffer =
     (let ptr = SYSM_SKIP_SPACE buffer
      in if deref ptr = CHR ''#'' then None
         else case strstr ptr ''nameserver'' of
                None \<Rightarrow> None
              | Some ptr \<Rightarrow> Some (butlast (SYSM_SKIP_SPACE (drop 10 ptr))))"

text \<open>\<open>strcpy\<close> into an array of the structure: \<open>None\<close> when the string does not fit.\<close>

definition strcpy_fits :: "nat \<Rightarrow> cstring \<Rightarrow> cstring option" where
  "strcpy_fits n s = (if length s < n then Some s else None)"

fun dns_loop :: "char list list \<Rightarrow> sysm_net_info \<Rightarrow> sysm_net_info option" where
  "dns_loop [] net_info = Some net_info"
| "dns_loop (b # bs) net_info =
     (case nameserver_of (cstr b) of
        None \<Rightarrow> dns_loop bs net_info
      | Some ptr \<Rightarrow>
          if ni_primary_dns net_info = [] then do {
            d \<leftarrow> strcpy_fits SYSM_INET6_ADDRSTRLEN ptr;
            dns_loop bs (net_info\<lparr>ni_primary_dns := d\<rparr>) }
          else if ni_secondary_dns net_info = [] then do {
            d \<leftarrow> strcpy_fits SYSM_INET6_ADDRSTRLEN ptr;
            dns_loop bs (net_info\<lparr>ni_secondary_dns := d\<rparr>) }
          else Some net_info)"

text \<open>\<open>gethostname\<close> and \<open>getdomainname\<close> give the string they store, or fail.\<close>

definition host_string :: "nat \<Rightarrow> cstring option \<Rightarrow> cstring" where
  "host_string n r = (case r of Some s \<Rightarrow> take (n - 1) s | None \<Rightarrow> [])"

definition zero_net_info :: sysm_net_info where
  "zero_net_info = \<lparr>ni_default_gateway = [], ni_default_gateway_interface = [], ni_host_name = [],
     ni_domain_name = [], ni_primary_dns = [], ni_secondary_dns = []\<rparr>"

definition sysm_net_info_get ::
  "files \<Rightarrow> cstring option \<Rightarrow> cstring option \<Rightarrow> (u8 list \<Rightarrow> int + cstring) \<Rightarrow> sysm_net_route
     \<Rightarrow> (sysm_net_info \<times> int) option" where
  "sysm_net_info_get fs host domain ntop r0 = do {
     net_info \<leftarrow> (case stream_of (fs ''/etc/resolv.conf'') of
                  Inl _ \<Rightarrow> Some zero_net_info
                | Inr st \<Rightarrow> dns_loop (fgets_lines BUFSIZ st) zero_net_info);
     let net_info = net_info\<lparr>ni_host_name := host_string SYSM_MAXHOSTNAMELEN host,
                             ni_domain_name := host_string SYSM_MAXDOMAINNAMELEN domain\<rparr>;
     (net_info, _) \<leftarrow> sysm_get_default_gateway fs ntop r0 net_info;
     Some (net_info, SYSM_OK) }"

section \<open>The list of interfaces\<close>

text \<open>
  \<open>ioctl(SIOCGIFCONF)\<close> is given the length of the buffer and gives an error or the names of the
  interfaces it stored, one \<open>struct ifreq\<close> each.
\<close>

type_synonym gifconf = "int \<Rightarrow> int + cstring list"

definition SIZEOF_IFREQ :: int where "SIZEOF_IFREQ = 40"

text \<open>
  The loop that grows the buffer of the handle. It may not end, which is \<open>None\<close>; so is the use
  of a buffer that was freed. After the error \<open>EINVAL\<close> the length is what was passed in, so
  neither \<open>break\<close> is reached.
\<close>

partial_function (option) ifconf_loop ::
  "gifconf \<Rightarrow> sysm \<Rightarrow> int \<Rightarrow> (sysm \<times> (int + cstring list)) option" where
  "ifconf_loop gifconf s lastlen =
     (if ifconf_buf s = Dangling then None
      else
        let len = (if ifconf_buf s = Null \<or> lastlen \<noteq> 0
                   then ifconf_len s + SIZEOF_IFREQ * int SYSM_NET_IFLIST_MAX else ifconf_len s);
            s = s\<lparr>ifconf_len := len, ifconf_buf := Live (nat len)\<rparr>
        in case gifconf len of
             Inl errno \<Rightarrow>
               if errno \<noteq> EINVAL \<or> lastlen = len
               then Some (s\<lparr>ifconf_buf := Dangling\<rparr>, Inl errno)
               else ifconf_loop gifconf s len
           | Inr names \<Rightarrow>
               let ifc_len = SIZEOF_IFREQ * int (length names)
               in if ifc_len < len then Some (s, Inr names)
                  else if ifc_len \<noteq> lastlen then ifconf_loop gifconf s ifc_len
                  else Some (s, Inr names))"

definition NET_DEV :: cstring where "NET_DEV = PROC_FS_ROOT @ ''net/dev''"

text \<open>A line of \<open>/proc/net/dev\<close>: the name of the interface, and what follows the colon.\<close>

definition dev_line :: "cstring \<Rightarrow> (cstring \<times> cstring) option" where
  "dev_line buffer =
     (let dev = SYSM_SKIP_SPACE buffer
      in case strchr dev (CHR '':'') of
           None \<Rightarrow> None
         | Some ptr \<Rightarrow> Some (takeWhile (\<lambda>c. c \<noteq> CHR '':'') dev, tl ptr))"

definition has_interface :: "cstring dynlist \<Rightarrow> cstring \<Rightarrow> bool" where
  "has_interface iflist name = list_ex (\<lambda>d. d = Some name) (take (dl_number iflist) (dl_data iflist))"

fun proc_dev_loop :: "char list list \<Rightarrow> cstring dynlist \<Rightarrow> cstring dynlist option" where
  "proc_dev_loop [] iflist = Some iflist"
| "proc_dev_loop (b # bs) iflist =
     (case dev_line (cstr b) of
        None \<Rightarrow> proc_dev_loop bs iflist
      | Some (dev, _) \<Rightarrow>
          if has_interface iflist dev then proc_dev_loop bs iflist
          else do {
            iflist \<leftarrow> dl_append dev (SYSM_NET_IFLIST_GROW iflist);
            proc_dev_loop bs iflist })"

definition proc_net_interface_list_get :: "files \<Rightarrow> cstring dynlist \<Rightarrow> (cstring dynlist \<times> int) option" where
  "proc_net_interface_list_get fs iflist =
     (case stream_of (fs NET_DEV) of
        Inl errno \<Rightarrow> Some (iflist, errno)
      | Inr st \<Rightarrow> map_option (\<lambda>l. (l, SYSM_OK)) (proc_dev_loop (drop 2 (fgets_lines BUFSIZ st)) iflist))"

text \<open>
  \<open>sock\<close> is what \<open>socket\<close> gives. The array is allocated with the number of bytes as its number
  of cells.
\<close>

definition sysm_net_interface_list_get ::
  "files \<Rightarrow> int + nat \<Rightarrow> gifconf \<Rightarrow> sysm \<Rightarrow> (sysm \<times> (int + cstring dynlist)) option" where
  "sysm_net_interface_list_get fs sock gifconf s =
     (case sock of
        Inl errno \<Rightarrow> Some (s, Inl errno)
      | Inr _ \<Rightarrow> do {
          (s, res) \<leftarrow> ifconf_loop gifconf s 0;
          (case res of
             Inl errno \<Rightarrow> Some (s, Inl errno)
           | Inr names \<Rightarrow> do {
               let ifc_len = nat (SIZEOF_IFREQ * int (length names));
               iflist \<leftarrow> dl_fill (\<lambda>l. l) names
                 \<lparr>dl_number = 0, dl_size = ifc_len, dl_data = cells_malloc ifc_len\<rparr>;
               (iflist, _) \<leftarrow> proc_net_interface_list_get fs iflist;
               Some (s, Inr iflist) }) })"

end
