(* ===== verification/Netcfg.thy ===== *)
theory Netcfg
  imports Interfaces
begin

text \<open>
  The configuration and the counters of one network interface (\<^verbatim>\<open>sysm.c\<close>), the choice of the
  primary interface, and the list of logged-in users. The answers of the \<open>ioctl\<close> requests for
  an interface and the records of the file of users are arguments.
\<close>

section \<open>Configuration\<close>

definition SYSM_IFF_LOOPBACK :: u64 where "SYSM_IFF_LOOPBACK = 0x8"
definition SYSM_IFF_MULTICAST :: u64 where "SYSM_IFF_MULTICAST = 0x800"
definition SYSM_IFF_SLAVE :: u64 where "SYSM_IFF_SLAVE = 0x1000"
definition SYSM_IFF_MASTER :: u64 where "SYSM_IFF_MASTER = 0x2000"
definition SYSM_IFF_DYNAMIC :: u64 where "SYSM_IFF_DYNAMIC = 0x4000"

text \<open>The flags of the kernel.\<close>

definition IFF_LOOPBACK :: u64 where "IFF_LOOPBACK = 0x8"
definition IFF_MASTER :: u64 where "IFF_MASTER = 0x400"
definition IFF_SLAVE :: u64 where "IFF_SLAVE = 0x800"
definition IFF_MULTICAST :: u64 where "IFF_MULTICAST = 0x1000"
definition IFF_DYNAMIC :: u64 where "IFF_DYNAMIC = 0x8000"

record sysm_net_interface_config =
  ic_name :: cstring
  ic_type :: cstring
  ic_description :: cstring
  ic_hwaddr :: sysm_net_address
  ic_address :: sysm_net_address
  ic_destination :: sysm_net_address
  ic_broadcast :: sysm_net_address
  ic_netmask :: sysm_net_address
  ic_address6 :: sysm_net_address
  ic_prefix6_length :: int
  ic_scope6 :: int
  ic_flags :: u64
  ic_mtu :: u64
  ic_metric :: u64
  ic_tx_queue_len :: int

definition zero_address :: sysm_net_address where
  "zero_address = \<lparr>family = SYSM_AF_UNSPEC, addr = replicate 16 0\<rparr>"

definition zero_config :: sysm_net_interface_config where
  "zero_config = \<lparr>ic_name = [], ic_type = [], ic_description = [], ic_hwaddr = zero_address,
     ic_address = zero_address, ic_destination = zero_address, ic_broadcast = zero_address,
     ic_netmask = zero_address, ic_address6 = zero_address, ic_prefix6_length = 0, ic_scope6 = 0,
     ic_flags = 0, ic_mtu = 0, ic_metric = 0, ic_tx_queue_len = 0\<rparr>"

text \<open>What \<open>ioctl\<close> answers for an interface, request by request; \<open>None\<close> is a failure.\<close>

record nic_ioctl =
  gifaddr :: "u32 option"
  gifnetmask :: "u32 option"
  gifflags :: "int + u16"
  gifdstaddr :: "u32 option"
  gifbrdaddr :: "u32 option"
  gifhwaddr :: "(nat \<times> u8 list) option"
  gifmtu :: "i32 option"
  gifmetric :: "i32 option"
  giftxqlen :: "i32 option"

text \<open>The hardware types of \<^verbatim>\<open>net/if_arp.h\<close> and their names.\<close>

definition SYSM_NIC_LOOPBACK :: cstring where "SYSM_NIC_LOOPBACK = ''Local Loopback''"
definition SYSM_NIC_UNSPEC :: cstring where "SYSM_NIC_UNSPEC = ''UNSPEC''"
definition SYSM_NIC_SLIP :: cstring where "SYSM_NIC_SLIP = ''Serial Line IP''"
definition SYSM_NIC_CSLIP :: cstring where "SYSM_NIC_CSLIP = ''VJ Serial Line IP''"
definition SYSM_NIC_SLIP6 :: cstring where "SYSM_NIC_SLIP6 = ''6-bit Serial Line IP''"
definition SYSM_NIC_CSLIP6 :: cstring where "SYSM_NIC_CSLIP6 = ''VJ 6-bit Serial Line IP''"
definition SYSM_NIC_ADAPTIVE :: cstring where "SYSM_NIC_ADAPTIVE = ''Adaptive Serial Line IP''"
definition SYSM_NIC_ETHERNET :: cstring where "SYSM_NIC_ETHERNET = ''Ethernet''"
definition SYSM_NIC_ASH :: cstring where "SYSM_NIC_ASH = ''Ash''"
definition SYSM_NIC_FDDI :: cstring where "SYSM_NIC_FDDI = ''Fiber Distributed Data Interface''"
definition SYSM_NIC_HIPPI :: cstring where "SYSM_NIC_HIPPI = ''HIPPI''"
definition SYSM_NIC_AX25 :: cstring where "SYSM_NIC_AX25 = ''AMPR AX.25''"
definition SYSM_NIC_ROSE :: cstring where "SYSM_NIC_ROSE = ''AMPR ROSE''"
definition SYSM_NIC_NETROM :: cstring where "SYSM_NIC_NETROM = ''AMPR NET/ROM''"
definition SYSM_NIC_X25 :: cstring where "SYSM_NIC_X25 = ''generic X.25''"
definition SYSM_NIC_TUNNEL :: cstring where "SYSM_NIC_TUNNEL = ''IPIP Tunnel''"
definition SYSM_NIC_PPP :: cstring where "SYSM_NIC_PPP = ''Point-to-Point Protocol''"
definition SYSM_NIC_HDLC :: cstring where "SYSM_NIC_HDLC = ''(Cisco)-HDLC''"
definition SYSM_NIC_LAPB :: cstring where "SYSM_NIC_LAPB = ''LAPB''"
definition SYSM_NIC_ARCNET :: cstring where "SYSM_NIC_ARCNET = ''ARCnet''"
definition SYSM_NIC_DLCI :: cstring where "SYSM_NIC_DLCI = ''Frame Relay DLCI''"
definition SYSM_NIC_FRAD :: cstring where "SYSM_NIC_FRAD = ''Frame Relay Access Device''"
definition SYSM_NIC_SIT :: cstring where "SYSM_NIC_SIT = ''IPv6-in-IPv4''"
definition SYSM_NIC_IRDA :: cstring where "SYSM_NIC_IRDA = ''IrLAP''"
definition SYSM_NIC_EC :: cstring where "SYSM_NIC_EC = ''Econet''"

definition nic_types :: "(nat \<times> cstring) list" where
  "nic_types =
     [(256, SYSM_NIC_SLIP), (257, SYSM_NIC_CSLIP), (258, SYSM_NIC_SLIP6),
      (259, SYSM_NIC_CSLIP6), (264, SYSM_NIC_ADAPTIVE), (1, SYSM_NIC_ETHERNET),
      (781, SYSM_NIC_ASH), (774, SYSM_NIC_FDDI), (780, SYSM_NIC_HIPPI),
      (3, SYSM_NIC_AX25), (270, SYSM_NIC_ROSE), (0, SYSM_NIC_NETROM), (271, SYSM_NIC_X25),
      (768, SYSM_NIC_TUNNEL), (512, SYSM_NIC_PPP), (513, SYSM_NIC_HDLC),
      (516, SYSM_NIC_LAPB), (7, SYSM_NIC_ARCNET), (15, SYSM_NIC_DLCI),
      (770, SYSM_NIC_FRAD), (776, SYSM_NIC_SIT), (783, SYSM_NIC_IRDA),
      (782, SYSM_NIC_EC)]"

definition get_interface_type :: "nat \<Rightarrow> cstring" where
  "get_interface_type arphrd =
     (case map_of nic_types arphrd of Some type \<Rightarrow> type | None \<Rightarrow> SYSM_NIC_UNSPEC)"

text \<open>\<open>ifr_flags\<close> is a \<open>short\<close>: the conversion extends its sign.\<close>

definition translate_flags :: "u16 \<Rightarrow> u64" where
  "translate_flags ifr_flags =
     (let flags0 = scast ifr_flags;
          flags = flags0 AND NOT (IFF_MULTICAST OR IFF_SLAVE OR IFF_MASTER);
          flags = (if flags0 AND IFF_MULTICAST \<noteq> 0 then flags OR SYSM_IFF_MULTICAST else flags);
          flags = (if flags0 AND IFF_SLAVE \<noteq> 0 then flags OR SYSM_IFF_SLAVE else flags);
          flags = (if flags0 AND IFF_MASTER \<noteq> 0 then flags OR SYSM_IFF_MASTER else flags);
          flags = (if flags0 AND IFF_DYNAMIC \<noteq> 0 then flags OR SYSM_IFF_DYNAMIC else flags)
      in flags)"

section \<open>The IPv6 address\<close>

definition NET_IF_INET6 :: cstring where "NET_IF_INET6 = PROC_FS_ROOT @ ''net/if_inet6''"

definition IF_INET6_FMT :: "conv list" where
  "IF_INET6_FMT = [ConvStr 32, ConvHex (Some 2), ConvHex (Some 2), ConvHex (Some 2),
     ConvHex (Some 2), ConvStr 8]"

text \<open>The local variables the conversions store into; the interface index and the flags are not used.\<close>

record inet6_vars =
  iv_addr :: cstring
  iv_prefix :: u32
  iv_scope :: u32
  iv_ifname :: cstring

definition inet6_store :: "scanned list \<Rightarrow> inet6_vars \<Rightarrow> inet6_vars" where
  "inet6_store vs v = \<lparr>iv_addr = scan_str_at 0 vs (iv_addr v), iv_prefix = scan_hex_at 2 vs (iv_prefix v),
     iv_scope = scan_hex_at 3 vs (iv_scope v), iv_ifname = scan_str_at 5 vs (iv_ifname v)\<rparr>"

lemma inet6_scan_progress:
  assumes "\<not> scan_eof s"
  shows "length (snd (scan_all IF_INET6_FMT s)) < length s"
proof -
  obtain c t where t: "SYSM_SKIP_SPACE s = c # t"
    using assms by (auto simp: scan_eof_def neq_Nil_conv)
  then have "\<not> isspace c" using hd_dropWhile [of isspace s] by (simp add: SYSM_SKIP_SPACE_def)
  with t obtain v r where r: "scan_str 32 s = (Some v, r)" by (auto simp: scan_str_def Let_def)
  then have "length r < length s" by (rule scan_str_progress)
  moreover have "length (snd (scan_all (tl IF_INET6_FMT) r)) \<le> length r" by (rule scan_all_shrinks)
  moreover have "snd (scan_all IF_INET6_FMT s) = snd (scan_all (tl IF_INET6_FMT) r)"
    by (simp add: IF_INET6_FMT_def r Let_def split: prod.splits)
  ultimately show ?thesis by simp
qed

function inet6_loop :: "cstring \<Rightarrow> char list \<Rightarrow> inet6_vars \<Rightarrow> inet6_vars \<times> int" where
  "inet6_loop name s v =
     (if scan_eof s then (v, ENOENT)
      else let v = inet6_store (fst (scan_all IF_INET6_FMT s)) v
           in if name = iv_ifname v then (v, SYSM_OK)
              else inet6_loop name (snd (scan_all IF_INET6_FMT s)) v)"
  by pat_completeness auto
termination
  by (relation "measure (\<lambda>(name, s, v). length s)") (auto simp: inet6_scan_progress)

declare inet6_loop.simps [simp del]

fun hex_bytes :: "cstring \<Rightarrow> nat \<Rightarrow> u8 list option" where
  "hex_bytes ptr 0 = Some []"
| "hex_bytes ptr (Suc n) = do {
     b \<leftarrow> hex2int ptr 2;
     bs \<leftarrow> hex_bytes (drop 2 ptr) n;
     Some (ucast b # bs) }"

definition sysm_net_interface_ipv6_config_init :: "sysm_net_interface_config \<Rightarrow> sysm_net_interface_config" where
  "sysm_net_interface_ipv6_config_init c =
     c\<lparr>ic_address6 := (ic_address6 c)\<lparr>family := SYSM_AF_INET6\<rparr>, ic_prefix6_length := 0, ic_scope6 := 0\<rparr>"

definition sysm_net_interface_ipv6_config_get ::
  "files \<Rightarrow> inet6_vars \<Rightarrow> cstring \<Rightarrow> sysm_net_interface_config \<Rightarrow> (sysm_net_interface_config \<times> int) option" where
  "sysm_net_interface_ipv6_config_get fs v0 name ifconfig =
     (case stream_of (fs NET_IF_INET6) of
        Inl errno \<Rightarrow> Some (ifconfig, errno)
      | Inr st \<Rightarrow>
          let (v, status) = inet6_loop name st v0
          in if status \<noteq> SYSM_OK then Some (ifconfig, status)
             else do {
               addr6 \<leftarrow> hex_bytes (iv_addr v) 16;
               let a = ic_address6 ifconfig;
               Some (ifconfig\<lparr>ic_address6 := a\<lparr>addr := store_bytes 0 addr6 (addr a)\<rparr>,
                 ic_prefix6_length := sint (iv_prefix v), ic_scope6 := sint (iv_scope v)\<rparr>, status) })"

section \<open>One interface\<close>

text \<open>The parts of \<open>sysm_net_interface_config_get\<close> after the flags, in its order.\<close>

definition set_when :: "('a \<Rightarrow> 'c \<Rightarrow> 'c) \<Rightarrow> 'a option \<Rightarrow> 'c \<Rightarrow> 'c" where
  "set_when f r c = (case r of None \<Rightarrow> c | Some x \<Rightarrow> f x c)"

definition config_link :: "nic_ioctl \<Rightarrow> sysm_net_interface_config \<Rightarrow> sysm_net_interface_config" where
  "config_link io c =
     (if ic_flags c AND IFF_LOOPBACK \<noteq> 0
      then c\<lparr>ic_destination := sysm_net_address_set (addr_in (ic_address c)) (ic_destination c),
             ic_broadcast := sysm_net_address_set 0 (ic_broadcast c),
             ic_hwaddr := sysm_hwaddr_set_null (ic_hwaddr c), ic_type := SYSM_NIC_LOOPBACK\<rparr>
      else
        let c = set_when (\<lambda>a c. c\<lparr>ic_destination := sysm_net_address_set a (ic_destination c)\<rparr>) (gifdstaddr io) c;
            c = set_when (\<lambda>a c. c\<lparr>ic_broadcast := sysm_net_address_set a (ic_broadcast c)\<rparr>) (gifbrdaddr io) c
        in set_when (\<lambda>(sa_family, sa_data) c. c\<lparr>ic_type := get_interface_type sa_family,
             ic_hwaddr := sysm_net_address_mac_set (take 6 sa_data) (ic_hwaddr c)\<rparr>) (gifhwaddr io) c)"

definition config_numbers :: "nic_ioctl \<Rightarrow> sysm_net_interface_config \<Rightarrow> sysm_net_interface_config" where
  "config_numbers io c =
     (let c = c\<lparr>ic_mtu := (case gifmtu io of Some mtu \<Rightarrow> scast mtu | None \<Rightarrow> 0)\<rparr>;
          c = set_when (\<lambda>m c. c\<lparr>ic_metric := if m \<noteq> 0 then scast m else 1\<rparr>) (gifmetric io) c
      in c\<lparr>ic_tx_queue_len := (case giftxqlen io of Some q \<Rightarrow> sint q | None \<Rightarrow> - 1)\<rparr>)"

text \<open>
  A named interface. The name is copied into the structure and into \<open>ifr_name\<close>, an array of 16
  characters (\<open>None\<close> when it does not fit).
\<close>

definition IFNAMSIZ :: nat where "IFNAMSIZ = 16"

definition named_config_get ::
  "files \<Rightarrow> int + nat \<Rightarrow> (cstring \<Rightarrow> nic_ioctl) \<Rightarrow> inet6_vars \<Rightarrow> cstring
     \<Rightarrow> (sysm_net_interface_config \<times> int) option" where
  "named_config_get fs sock nics v0 name =
     (let io = nics name; c = zero_config
      in case sock of
           Inl errno \<Rightarrow> Some (c, errno)
         | Inr _ \<Rightarrow> do {
             name \<leftarrow> strcpy_fits MAX_INTERFACE_NAME_LEN name;
             name \<leftarrow> strcpy_fits IFNAMSIZ name;
             let c = c\<lparr>ic_name := name\<rparr>;
             let c = set_when (\<lambda>a c. c\<lparr>ic_address := sysm_net_address_set a (ic_address c)\<rparr>) (gifaddr io) c;
             let c = set_when (\<lambda>a c. c\<lparr>ic_netmask := sysm_net_address_set a (ic_netmask c)\<rparr>) (gifnetmask io) c;
             (case gifflags io of
                Inl errno \<Rightarrow> Some (c, errno)
              | Inr flags \<Rightarrow> do {
                  let c = c\<lparr>ic_flags := translate_flags flags\<rparr>;
                  let c = config_numbers io (config_link io c);
                  let c = c\<lparr>ic_description := ic_name c\<rparr>;
                  (c, _) \<leftarrow> sysm_net_interface_ipv6_config_get fs v0 name
                     (sysm_net_interface_ipv6_config_init c);
                  Some (c, SYSM_OK) }) })"

section \<open>The primary interface\<close>

text \<open>
  The loop over the interfaces: whether one was found, \<open>possible_config\<close>, and what the caller's
  structure holds.
\<close>

fun primary_loop ::
  "(cstring \<Rightarrow> (sysm_net_interface_config \<times> int) option) \<Rightarrow> cstring list \<Rightarrow> sysm_net_interface_config
     \<Rightarrow> sysm_net_interface_config \<Rightarrow> (bool \<times> sysm_net_interface_config \<times> sysm_net_interface_config) option" where
  "primary_loop get [] possible ifconfig = Some (False, possible, ifconfig)"
| "primary_loop get (name # names) possible ifconfig = do {
     (ifconfig, status) \<leftarrow> get name;
     if status \<noteq> SYSM_OK \<or> ic_flags ifconfig AND SYSM_IFF_LOOPBACK \<noteq> 0 \<or> addr_in (ic_hwaddr ifconfig) = 0
     then primary_loop get names possible ifconfig
     else
       let possible = (if ic_flags possible = 0 then ifconfig else possible)
       in if addr_in (ic_address ifconfig) = 0 then primary_loop get names possible ifconfig
          else if strchr name (CHR '':'') \<noteq> None then primary_loop get names possible ifconfig
          else Some (True, possible, ifconfig) }"

definition sysm_net_interface_config_primary_get ::
  "files \<Rightarrow> int + nat \<Rightarrow> gifconf \<Rightarrow> (cstring \<Rightarrow> nic_ioctl) \<Rightarrow> inet6_vars \<Rightarrow> sysm_net_interface_config
     \<Rightarrow> sysm_net_interface_config \<Rightarrow> sysm \<Rightarrow> (sysm \<times> sysm_net_interface_config \<times> int) option" where
  "sysm_net_interface_config_primary_get fs sock gifconf nics v0 possible0 ifconfig s = do {
     (s, res) \<leftarrow> sysm_net_interface_list_get fs sock gifconf s;
     (case res of
        Inl status \<Rightarrow> Some (s, ifconfig, status)
      | Inr iflist \<Rightarrow> do {
          (found, possible, ifconfig) \<leftarrow> primary_loop (named_config_get fs sock nics v0)
             (dl_contents iflist) (possible0\<lparr>ic_flags := 0\<rparr>) ifconfig;
          Some (if found then (s, ifconfig, SYSM_OK)
                else if ic_flags possible \<noteq> 0 then (s, possible, SYSM_OK)
                else (s, ifconfig, ENXIO)) }) }"

definition sysm_net_interface_config_get ::
  "files \<Rightarrow> int + nat \<Rightarrow> gifconf \<Rightarrow> (cstring \<Rightarrow> nic_ioctl) \<Rightarrow> inet6_vars \<Rightarrow> sysm_net_interface_config
     \<Rightarrow> cstring option \<Rightarrow> sysm_net_interface_config \<Rightarrow> sysm
     \<Rightarrow> (sysm \<times> sysm_net_interface_config \<times> int) option" where
  "sysm_net_interface_config_get fs sock gifconf nics v0 possible0 name ifconfig s =
     (case name of
        None \<Rightarrow> sysm_net_interface_config_primary_get fs sock gifconf nics v0 possible0 ifconfig s
      | Some name \<Rightarrow> map_option (\<lambda>(c, status). (s, c, status)) (named_config_get fs sock nics v0 name))"

section \<open>The counters of an interface\<close>

record sysm_net_interface_stat =
  is_rx_packets :: u64
  is_rx_bytes :: u64
  is_rx_errors :: u64
  is_rx_dropped :: u64
  is_rx_overruns :: u64
  is_rx_frame :: u64
  is_tx_packets :: u64
  is_tx_bytes :: u64
  is_tx_errors :: u64
  is_tx_dropped :: u64
  is_tx_overruns :: u64
  is_tx_collisions :: u64
  is_tx_carrier :: u64
  is_speed :: u64

definition stat_fields :: "cstring \<Rightarrow> sysm_net_interface_stat" where
  "stat_fields ptr =
     (let (rx_bytes, ptr) = strtoull 10 ptr;
          (rx_packets, ptr) = strtoull 10 ptr;
          (rx_errors, ptr) = strtoull 10 ptr;
          (rx_dropped, ptr) = strtoull 10 ptr;
          (rx_overruns, ptr) = strtoull 10 ptr;
          (rx_frame, ptr) = strtoull 10 ptr;
          ptr = sysm_skip_multiple_token ptr 2;
          (tx_bytes, ptr) = strtoull 10 ptr;
          (tx_packets, ptr) = strtoull 10 ptr;
          (tx_errors, ptr) = strtoull 10 ptr;
          (tx_dropped, ptr) = strtoull 10 ptr;
          (tx_overruns, ptr) = strtoull 10 ptr;
          (tx_collisions, ptr) = strtoull 10 ptr;
          (tx_carrier, ptr) = strtoull 10 ptr
      in \<lparr>is_rx_packets = rx_packets, is_rx_bytes = rx_bytes, is_rx_errors = rx_errors,
          is_rx_dropped = rx_dropped, is_rx_overruns = rx_overruns, is_rx_frame = rx_frame,
          is_tx_packets = tx_packets, is_tx_bytes = tx_bytes, is_tx_errors = tx_errors,
          is_tx_dropped = tx_dropped, is_tx_overruns = tx_overruns, is_tx_collisions = tx_collisions,
          is_tx_carrier = tx_carrier, is_speed = - 1\<rparr>)"

fun interface_stat_loop :: "cstring \<Rightarrow> char list list \<Rightarrow> sysm_net_interface_stat \<Rightarrow> sysm_net_interface_stat \<times> int" where
  "interface_stat_loop name [] ifstat = (ifstat, ENXIO)"
| "interface_stat_loop name (b # bs) ifstat =
     (case dev_line (cstr b) of
        None \<Rightarrow> interface_stat_loop name bs ifstat
      | Some (dev, ptr) \<Rightarrow>
          if dev \<noteq> name then interface_stat_loop name bs ifstat
          else (stat_fields ptr, SYSM_OK))"

definition sysm_net_interface_stat_get ::
  "files \<Rightarrow> cstring \<Rightarrow> sysm_net_interface_stat \<Rightarrow> sysm_net_interface_stat \<times> int" where
  "sysm_net_interface_stat_get fs name ifstat =
     (case stream_of (fs NET_DEV) of
        Inl errno \<Rightarrow> (ifstat, errno)
      | Inr st \<Rightarrow> interface_stat_loop name (drop 2 (fgets_lines BUFSIZ st)) ifstat)"

section \<open>Logged-in users\<close>

text \<open>
  A record of the file of users: its arrays need not hold a NUL. Copying one that does not runs
  over both arrays (\<open>None\<close>).
\<close>

record utmp =
  ut_type :: int
  ut_user :: "char list"
  ut_line :: "char list"
  ut_host :: "char list"
  ut_time :: i32

record sysm_who =
  wh_user :: cstring
  wh_device :: cstring
  wh_host :: cstring
  wh_time :: u64

definition USER_PROCESS :: int where "USER_PROCESS = 7"

definition WHOCPY :: "char list \<Rightarrow> cstring option" where
  "WHOCPY src = (if NUL \<in> set src then Some (cstr src) else None)"

fun who_loop :: "utmp list \<Rightarrow> sysm_who dynlist \<Rightarrow> sysm_who dynlist option" where
  "who_loop [] who_list = Some who_list"
| "who_loop (ut # uts) who_list =
     (if deref (cstr (ut_user ut)) = NUL then who_loop uts who_list
      else if ut_type ut \<noteq> USER_PROCESS then who_loop uts who_list
      else do {
        user \<leftarrow> WHOCPY (ut_user ut);
        device \<leftarrow> WHOCPY (ut_line ut);
        host \<leftarrow> WHOCPY (ut_host ut);
        who_list \<leftarrow> dl_append \<lparr>wh_user = user, wh_device = device, wh_host = host,
           wh_time = scast (ut_time ut)\<rparr> (SYSM_WHO_LIST_GROW who_list);
        who_loop uts who_list })"

definition sysm_who_utmp :: "int + utmp list \<Rightarrow> sysm_who dynlist \<Rightarrow> (sysm_who dynlist \<times> int) option" where
  "sysm_who_utmp utmp_file who_list =
     (case utmp_file of
        Inl errno \<Rightarrow> Some (who_list, errno)
      | Inr uts \<Rightarrow> map_option (\<lambda>l. (l, SYSM_OK)) (who_loop uts who_list))"

definition sysm_who_list_get :: "int + utmp list \<Rightarrow> (sysm_who dynlist \<times> int) option" where
  "sysm_who_list_get utmp_file = do {
     (l, status) \<leftarrow> sysm_who_utmp utmp_file sysm_who_list_create;
     Some (if status \<noteq> SYSM_OK then sysm_who_list_destroy l else l, status) }"

end
