(* ===== verification/Bean_Tables.thy ===== *)
theory Bean_Tables
  imports Jvm Cpu Memory Proc Disk_Usage Netcfg Connections
begin

text \<open>
  The tables of the beans in \<^verbatim>\<open>javasysm.h\<close>: the numbers of the slots and of the fields, what
  the macros \<^verbatim>\<open>JAVA_SYSM_INIT_FIELDS_*\<close> look up (an index, a name and a signature for every
  field) and the calls the macros \<^verbatim>\<open>JAVA_SYSM_SET_FIELDS_*\<close> make with the values of the C
  structure. The macros differ in these tables only; the code they share is in the theory of the
  binding.
\<close>

section \<open>Slots and indices\<close>

named_theorems jsysm_index \<open>the numbers of slots and fields\<close>

definition JSYSM_FIELDS_MAX :: nat where [jsysm_index]: "JSYSM_FIELDS_MAX = 40"

definition JSYSM_FIELDS_MEMORY :: nat where [jsysm_index]: "JSYSM_FIELDS_MEMORY = 0"
definition JSYSM_FIELDS_MEMORY_TOTAL :: nat where [jsysm_index]: "JSYSM_FIELDS_MEMORY_TOTAL = 0"
definition JSYSM_FIELDS_MEMORY_MTRR :: nat where [jsysm_index]: "JSYSM_FIELDS_MEMORY_MTRR = 1"
definition JSYSM_FIELDS_USED :: nat where [jsysm_index]: "JSYSM_FIELDS_USED = 2"
definition JSYSM_FIELDS_FREE :: nat where [jsysm_index]: "JSYSM_FIELDS_FREE = 3"
definition JSYSM_FIELDS_ACTUAL_USED :: nat where [jsysm_index]: "JSYSM_FIELDS_ACTUAL_USED = 4"
definition JSYSM_FIELDS_ACTUAL_FREE :: nat where [jsysm_index]: "JSYSM_FIELDS_ACTUAL_FREE = 5"
definition JSYSM_FIELDS_USED_PERCENT :: nat where [jsysm_index]: "JSYSM_FIELDS_USED_PERCENT = 6"
definition JSYSM_FIELDS_FREE_PERCENT :: nat where [jsysm_index]: "JSYSM_FIELDS_FREE_PERCENT = 7"
definition JSYSM_FIELDS_MEMORY_MAX :: nat where [jsysm_index]: "JSYSM_FIELDS_MEMORY_MAX = 8"
definition JSYSM_FIELDS_SWAP :: nat where [jsysm_index]: "JSYSM_FIELDS_SWAP = 1"
definition JSYSM_FIELDS_SWAP_TOTAL :: nat where [jsysm_index]: "JSYSM_FIELDS_SWAP_TOTAL = 0"
definition JSYSM_FIELDS_SWAP_USED :: nat where [jsysm_index]: "JSYSM_FIELDS_SWAP_USED = 1"
definition JSYSM_FIELDS_SWAP_FREE :: nat where [jsysm_index]: "JSYSM_FIELDS_SWAP_FREE = 2"
definition JSYSM_FIELDS_SWAP_PAGE_IN :: nat where [jsysm_index]: "JSYSM_FIELDS_SWAP_PAGE_IN = 3"
definition JSYSM_FIELDS_SWAP_PAGE_OUT :: nat where [jsysm_index]: "JSYSM_FIELDS_SWAP_PAGE_OUT = 4"
definition JSYSM_FIELDS_SWAP_MAX :: nat where [jsysm_index]: "JSYSM_FIELDS_SWAP_MAX = 5"
definition JSYSM_FIELDS_CPU :: nat where [jsysm_index]: "JSYSM_FIELDS_CPU = 2"
definition JSYSM_FIELDS_CPU_USER :: nat where [jsysm_index]: "JSYSM_FIELDS_CPU_USER = 0"
definition JSYSM_FIELDS_CPU_SYS :: nat where [jsysm_index]: "JSYSM_FIELDS_CPU_SYS = 1"
definition JSYSM_FIELDS_CPU_NICE :: nat where [jsysm_index]: "JSYSM_FIELDS_CPU_NICE = 2"
definition JSYSM_FIELDS_CPU_IDLE :: nat where [jsysm_index]: "JSYSM_FIELDS_CPU_IDLE = 3"
definition JSYSM_FIELDS_CPU_WAIT :: nat where [jsysm_index]: "JSYSM_FIELDS_CPU_WAIT = 4"
definition JSYSM_FIELDS_CPU_HI :: nat where [jsysm_index]: "JSYSM_FIELDS_CPU_HI = 5"
definition JSYSM_FIELDS_CPU_SI :: nat where [jsysm_index]: "JSYSM_FIELDS_CPU_SI = 6"
definition JSYSM_FIELDS_CPU_STEAL :: nat where [jsysm_index]: "JSYSM_FIELDS_CPU_STEAL = 7"
definition JSYSM_FIELDS_CPU_TOTAL :: nat where [jsysm_index]: "JSYSM_FIELDS_CPU_TOTAL = 8"
definition JSYSM_FIELDS_CPU_MAX :: nat where [jsysm_index]: "JSYSM_FIELDS_CPU_MAX = 9"
definition JSYSM_FIELDS_CPUINFO :: nat where [jsysm_index]: "JSYSM_FIELDS_CPUINFO = 3"
definition JSYSM_FIELDS_CPUINFO_VENDOR :: nat where [jsysm_index]: "JSYSM_FIELDS_CPUINFO_VENDOR = 0"
definition JSYSM_FIELDS_CPUINFO_MODEL :: nat where [jsysm_index]: "JSYSM_FIELDS_CPUINFO_MODEL = 1"
definition JSYSM_FIELDS_CPUINFO_MHZ :: nat where [jsysm_index]: "JSYSM_FIELDS_CPUINFO_MHZ = 2"
definition JSYSM_FIELDS_CPUINFO_MHZ_MAX :: nat where [jsysm_index]: "JSYSM_FIELDS_CPUINFO_MHZ_MAX = 3"
definition JSYSM_FIELDS_CPUINFO_MHZ_MIN :: nat where [jsysm_index]: "JSYSM_FIELDS_CPUINFO_MHZ_MIN = 4"
definition JSYSM_FIELDS_CPUINFO_CACHE_SIZE :: nat where [jsysm_index]: "JSYSM_FIELDS_CPUINFO_CACHE_SIZE = 5"
definition JSYSM_FIELDS_CPUINFO_TOTAL_CORES :: nat where [jsysm_index]: "JSYSM_FIELDS_CPUINFO_TOTAL_CORES = 6"
definition JSYSM_FIELDS_CPUINFO_TOTAL_SOCKETS :: nat where [jsysm_index]: "JSYSM_FIELDS_CPUINFO_TOTAL_SOCKETS = 7"
definition JSYSM_FIELDS_CPUINFO_CORES_PER_SOCKET :: nat where [jsysm_index]: "JSYSM_FIELDS_CPUINFO_CORES_PER_SOCKET = 8"
definition JSYSM_FIELDS_CPUINFO_MAX :: nat where [jsysm_index]: "JSYSM_FIELDS_CPUINFO_MAX = 9"
definition JSYSM_FIELDS_CPUPERCENTAGE :: nat where [jsysm_index]: "JSYSM_FIELDS_CPUPERCENTAGE = 4"
definition JSYSM_FIELDS_CPUPERCENTAGE_USER :: nat where [jsysm_index]: "JSYSM_FIELDS_CPUPERCENTAGE_USER = 0"
definition JSYSM_FIELDS_CPUPERCENTAGE_SYS :: nat where [jsysm_index]: "JSYSM_FIELDS_CPUPERCENTAGE_SYS = 1"
definition JSYSM_FIELDS_CPUPERCENTAGE_NICE :: nat where [jsysm_index]: "JSYSM_FIELDS_CPUPERCENTAGE_NICE = 2"
definition JSYSM_FIELDS_CPUPERCENTAGE_IDLE :: nat where [jsysm_index]: "JSYSM_FIELDS_CPUPERCENTAGE_IDLE = 3"
definition JSYSM_FIELDS_CPUPERCENTAGE_WAIT :: nat where [jsysm_index]: "JSYSM_FIELDS_CPUPERCENTAGE_WAIT = 4"
definition JSYSM_FIELDS_CPUPERCENTAGE_HI :: nat where [jsysm_index]: "JSYSM_FIELDS_CPUPERCENTAGE_HI = 5"
definition JSYSM_FIELDS_CPUPERCENTAGE_SI :: nat where [jsysm_index]: "JSYSM_FIELDS_CPUPERCENTAGE_SI = 6"
definition JSYSM_FIELDS_CPUPERCENTAGE_STEAL :: nat where [jsysm_index]: "JSYSM_FIELDS_CPUPERCENTAGE_STEAL = 7"
definition JSYSM_FIELDS_CPUPERCENTAGE_COMBINED :: nat where [jsysm_index]: "JSYSM_FIELDS_CPUPERCENTAGE_COMBINED = 8"
definition JSYSM_FIELDS_CPUPERCENTAGE_MAX :: nat where [jsysm_index]: "JSYSM_FIELDS_CPUPERCENTAGE_MAX = 9"
definition JSYSM_FIELDS_UPTIME :: nat where [jsysm_index]: "JSYSM_FIELDS_UPTIME = 5"
definition JSYSM_FIELDS_UPTIME_UPTIME :: nat where [jsysm_index]: "JSYSM_FIELDS_UPTIME_UPTIME = 0"
definition JSYSM_FIELDS_UPTIME_MAX :: nat where [jsysm_index]: "JSYSM_FIELDS_UPTIME_MAX = 1"
definition JSYSM_FIELDS_PROCCPU :: nat where [jsysm_index]: "JSYSM_FIELDS_PROCCPU = 6"
definition JSYSM_FIELDS_PROCCPU_PERCENT :: nat where [jsysm_index]: "JSYSM_FIELDS_PROCCPU_PERCENT = 0"
definition JSYSM_FIELDS_PROCCPU_LAST_TIME :: nat where [jsysm_index]: "JSYSM_FIELDS_PROCCPU_LAST_TIME = 1"
definition JSYSM_FIELDS_PROCCPU_START_TIME :: nat where [jsysm_index]: "JSYSM_FIELDS_PROCCPU_START_TIME = 2"
definition JSYSM_FIELDS_PROCCPU_USER :: nat where [jsysm_index]: "JSYSM_FIELDS_PROCCPU_USER = 3"
definition JSYSM_FIELDS_PROCCPU_SYS :: nat where [jsysm_index]: "JSYSM_FIELDS_PROCCPU_SYS = 4"
definition JSYSM_FIELDS_PROCCPU_TOTAL :: nat where [jsysm_index]: "JSYSM_FIELDS_PROCCPU_TOTAL = 5"
definition JSYSM_FIELDS_PROCCPU_MAX :: nat where [jsysm_index]: "JSYSM_FIELDS_PROCCPU_MAX = 6"
definition JSYSM_FIELDS_PROCEXE :: nat where [jsysm_index]: "JSYSM_FIELDS_PROCEXE = 7"
definition JSYSM_FIELDS_PROCEXE_NAME :: nat where [jsysm_index]: "JSYSM_FIELDS_PROCEXE_NAME = 0"
definition JSYSM_FIELDS_PROCEXE_CWD :: nat where [jsysm_index]: "JSYSM_FIELDS_PROCEXE_CWD = 1"
definition JSYSM_FIELDS_PROCEXE_MAX :: nat where [jsysm_index]: "JSYSM_FIELDS_PROCEXE_MAX = 2"
definition JSYSM_FIELDS_PROCMEM :: nat where [jsysm_index]: "JSYSM_FIELDS_PROCMEM = 8"
definition JSYSM_FIELDS_PROCMEM_SIZE :: nat where [jsysm_index]: "JSYSM_FIELDS_PROCMEM_SIZE = 0"
definition JSYSM_FIELDS_PROCMEM_RESIDENT :: nat where [jsysm_index]: "JSYSM_FIELDS_PROCMEM_RESIDENT = 1"
definition JSYSM_FIELDS_PROCMEM_SHARE :: nat where [jsysm_index]: "JSYSM_FIELDS_PROCMEM_SHARE = 2"
definition JSYSM_FIELDS_PROCMEM_MINOR_FAULTS :: nat where [jsysm_index]: "JSYSM_FIELDS_PROCMEM_MINOR_FAULTS = 3"
definition JSYSM_FIELDS_PROCMEM_MAJOR_FAULTS :: nat where [jsysm_index]: "JSYSM_FIELDS_PROCMEM_MAJOR_FAULTS = 4"
definition JSYSM_FIELDS_PROCMEM_PAGE_FAULTS :: nat where [jsysm_index]: "JSYSM_FIELDS_PROCMEM_PAGE_FAULTS = 5"
definition JSYSM_FIELDS_PROCMEM_MAX :: nat where [jsysm_index]: "JSYSM_FIELDS_PROCMEM_MAX = 6"
definition JSYSM_FIELDS_PROCOWN :: nat where [jsysm_index]: "JSYSM_FIELDS_PROCOWN = 9"
definition JSYSM_FIELDS_PROCOWN_UID :: nat where [jsysm_index]: "JSYSM_FIELDS_PROCOWN_UID = 0"
definition JSYSM_FIELDS_PROCOWN_GID :: nat where [jsysm_index]: "JSYSM_FIELDS_PROCOWN_GID = 1"
definition JSYSM_FIELDS_PROCOWN_EUID :: nat where [jsysm_index]: "JSYSM_FIELDS_PROCOWN_EUID = 2"
definition JSYSM_FIELDS_PROCOWN_EGID :: nat where [jsysm_index]: "JSYSM_FIELDS_PROCOWN_EGID = 3"
definition JSYSM_FIELDS_PROCOWN_MAX :: nat where [jsysm_index]: "JSYSM_FIELDS_PROCOWN_MAX = 4"
definition JSYSM_FIELDS_PROCOWNER :: nat where [jsysm_index]: "JSYSM_FIELDS_PROCOWNER = 10"
definition JSYSM_FIELDS_PROCOWNER_USER :: nat where [jsysm_index]: "JSYSM_FIELDS_PROCOWNER_USER = 0"
definition JSYSM_FIELDS_PROCOWNER_GROUP :: nat where [jsysm_index]: "JSYSM_FIELDS_PROCOWNER_GROUP = 1"
definition JSYSM_FIELDS_PROCOWNER_MAX :: nat where [jsysm_index]: "JSYSM_FIELDS_PROCOWNER_MAX = 2"
definition JSYSM_FIELDS_PROCSTAT :: nat where [jsysm_index]: "JSYSM_FIELDS_PROCSTAT = 11"
definition JSYSM_FIELDS_PROCSTAT_TOTAL :: nat where [jsysm_index]: "JSYSM_FIELDS_PROCSTAT_TOTAL = 0"
definition JSYSM_FIELDS_PROCSTAT_IDLE :: nat where [jsysm_index]: "JSYSM_FIELDS_PROCSTAT_IDLE = 1"
definition JSYSM_FIELDS_PROCSTAT_RUNNING :: nat where [jsysm_index]: "JSYSM_FIELDS_PROCSTAT_RUNNING = 2"
definition JSYSM_FIELDS_PROCSTAT_SLEEPING :: nat where [jsysm_index]: "JSYSM_FIELDS_PROCSTAT_SLEEPING = 3"
definition JSYSM_FIELDS_PROCSTAT_STOPPED :: nat where [jsysm_index]: "JSYSM_FIELDS_PROCSTAT_STOPPED = 4"
definition JSYSM_FIELDS_PROCSTAT_ZOMBIE :: nat where [jsysm_index]: "JSYSM_FIELDS_PROCSTAT_ZOMBIE = 5"
definition JSYSM_FIELDS_PROCSTAT_THREADS :: nat where [jsysm_index]: "JSYSM_FIELDS_PROCSTAT_THREADS = 6"
definition JSYSM_FIELDS_PROCSTAT_MAX :: nat where [jsysm_index]: "JSYSM_FIELDS_PROCSTAT_MAX = 7"
definition JSYSM_FIELDS_PROCSTATE :: nat where [jsysm_index]: "JSYSM_FIELDS_PROCSTATE = 12"
definition JSYSM_FIELDS_PROCSTATE_STATE :: nat where [jsysm_index]: "JSYSM_FIELDS_PROCSTATE_STATE = 0"
definition JSYSM_FIELDS_PROCSTATE_NAME :: nat where [jsysm_index]: "JSYSM_FIELDS_PROCSTATE_NAME = 1"
definition JSYSM_FIELDS_PROCSTATE_PPID :: nat where [jsysm_index]: "JSYSM_FIELDS_PROCSTATE_PPID = 2"
definition JSYSM_FIELDS_PROCSTATE_TTY :: nat where [jsysm_index]: "JSYSM_FIELDS_PROCSTATE_TTY = 3"
definition JSYSM_FIELDS_PROCSTATE_NICE :: nat where [jsysm_index]: "JSYSM_FIELDS_PROCSTATE_NICE = 4"
definition JSYSM_FIELDS_PROCSTATE_PRIORITY :: nat where [jsysm_index]: "JSYSM_FIELDS_PROCSTATE_PRIORITY = 5"
definition JSYSM_FIELDS_PROCSTATE_THREADS :: nat where [jsysm_index]: "JSYSM_FIELDS_PROCSTATE_THREADS = 6"
definition JSYSM_FIELDS_PROCSTATE_PROCESSOR :: nat where [jsysm_index]: "JSYSM_FIELDS_PROCSTATE_PROCESSOR = 7"
definition JSYSM_FIELDS_PROCSTATE_MAX :: nat where [jsysm_index]: "JSYSM_FIELDS_PROCSTATE_MAX = 8"
definition JSYSM_FIELDS_PROCTIME :: nat where [jsysm_index]: "JSYSM_FIELDS_PROCTIME = 13"
definition JSYSM_FIELDS_PROCTIME_START_TIME :: nat where [jsysm_index]: "JSYSM_FIELDS_PROCTIME_START_TIME = 0"
definition JSYSM_FIELDS_PROCTIME_USER :: nat where [jsysm_index]: "JSYSM_FIELDS_PROCTIME_USER = 1"
definition JSYSM_FIELDS_PROCTIME_SYS :: nat where [jsysm_index]: "JSYSM_FIELDS_PROCTIME_SYS = 2"
definition JSYSM_FIELDS_PROCTIME_TOTAL :: nat where [jsysm_index]: "JSYSM_FIELDS_PROCTIME_TOTAL = 3"
definition JSYSM_FIELDS_PROCTIME_MAX :: nat where [jsysm_index]: "JSYSM_FIELDS_PROCTIME_MAX = 4"
definition JSYSM_FIELDS_RESOURCELIMIT :: nat where [jsysm_index]: "JSYSM_FIELDS_RESOURCELIMIT = 14"
definition JSYSM_FIELDS_RESOURCELIMIT_CPU_CUR :: nat where [jsysm_index]: "JSYSM_FIELDS_RESOURCELIMIT_CPU_CUR = 0"
definition JSYSM_FIELDS_RESOURCELIMIT_CPU_MAX :: nat where [jsysm_index]: "JSYSM_FIELDS_RESOURCELIMIT_CPU_MAX = 1"
definition JSYSM_FIELDS_RESOURCELIMIT_FILE_SIZE_CUR :: nat where [jsysm_index]: "JSYSM_FIELDS_RESOURCELIMIT_FILE_SIZE_CUR = 2"
definition JSYSM_FIELDS_RESOURCELIMIT_FILE_SIZE_MAX :: nat where [jsysm_index]: "JSYSM_FIELDS_RESOURCELIMIT_FILE_SIZE_MAX = 3"
definition JSYSM_FIELDS_RESOURCELIMIT_PIPE_SIZE_MAX :: nat where [jsysm_index]: "JSYSM_FIELDS_RESOURCELIMIT_PIPE_SIZE_MAX = 4"
definition JSYSM_FIELDS_RESOURCELIMIT_PIPE_SIZE_CUR :: nat where [jsysm_index]: "JSYSM_FIELDS_RESOURCELIMIT_PIPE_SIZE_CUR = 5"
definition JSYSM_FIELDS_RESOURCELIMIT_DATA_CUR :: nat where [jsysm_index]: "JSYSM_FIELDS_RESOURCELIMIT_DATA_CUR = 6"
definition JSYSM_FIELDS_RESOURCELIMIT_DATA_MAX :: nat where [jsysm_index]: "JSYSM_FIELDS_RESOURCELIMIT_DATA_MAX = 7"
definition JSYSM_FIELDS_RESOURCELIMIT_STACK_CUR :: nat where [jsysm_index]: "JSYSM_FIELDS_RESOURCELIMIT_STACK_CUR = 8"
definition JSYSM_FIELDS_RESOURCELIMIT_STACK_MAX :: nat where [jsysm_index]: "JSYSM_FIELDS_RESOURCELIMIT_STACK_MAX = 9"
definition JSYSM_FIELDS_RESOURCELIMIT_CORE_CUR :: nat where [jsysm_index]: "JSYSM_FIELDS_RESOURCELIMIT_CORE_CUR = 10"
definition JSYSM_FIELDS_RESOURCELIMIT_CORE_MAX :: nat where [jsysm_index]: "JSYSM_FIELDS_RESOURCELIMIT_CORE_MAX = 11"
definition JSYSM_FIELDS_RESOURCELIMIT_MEMORY_CUR :: nat where [jsysm_index]: "JSYSM_FIELDS_RESOURCELIMIT_MEMORY_CUR = 12"
definition JSYSM_FIELDS_RESOURCELIMIT_MEMORY_MAX :: nat where [jsysm_index]: "JSYSM_FIELDS_RESOURCELIMIT_MEMORY_MAX = 13"
definition JSYSM_FIELDS_RESOURCELIMIT_PROCESSES_CUR :: nat where [jsysm_index]: "JSYSM_FIELDS_RESOURCELIMIT_PROCESSES_CUR = 14"
definition JSYSM_FIELDS_RESOURCELIMIT_PROCESSES_MAX :: nat where [jsysm_index]: "JSYSM_FIELDS_RESOURCELIMIT_PROCESSES_MAX = 15"
definition JSYSM_FIELDS_RESOURCELIMIT_OPEN_FILES_CUR :: nat where [jsysm_index]: "JSYSM_FIELDS_RESOURCELIMIT_OPEN_FILES_CUR = 16"
definition JSYSM_FIELDS_RESOURCELIMIT_OPEN_FILES_MAX :: nat where [jsysm_index]: "JSYSM_FIELDS_RESOURCELIMIT_OPEN_FILES_MAX = 17"
definition JSYSM_FIELDS_RESOURCELIMIT_VIRTUAL_MEMORY_CUR :: nat where [jsysm_index]: "JSYSM_FIELDS_RESOURCELIMIT_VIRTUAL_MEMORY_CUR = 18"
definition JSYSM_FIELDS_RESOURCELIMIT_VIRTUAL_MEMORY_MAX :: nat where [jsysm_index]: "JSYSM_FIELDS_RESOURCELIMIT_VIRTUAL_MEMORY_MAX = 19"
definition JSYSM_FIELDS_RESOURCELIMIT_MAX :: nat where [jsysm_index]: "JSYSM_FIELDS_RESOURCELIMIT_MAX = 20"
definition JSYSM_FIELDS_DISKUSAGE :: nat where [jsysm_index]: "JSYSM_FIELDS_DISKUSAGE = 15"
definition JSYSM_FIELDS_DISKUSAGE_READS :: nat where [jsysm_index]: "JSYSM_FIELDS_DISKUSAGE_READS = 0"
definition JSYSM_FIELDS_DISKUSAGE_WRITES :: nat where [jsysm_index]: "JSYSM_FIELDS_DISKUSAGE_WRITES = 1"
definition JSYSM_FIELDS_DISKUSAGE_READ_BYTES :: nat where [jsysm_index]: "JSYSM_FIELDS_DISKUSAGE_READ_BYTES = 2"
definition JSYSM_FIELDS_DISKUSAGE_WRITE_BYTES :: nat where [jsysm_index]: "JSYSM_FIELDS_DISKUSAGE_WRITE_BYTES = 3"
definition JSYSM_FIELDS_DISKUSAGE_UTIL :: nat where [jsysm_index]: "JSYSM_FIELDS_DISKUSAGE_UTIL = 4"
definition JSYSM_FIELDS_DISKUSAGE_SERVICE_TIME :: nat where [jsysm_index]: "JSYSM_FIELDS_DISKUSAGE_SERVICE_TIME = 5"
definition JSYSM_FIELDS_DISKUSAGE_MAX :: nat where [jsysm_index]: "JSYSM_FIELDS_DISKUSAGE_MAX = 6"
definition JSYSM_FIELDS_NETSTAT :: nat where [jsysm_index]: "JSYSM_FIELDS_NETSTAT = 16"
definition JSYSM_FIELDS_NETSTAT_TCP_INBOUND_TOTAL :: nat where [jsysm_index]: "JSYSM_FIELDS_NETSTAT_TCP_INBOUND_TOTAL = 0"
definition JSYSM_FIELDS_NETSTAT_TCP_OUTBOUND_TOTAL :: nat where [jsysm_index]: "JSYSM_FIELDS_NETSTAT_TCP_OUTBOUND_TOTAL = 1"
definition JSYSM_FIELDS_NETSTAT_ALL_INBOUND_TOTAL :: nat where [jsysm_index]: "JSYSM_FIELDS_NETSTAT_ALL_INBOUND_TOTAL = 2"
definition JSYSM_FIELDS_NETSTAT_ALL_OUTBOUND_TOTAL :: nat where [jsysm_index]: "JSYSM_FIELDS_NETSTAT_ALL_OUTBOUND_TOTAL = 3"
definition JSYSM_FIELDS_NETSTAT_MAX :: nat where [jsysm_index]: "JSYSM_FIELDS_NETSTAT_MAX = 4"
definition JSYSM_FIELDS_NETINFO :: nat where [jsysm_index]: "JSYSM_FIELDS_NETINFO = 17"
definition JSYSM_FIELDS_NETINFO_DEFAULT_GATEWAY :: nat where [jsysm_index]: "JSYSM_FIELDS_NETINFO_DEFAULT_GATEWAY = 0"
definition JSYSM_FIELDS_NETINFO_DEFAULT_GATEWAY_INTERFACE :: nat where [jsysm_index]: "JSYSM_FIELDS_NETINFO_DEFAULT_GATEWAY_INTERFACE = 1"
definition JSYSM_FIELDS_NETINFO_HOST_NAME :: nat where [jsysm_index]: "JSYSM_FIELDS_NETINFO_HOST_NAME = 2"
definition JSYSM_FIELDS_NETINFO_DOMAIN_NAME :: nat where [jsysm_index]: "JSYSM_FIELDS_NETINFO_DOMAIN_NAME = 3"
definition JSYSM_FIELDS_NETINFO_PRIMARY_DNS :: nat where [jsysm_index]: "JSYSM_FIELDS_NETINFO_PRIMARY_DNS = 4"
definition JSYSM_FIELDS_NETINFO_SECONDARY_DNS :: nat where [jsysm_index]: "JSYSM_FIELDS_NETINFO_SECONDARY_DNS = 5"
definition JSYSM_FIELDS_NETINFO_MAX :: nat where [jsysm_index]: "JSYSM_FIELDS_NETINFO_MAX = 6"
definition JSYSM_FIELDS_NETINTERFACECONFIG :: nat where [jsysm_index]: "JSYSM_FIELDS_NETINTERFACECONFIG = 18"
definition JSYSM_FIELDS_NETINTERFACECONFIG_NAME :: nat where [jsysm_index]: "JSYSM_FIELDS_NETINTERFACECONFIG_NAME = 0"
definition JSYSM_FIELDS_NETINTERFACECONFIG_HWADDR :: nat where [jsysm_index]: "JSYSM_FIELDS_NETINTERFACECONFIG_HWADDR = 1"
definition JSYSM_FIELDS_NETINTERFACECONFIG_TYPE :: nat where [jsysm_index]: "JSYSM_FIELDS_NETINTERFACECONFIG_TYPE = 2"
definition JSYSM_FIELDS_NETINTERFACECONFIG_DESCRIPTION :: nat where [jsysm_index]: "JSYSM_FIELDS_NETINTERFACECONFIG_DESCRIPTION = 3"
definition JSYSM_FIELDS_NETINTERFACECONFIG_ADDRESS :: nat where [jsysm_index]: "JSYSM_FIELDS_NETINTERFACECONFIG_ADDRESS = 4"
definition JSYSM_FIELDS_NETINTERFACECONFIG_ADDRESS6 :: nat where [jsysm_index]: "JSYSM_FIELDS_NETINTERFACECONFIG_ADDRESS6 = 5"
definition JSYSM_FIELDS_NETINTERFACECONFIG_PREFIX6_LENGTH :: nat where [jsysm_index]: "JSYSM_FIELDS_NETINTERFACECONFIG_PREFIX6_LENGTH = 6"
definition JSYSM_FIELDS_NETINTERFACECONFIG_SCOPE6 :: nat where [jsysm_index]: "JSYSM_FIELDS_NETINTERFACECONFIG_SCOPE6 = 7"
definition JSYSM_FIELDS_NETINTERFACECONFIG_DESTINATION :: nat where [jsysm_index]: "JSYSM_FIELDS_NETINTERFACECONFIG_DESTINATION = 8"
definition JSYSM_FIELDS_NETINTERFACECONFIG_BROADCAST :: nat where [jsysm_index]: "JSYSM_FIELDS_NETINTERFACECONFIG_BROADCAST = 9"
definition JSYSM_FIELDS_NETINTERFACECONFIG_NETMASK :: nat where [jsysm_index]: "JSYSM_FIELDS_NETINTERFACECONFIG_NETMASK = 10"
definition JSYSM_FIELDS_NETINTERFACECONFIG_FLAGS :: nat where [jsysm_index]: "JSYSM_FIELDS_NETINTERFACECONFIG_FLAGS = 11"
definition JSYSM_FIELDS_NETINTERFACECONFIG_MTU :: nat where [jsysm_index]: "JSYSM_FIELDS_NETINTERFACECONFIG_MTU = 12"
definition JSYSM_FIELDS_NETINTERFACECONFIG_METRIC :: nat where [jsysm_index]: "JSYSM_FIELDS_NETINTERFACECONFIG_METRIC = 13"
definition JSYSM_FIELDS_NETINTERFACECONFIG_TX_QUEUE_LEN :: nat where [jsysm_index]: "JSYSM_FIELDS_NETINTERFACECONFIG_TX_QUEUE_LEN = 14"
definition JSYSM_FIELDS_NETINTERFACECONFIG_MAX :: nat where [jsysm_index]: "JSYSM_FIELDS_NETINTERFACECONFIG_MAX = 15"
definition JSYSM_FIELDS_NETINTERFACESTAT :: nat where [jsysm_index]: "JSYSM_FIELDS_NETINTERFACESTAT = 19"
definition JSYSM_FIELDS_NETINTERFACESTAT_RX_BYTES :: nat where [jsysm_index]: "JSYSM_FIELDS_NETINTERFACESTAT_RX_BYTES = 0"
definition JSYSM_FIELDS_NETINTERFACESTAT_RX_PACKETS :: nat where [jsysm_index]: "JSYSM_FIELDS_NETINTERFACESTAT_RX_PACKETS = 1"
definition JSYSM_FIELDS_NETINTERFACESTAT_RX_ERRORS :: nat where [jsysm_index]: "JSYSM_FIELDS_NETINTERFACESTAT_RX_ERRORS = 2"
definition JSYSM_FIELDS_NETINTERFACESTAT_RX_DROPPED :: nat where [jsysm_index]: "JSYSM_FIELDS_NETINTERFACESTAT_RX_DROPPED = 3"
definition JSYSM_FIELDS_NETINTERFACESTAT_RX_OVERRUNS :: nat where [jsysm_index]: "JSYSM_FIELDS_NETINTERFACESTAT_RX_OVERRUNS = 4"
definition JSYSM_FIELDS_NETINTERFACESTAT_RX_FRAME :: nat where [jsysm_index]: "JSYSM_FIELDS_NETINTERFACESTAT_RX_FRAME = 5"
definition JSYSM_FIELDS_NETINTERFACESTAT_TX_BYTES :: nat where [jsysm_index]: "JSYSM_FIELDS_NETINTERFACESTAT_TX_BYTES = 6"
definition JSYSM_FIELDS_NETINTERFACESTAT_TX_PACKETS :: nat where [jsysm_index]: "JSYSM_FIELDS_NETINTERFACESTAT_TX_PACKETS = 7"
definition JSYSM_FIELDS_NETINTERFACESTAT_TX_ERRORS :: nat where [jsysm_index]: "JSYSM_FIELDS_NETINTERFACESTAT_TX_ERRORS = 8"
definition JSYSM_FIELDS_NETINTERFACESTAT_TX_DROPPED :: nat where [jsysm_index]: "JSYSM_FIELDS_NETINTERFACESTAT_TX_DROPPED = 9"
definition JSYSM_FIELDS_NETINTERFACESTAT_TX_OVERRUNS :: nat where [jsysm_index]: "JSYSM_FIELDS_NETINTERFACESTAT_TX_OVERRUNS = 10"
definition JSYSM_FIELDS_NETINTERFACESTAT_TX_COLLISIONS :: nat where [jsysm_index]: "JSYSM_FIELDS_NETINTERFACESTAT_TX_COLLISIONS = 11"
definition JSYSM_FIELDS_NETINTERFACESTAT_TX_CARRIER :: nat where [jsysm_index]: "JSYSM_FIELDS_NETINTERFACESTAT_TX_CARRIER = 12"
definition JSYSM_FIELDS_NETINTERFACESTAT_SPEED :: nat where [jsysm_index]: "JSYSM_FIELDS_NETINTERFACESTAT_SPEED = 13"
definition JSYSM_FIELDS_NETINTERFACESTAT_MAX :: nat where [jsysm_index]: "JSYSM_FIELDS_NETINTERFACESTAT_MAX = 14"
definition JSYSM_FIELDS_NETROUTE :: nat where [jsysm_index]: "JSYSM_FIELDS_NETROUTE = 20"
definition JSYSM_FIELDS_NETROUTE_DESTINATION :: nat where [jsysm_index]: "JSYSM_FIELDS_NETROUTE_DESTINATION = 0"
definition JSYSM_FIELDS_NETROUTE_GATEWAY :: nat where [jsysm_index]: "JSYSM_FIELDS_NETROUTE_GATEWAY = 1"
definition JSYSM_FIELDS_NETROUTE_FLAGS :: nat where [jsysm_index]: "JSYSM_FIELDS_NETROUTE_FLAGS = 2"
definition JSYSM_FIELDS_NETROUTE_REFCNT :: nat where [jsysm_index]: "JSYSM_FIELDS_NETROUTE_REFCNT = 3"
definition JSYSM_FIELDS_NETROUTE_USE :: nat where [jsysm_index]: "JSYSM_FIELDS_NETROUTE_USE = 4"
definition JSYSM_FIELDS_NETROUTE_METRIC :: nat where [jsysm_index]: "JSYSM_FIELDS_NETROUTE_METRIC = 5"
definition JSYSM_FIELDS_NETROUTE_MASK :: nat where [jsysm_index]: "JSYSM_FIELDS_NETROUTE_MASK = 6"
definition JSYSM_FIELDS_NETROUTE_MTU :: nat where [jsysm_index]: "JSYSM_FIELDS_NETROUTE_MTU = 7"
definition JSYSM_FIELDS_NETROUTE_WINDOW :: nat where [jsysm_index]: "JSYSM_FIELDS_NETROUTE_WINDOW = 8"
definition JSYSM_FIELDS_NETROUTE_IRTT :: nat where [jsysm_index]: "JSYSM_FIELDS_NETROUTE_IRTT = 9"
definition JSYSM_FIELDS_NETROUTE_IFNAME :: nat where [jsysm_index]: "JSYSM_FIELDS_NETROUTE_IFNAME = 10"
definition JSYSM_FIELDS_NETROUTE_MAX :: nat where [jsysm_index]: "JSYSM_FIELDS_NETROUTE_MAX = 11"
definition JSYSM_FIELDS_NETCONNECTION :: nat where [jsysm_index]: "JSYSM_FIELDS_NETCONNECTION = 21"
definition JSYSM_FIELDS_NETCONNECTION_LOCAL_PORT :: nat where [jsysm_index]: "JSYSM_FIELDS_NETCONNECTION_LOCAL_PORT = 0"
definition JSYSM_FIELDS_NETCONNECTION_LOCAL_ADDRESS :: nat where [jsysm_index]: "JSYSM_FIELDS_NETCONNECTION_LOCAL_ADDRESS = 1"
definition JSYSM_FIELDS_NETCONNECTION_REMOTE_PORT :: nat where [jsysm_index]: "JSYSM_FIELDS_NETCONNECTION_REMOTE_PORT = 2"
definition JSYSM_FIELDS_NETCONNECTION_REMOTE_ADDRESS :: nat where [jsysm_index]: "JSYSM_FIELDS_NETCONNECTION_REMOTE_ADDRESS = 3"
definition JSYSM_FIELDS_NETCONNECTION_TYPE :: nat where [jsysm_index]: "JSYSM_FIELDS_NETCONNECTION_TYPE = 4"
definition JSYSM_FIELDS_NETCONNECTION_STATE :: nat where [jsysm_index]: "JSYSM_FIELDS_NETCONNECTION_STATE = 5"
definition JSYSM_FIELDS_NETCONNECTION_SEND_QUEUE :: nat where [jsysm_index]: "JSYSM_FIELDS_NETCONNECTION_SEND_QUEUE = 6"
definition JSYSM_FIELDS_NETCONNECTION_RECEIVE_QUEUE :: nat where [jsysm_index]: "JSYSM_FIELDS_NETCONNECTION_RECEIVE_QUEUE = 7"
definition JSYSM_FIELDS_NETCONNECTION_MAX :: nat where [jsysm_index]: "JSYSM_FIELDS_NETCONNECTION_MAX = 8"
definition JSYSM_FIELDS_WHO :: nat where [jsysm_index]: "JSYSM_FIELDS_WHO = 22"
definition JSYSM_FIELDS_WHO_USER :: nat where [jsysm_index]: "JSYSM_FIELDS_WHO_USER = 0"
definition JSYSM_FIELDS_WHO_DEVICE :: nat where [jsysm_index]: "JSYSM_FIELDS_WHO_DEVICE = 1"
definition JSYSM_FIELDS_WHO_HOST :: nat where [jsysm_index]: "JSYSM_FIELDS_WHO_HOST = 2"
definition JSYSM_FIELDS_WHO_TIME :: nat where [jsysm_index]: "JSYSM_FIELDS_WHO_TIME = 3"
definition JSYSM_FIELDS_WHO_MAX :: nat where [jsysm_index]: "JSYSM_FIELDS_WHO_MAX = 4"

section \<open>The tables\<close>

text \<open>The slot in the handle, the number of ids, and the ids that are looked up, in order.\<close>

record bean =
  b_slot :: nat
  b_max :: nat
  b_ids :: "(nat \<times> cstring \<times> cstring) list"

text \<open>A call that stores one value: the index of the field and the value.\<close>

datatype jset =
    SetLongField nat u64
  | SetIntField nat u32
  | SetDoubleField nat dbl
  | SetCharField nat u16
  | SetStringField nat cstring
  | SetNetAddressField nat sysm_net_address

definition INIT_FIELDS_MEMORY :: bean where
  "INIT_FIELDS_MEMORY =
     \<lparr>b_slot = JSYSM_FIELDS_MEMORY, b_max = JSYSM_FIELDS_MEMORY_MAX, b_ids =
      [(JSYSM_FIELDS_MEMORY_TOTAL, ''total'', ''J''),
       (JSYSM_FIELDS_MEMORY_MTRR, ''mtrr'', ''J''),
       (JSYSM_FIELDS_USED, ''used'', ''J''),
       (JSYSM_FIELDS_FREE, ''free'', ''J''),
       (JSYSM_FIELDS_ACTUAL_USED, ''actualUsed'', ''J''),
       (JSYSM_FIELDS_ACTUAL_FREE, ''actualFree'', ''J''),
       (JSYSM_FIELDS_USED_PERCENT, ''usedPercent'', ''D''),
       (JSYSM_FIELDS_FREE_PERCENT, ''freePercent'', ''D'')]\<rparr>"

definition SET_FIELDS_MEMORY :: "sysm_memory \<Rightarrow> jset list" where
  "SET_FIELDS_MEMORY s =
     [SetLongField JSYSM_FIELDS_MEMORY_TOTAL (me_total s),
      SetLongField JSYSM_FIELDS_MEMORY_MTRR (me_mtrr s),
      SetLongField JSYSM_FIELDS_USED (me_used s),
      SetLongField JSYSM_FIELDS_FREE (me_free s),
      SetLongField JSYSM_FIELDS_ACTUAL_USED (me_actual_used s),
      SetLongField JSYSM_FIELDS_ACTUAL_FREE (me_actual_free s),
      SetDoubleField JSYSM_FIELDS_USED_PERCENT (me_used_percent s),
      SetDoubleField JSYSM_FIELDS_FREE_PERCENT (me_free_percent s)]"

definition INIT_FIELDS_SWAP :: bean where
  "INIT_FIELDS_SWAP =
     \<lparr>b_slot = JSYSM_FIELDS_SWAP, b_max = JSYSM_FIELDS_SWAP_MAX, b_ids =
      [(JSYSM_FIELDS_SWAP_TOTAL, ''total'', ''J''),
       (JSYSM_FIELDS_SWAP_USED, ''used'', ''J''),
       (JSYSM_FIELDS_SWAP_FREE, ''free'', ''J''),
       (JSYSM_FIELDS_SWAP_PAGE_IN, ''pageIn'', ''J''),
       (JSYSM_FIELDS_SWAP_PAGE_OUT, ''pageOut'', ''J'')]\<rparr>"

definition SET_FIELDS_SWAP :: "sysm_swap \<Rightarrow> jset list" where
  "SET_FIELDS_SWAP s =
     [SetLongField JSYSM_FIELDS_SWAP_TOTAL (sw_total s),
      SetLongField JSYSM_FIELDS_SWAP_USED (sw_used s),
      SetLongField JSYSM_FIELDS_SWAP_FREE (sw_free s),
      SetLongField JSYSM_FIELDS_SWAP_PAGE_IN (sw_page_in s),
      SetLongField JSYSM_FIELDS_SWAP_PAGE_OUT (sw_page_out s)]"

definition INIT_FIELDS_CPU :: bean where
  "INIT_FIELDS_CPU =
     \<lparr>b_slot = JSYSM_FIELDS_CPU, b_max = JSYSM_FIELDS_CPU_MAX, b_ids =
      [(JSYSM_FIELDS_CPU_USER, ''user'', ''J''),
       (JSYSM_FIELDS_CPU_SYS, ''sys'', ''J''),
       (JSYSM_FIELDS_CPU_NICE, ''nice'', ''J''),
       (JSYSM_FIELDS_CPU_IDLE, ''idle'', ''J''),
       (JSYSM_FIELDS_CPU_WAIT, ''wait'', ''J''),
       (JSYSM_FIELDS_CPU_HI, ''hi'', ''J''),
       (JSYSM_FIELDS_CPU_SI, ''si'', ''J''),
       (JSYSM_FIELDS_CPU_STEAL, ''steal'', ''J''),
       (JSYSM_FIELDS_CPU_TOTAL, ''total'', ''J'')]\<rparr>"

definition SET_FIELDS_CPU :: "sysm_cpu \<Rightarrow> jset list" where
  "SET_FIELDS_CPU s =
     [SetLongField JSYSM_FIELDS_CPU_USER (cu_user s),
      SetLongField JSYSM_FIELDS_CPU_SYS (cu_sys s),
      SetLongField JSYSM_FIELDS_CPU_NICE (cu_nice s),
      SetLongField JSYSM_FIELDS_CPU_IDLE (cu_idle s),
      SetLongField JSYSM_FIELDS_CPU_WAIT (cu_wait s),
      SetLongField JSYSM_FIELDS_CPU_HI (cu_hi s),
      SetLongField JSYSM_FIELDS_CPU_SI (cu_si s),
      SetLongField JSYSM_FIELDS_CPU_STEAL (cu_steal s),
      SetLongField JSYSM_FIELDS_CPU_TOTAL (cu_total s)]"

definition INIT_FIELDS_CPUINFO :: bean where
  "INIT_FIELDS_CPUINFO =
     \<lparr>b_slot = JSYSM_FIELDS_CPUINFO, b_max = JSYSM_FIELDS_CPUINFO_MAX, b_ids =
      [(JSYSM_FIELDS_CPUINFO_VENDOR, ''vendor'', STRING_SIG),
       (JSYSM_FIELDS_CPUINFO_MODEL, ''model'', STRING_SIG),
       (JSYSM_FIELDS_CPUINFO_MHZ, ''mhz'', ''I''),
       (JSYSM_FIELDS_CPUINFO_MHZ_MAX, ''mhzMax'', ''I''),
       (JSYSM_FIELDS_CPUINFO_MHZ_MIN, ''mhzMin'', ''I''),
       (JSYSM_FIELDS_CPUINFO_CACHE_SIZE, ''cacheSize'', ''J''),
       (JSYSM_FIELDS_CPUINFO_TOTAL_CORES, ''totalCores'', ''I''),
       (JSYSM_FIELDS_CPUINFO_TOTAL_SOCKETS, ''totalSockets'', ''I''),
       (JSYSM_FIELDS_CPUINFO_CORES_PER_SOCKET, ''coresPerSocket'', ''I'')]\<rparr>"

definition SET_FIELDS_CPUINFO :: "sysm_cpu_info \<Rightarrow> jset list" where
  "SET_FIELDS_CPUINFO s =
     [SetStringField JSYSM_FIELDS_CPUINFO_VENDOR (ci_vendor s),
      SetStringField JSYSM_FIELDS_CPUINFO_MODEL (ci_model s),
      SetIntField JSYSM_FIELDS_CPUINFO_MHZ (ci_mhz s),
      SetIntField JSYSM_FIELDS_CPUINFO_MHZ_MAX (word_of_int (ci_mhz_max s)),
      SetIntField JSYSM_FIELDS_CPUINFO_MHZ_MIN (word_of_int (ci_mhz_min s)),
      SetLongField JSYSM_FIELDS_CPUINFO_CACHE_SIZE (ci_cache_size s),
      SetIntField JSYSM_FIELDS_CPUINFO_TOTAL_CORES (ci_total_cores s),
      SetIntField JSYSM_FIELDS_CPUINFO_TOTAL_SOCKETS (ci_total_sockets s),
      SetIntField JSYSM_FIELDS_CPUINFO_CORES_PER_SOCKET (word_of_int (ci_cores_per_socket s))]"

definition INIT_FIELDS_CPUPERCENTAGE :: bean where
  "INIT_FIELDS_CPUPERCENTAGE =
     \<lparr>b_slot = JSYSM_FIELDS_CPUPERCENTAGE, b_max = JSYSM_FIELDS_CPUPERCENTAGE_MAX, b_ids =
      [(JSYSM_FIELDS_CPUPERCENTAGE_USER, ''user'', ''D''),
       (JSYSM_FIELDS_CPUPERCENTAGE_SYS, ''sys'', ''D''),
       (JSYSM_FIELDS_CPUPERCENTAGE_NICE, ''nice'', ''D''),
       (JSYSM_FIELDS_CPUPERCENTAGE_IDLE, ''idle'', ''D''),
       (JSYSM_FIELDS_CPUPERCENTAGE_WAIT, ''wait'', ''D''),
       (JSYSM_FIELDS_CPUPERCENTAGE_HI, ''hi'', ''D''),
       (JSYSM_FIELDS_CPUPERCENTAGE_SI, ''si'', ''D''),
       (JSYSM_FIELDS_CPUPERCENTAGE_STEAL, ''steal'', ''D''),
       (JSYSM_FIELDS_CPUPERCENTAGE_COMBINED, ''combined'', ''D'')]\<rparr>"

definition SET_FIELDS_CPUPERCENTAGE :: "sysm_cpu_perc \<Rightarrow> jset list" where
  "SET_FIELDS_CPUPERCENTAGE s =
     [SetDoubleField JSYSM_FIELDS_CPUPERCENTAGE_USER (cp_user s),
      SetDoubleField JSYSM_FIELDS_CPUPERCENTAGE_SYS (cp_sys s),
      SetDoubleField JSYSM_FIELDS_CPUPERCENTAGE_NICE (cp_nice s),
      SetDoubleField JSYSM_FIELDS_CPUPERCENTAGE_IDLE (cp_idle s),
      SetDoubleField JSYSM_FIELDS_CPUPERCENTAGE_WAIT (cp_wait s),
      SetDoubleField JSYSM_FIELDS_CPUPERCENTAGE_HI (cp_hi s),
      SetDoubleField JSYSM_FIELDS_CPUPERCENTAGE_SI (cp_si s),
      SetDoubleField JSYSM_FIELDS_CPUPERCENTAGE_STEAL (cp_steal s),
      SetDoubleField JSYSM_FIELDS_CPUPERCENTAGE_COMBINED (cp_combined s)]"

definition INIT_FIELDS_UPTIME :: bean where
  "INIT_FIELDS_UPTIME =
     \<lparr>b_slot = JSYSM_FIELDS_UPTIME, b_max = JSYSM_FIELDS_UPTIME_MAX, b_ids =
      [(JSYSM_FIELDS_UPTIME_UPTIME, ''uptime'', ''D'')]\<rparr>"

definition SET_FIELDS_UPTIME :: "dbl \<Rightarrow> jset list" where
  "SET_FIELDS_UPTIME s =
     [SetDoubleField JSYSM_FIELDS_UPTIME_UPTIME s]"

definition INIT_FIELDS_PROCCPU :: bean where
  "INIT_FIELDS_PROCCPU =
     \<lparr>b_slot = JSYSM_FIELDS_PROCCPU, b_max = JSYSM_FIELDS_PROCCPU_MAX, b_ids =
      [(JSYSM_FIELDS_PROCCPU_PERCENT, ''percent'', ''D''),
       (JSYSM_FIELDS_PROCCPU_LAST_TIME, ''lastTime'', ''J''),
       (JSYSM_FIELDS_PROCCPU_START_TIME, ''startTime'', ''J''),
       (JSYSM_FIELDS_PROCCPU_USER, ''user'', ''J''),
       (JSYSM_FIELDS_PROCCPU_SYS, ''sys'', ''J''),
       (JSYSM_FIELDS_PROCCPU_TOTAL, ''total'', ''J'')]\<rparr>"

definition SET_FIELDS_PROCCPU :: "sysm_proc_cpu \<Rightarrow> jset list" where
  "SET_FIELDS_PROCCPU s =
     [SetDoubleField JSYSM_FIELDS_PROCCPU_PERCENT (pc_percent s),
      SetLongField JSYSM_FIELDS_PROCCPU_LAST_TIME (pc_last_time s),
      SetLongField JSYSM_FIELDS_PROCCPU_START_TIME (pc_start_time s),
      SetLongField JSYSM_FIELDS_PROCCPU_USER (pc_user s),
      SetLongField JSYSM_FIELDS_PROCCPU_SYS (pc_sys s),
      SetLongField JSYSM_FIELDS_PROCCPU_TOTAL (pc_total s)]"

definition INIT_FIELDS_PROCEXE :: bean where
  "INIT_FIELDS_PROCEXE =
     \<lparr>b_slot = JSYSM_FIELDS_PROCEXE, b_max = JSYSM_FIELDS_PROCEXE_MAX, b_ids =
      [(JSYSM_FIELDS_PROCEXE_NAME, ''name'', STRING_SIG),
       (JSYSM_FIELDS_PROCEXE_CWD, ''cwd'', STRING_SIG)]\<rparr>"

definition SET_FIELDS_PROCEXE :: "sysm_proc_exe \<Rightarrow> jset list" where
  "SET_FIELDS_PROCEXE s =
     [SetStringField JSYSM_FIELDS_PROCEXE_NAME (px_name s),
      SetStringField JSYSM_FIELDS_PROCEXE_CWD (px_cwd s)]"

definition INIT_FIELDS_PROCMEM :: bean where
  "INIT_FIELDS_PROCMEM =
     \<lparr>b_slot = JSYSM_FIELDS_PROCMEM, b_max = JSYSM_FIELDS_PROCMEM_MAX, b_ids =
      [(JSYSM_FIELDS_PROCMEM_SIZE, ''size'', ''J''),
       (JSYSM_FIELDS_PROCMEM_RESIDENT, ''resident'', ''J''),
       (JSYSM_FIELDS_PROCMEM_SHARE, ''share'', ''J''),
       (JSYSM_FIELDS_PROCMEM_MINOR_FAULTS, ''minorFaults'', ''J''),
       (JSYSM_FIELDS_PROCMEM_MAJOR_FAULTS, ''majorFaults'', ''J''),
       (JSYSM_FIELDS_PROCMEM_PAGE_FAULTS, ''pageFaults'', ''J'')]\<rparr>"

definition SET_FIELDS_PROCMEM :: "sysm_proc_mem \<Rightarrow> jset list" where
  "SET_FIELDS_PROCMEM s =
     [SetLongField JSYSM_FIELDS_PROCMEM_SIZE (pm_size s),
      SetLongField JSYSM_FIELDS_PROCMEM_RESIDENT (pm_resident s),
      SetLongField JSYSM_FIELDS_PROCMEM_SHARE (pm_share s),
      SetLongField JSYSM_FIELDS_PROCMEM_MINOR_FAULTS (pm_minor_faults s),
      SetLongField JSYSM_FIELDS_PROCMEM_MAJOR_FAULTS (pm_major_faults s),
      SetLongField JSYSM_FIELDS_PROCMEM_PAGE_FAULTS (pm_page_faults s)]"

definition INIT_FIELDS_PROCOWN :: bean where
  "INIT_FIELDS_PROCOWN =
     \<lparr>b_slot = JSYSM_FIELDS_PROCOWN, b_max = JSYSM_FIELDS_PROCOWN_MAX, b_ids =
      [(JSYSM_FIELDS_PROCOWN_UID, ''uid'', ''J''),
       (JSYSM_FIELDS_PROCOWN_GID, ''gid'', ''J''),
       (JSYSM_FIELDS_PROCOWN_EUID, ''euid'', ''J''),
       (JSYSM_FIELDS_PROCOWN_EGID, ''egid'', ''J'')]\<rparr>"

definition SET_FIELDS_PROCOWN :: "sysm_proc_own \<Rightarrow> jset list" where
  "SET_FIELDS_PROCOWN s =
     [SetLongField JSYSM_FIELDS_PROCOWN_UID (word_of_int (po_uid s)),
      SetLongField JSYSM_FIELDS_PROCOWN_GID (word_of_int (po_gid s)),
      SetLongField JSYSM_FIELDS_PROCOWN_EUID (word_of_int (po_euid s)),
      SetLongField JSYSM_FIELDS_PROCOWN_EGID (word_of_int (po_egid s))]"

definition INIT_FIELDS_PROCOWNER :: bean where
  "INIT_FIELDS_PROCOWNER =
     \<lparr>b_slot = JSYSM_FIELDS_PROCOWNER, b_max = JSYSM_FIELDS_PROCOWNER_MAX, b_ids =
      [(JSYSM_FIELDS_PROCOWNER_USER, ''user'', STRING_SIG),
       (JSYSM_FIELDS_PROCOWNER_GROUP, ''group'', STRING_SIG)]\<rparr>"

definition SET_FIELDS_PROCOWNER :: "sysm_proc_owner \<Rightarrow> jset list" where
  "SET_FIELDS_PROCOWNER s =
     [SetStringField JSYSM_FIELDS_PROCOWNER_USER (pw_user s),
      SetStringField JSYSM_FIELDS_PROCOWNER_GROUP (pw_group s)]"

definition INIT_FIELDS_PROCSTAT :: bean where
  "INIT_FIELDS_PROCSTAT =
     \<lparr>b_slot = JSYSM_FIELDS_PROCSTAT, b_max = JSYSM_FIELDS_PROCSTAT_MAX, b_ids =
      [(JSYSM_FIELDS_PROCSTAT_TOTAL, ''total'', ''J''),
       (JSYSM_FIELDS_PROCSTAT_IDLE, ''idle'', ''J''),
       (JSYSM_FIELDS_PROCSTAT_RUNNING, ''running'', ''J''),
       (JSYSM_FIELDS_PROCSTAT_SLEEPING, ''sleeping'', ''J''),
       (JSYSM_FIELDS_PROCSTAT_STOPPED, ''stopped'', ''J''),
       (JSYSM_FIELDS_PROCSTAT_ZOMBIE, ''zombie'', ''J''),
       (JSYSM_FIELDS_PROCSTAT_THREADS, ''threads'', ''J'')]\<rparr>"

definition SET_FIELDS_PROCSTAT :: "sysm_proc_stat \<Rightarrow> jset list" where
  "SET_FIELDS_PROCSTAT s =
     [SetLongField JSYSM_FIELDS_PROCSTAT_TOTAL (pn_total s),
      SetLongField JSYSM_FIELDS_PROCSTAT_IDLE (pn_idle s),
      SetLongField JSYSM_FIELDS_PROCSTAT_RUNNING (pn_running s),
      SetLongField JSYSM_FIELDS_PROCSTAT_SLEEPING (pn_sleeping s),
      SetLongField JSYSM_FIELDS_PROCSTAT_STOPPED (pn_stopped s),
      SetLongField JSYSM_FIELDS_PROCSTAT_ZOMBIE (pn_zombie s),
      SetLongField JSYSM_FIELDS_PROCSTAT_THREADS (pn_threads s)]"

definition INIT_FIELDS_PROCSTATE :: bean where
  "INIT_FIELDS_PROCSTATE =
     \<lparr>b_slot = JSYSM_FIELDS_PROCSTATE, b_max = JSYSM_FIELDS_PROCSTATE_MAX, b_ids =
      [(JSYSM_FIELDS_PROCSTATE_STATE, ''state'', ''C''),
       (JSYSM_FIELDS_PROCSTATE_NAME, ''name'', STRING_SIG),
       (JSYSM_FIELDS_PROCSTATE_PPID, ''ppid'', ''J''),
       (JSYSM_FIELDS_PROCSTATE_TTY, ''tty'', ''I''),
       (JSYSM_FIELDS_PROCSTATE_NICE, ''nice'', ''I''),
       (JSYSM_FIELDS_PROCSTATE_PRIORITY, ''priority'', ''I''),
       (JSYSM_FIELDS_PROCSTATE_THREADS, ''threads'', ''J''),
       (JSYSM_FIELDS_PROCSTATE_PROCESSOR, ''processor'', ''I'')]\<rparr>"

definition SET_FIELDS_PROCSTATE :: "sysm_proc_state \<Rightarrow> jset list" where
  "SET_FIELDS_PROCSTATE s =
     [SetCharField JSYSM_FIELDS_PROCSTATE_STATE (scast (of_char (pst_state s) :: u8)),
      SetStringField JSYSM_FIELDS_PROCSTATE_NAME (pst_name s),
      SetLongField JSYSM_FIELDS_PROCSTATE_PPID (word_of_int (pst_ppid s)),
      SetIntField JSYSM_FIELDS_PROCSTATE_TTY (word_of_int (pst_tty s)),
      SetIntField JSYSM_FIELDS_PROCSTATE_NICE (word_of_int (pst_nice s)),
      SetIntField JSYSM_FIELDS_PROCSTATE_PRIORITY (word_of_int (pst_priority s)),
      SetLongField JSYSM_FIELDS_PROCSTATE_THREADS (pst_threads s),
      SetIntField JSYSM_FIELDS_PROCSTATE_PROCESSOR (word_of_int (pst_processor s))]"

definition INIT_FIELDS_PROCTIME :: bean where
  "INIT_FIELDS_PROCTIME =
     \<lparr>b_slot = JSYSM_FIELDS_PROCTIME, b_max = JSYSM_FIELDS_PROCTIME_MAX, b_ids =
      [(JSYSM_FIELDS_PROCTIME_START_TIME, ''startTime'', ''J''),
       (JSYSM_FIELDS_PROCTIME_USER, ''user'', ''J''),
       (JSYSM_FIELDS_PROCTIME_SYS, ''sys'', ''J''),
       (JSYSM_FIELDS_PROCTIME_TOTAL, ''total'', ''J'')]\<rparr>"

definition SET_FIELDS_PROCTIME :: "sysm_proc_time \<Rightarrow> jset list" where
  "SET_FIELDS_PROCTIME s =
     [SetLongField JSYSM_FIELDS_PROCTIME_START_TIME (pt_start_time s),
      SetLongField JSYSM_FIELDS_PROCTIME_USER (pt_user s),
      SetLongField JSYSM_FIELDS_PROCTIME_SYS (pt_sys s),
      SetLongField JSYSM_FIELDS_PROCTIME_TOTAL (pt_total s)]"

definition INIT_FIELDS_RESOURCELIMIT :: bean where
  "INIT_FIELDS_RESOURCELIMIT =
     \<lparr>b_slot = JSYSM_FIELDS_RESOURCELIMIT, b_max = JSYSM_FIELDS_RESOURCELIMIT_MAX, b_ids =
      [(JSYSM_FIELDS_RESOURCELIMIT_CPU_CUR, ''cpuCur'', ''J''),
       (JSYSM_FIELDS_RESOURCELIMIT_CPU_MAX, ''cpuMax'', ''J''),
       (JSYSM_FIELDS_RESOURCELIMIT_FILE_SIZE_CUR, ''fileSizeCur'', ''J''),
       (JSYSM_FIELDS_RESOURCELIMIT_FILE_SIZE_MAX, ''fileSizeMax'', ''J''),
       (JSYSM_FIELDS_RESOURCELIMIT_PIPE_SIZE_MAX, ''pipeSizeMax'', ''J''),
       (JSYSM_FIELDS_RESOURCELIMIT_PIPE_SIZE_CUR, ''pipeSizeCur'', ''J''),
       (JSYSM_FIELDS_RESOURCELIMIT_DATA_CUR, ''dataCur'', ''J''),
       (JSYSM_FIELDS_RESOURCELIMIT_DATA_MAX, ''dataMax'', ''J''),
       (JSYSM_FIELDS_RESOURCELIMIT_STACK_CUR, ''stackCur'', ''J''),
       (JSYSM_FIELDS_RESOURCELIMIT_STACK_MAX, ''stackMax'', ''J''),
       (JSYSM_FIELDS_RESOURCELIMIT_CORE_CUR, ''coreCur'', ''J''),
       (JSYSM_FIELDS_RESOURCELIMIT_CORE_MAX, ''coreMax'', ''J''),
       (JSYSM_FIELDS_RESOURCELIMIT_MEMORY_CUR, ''memoryCur'', ''J''),
       (JSYSM_FIELDS_RESOURCELIMIT_MEMORY_MAX, ''memoryMax'', ''J''),
       (JSYSM_FIELDS_RESOURCELIMIT_PROCESSES_CUR, ''processesCur'', ''J''),
       (JSYSM_FIELDS_RESOURCELIMIT_PROCESSES_MAX, ''processesMax'', ''J''),
       (JSYSM_FIELDS_RESOURCELIMIT_OPEN_FILES_CUR, ''openFilesCur'', ''J''),
       (JSYSM_FIELDS_RESOURCELIMIT_OPEN_FILES_MAX, ''openFilesMax'', ''J''),
       (JSYSM_FIELDS_RESOURCELIMIT_VIRTUAL_MEMORY_CUR, ''virtualMemoryCur'', ''J''),
       (JSYSM_FIELDS_RESOURCELIMIT_VIRTUAL_MEMORY_MAX, ''virtualMemoryMax'', ''J'')]\<rparr>"

definition SET_FIELDS_RESOURCELIMIT :: "resource_limit \<Rightarrow> jset list" where
  "SET_FIELDS_RESOURCELIMIT s =
     [SetLongField JSYSM_FIELDS_RESOURCELIMIT_CPU_CUR (fst (s Rl_cpu)),
      SetLongField JSYSM_FIELDS_RESOURCELIMIT_CPU_MAX (snd (s Rl_cpu)),
      SetLongField JSYSM_FIELDS_RESOURCELIMIT_FILE_SIZE_CUR (fst (s Rl_file_size)),
      SetLongField JSYSM_FIELDS_RESOURCELIMIT_FILE_SIZE_MAX (snd (s Rl_file_size)),
      SetLongField JSYSM_FIELDS_RESOURCELIMIT_PIPE_SIZE_MAX (snd (s Rl_pipe_size)),
      SetLongField JSYSM_FIELDS_RESOURCELIMIT_PIPE_SIZE_CUR (fst (s Rl_pipe_size)),
      SetLongField JSYSM_FIELDS_RESOURCELIMIT_DATA_CUR (fst (s Rl_data)),
      SetLongField JSYSM_FIELDS_RESOURCELIMIT_DATA_MAX (snd (s Rl_data)),
      SetLongField JSYSM_FIELDS_RESOURCELIMIT_STACK_CUR (fst (s Rl_stack)),
      SetLongField JSYSM_FIELDS_RESOURCELIMIT_STACK_MAX (snd (s Rl_stack)),
      SetLongField JSYSM_FIELDS_RESOURCELIMIT_CORE_CUR (fst (s Rl_core)),
      SetLongField JSYSM_FIELDS_RESOURCELIMIT_CORE_MAX (snd (s Rl_core)),
      SetLongField JSYSM_FIELDS_RESOURCELIMIT_MEMORY_CUR (fst (s Rl_memory)),
      SetLongField JSYSM_FIELDS_RESOURCELIMIT_MEMORY_MAX (snd (s Rl_memory)),
      SetLongField JSYSM_FIELDS_RESOURCELIMIT_PROCESSES_CUR (fst (s Rl_processes)),
      SetLongField JSYSM_FIELDS_RESOURCELIMIT_PROCESSES_MAX (snd (s Rl_processes)),
      SetLongField JSYSM_FIELDS_RESOURCELIMIT_OPEN_FILES_CUR (fst (s Rl_open_files)),
      SetLongField JSYSM_FIELDS_RESOURCELIMIT_OPEN_FILES_MAX (snd (s Rl_open_files)),
      SetLongField JSYSM_FIELDS_RESOURCELIMIT_VIRTUAL_MEMORY_CUR (fst (s Rl_virtual_memory)),
      SetLongField JSYSM_FIELDS_RESOURCELIMIT_VIRTUAL_MEMORY_MAX (snd (s Rl_virtual_memory))]"

definition INIT_FIELDS_DISKUSAGE :: bean where
  "INIT_FIELDS_DISKUSAGE =
     \<lparr>b_slot = JSYSM_FIELDS_DISKUSAGE, b_max = JSYSM_FIELDS_DISKUSAGE_MAX, b_ids =
      [(JSYSM_FIELDS_DISKUSAGE_READS, ''reads'', ''J''),
       (JSYSM_FIELDS_DISKUSAGE_WRITES, ''writes'', ''J''),
       (JSYSM_FIELDS_DISKUSAGE_READ_BYTES, ''readBytes'', ''J''),
       (JSYSM_FIELDS_DISKUSAGE_WRITE_BYTES, ''writeBytes'', ''J''),
       (JSYSM_FIELDS_DISKUSAGE_UTIL, ''util'', ''D''),
       (JSYSM_FIELDS_DISKUSAGE_SERVICE_TIME, ''serviceTime'', ''D'')]\<rparr>"

definition SET_FIELDS_DISKUSAGE :: "sysm_disk_usage \<Rightarrow> jset list" where
  "SET_FIELDS_DISKUSAGE s =
     [SetLongField JSYSM_FIELDS_DISKUSAGE_READS (du_reads s),
      SetLongField JSYSM_FIELDS_DISKUSAGE_WRITES (du_writes s),
      SetLongField JSYSM_FIELDS_DISKUSAGE_READ_BYTES (du_read_bytes s),
      SetLongField JSYSM_FIELDS_DISKUSAGE_WRITE_BYTES (du_write_bytes s),
      SetDoubleField JSYSM_FIELDS_DISKUSAGE_UTIL (du_util s),
      SetDoubleField JSYSM_FIELDS_DISKUSAGE_SERVICE_TIME (du_service_time s)]"

definition INIT_FIELDS_NETSTAT :: bean where
  "INIT_FIELDS_NETSTAT =
     \<lparr>b_slot = JSYSM_FIELDS_NETSTAT, b_max = JSYSM_FIELDS_NETSTAT_MAX, b_ids =
      [(JSYSM_FIELDS_NETSTAT_TCP_INBOUND_TOTAL, ''tcpInboundTotal'', ''I''),
       (JSYSM_FIELDS_NETSTAT_TCP_OUTBOUND_TOTAL, ''tcpOutboundTotal'', ''I''),
       (JSYSM_FIELDS_NETSTAT_ALL_INBOUND_TOTAL, ''allInboundTotal'', ''I''),
       (JSYSM_FIELDS_NETSTAT_ALL_OUTBOUND_TOTAL, ''allOutboundTotal'', ''I'')]\<rparr>"

definition SET_FIELDS_NETSTAT :: "sysm_net_stat \<Rightarrow> jset list" where
  "SET_FIELDS_NETSTAT s =
     [SetIntField JSYSM_FIELDS_NETSTAT_TCP_INBOUND_TOTAL (ns_tcp_inbound_total s),
      SetIntField JSYSM_FIELDS_NETSTAT_TCP_OUTBOUND_TOTAL (ns_tcp_outbound_total s),
      SetIntField JSYSM_FIELDS_NETSTAT_ALL_INBOUND_TOTAL (ns_all_inbound_total s),
      SetIntField JSYSM_FIELDS_NETSTAT_ALL_OUTBOUND_TOTAL (ns_all_outbound_total s)]"

definition INIT_FIELDS_NETINFO :: bean where
  "INIT_FIELDS_NETINFO =
     \<lparr>b_slot = JSYSM_FIELDS_NETINFO, b_max = JSYSM_FIELDS_NETINFO_MAX, b_ids =
      [(JSYSM_FIELDS_NETINFO_DEFAULT_GATEWAY, ''defaultGateway'', STRING_SIG),
       (JSYSM_FIELDS_NETINFO_DEFAULT_GATEWAY_INTERFACE, ''defaultGatewayInterface'', STRING_SIG),
       (JSYSM_FIELDS_NETINFO_HOST_NAME, ''hostName'', STRING_SIG),
       (JSYSM_FIELDS_NETINFO_DOMAIN_NAME, ''domainName'', STRING_SIG),
       (JSYSM_FIELDS_NETINFO_PRIMARY_DNS, ''primaryDns'', STRING_SIG),
       (JSYSM_FIELDS_NETINFO_SECONDARY_DNS, ''secondaryDns'', STRING_SIG)]\<rparr>"

definition SET_FIELDS_NETINFO :: "sysm_net_info \<Rightarrow> jset list" where
  "SET_FIELDS_NETINFO s =
     [SetStringField JSYSM_FIELDS_NETINFO_DEFAULT_GATEWAY (ni_default_gateway s),
      SetStringField JSYSM_FIELDS_NETINFO_DEFAULT_GATEWAY_INTERFACE (ni_default_gateway_interface s),
      SetStringField JSYSM_FIELDS_NETINFO_HOST_NAME (ni_host_name s),
      SetStringField JSYSM_FIELDS_NETINFO_DOMAIN_NAME (ni_domain_name s),
      SetStringField JSYSM_FIELDS_NETINFO_PRIMARY_DNS (ni_primary_dns s),
      SetStringField JSYSM_FIELDS_NETINFO_SECONDARY_DNS (ni_secondary_dns s)]"

definition INIT_FIELDS_NETINTERFACECONFIG :: bean where
  "INIT_FIELDS_NETINTERFACECONFIG =
     \<lparr>b_slot = JSYSM_FIELDS_NETINTERFACECONFIG, b_max = JSYSM_FIELDS_NETINTERFACECONFIG_MAX, b_ids =
      [(JSYSM_FIELDS_NETINTERFACECONFIG_NAME, ''name'', STRING_SIG),
       (JSYSM_FIELDS_NETINTERFACECONFIG_HWADDR, ''hwaddr'', STRING_SIG),
       (JSYSM_FIELDS_NETINTERFACECONFIG_TYPE, ''type'', STRING_SIG),
       (JSYSM_FIELDS_NETINTERFACECONFIG_DESCRIPTION, ''description'', STRING_SIG),
       (JSYSM_FIELDS_NETINTERFACECONFIG_ADDRESS, ''address'', STRING_SIG),
       (JSYSM_FIELDS_NETINTERFACECONFIG_ADDRESS6, ''address6'', STRING_SIG),
       (JSYSM_FIELDS_NETINTERFACECONFIG_PREFIX6_LENGTH, ''prefix6Length'', ''I''),
       (JSYSM_FIELDS_NETINTERFACECONFIG_SCOPE6, ''scope6'', ''I''),
       (JSYSM_FIELDS_NETINTERFACECONFIG_DESTINATION, ''destination'', STRING_SIG),
       (JSYSM_FIELDS_NETINTERFACECONFIG_BROADCAST, ''broadcast'', STRING_SIG),
       (JSYSM_FIELDS_NETINTERFACECONFIG_NETMASK, ''netmask'', STRING_SIG),
       (JSYSM_FIELDS_NETINTERFACECONFIG_FLAGS, ''flags'', ''J''),
       (JSYSM_FIELDS_NETINTERFACECONFIG_MTU, ''mtu'', ''J''),
       (JSYSM_FIELDS_NETINTERFACECONFIG_METRIC, ''metric'', ''J''),
       (JSYSM_FIELDS_NETINTERFACECONFIG_TX_QUEUE_LEN, ''txQueueLen'', ''I'')]\<rparr>"

definition SET_FIELDS_NETINTERFACECONFIG :: "sysm_net_interface_config \<Rightarrow> jset list" where
  "SET_FIELDS_NETINTERFACECONFIG s =
     [SetStringField JSYSM_FIELDS_NETINTERFACECONFIG_NAME (ic_name s),
      SetNetAddressField JSYSM_FIELDS_NETINTERFACECONFIG_HWADDR (ic_hwaddr s),
      SetStringField JSYSM_FIELDS_NETINTERFACECONFIG_TYPE (ic_type s),
      SetStringField JSYSM_FIELDS_NETINTERFACECONFIG_DESCRIPTION (ic_description s),
      SetNetAddressField JSYSM_FIELDS_NETINTERFACECONFIG_ADDRESS (ic_address s),
      SetNetAddressField JSYSM_FIELDS_NETINTERFACECONFIG_ADDRESS6 (ic_address6 s),
      SetIntField JSYSM_FIELDS_NETINTERFACECONFIG_PREFIX6_LENGTH (word_of_int (ic_prefix6_length s)),
      SetIntField JSYSM_FIELDS_NETINTERFACECONFIG_SCOPE6 (word_of_int (ic_scope6 s)),
      SetNetAddressField JSYSM_FIELDS_NETINTERFACECONFIG_DESTINATION (ic_destination s),
      SetNetAddressField JSYSM_FIELDS_NETINTERFACECONFIG_BROADCAST (ic_broadcast s),
      SetNetAddressField JSYSM_FIELDS_NETINTERFACECONFIG_NETMASK (ic_netmask s),
      SetLongField JSYSM_FIELDS_NETINTERFACECONFIG_FLAGS (ic_flags s),
      SetLongField JSYSM_FIELDS_NETINTERFACECONFIG_MTU (ic_mtu s),
      SetLongField JSYSM_FIELDS_NETINTERFACECONFIG_METRIC (ic_metric s),
      SetIntField JSYSM_FIELDS_NETINTERFACECONFIG_TX_QUEUE_LEN (word_of_int (ic_tx_queue_len s))]"

definition INIT_FIELDS_NETINTERFACESTAT :: bean where
  "INIT_FIELDS_NETINTERFACESTAT =
     \<lparr>b_slot = JSYSM_FIELDS_NETINTERFACESTAT, b_max = JSYSM_FIELDS_NETINTERFACESTAT_MAX, b_ids =
      [(JSYSM_FIELDS_NETINTERFACESTAT_RX_BYTES, ''rxBytes'', ''J''),
       (JSYSM_FIELDS_NETINTERFACESTAT_RX_PACKETS, ''rxPackets'', ''J''),
       (JSYSM_FIELDS_NETINTERFACESTAT_RX_ERRORS, ''rxErrors'', ''J''),
       (JSYSM_FIELDS_NETINTERFACESTAT_RX_DROPPED, ''rxDropped'', ''J''),
       (JSYSM_FIELDS_NETINTERFACESTAT_RX_OVERRUNS, ''rxOverruns'', ''J''),
       (JSYSM_FIELDS_NETINTERFACESTAT_RX_FRAME, ''rxFrame'', ''J''),
       (JSYSM_FIELDS_NETINTERFACESTAT_TX_BYTES, ''txBytes'', ''J''),
       (JSYSM_FIELDS_NETINTERFACESTAT_TX_PACKETS, ''txPackets'', ''J''),
       (JSYSM_FIELDS_NETINTERFACESTAT_TX_ERRORS, ''txErrors'', ''J''),
       (JSYSM_FIELDS_NETINTERFACESTAT_TX_DROPPED, ''txDropped'', ''J''),
       (JSYSM_FIELDS_NETINTERFACESTAT_TX_OVERRUNS, ''txOverruns'', ''J''),
       (JSYSM_FIELDS_NETINTERFACESTAT_TX_COLLISIONS, ''txCollisions'', ''J''),
       (JSYSM_FIELDS_NETINTERFACESTAT_TX_CARRIER, ''txCarrier'', ''J''),
       (JSYSM_FIELDS_NETINTERFACESTAT_SPEED, ''speed'', ''J'')]\<rparr>"

definition SET_FIELDS_NETINTERFACESTAT :: "sysm_net_interface_stat \<Rightarrow> jset list" where
  "SET_FIELDS_NETINTERFACESTAT s =
     [SetLongField JSYSM_FIELDS_NETINTERFACESTAT_RX_BYTES (is_rx_bytes s),
      SetLongField JSYSM_FIELDS_NETINTERFACESTAT_RX_PACKETS (is_rx_packets s),
      SetLongField JSYSM_FIELDS_NETINTERFACESTAT_RX_ERRORS (is_rx_errors s),
      SetLongField JSYSM_FIELDS_NETINTERFACESTAT_RX_DROPPED (is_rx_dropped s),
      SetLongField JSYSM_FIELDS_NETINTERFACESTAT_RX_OVERRUNS (is_rx_overruns s),
      SetLongField JSYSM_FIELDS_NETINTERFACESTAT_RX_FRAME (is_rx_frame s),
      SetLongField JSYSM_FIELDS_NETINTERFACESTAT_TX_BYTES (is_tx_bytes s),
      SetLongField JSYSM_FIELDS_NETINTERFACESTAT_TX_PACKETS (is_tx_packets s),
      SetLongField JSYSM_FIELDS_NETINTERFACESTAT_TX_ERRORS (is_tx_errors s),
      SetLongField JSYSM_FIELDS_NETINTERFACESTAT_TX_DROPPED (is_tx_dropped s),
      SetLongField JSYSM_FIELDS_NETINTERFACESTAT_TX_OVERRUNS (is_tx_overruns s),
      SetLongField JSYSM_FIELDS_NETINTERFACESTAT_TX_COLLISIONS (is_tx_collisions s),
      SetLongField JSYSM_FIELDS_NETINTERFACESTAT_TX_CARRIER (is_tx_carrier s),
      SetLongField JSYSM_FIELDS_NETINTERFACESTAT_SPEED (is_speed s)]"

definition INIT_FIELDS_NETROUTE :: bean where
  "INIT_FIELDS_NETROUTE =
     \<lparr>b_slot = JSYSM_FIELDS_NETROUTE, b_max = JSYSM_FIELDS_NETROUTE_MAX, b_ids =
      [(JSYSM_FIELDS_NETROUTE_DESTINATION, ''destination'', STRING_SIG),
       (JSYSM_FIELDS_NETROUTE_GATEWAY, ''gateway'', STRING_SIG),
       (JSYSM_FIELDS_NETROUTE_FLAGS, ''flags'', ''J''),
       (JSYSM_FIELDS_NETROUTE_REFCNT, ''refcnt'', ''J''),
       (JSYSM_FIELDS_NETROUTE_USE, ''use'', ''J''),
       (JSYSM_FIELDS_NETROUTE_METRIC, ''metric'', ''J''),
       (JSYSM_FIELDS_NETROUTE_MASK, ''mask'', STRING_SIG),
       (JSYSM_FIELDS_NETROUTE_MTU, ''mtu'', ''J''),
       (JSYSM_FIELDS_NETROUTE_WINDOW, ''window'', ''J''),
       (JSYSM_FIELDS_NETROUTE_IRTT, ''irtt'', ''J''),
       (JSYSM_FIELDS_NETROUTE_IFNAME, ''ifname'', STRING_SIG)]\<rparr>"

definition SET_FIELDS_NETROUTE :: "sysm_net_route \<Rightarrow> jset list" where
  "SET_FIELDS_NETROUTE s =
     [SetNetAddressField JSYSM_FIELDS_NETROUTE_DESTINATION (nr_destination s),
      SetNetAddressField JSYSM_FIELDS_NETROUTE_GATEWAY (nr_gateway s),
      SetLongField JSYSM_FIELDS_NETROUTE_FLAGS (nr_flags s),
      SetLongField JSYSM_FIELDS_NETROUTE_REFCNT (nr_refcnt s),
      SetLongField JSYSM_FIELDS_NETROUTE_USE (nr_use s),
      SetLongField JSYSM_FIELDS_NETROUTE_METRIC (nr_metric s),
      SetNetAddressField JSYSM_FIELDS_NETROUTE_MASK (nr_mask s),
      SetLongField JSYSM_FIELDS_NETROUTE_MTU (nr_mtu s),
      SetLongField JSYSM_FIELDS_NETROUTE_WINDOW (nr_window s),
      SetLongField JSYSM_FIELDS_NETROUTE_IRTT (nr_irtt s),
      SetStringField JSYSM_FIELDS_NETROUTE_IFNAME (nr_ifname s)]"

definition INIT_FIELDS_NETCONNECTION :: bean where
  "INIT_FIELDS_NETCONNECTION =
     \<lparr>b_slot = JSYSM_FIELDS_NETCONNECTION, b_max = JSYSM_FIELDS_NETCONNECTION_MAX, b_ids =
      [(JSYSM_FIELDS_NETCONNECTION_LOCAL_PORT, ''localPort'', ''J''),
       (JSYSM_FIELDS_NETCONNECTION_LOCAL_ADDRESS, ''localAddress'', STRING_SIG),
       (JSYSM_FIELDS_NETCONNECTION_REMOTE_PORT, ''remotePort'', ''J''),
       (JSYSM_FIELDS_NETCONNECTION_REMOTE_ADDRESS, ''remoteAddress'', STRING_SIG),
       (JSYSM_FIELDS_NETCONNECTION_TYPE, ''type'', ''I''),
       (JSYSM_FIELDS_NETCONNECTION_STATE, ''state'', ''I''),
       (JSYSM_FIELDS_NETCONNECTION_SEND_QUEUE, ''sendQueue'', ''J''),
       (JSYSM_FIELDS_NETCONNECTION_RECEIVE_QUEUE, ''receiveQueue'', ''J'')]\<rparr>"

definition SET_FIELDS_NETCONNECTION :: "sysm_net_connection \<Rightarrow> jset list" where
  "SET_FIELDS_NETCONNECTION s =
     [SetLongField JSYSM_FIELDS_NETCONNECTION_LOCAL_PORT (nc_lo_port s),
      SetNetAddressField JSYSM_FIELDS_NETCONNECTION_LOCAL_ADDRESS (nc_lo_address s),
      SetLongField JSYSM_FIELDS_NETCONNECTION_REMOTE_PORT (nc_re_port s),
      SetNetAddressField JSYSM_FIELDS_NETCONNECTION_REMOTE_ADDRESS (nc_re_address s),
      SetIntField JSYSM_FIELDS_NETCONNECTION_TYPE (word_of_int (nc_type s)),
      SetIntField JSYSM_FIELDS_NETCONNECTION_STATE (word_of_int (nc_state s)),
      SetLongField JSYSM_FIELDS_NETCONNECTION_SEND_QUEUE (nc_se_q s),
      SetLongField JSYSM_FIELDS_NETCONNECTION_RECEIVE_QUEUE (nc_re_q s)]"

definition INIT_FIELDS_WHO :: bean where
  "INIT_FIELDS_WHO =
     \<lparr>b_slot = JSYSM_FIELDS_WHO, b_max = JSYSM_FIELDS_WHO_MAX, b_ids =
      [(JSYSM_FIELDS_WHO_USER, ''user'', STRING_SIG),
       (JSYSM_FIELDS_WHO_DEVICE, ''device'', STRING_SIG),
       (JSYSM_FIELDS_WHO_HOST, ''host'', STRING_SIG),
       (JSYSM_FIELDS_WHO_TIME, ''time'', ''J'')]\<rparr>"

definition SET_FIELDS_WHO :: "sysm_who \<Rightarrow> jset list" where
  "SET_FIELDS_WHO s =
     [SetStringField JSYSM_FIELDS_WHO_USER (wh_user s),
      SetStringField JSYSM_FIELDS_WHO_DEVICE (wh_device s),
      SetStringField JSYSM_FIELDS_WHO_HOST (wh_host s),
      SetLongField JSYSM_FIELDS_WHO_TIME (wh_time s)]"

lemmas INIT_FIELDS_defs =
  INIT_FIELDS_MEMORY_def INIT_FIELDS_SWAP_def INIT_FIELDS_CPU_def INIT_FIELDS_CPUINFO_def INIT_FIELDS_CPUPERCENTAGE_def INIT_FIELDS_UPTIME_def INIT_FIELDS_PROCCPU_def INIT_FIELDS_PROCEXE_def INIT_FIELDS_PROCMEM_def INIT_FIELDS_PROCOWN_def INIT_FIELDS_PROCOWNER_def INIT_FIELDS_PROCSTAT_def INIT_FIELDS_PROCSTATE_def INIT_FIELDS_PROCTIME_def INIT_FIELDS_RESOURCELIMIT_def INIT_FIELDS_DISKUSAGE_def INIT_FIELDS_NETSTAT_def INIT_FIELDS_NETINFO_def INIT_FIELDS_NETINTERFACECONFIG_def INIT_FIELDS_NETINTERFACESTAT_def INIT_FIELDS_NETROUTE_def INIT_FIELDS_NETCONNECTION_def INIT_FIELDS_WHO_def

lemmas SET_FIELDS_defs =
  SET_FIELDS_MEMORY_def SET_FIELDS_SWAP_def SET_FIELDS_CPU_def SET_FIELDS_CPUINFO_def SET_FIELDS_CPUPERCENTAGE_def SET_FIELDS_UPTIME_def SET_FIELDS_PROCCPU_def SET_FIELDS_PROCEXE_def SET_FIELDS_PROCMEM_def SET_FIELDS_PROCOWN_def SET_FIELDS_PROCOWNER_def SET_FIELDS_PROCSTAT_def SET_FIELDS_PROCSTATE_def SET_FIELDS_PROCTIME_def SET_FIELDS_RESOURCELIMIT_def SET_FIELDS_DISKUSAGE_def SET_FIELDS_NETSTAT_def SET_FIELDS_NETINFO_def SET_FIELDS_NETINTERFACECONFIG_def SET_FIELDS_NETINTERFACESTAT_def SET_FIELDS_NETROUTE_def SET_FIELDS_NETCONNECTION_def SET_FIELDS_WHO_def

text \<open>All beans, by slot.\<close>

definition beans :: "bean list" where
  "beans = [INIT_FIELDS_MEMORY, INIT_FIELDS_SWAP, INIT_FIELDS_CPU, INIT_FIELDS_CPUINFO, INIT_FIELDS_CPUPERCENTAGE, INIT_FIELDS_UPTIME, INIT_FIELDS_PROCCPU, INIT_FIELDS_PROCEXE, INIT_FIELDS_PROCMEM, INIT_FIELDS_PROCOWN, INIT_FIELDS_PROCOWNER, INIT_FIELDS_PROCSTAT, INIT_FIELDS_PROCSTATE, INIT_FIELDS_PROCTIME, INIT_FIELDS_RESOURCELIMIT, INIT_FIELDS_DISKUSAGE, INIT_FIELDS_NETSTAT, INIT_FIELDS_NETINFO, INIT_FIELDS_NETINTERFACECONFIG, INIT_FIELDS_NETINTERFACESTAT, INIT_FIELDS_NETROUTE, INIT_FIELDS_NETCONNECTION, INIT_FIELDS_WHO]"

end
