(* ===== verification/Jni.thy ===== *)
theory Jni
  imports Bean_Tables Format Connections Interfaces
begin

text \<open>
  The binding to Java (\<^verbatim>\<open>javasysm.c\<close>): the native handle with its cache of field ids, the
  exceptions that report errors, opening and closing, and the \<open>gather\<close> method every bean has.
  The object that holds the handle stores its address in a field of type long.

  The natives get the virtual machine and the memory that holds the handles, and return them.
  The functions of the C library that are called are arguments.
\<close>

section \<open>The handle\<close>

text \<open>
  The ids found for a bean: one cell per index; \<open>None\<close> is a cell without a usable id (nothing
  was stored, or the null pointer).
\<close>

record jsysm_field_cache =
  fc_classref :: jclass
  fc_ids :: "jfieldID option list"

record jni_sysm =
  js_sysm :: sysm
  js_fields :: "jsysm_field_cache option list"
  js_open_status :: int
  js_not_impl :: "throwable option"

text \<open>The virtual machine, the handles by address, and how many lists of the C side are allocated.\<close>

record jworld =
  jw_vm :: jvm
  jw_handles :: "u64 \<Rightarrow> jni_sysm option"
  jw_lists :: nat

record libc =
  lc_strerror_r :: "int \<Rightarrow> int \<times> cstring"
  lc_inet_ntop6 :: "u8 list \<Rightarrow> int + cstring"

section \<open>Exceptions\<close>

definition SYSM_PACKAGE :: cstring where "SYSM_PACKAGE = ''edu/scut/cs/sysm/''"
definition SYSM_PACKAGE_BEAN :: cstring where "SYSM_PACKAGE_BEAN = ''edu/scut/cs/sysm/bean/''"
definition SYSM_PACKAGE_EX :: cstring where "SYSM_PACKAGE_EX = ''edu/scut/cs/sysm/exception/''"

definition SYSM_FIND_CLASS :: "jvm \<Rightarrow> cstring \<Rightarrow> (jvm \<times> jclass option) option" where
  "SYSM_FIND_CLASS vm name = FindClass vm (SYSM_PACKAGE @ name)"

definition SYSM_FIND_CLASS_BEAN :: "jvm \<Rightarrow> cstring \<Rightarrow> (jvm \<times> jclass option) option" where
  "SYSM_FIND_CLASS_BEAN vm name = FindClass vm (SYSM_PACKAGE_BEAN @ name)"

definition SYSM_FIND_CLASS_EX :: "jvm \<Rightarrow> cstring \<Rightarrow> (jvm \<times> jclass option) option" where
  "SYSM_FIND_CLASS_EX vm name = FindClass vm (SYSM_PACKAGE_EX @ name)"

definition SYSM_CLASS_SIG_EX :: "cstring \<Rightarrow> cstring" where
  "SYSM_CLASS_SIG_EX name = ''L'' @ SYSM_PACKAGE_EX @ name @ '';''"

definition SYSM_EX :: cstring where "SYSM_EX = ''SysmException''"
definition SYSM_NOTIMPLE_EX :: cstring where "SYSM_NOTIMPLE_EX = ''SysmNotImplException''"

definition sysm_throw_exception :: "jvm \<Rightarrow> cstring \<Rightarrow> jvm option" where
  "sysm_throw_exception vm msg = do {
     (vm, errorCls) \<leftarrow> SYSM_FIND_CLASS_EX vm SYSM_EX;
     ThrowNew vm errorCls msg }"

definition sysm_throw_notimpl :: "jvm \<Rightarrow> cstring \<Rightarrow> jvm option" where
  "sysm_throw_notimpl vm msg = do {
     (vm, errorCls) \<leftarrow> SYSM_FIND_CLASS_EX vm SYSM_NOTIMPLE_EX;
     ThrowNew vm errorCls msg }"

text \<open>The text of the error is asked of the library, which may store it in its handle.\<close>

definition throw_strerror ::
  "libc \<Rightarrow> jvm \<Rightarrow> jni_sysm \<Rightarrow> jclass option \<Rightarrow> int \<Rightarrow> (jvm \<times> jni_sysm) option" where
  "throw_strerror lc vm js errorCls err =
     (let (s, text) = sysm_strerror (lc_strerror_r lc) (js_sysm js) err
      in do { vm \<leftarrow> ThrowNew vm errorCls text; Some (vm, js\<lparr>js_sysm := s\<rparr>) })"

definition sysm_throw_error :: "libc \<Rightarrow> jvm \<Rightarrow> jni_sysm \<Rightarrow> int \<Rightarrow> (jvm \<times> jni_sysm) option" where
  "sysm_throw_error lc vm js err =
     (if err = ENOENT then do {
        (vm, errorCls) \<leftarrow> SYSM_FIND_CLASS vm ''SysmFileNotFoundException'';
        throw_strerror lc vm js errorCls err }
      else if err = EACCES then do {
        (vm, errorCls) \<leftarrow> SYSM_FIND_CLASS vm ''SysmPermissionDeniedException'';
        throw_strerror lc vm js errorCls err }
      else if err = SYSM_ENOTIMPL then
        (case js_not_impl js of
           Some e \<Rightarrow> do { vm \<leftarrow> Throw vm e; Some (vm, js) }
         | None \<Rightarrow> do {
             (vm, errorCls) \<leftarrow> SYSM_FIND_CLASS_EX vm SYSM_NOTIMPLE_EX;
             e \<leftarrow> GetStaticField vm errorCls ''INSTANCE'' (SYSM_CLASS_SIG_EX SYSM_NOTIMPLE_EX);
             vm \<leftarrow> NewGlobalRef vm;
             vm \<leftarrow> Throw vm e;
             Some (vm, js\<lparr>js_not_impl := Some e\<rparr>) })
      else do {
        (vm, errorCls) \<leftarrow> SYSM_FIND_CLASS_EX vm SYSM_EX;
        throw_strerror lc vm js errorCls err })"

section \<open>The address of the handle\<close>

definition sysm_set_pointer :: "jvm \<Rightarrow> jobject \<Rightarrow> u64 \<Rightarrow> (jvm \<times> jobject) option" where
  "sysm_set_pointer vm obj ptr = do {
     cls \<leftarrow> GetObjectClass vm obj;
     (vm, pointer_field) \<leftarrow> GetFieldID vm cls ''longSysmWrapper'' ''J'';
     obj \<leftarrow> SetField vm obj pointer_field (JLong ptr);
     Some (vm, obj) }"

definition sysm_get_pointer :: "jvm \<Rightarrow> jobject \<Rightarrow> (jvm \<times> u64) option" where
  "sysm_get_pointer vm obj = do {
     cls \<leftarrow> GetObjectClass vm obj;
     (vm, pointer_field) \<leftarrow> GetFieldID vm cls ''longSysmWrapper'' ''J'';
     ptr \<leftarrow> GetLongField vm obj pointer_field;
     Some (vm, ptr) }"

text \<open>The address of a handle that was opened, or an exception. A wild address is undefined.\<close>

definition sysm_get_jpointer :: "libc \<Rightarrow> jworld \<Rightarrow> jobject \<Rightarrow> (jworld \<times> u64 option) option" where
  "sysm_get_jpointer lc w obj = do {
     (vm, ptr) \<leftarrow> sysm_get_pointer (jw_vm w) obj;
     if ptr = 0 then do {
       vm \<leftarrow> sysm_throw_exception vm ''sysm has been closed'';
       Some (w\<lparr>jw_vm := vm\<rparr>, None) }
     else do {
       js \<leftarrow> jw_handles w ptr;
       if js_open_status js \<noteq> SYSM_OK then do {
         (vm, js) \<leftarrow> sysm_throw_error lc vm js (js_open_status js);
         Some (w\<lparr>jw_vm := vm, jw_handles := (jw_handles w)(ptr := Some js)\<rparr>, None) }
       else Some (w\<lparr>jw_vm := vm\<rparr>, Some ptr) } }"

text \<open>What a native leaves: the machine and the handle at the address it works on.\<close>

definition put_handle :: "jworld \<Rightarrow> u64 \<Rightarrow> jvm \<times> jni_sysm \<Rightarrow> jworld" where
  "put_handle w p r = w\<lparr>jw_vm := fst r, jw_handles := (jw_handles w)(p := Some (snd r))\<rparr>"

definition throw_status :: "libc \<Rightarrow> jworld \<Rightarrow> u64 \<Rightarrow> jni_sysm \<Rightarrow> int \<Rightarrow> jworld option" where
  "throw_status lc w p js status = do {
     r \<leftarrow> sysm_throw_error lc (jw_vm w) js status;
     Some (put_handle w p r) }"

section \<open>Opening and closing\<close>

text \<open>
  \<open>p\<close> is the address \<open>malloc\<close> gives, \<open>open_call\<close> the memory \<open>malloc\<close> gives
  \<open>sysm_open\<close>. The address is stored before the library is opened.
\<close>

definition nativeOpen ::
  "libc \<Rightarrow> u64 \<Rightarrow> (sysm \<times> int) option \<Rightarrow> jworld \<Rightarrow> jobject \<Rightarrow> (jworld \<times> jobject) option" where
  "nativeOpen lc p open_call w sysm_obj =
     (if p = 0 then None
      else do {
        (vm, sysm_obj) \<leftarrow> sysm_set_pointer (jw_vm w) sysm_obj p;
        (s, status) \<leftarrow> open_call;
        let js = \<lparr>js_sysm = s, js_fields = replicate JSYSM_FIELDS_MAX None,
                  js_open_status = status, js_not_impl = None\<rparr>;
        let w = put_handle w p (vm, js);
        w \<leftarrow> (if status \<noteq> SYSM_OK then throw_status lc w p js status else Some w);
        Some (w, sysm_obj) })"

definition delete_if :: "'a option \<Rightarrow> jvm \<Rightarrow> jvm" where
  "delete_if r vm = (case r of None \<Rightarrow> vm | Some _ \<Rightarrow> DeleteGlobalRef vm)"

definition nativeClose :: "libc \<Rightarrow> jworld \<Rightarrow> jobject \<Rightarrow> (jworld \<times> jobject \<times> int) option" where
  "nativeClose lc w sysm_obj = do {
     (w, p) \<leftarrow> sysm_get_jpointer lc w sysm_obj;
     case p of None \<Rightarrow> Some (w, sysm_obj, 0)
     | Some ptr \<Rightarrow> do {
         js \<leftarrow> jw_handles w ptr;
         (_, status) \<leftarrow> sysm_close (js_sysm js);
         let vm = fold delete_if (js_fields js) (delete_if (js_not_impl js) (jw_vm w));
         (vm, sysm_obj) \<leftarrow> sysm_set_pointer vm sysm_obj 0;
         Some (w\<lparr>jw_vm := vm, jw_handles := (jw_handles w)(ptr := None)\<rparr>, sysm_obj, status) } }"

section \<open>The fields of a bean\<close>

fun init_ids ::
  "jclass \<Rightarrow> (nat \<times> cstring \<times> cstring) list \<Rightarrow> jvm \<Rightarrow> jfieldID option list
     \<Rightarrow> (jvm \<times> jfieldID option list) option" where
  "init_ids cls [] vm ids = Some (vm, ids)"
| "init_ids cls ((i, name, sig) # rows) vm ids = do {
     (vm, id) \<leftarrow> GetFieldID vm cls name sig;
     if i < length ids then init_ids cls rows vm (ids[i := id]) else None }"

text \<open>The macros \<open>JAVA_SYSM_INIT_FIELDS_*\<close>: the ids are looked up once per handle.\<close>

definition init_fields :: "bean \<Rightarrow> jclass \<Rightarrow> jvm \<Rightarrow> jni_sysm \<Rightarrow> (jvm \<times> jni_sysm) option" where
  "init_fields b cls vm js =
     (if b_slot b \<ge> length (js_fields js) then None
      else case js_fields js ! b_slot b of
        Some _ \<Rightarrow> Some (vm, js)
      | None \<Rightarrow> do {
          vm \<leftarrow> NewGlobalRef vm;
          (vm, ids) \<leftarrow> init_ids cls (b_ids b) vm (replicate (b_max b) None);
          Some (vm, js\<lparr>js_fields := (js_fields js)[b_slot b := Some \<lparr>fc_classref = cls, fc_ids = ids\<rparr>]\<rparr>) })"

definition jnet_address_to_string :: "libc \<Rightarrow> jvm \<Rightarrow> sysm_net_address \<Rightarrow> (jvm \<times> jvalue) option" where
  "jnet_address_to_string lc vm address =
     (let (status, addr_str) = sysm_net_address_to_string (lc_inet_ntop6 lc) address
      in if status = SYSM_OK then NewStringUTF vm addr_str else None)"

text \<open>The id at an index of the ids of a bean.\<close>

definition the_id :: "jsysm_field_cache \<Rightarrow> nat \<Rightarrow> jfieldID option" where
  "the_id fc i = (if i < length (fc_ids fc) then fc_ids fc ! i else None)"

fun set_field :: "libc \<Rightarrow> jsysm_field_cache \<Rightarrow> jset \<Rightarrow> jvm \<Rightarrow> jobject \<Rightarrow> (jvm \<times> jobject) option" where
  "set_field lc fc (SetLongField i v) vm obj = do { obj \<leftarrow> SetField vm obj (the_id fc i) (JLong v); Some (vm, obj) }"
| "set_field lc fc (SetIntField i v) vm obj = do { obj \<leftarrow> SetField vm obj (the_id fc i) (JInt v); Some (vm, obj) }"
| "set_field lc fc (SetDoubleField i v) vm obj = do { obj \<leftarrow> SetField vm obj (the_id fc i) (JDouble v); Some (vm, obj) }"
| "set_field lc fc (SetCharField i v) vm obj = do { obj \<leftarrow> SetField vm obj (the_id fc i) (JChar v); Some (vm, obj) }"
| "set_field lc fc (SetStringField i v) vm obj = do {
     (vm, str) \<leftarrow> NewStringUTF vm v;
     obj \<leftarrow> SetField vm obj (the_id fc i) str;
     Some (vm, obj) }"
| "set_field lc fc (SetNetAddressField i v) vm obj = do {
     (vm, str) \<leftarrow> jnet_address_to_string lc vm v;
     obj \<leftarrow> SetField vm obj (the_id fc i) str;
     Some (vm, obj) }"

fun set_all :: "libc \<Rightarrow> jsysm_field_cache \<Rightarrow> jset list \<Rightarrow> jvm \<Rightarrow> jobject \<Rightarrow> (jvm \<times> jobject) option" where
  "set_all lc fc [] vm obj = Some (vm, obj)"
| "set_all lc fc (x # xs) vm obj = do {
     (vm, obj) \<leftarrow> set_field lc fc x vm obj;
     set_all lc fc xs vm obj }"

text \<open>The macros \<open>JAVA_SYSM_SET_FIELDS_*\<close>; the slot must hold the ids.\<close>

definition set_fields :: "libc \<Rightarrow> jni_sysm \<Rightarrow> bean \<Rightarrow> jset list \<Rightarrow> jvm \<Rightarrow> jobject \<Rightarrow> (jvm \<times> jobject) option" where
  "set_fields lc js b xs vm obj =
     (if b_slot b \<ge> length (js_fields js) then None
      else do { fc \<leftarrow> js_fields js ! b_slot b; set_all lc fc xs vm obj })"

section \<open>Gathering a bean\<close>

text \<open>
  The text all \<open>gather\<close> methods share: the class of the bean, the handle, the call of the
  library, the exception when it fails, and otherwise the ids and the fields. The methods differ
  in the tables of their bean and in the call.
\<close>

definition gather_bean ::
  "bean \<Rightarrow> ('c \<Rightarrow> jset list) \<Rightarrow> (sysm \<Rightarrow> (sysm \<times> (int + 'c)) option) \<Rightarrow> libc \<Rightarrow> jworld \<Rightarrow> jobject \<Rightarrow> jobject
     \<Rightarrow> (jworld \<times> jobject) option" where
  "gather_bean b sets call lc w obj sysm_obj = do {
     cls \<leftarrow> GetObjectClass (jw_vm w) obj;
     (w, p) \<leftarrow> sysm_get_jpointer lc w sysm_obj;
     case p of None \<Rightarrow> Some (w, obj)
     | Some ptr \<Rightarrow> do {
         js \<leftarrow> jw_handles w ptr;
         (s, r) \<leftarrow> call (js_sysm js);
         let js = js\<lparr>js_sysm := s\<rparr>;
         (case r of
            Inl status \<Rightarrow> do { w \<leftarrow> throw_status lc w ptr js status; Some (w, obj) }
          | Inr c \<Rightarrow> do {
              (vm, js) \<leftarrow> init_fields b cls (jw_vm w) js;
              (vm, obj) \<leftarrow> set_fields lc js b (sets c) vm obj;
              Some (put_handle w ptr (vm, js), obj) }) } }"

text \<open>The three ways the library's operations return: a status with the structure, or without the handle.\<close>

definition by_status :: "(sysm \<times> 'c \<times> int) option \<Rightarrow> (sysm \<times> (int + 'c)) option" where
  "by_status r = do { (s, c, status) \<leftarrow> r; Some (s, if status = SYSM_OK then Inr c else Inl status) }"

definition keeps_handle :: "sysm \<Rightarrow> ('c \<times> int) option \<Rightarrow> (sysm \<times> (int + 'c)) option" where
  "keeps_handle s r = do { (c, status) \<leftarrow> r; Some (s, if status = SYSM_OK then Inr c else Inl status) }"

definition reads_only :: "sysm \<Rightarrow> (int + 'c) option \<Rightarrow> (sysm \<times> (int + 'c)) option" where
  "reads_only s r = do { c \<leftarrow> r; Some (s, c) }"

section \<open>The methods of the beans\<close>

text \<open>\<open>(pid_t) pid\<close> of a Java long.\<close>

definition pid_of_jlong :: "u64 \<Rightarrow> int" where "pid_of_jlong pid = sint (ucast pid :: 32 word)"

definition Memory_gather where
  "Memory_gather fs memory0 =
     gather_bean INIT_FIELDS_MEMORY SET_FIELDS_MEMORY (\<lambda>s. by_status (sysm_memory_get fs s memory0))"

definition Swap_gather where
  "Swap_gather fs swap0 =
     gather_bean INIT_FIELDS_SWAP SET_FIELDS_SWAP (\<lambda>s. keeps_handle s (sysm_swap_get fs swap0))"

definition Cpu_gather where
  "Cpu_gather fs = gather_bean INIT_FIELDS_CPU SET_FIELDS_CPU (\<lambda>s. reads_only s (sysm_cpu_get fs s))"

definition Uptime_gather where
  "Uptime_gather fs = gather_bean INIT_FIELDS_UPTIME SET_FIELDS_UPTIME (\<lambda>s. reads_only s (sysm_uptime_get fs))"

definition ProcessCpu_gather where
  "ProcessCpu_gather fs timenow now now0 now1 now2 out pid =
     gather_bean INIT_FIELDS_PROCCPU SET_FIELDS_PROCCPU
       (\<lambda>s. by_status (sysm_proc_cpu_get fs timenow now now0 now1 now2 s (pid_of_jlong pid) out))"

definition ProcessExe_gather where
  "ProcessExe_gather readlink exe0 pid =
     gather_bean INIT_FIELDS_PROCEXE SET_FIELDS_PROCEXE
       (\<lambda>s. keeps_handle s (sysm_proc_exe_get readlink (pid_of_jlong pid) exe0))"

definition ProcessMem_gather where
  "ProcessMem_gather fs timenow mem0 pid =
     gather_bean INIT_FIELDS_PROCMEM SET_FIELDS_PROCMEM
       (\<lambda>s. by_status (sysm_proc_mem_get fs timenow s (pid_of_jlong pid) mem0))"

definition ProcessOwn_gather where
  "ProcessOwn_gather fs own0 pid =
     gather_bean INIT_FIELDS_PROCOWN SET_FIELDS_PROCOWN
       (\<lambda>s. keeps_handle s (sysm_proc_own_get fs (pid_of_jlong pid) own0))"

definition ProcessOwner_gather where
  "ProcessOwner_gather fs getpwuid_r getgrgid_r own0 owner0 pid =
     gather_bean INIT_FIELDS_PROCOWNER SET_FIELDS_PROCOWNER
       (\<lambda>s. keeps_handle s (sysm_proc_owner_get fs getpwuid_r getgrgid_r own0 (pid_of_jlong pid) owner0))"

definition ProcessStat_gather where
  "ProcessStat_gather cpuid fs dir timenow st0 =
     gather_bean INIT_FIELDS_PROCSTAT SET_FIELDS_PROCSTAT
       (\<lambda>s. by_status (sysm_proc_stat_get cpuid fs dir timenow st0 s))"

definition ProcessState_gather where
  "ProcessState_gather cpuid fs timenow st0 pid =
     gather_bean INIT_FIELDS_PROCSTATE SET_FIELDS_PROCSTATE
       (\<lambda>s. by_status (sysm_proc_state_get cpuid fs timenow s (pid_of_jlong pid) st0))"

definition ProcessTime_gather where
  "ProcessTime_gather fs timenow pid =
     gather_bean INIT_FIELDS_PROCTIME SET_FIELDS_PROCTIME (\<lambda>s. sysm_proc_time_get fs timenow s (pid_of_jlong pid))"

text \<open>The operation on the limits always succeeds.\<close>

definition ResourceLimit_gather where
  "ResourceLimit_gather getrlimit child_max rlimit0 =
     gather_bean INIT_FIELDS_RESOURCELIMIT SET_FIELDS_RESOURCELIMIT
       (\<lambda>s. Some (s, Inr (sysm_resource_limit_get getrlimit child_max rlimit0)))"

definition NetInfo_gather where
  "NetInfo_gather fs host domain ntop r0 =
     gather_bean INIT_FIELDS_NETINFO SET_FIELDS_NETINFO
       (\<lambda>s. keeps_handle s (sysm_net_info_get fs host domain ntop r0))"

section \<open>Methods with a name\<close>

text \<open>
  The same with the name of a device: the characters of the Java string are fetched after the
  handle; without memory an exception is pending and the name is the null pointer.
\<close>

definition GetStringUTFChars :: "jvm \<Rightarrow> cstring option \<Rightarrow> (jvm \<times> cstring option) option" where
  "GetStringUTFChars vm jname = (case jname of None \<Rightarrow> Some (vm, None) | Some name \<Rightarrow> jvm_new vm name)"

definition gather_named ::
  "bean \<Rightarrow> ('c \<Rightarrow> jset list) \<Rightarrow> (cstring option \<Rightarrow> sysm \<Rightarrow> (sysm \<times> (int + 'c)) option) \<Rightarrow> libc
     \<Rightarrow> jworld \<Rightarrow> jobject \<Rightarrow> jobject \<Rightarrow> cstring option \<Rightarrow> (jworld \<times> jobject) option" where
  "gather_named b sets call lc w obj sysm_obj jname = do {
     cls \<leftarrow> GetObjectClass (jw_vm w) obj;
     (w, p) \<leftarrow> sysm_get_jpointer lc w sysm_obj;
     case p of None \<Rightarrow> Some (w, obj)
     | Some ptr \<Rightarrow> do {
         js \<leftarrow> jw_handles w ptr;
         (vm, name) \<leftarrow> GetStringUTFChars (jw_vm w) jname;
         (s, r) \<leftarrow> call name (js_sysm js);
         let js = js\<lparr>js_sysm := s\<rparr>;
         (case r of
            Inl status \<Rightarrow> do { w \<leftarrow> throw_status lc (w\<lparr>jw_vm := vm\<rparr>) ptr js status; Some (w, obj) }
          | Inr c \<Rightarrow> do {
              (vm, js) \<leftarrow> init_fields b cls vm js;
              (vm, obj) \<leftarrow> set_fields lc js b (sets c) vm obj;
              Some (put_handle w ptr (vm, js), obj) }) } }"

text \<open>The operations on disks and counters compare the name with others: it must not be null.\<close>

definition DiskUsage_gather where
  "DiskUsage_gather env n =
     gather_named INIT_FIELDS_DISKUSAGE SET_FIELDS_DISKUSAGE
       (\<lambda>name s. do { name \<leftarrow> name; by_status (sysm_disk_usage_get env n s name) })"

definition NetInterfaceConfig_gather where
  "NetInterfaceConfig_gather fs sock gifconf nics v0 possible0 config0 =
     gather_named INIT_FIELDS_NETINTERFACECONFIG SET_FIELDS_NETINTERFACECONFIG
       (\<lambda>name s. by_status (sysm_net_interface_config_get fs sock gifconf nics v0 possible0 name config0 s))"

definition NetInterfaceStat_gather where
  "NetInterfaceStat_gather fs stat0 =
     gather_named INIT_FIELDS_NETINTERFACESTAT SET_FIELDS_NETINTERFACESTAT
       (\<lambda>name s. do { name \<leftarrow> name; keeps_handle s (Some (sysm_net_interface_stat_get fs name stat0)) })"

section \<open>Percentages\<close>

text \<open>
  The macro \<open>JAVA_SYSM_GET_FIELDS_CPU\<close> reads the fields of a processor through the ids of its
  slot, which another method must have filled.
\<close>

definition GET_FIELDS_CPU :: "jni_sysm \<Rightarrow> jvm \<Rightarrow> jobject \<Rightarrow> sysm_cpu option" where
  "GET_FIELDS_CPU js vm obj = do {
     fc \<leftarrow> (if JSYSM_FIELDS_CPU < length (js_fields js) then js_fields js ! JSYSM_FIELDS_CPU else None);
     user \<leftarrow> GetLongField vm obj (the_id fc JSYSM_FIELDS_CPU_USER);
     sys \<leftarrow> GetLongField vm obj (the_id fc JSYSM_FIELDS_CPU_SYS);
     nice \<leftarrow> GetLongField vm obj (the_id fc JSYSM_FIELDS_CPU_NICE);
     idle \<leftarrow> GetLongField vm obj (the_id fc JSYSM_FIELDS_CPU_IDLE);
     wait \<leftarrow> GetLongField vm obj (the_id fc JSYSM_FIELDS_CPU_WAIT);
     hi \<leftarrow> GetLongField vm obj (the_id fc JSYSM_FIELDS_CPU_HI);
     si \<leftarrow> GetLongField vm obj (the_id fc JSYSM_FIELDS_CPU_SI);
     steal \<leftarrow> GetLongField vm obj (the_id fc JSYSM_FIELDS_CPU_STEAL);
     tot \<leftarrow> GetLongField vm obj (the_id fc JSYSM_FIELDS_CPU_TOTAL);
     Some \<lparr>cu_user = user, cu_sys = sys, cu_nice = nice, cu_idle = idle, cu_wait = wait,
           cu_hi = hi, cu_si = si, cu_steal = steal, cu_total = tot\<rparr> }"

definition CpuPercentage_gather ::
  "libc \<Rightarrow> jworld \<Rightarrow> jobject \<Rightarrow> jobject \<Rightarrow> jobject \<Rightarrow> jobject \<Rightarrow> (jworld \<times> jobject) option" where
  "CpuPercentage_gather lc w obj sysm_obj jprev jcurr = do {
     cls \<leftarrow> GetObjectClass (jw_vm w) obj;
     (w, p) \<leftarrow> sysm_get_jpointer lc w sysm_obj;
     case p of None \<Rightarrow> Some (w, obj)
     | Some ptr \<Rightarrow> do {
         js \<leftarrow> jw_handles w ptr;
         prev \<leftarrow> GET_FIELDS_CPU js (jw_vm w) jprev;
         curr \<leftarrow> GET_FIELDS_CPU js (jw_vm w) jcurr;
         let perc = sysm_cpu_perc_cal prev curr;
         (vm, js) \<leftarrow> init_fields INIT_FIELDS_CPUPERCENTAGE cls (jw_vm w) js;
         (vm, obj) \<leftarrow> set_fields lc js INIT_FIELDS_CPUPERCENTAGE (SET_FIELDS_CPUPERCENTAGE perc) vm obj;
         Some (put_handle w ptr (vm, js), obj) } }"

section \<open>Connections by state\<close>

text \<open>\<open>None\<close> where more bytes are stored than the address has; otherwise the status and the address.\<close>

definition jbyteArray_to_sysm_net_address ::
  "u8 list \<Rightarrow> sysm_net_address \<Rightarrow> (int \<times> sysm_net_address) option" where
  "jbyteArray_to_sysm_net_address jaddress address =
     (let len = length jaddress
      in if length (addr address) < len then None
         else let address = address\<lparr>addr := store_bytes 0 jaddress (addr address)\<rparr>
         in Some (if len = 4 then (SYSM_OK, address\<lparr>family := SYSM_AF_INET\<rparr>)
                    else if len = 4 * 4 then (SYSM_OK, address\<lparr>family := SYSM_AF_INET6\<rparr>)
                    else (EINVAL, address)))"

text \<open>
  \<open>JENV->ExceptionCheck\<close> without its argument is the address of a function and so always true:
  the method returns before the states are stored. The error that is thrown is \<open>flags\<close>.
\<close>

definition NetStat_stat ::
  "net_env \<Rightarrow> (nat \<Rightarrow> u64) \<Rightarrow> sysm_net_connection \<Rightarrow> sysm_net_address \<Rightarrow> libc
     \<Rightarrow> jworld \<Rightarrow> jobject \<Rightarrow> jobject \<Rightarrow> int \<Rightarrow> u8 list \<Rightarrow> u64 \<Rightarrow> (jworld \<times> jobject) option" where
  "NetStat_stat env clock conn0 address0 lc w obj sysm_obj flags jaddress jport = do {
     (w, p) \<leftarrow> sysm_get_jpointer lc w sysm_obj;
     case p of None \<Rightarrow> Some (w, obj)
     | Some ptr \<Rightarrow> do {
         js \<leftarrow> jw_handles w ptr;
         (s, r) \<leftarrow> (if jport \<noteq> - 1
            then do {
              (status, address) \<leftarrow> jbyteArray_to_sysm_net_address jaddress address0;
              if status = SYSM_OK
              then keeps_handle (js_sysm js)
                     (sysm_net_stat_port_get env (js_sysm js) conn0 flags address jport)
              else Some (js_sysm js, Inl status) }
            else map_option (\<lambda>(s, walk, status). (s, if status = SYSM_OK then Inr (nw_stat walk) else Inl status))
                   (sysm_net_stat_get env clock (js_sysm js) conn0 flags));
         let js = js\<lparr>js_sysm := s\<rparr>;
         (case r of
            Inl _ \<Rightarrow> do { w \<leftarrow> throw_status lc w ptr js flags; Some (w, obj) }
          | Inr netstat \<Rightarrow> do {
              cls \<leftarrow> GetObjectClass (jw_vm w) obj;
              (vm, js) \<leftarrow> init_fields INIT_FIELDS_NETSTAT cls (jw_vm w) js;
              (vm, obj) \<leftarrow> set_fields lc js INIT_FIELDS_NETSTAT (SET_FIELDS_NETSTAT netstat) vm obj;
              (vm, states) \<leftarrow> NewArray vm SYSM_TCP_UNKNOWN;
              Some (put_handle w ptr (vm, js), obj) }) } }"

end
