(* ===== verification/Jni_Lists.thy ===== *)
theory Jni_Lists
  imports Jni
begin

text \<open>
  The natives of the class \<open>Sysm\<close> and of the environment of a process: those that return a
  number or a string, and those that fetch a list from the library and copy it into a Java array.
  A result \<open>None\<close> inside the pair is the null reference.

  The list of the C side is released at the end of the loop. The macro \<open>SYSM_CHEX\<close> returns as soon
  as an exception is pending, and then the list stays allocated: \<open>jw_lists\<close> counts them.
\<close>

section \<open>Numbers and strings\<close>

definition getNativeLibVersion :: "jworld \<Rightarrow> (jworld \<times> jvalue) option" where
  "getNativeLibVersion w = do {
     (vm, str) \<leftarrow> NewStringUTF (jw_vm w) (ve_version sysm_version_get);
     Some (w\<lparr>jw_vm := vm\<rparr>, str) }"

text \<open>
  The shared start of the natives (\<open>dSYSM\<close>): what to return without a handle, and what to do with
  one.
\<close>

definition with_handle ::
  "'r \<Rightarrow> (jworld \<Rightarrow> u64 \<Rightarrow> jni_sysm \<Rightarrow> (jworld \<times> 'r) option) \<Rightarrow> libc \<Rightarrow> jworld \<Rightarrow> jobject
     \<Rightarrow> (jworld \<times> 'r) option" where
  "with_handle val body lc w sysm_obj = do {
     (w, p) \<leftarrow> sysm_get_jpointer lc w sysm_obj;
     case p of None \<Rightarrow> Some (w, val)
     | Some ptr \<Rightarrow> do { js \<leftarrow> jw_handles w ptr; body w ptr js } }"

text \<open>The exported name is \<open>kill\<close>; the class declares \<open>signal\<close>.\<close>

definition kill_native where
  "kill_native kill pid signum lc =
     with_handle () (\<lambda>w ptr js.
       let status = sysm_proc_signal kill (pid_of_jlong pid) signum
       in if status \<noteq> SYSM_OK
          then do { w \<leftarrow> throw_status lc w ptr js status; Some (w, ()) }
          else Some (w, ())) lc"

definition getPid where
  "getPid pid =
     with_handle 0 (\<lambda>w ptr js.
       let (s, n) = sysm_pid_get pid (js_sysm js)
       in Some (put_handle w ptr (jw_vm w, js\<lparr>js_sysm := s\<rparr>), n))"

definition getLoadAverage where
  "getLoadAverage fs lc =
     with_handle None (\<lambda>w ptr js. do {
       r \<leftarrow> sysm_loadavg_get fs;
       (case r of
          Inl status \<Rightarrow> do { w \<leftarrow> throw_status lc w ptr js status; Some (w, None) }
        | Inr loadavg \<Rightarrow> do {
            (vm, avgarray) \<leftarrow> NewArray (jw_vm w) 3;
            Some (w\<lparr>jw_vm := vm\<rparr>, map_option (\<lambda>_. take 3 loadavg) avgarray) }) }) lc"

definition getProcessPort where
  "getProcessPort env opendir stat conn0 protocol port lc =
     with_handle 0 (\<lambda>w ptr js. do {
       (pid, status) \<leftarrow> sysm_proc_port_get env opendir stat (js_sysm js) conn0 protocol port;
       if status \<noteq> SYSM_OK
       then do { w \<leftarrow> throw_status lc w ptr js status; Some (w, - 1) }
       else Some (w, pid) }) lc"

definition getNetListenAddress where
  "getNetListenAddress env clock now1 now2 now3 now4 now5 now6 conn0 port lc =
     with_handle JNull (\<lambda>w ptr js. do {
       (s, r) \<leftarrow> sysm_net_listen_address_get env clock now1 now2 now3 now4 now5 now6 (js_sysm js) conn0 port;
       let js = js\<lparr>js_sysm := s\<rparr>;
       (case r of
          Inl status \<Rightarrow> do { w \<leftarrow> throw_status lc w ptr js status; Some (w, JNull) }
        | Inr address \<Rightarrow> do {
            (vm, str) \<leftarrow> jnet_address_to_string lc (jw_vm w) address;
            Some (put_handle w ptr (vm, js), str) }) }) lc"

section \<open>Lists of beans\<close>

definition SetObjectArrayElement :: "jvm \<Rightarrow> 'e list \<Rightarrow> 'e \<Rightarrow> 'e list option" where
  "SetObjectArrayElement vm array x = (if \<not> quiet vm then None else Some (array @ [x]))"

text \<open>The loop over the list; the array holds the elements that were stored.\<close>

fun fill_beans ::
  "libc \<Rightarrow> jni_sysm \<Rightarrow> bean \<Rightarrow> ('c \<Rightarrow> jset list) \<Rightarrow> jclass \<Rightarrow> 'c list \<Rightarrow> jvm \<Rightarrow> jobject list
     \<Rightarrow> (jvm \<times> jobject list option) option" where
  "fill_beans lc js b sets cls [] vm array = Some (vm, Some array)"
| "fill_beans lc js b sets cls (c # cs) vm array = do {
     (vm, obj) \<leftarrow> AllocObject vm cls;
     case obj of None \<Rightarrow> Some (vm, None)
     | Some obj \<Rightarrow> do {
         (vm, obj) \<leftarrow> set_fields lc js b (sets c) vm obj;
         array \<leftarrow> SetObjectArrayElement vm array obj;
         fill_beans lc js b sets cls cs vm array } }"

definition list_taken :: "jworld \<Rightarrow> jworld" where "list_taken w = w\<lparr>jw_lists := Suc (jw_lists w)\<rparr>"
definition list_destroyed :: "jworld \<Rightarrow> jworld" where "list_destroyed w = w\<lparr>jw_lists := jw_lists w - 1\<rparr>"

text \<open>An array that was filled, or the null reference with the list still allocated.\<close>

definition return_array :: "jworld \<Rightarrow> 'r option \<Rightarrow> jworld \<times> 'r option" where
  "return_array w r = (case r of None \<Rightarrow> (w, None) | Some array \<Rightarrow> (list_destroyed w, Some array))"

definition gather_list ::
  "(jvm \<Rightarrow> (jvm \<times> jclass option) option) \<Rightarrow> bean \<Rightarrow> ('c \<Rightarrow> jset list)
     \<Rightarrow> (sysm \<Rightarrow> (sysm \<times> (int + 'c list)) option) \<Rightarrow> libc \<Rightarrow> jworld \<Rightarrow> jobject
     \<Rightarrow> (jworld \<times> jobject list option) option" where
  "gather_list find_class b sets call lc w sysm_obj = do {
     (vm, cls) \<leftarrow> find_class (jw_vm w);
     with_handle None (\<lambda>w ptr js. do {
       (s, r) \<leftarrow> call (js_sysm js);
       let js = js\<lparr>js_sysm := s\<rparr>;
       (case r of
          Inl status \<Rightarrow> do { w \<leftarrow> throw_status lc w ptr js status; Some (w, None) }
        | Inr xs \<Rightarrow> do {
            cls \<leftarrow> cls;
            (vm, js) \<leftarrow> init_fields b cls (jw_vm w) js;
            (vm, array) \<leftarrow> NewArray vm (length xs);
            (vm, array) \<leftarrow> (case array of None \<Rightarrow> Some (vm, None)
               | Some _ \<Rightarrow> fill_beans lc js b sets cls xs vm []);
            Some (return_array (put_handle (list_taken w) ptr (vm, js)) array) }) })
       lc (w\<lparr>jw_vm := vm\<rparr>) sysm_obj }"

text \<open>How the library returns a list: with the handle, with a status, or both.\<close>

definition list_by_status :: "sysm \<Rightarrow> ('c dynlist \<times> int) option \<Rightarrow> (sysm \<times> (int + 'c list)) option" where
  "list_by_status s r = do { (l, status) \<leftarrow> r;
     Some (s, if status = SYSM_OK then Inr (dl_contents l) else Inl status) }"

definition list_of_result :: "(sysm \<times> (int + 'c dynlist)) option \<Rightarrow> (sysm \<times> (int + 'c list)) option" where
  "list_of_result r = do { (s, l) \<leftarrow> r; Some (s, map_sum id dl_contents l) }"

definition getCpuInfos where
  "getCpuInfos cpuid fs nprocessors_conf junk =
     gather_list (\<lambda>vm. SYSM_FIND_CLASS_BEAN vm ''CpuInfo'') INIT_FIELDS_CPUINFO SET_FIELDS_CPUINFO
       (\<lambda>s. list_of_result (sysm_cpu_info_list_get cpuid fs nprocessors_conf junk s))"

definition getCpusNative where
  "getCpusNative cpuid fs =
     gather_list (\<lambda>vm. SYSM_FIND_CLASS_BEAN vm ''Cpu'') INIT_FIELDS_CPU SET_FIELDS_CPU
       (\<lambda>s. list_of_result (sysm_cpu_list_get cpuid fs s))"

text \<open>The class of the routes is looked for outside of the package of the beans.\<close>

definition getNetRoutes where
  "getNetRoutes fs r0 =
     gather_list (\<lambda>vm. SYSM_FIND_CLASS vm ''NetRoute'') INIT_FIELDS_NETROUTE SET_FIELDS_NETROUTE
       (\<lambda>s. list_of_result (reads_only s (sysm_net_route_list_get fs r0)))"

definition getNetConnections where
  "getNetConnections env g0 conn0 flags =
     gather_list (\<lambda>vm. SYSM_FIND_CLASS_BEAN vm ''NetConnection'') INIT_FIELDS_NETCONNECTION SET_FIELDS_NETCONNECTION
       (\<lambda>s. list_by_status s (sysm_net_connection_list_get env s g0 conn0 flags))"

definition getWhos where
  "getWhos utmp_file =
     gather_list (\<lambda>vm. SYSM_FIND_CLASS_BEAN vm ''Who'') INIT_FIELDS_WHO SET_FIELDS_WHO
       (\<lambda>s. list_by_status s (sysm_who_list_get utmp_file))"

section \<open>Lists of numbers and strings\<close>

definition getProcesses where
  "getProcesses fs dir lc =
     with_handle None (\<lambda>w ptr js. do {
       (s, l, status) \<leftarrow> sysm_proc_list_get fs dir (js_sysm js);
       let js = js\<lparr>js_sysm := s\<rparr>;
       if status \<noteq> SYSM_OK
       then do { w \<leftarrow> throw_status lc w ptr js status; Some (w, None) }
       else do {
         (vm, processes) \<leftarrow> NewArray (jw_vm w) (dl_number l);
         Some (return_array (put_handle (list_taken w) ptr (vm, js))
                 (map_option (\<lambda>_. dl_contents l) processes)) } }) lc"

fun fill_strings :: "cstring list \<Rightarrow> jvm \<Rightarrow> jvalue list \<Rightarrow> (jvm \<times> jvalue list) option" where
  "fill_strings [] vm array = Some (vm, array)"
| "fill_strings (x # xs) vm array = do {
     (vm, s) \<leftarrow> NewStringUTF vm x;
     array \<leftarrow> SetObjectArrayElement vm array s;
     fill_strings xs vm array }"

definition gather_strings ::
  "(sysm \<Rightarrow> (sysm \<times> (int + cstring list)) option) \<Rightarrow> libc \<Rightarrow> jworld \<Rightarrow> jobject
     \<Rightarrow> (jworld \<times> jvalue list option) option" where
  "gather_strings call lc w sysm_obj = do {
     (vm, stringclass) \<leftarrow> FindClass (jw_vm w) ''java/lang/String'';
     with_handle None (\<lambda>w ptr js. do {
       (s, r) \<leftarrow> call (js_sysm js);
       let js = js\<lparr>js_sysm := s\<rparr>;
       (case r of
          Inl status \<Rightarrow> do { w \<leftarrow> throw_status lc w ptr js status; Some (w, None) }
        | Inr xs \<Rightarrow> do {
            _ \<leftarrow> stringclass;
            (vm, array) \<leftarrow> NewArray (jw_vm w) (length xs);
            (vm, array) \<leftarrow> (case array of None \<Rightarrow> Some (vm, None)
               | Some _ \<Rightarrow> map_option (\<lambda>(vm, a). (vm, Some a)) (fill_strings xs vm []));
            Some (return_array (put_handle (list_taken w) ptr (vm, js)) array) }) })
       lc (w\<lparr>jw_vm := vm\<rparr>) sysm_obj }"

definition getProcessArgs where
  "getProcessArgs fs pid =
     gather_strings (\<lambda>s. list_by_status s (sysm_proc_args_get fs (pid_of_jlong pid)))"

definition getNetInterfaces where
  "getNetInterfaces fs sock gifconf =
     gather_strings (\<lambda>s. list_of_result (sysm_net_interface_list_get fs sock gifconf s))"

section \<open>The environment of a process\<close>

text \<open>
  The callbacks get the machine and the map, or the value, as their state; \<open>None\<close> is a call of
  the interface that is undefined. Storing in the map may need memory.
\<close>

type_synonym env_put = "(jvm \<times> (cstring \<Rightarrow> cstring option)) option"

fun jni_env_getall :: "env_put \<Rightarrow> cstring \<Rightarrow> nat \<Rightarrow> cstring \<Rightarrow> nat \<Rightarrow> env_put \<times> int" where
  "jni_env_getall None key klen val vlen = (None, SYSM_OK)"
| "jni_env_getall (Some (vm, m)) key klen val vlen =
     (let r = do {
        (vm, k) \<leftarrow> NewStringUTF vm key;
        (vm, v) \<leftarrow> NewStringUTF vm val;
        (vm, stored) \<leftarrow> jvm_new vm ();
        Some (vm, if stored = None then m else m(key \<mapsto> val)) }
      in (r, case r of Some (vm, _) \<Rightarrow> if quiet vm then SYSM_OK else 1 | None \<Rightarrow> SYSM_OK))"

definition ProcessEnv_getAll where
  "ProcessEnv_getAll fs getenv pid lc w sysm_obj = do {
     (vm, mapclass) \<leftarrow> FindClass (jw_vm w) ''java/util/HashMap'';
     _ \<leftarrow> mapclass;
     with_handle None (\<lambda>w ptr js. do {
       (vm, hashmap) \<leftarrow> jvm_new (jw_vm w) ();
       (case hashmap of None \<Rightarrow> Some (w\<lparr>jw_vm := vm\<rparr>, None)
        | Some _ \<Rightarrow> do {
            (put, status) \<leftarrow> sysm_proc_env_get fs getenv (js_sysm js) (pid_of_jlong pid)
               SYSM_PROC_ENV_ALL [] jni_env_getall (Some (vm, \<lambda>_. None));
            (vm, m) \<leftarrow> put;
            if status \<noteq> SYSM_OK
            then do { w \<leftarrow> throw_status lc (w\<lparr>jw_vm := vm\<rparr>) ptr js status; Some (w, None) }
            else Some (w\<lparr>jw_vm := vm\<rparr>, Some m) }) })
       lc (w\<lparr>jw_vm := vm\<rparr>) sysm_obj }"

type_synonym env_get = "(jvm \<times> jvalue) option"

fun jni_env_getvalue :: "cstring \<Rightarrow> env_get \<Rightarrow> cstring \<Rightarrow> nat \<Rightarrow> cstring \<Rightarrow> nat \<Rightarrow> env_get \<times> int" where
  "jni_env_getvalue wanted None key klen val vlen = (None, SYSM_OK)"
| "jni_env_getvalue wanted (Some (vm, v)) key klen val vlen =
     (if length wanted = klen \<and> wanted = key then (NewStringUTF vm val, 1) else (Some (vm, v), SYSM_OK))"

text \<open>The characters of the key are fetched first; without memory they would be the null pointer.\<close>

definition ProcessEnv_getValue where
  "ProcessEnv_getValue fs getenv pid key lc =
     with_handle JNull (\<lambda>w ptr js. do {
       (vm, chars) \<leftarrow> jvm_new (jw_vm w) key;
       wanted \<leftarrow> chars;
       (get, status) \<leftarrow> sysm_proc_env_get fs getenv (js_sysm js) (pid_of_jlong pid)
          SYSM_PROC_ENV_KEY wanted (jni_env_getvalue wanted) (Some (vm, JNull));
       (vm, val) \<leftarrow> get;
       if status \<noteq> SYSM_OK
       then do { w \<leftarrow> throw_status lc (w\<lparr>jw_vm := vm\<rparr>) ptr js status; Some (w, JNull) }
       else Some (w\<lparr>jw_vm := vm\<rparr>, val) }) lc"

end
