(* ===== verification/Jni_Session.thy ===== *)
theory Jni_Session
  imports Jni_Lists
begin

text \<open>
  Sessions: what any sequence of natives called on an object of the class \<open>Sysm\<close> does to the
  handle and to the global references. The contract of a native is a locale; every native of the
  binding is an interpretation of it, and a session is the reflexive transitive closure of their
  steps, where between two calls Java may catch the exception and collect garbage.
\<close>

section \<open>Global references\<close>

definition global_count :: "jni_sysm \<Rightarrow> nat" where
  "global_count js = length (filter (\<lambda>c. c \<noteq> None) (js_fields js)) + (if js_not_impl js = None then 0 else 1)"

text \<open>The references of a handle are all counted, \<open>g\<close> of the others.\<close>

definition refs :: "nat \<Rightarrow> jvm \<Rightarrow> jni_sysm \<Rightarrow> bool" where
  "refs g vm js \<longleftrightarrow> jv_globals vm = g + global_count js"

lemma global_count_updates [simp]:
  "global_count (js\<lparr>js_sysm := s\<rparr>) = global_count js"
  "global_count (js\<lparr>js_open_status := st\<rparr>) = global_count js"
  by (simp_all add: global_count_def)

lemma refs_sysm [simp]: "refs g vm (js\<lparr>js_sysm := s\<rparr>) = refs g vm js"
  by (simp add: refs_def)

named_theorems keeps_globals \<open>calls that leave the number of global references\<close>

lemma FindClass_globals [keeps_globals]: "FindClass vm name = Some (vm', c) \<Longrightarrow> jv_globals vm' = jv_globals vm"
  by (auto simp: FindClass_def split: if_splits option.splits)

lemma GetFieldID_globals [keeps_globals]: "GetFieldID vm c n s = Some (vm', i) \<Longrightarrow> jv_globals vm' = jv_globals vm"
  by (auto simp: GetFieldID_def split: if_splits option.splits)

lemma ThrowNew_globals [keeps_globals]: "ThrowNew vm c msg = Some vm' \<Longrightarrow> jv_globals vm' = jv_globals vm"
  by (auto simp: ThrowNew_def split: if_splits option.splits bind_splits)

lemma Throw_globals [keeps_globals]: "Throw vm t = Some vm' \<Longrightarrow> jv_globals vm' = jv_globals vm"
  by (auto simp: Throw_def split: if_splits)

lemma jvm_new_globals [keeps_globals]: "jvm_new vm x = Some (vm', r) \<Longrightarrow> jv_globals vm' = jv_globals vm"
  by (auto simp: jvm_new_def split: if_splits)

lemma NewStringUTF_globals [keeps_globals]: "NewStringUTF vm s = Some (vm', r) \<Longrightarrow> jv_globals vm' = jv_globals vm"
  by (auto simp: NewStringUTF_def bind_eq_Some_conv dest: jvm_new_globals)

lemma NewArray_globals [keeps_globals]: "NewArray vm n = Some (vm', r) \<Longrightarrow> jv_globals vm' = jv_globals vm"
  by (auto simp: NewArray_def split: if_splits dest: jvm_new_globals)

lemma AllocObject_globals [keeps_globals]: "AllocObject vm c = Some (vm', r) \<Longrightarrow> jv_globals vm' = jv_globals vm"
  by (auto simp: AllocObject_def bind_eq_Some_conv dest: jvm_new_globals)

lemma GetStringUTFChars_globals [keeps_globals]:
  "GetStringUTFChars vm s = Some (vm', r) \<Longrightarrow> jv_globals vm' = jv_globals vm"
  by (auto simp: GetStringUTFChars_def split: option.splits dest: jvm_new_globals)

lemma set_field_globals [keeps_globals]:
  "set_field lc fc x vm obj = Some (vm', obj') \<Longrightarrow> jv_globals vm' = jv_globals vm"
  by (cases x) (auto simp: bind_eq_Some_conv jnet_address_to_string_def
      split: if_splits prod.splits dest: NewStringUTF_globals)

lemma set_all_globals [keeps_globals]:
  "set_all lc fc xs vm obj = Some (vm', obj') \<Longrightarrow> jv_globals vm' = jv_globals vm"
  by (induction lc fc xs vm obj rule: set_all.induct)
     (fastforce simp: bind_eq_Some_conv dest: set_field_globals)+

lemma set_fields_globals [keeps_globals]:
  "set_fields lc js b xs vm obj = Some (vm', obj') \<Longrightarrow> jv_globals vm' = jv_globals vm"
  by (auto simp: set_fields_def bind_eq_Some_conv split: if_splits dest: set_all_globals)

lemma fill_beans_globals [keeps_globals]:
  "fill_beans lc js b sets cls cs vm array = Some (vm', r) \<Longrightarrow> jv_globals vm' = jv_globals vm"
  by (induction lc js b sets cls cs vm array rule: fill_beans.induct)
     (fastforce simp: bind_eq_Some_conv split: option.splits dest: AllocObject_globals set_fields_globals)+

lemma fill_strings_globals [keeps_globals]:
  "fill_strings xs vm array = Some (vm', r) \<Longrightarrow> jv_globals vm' = jv_globals vm"
  by (induction xs vm array rule: fill_strings.induct)
     (fastforce simp: bind_eq_Some_conv dest: NewStringUTF_globals)+

lemma init_ids_globals [keeps_globals]:
  "init_ids cls rows vm ids = Some (vm', r) \<Longrightarrow> jv_globals vm' = jv_globals vm"
  by (induction cls rows vm ids rule: init_ids.induct)
     (fastforce simp: bind_eq_Some_conv split: if_splits dest: GetFieldID_globals)+

section \<open>Exceptions and ids\<close>

lemma throw_strerror_refs:
  "throw_strerror lc vm js c err = Some (vm', js') \<Longrightarrow>
     jv_globals vm' = jv_globals vm \<and> global_count js' = global_count js \<and> js_open_status js' = js_open_status js"
  by (auto simp: throw_strerror_def bind_eq_Some_conv split: prod.splits dest: ThrowNew_globals)

lemma sysm_throw_error_refs:
  assumes "sysm_throw_error lc vm js err = Some (vm', js')" "refs g vm js"
  shows "refs g vm' js'" "js_open_status js' = js_open_status js"
  using assms
  by (auto simp: sysm_throw_error_def SYSM_FIND_CLASS_def SYSM_FIND_CLASS_EX_def bind_eq_Some_conv
      refs_def NewGlobalRef_Some global_count_def split: if_splits option.splits
      dest!: FindClass_globals Throw_globals throw_strerror_refs)

lemma filter_fill_slot:
  "i < length xs \<Longrightarrow> xs ! i = None \<Longrightarrow>
     length (filter (\<lambda>c. c \<noteq> None) (xs[i := Some x])) = Suc (length (filter (\<lambda>c. c \<noteq> None) xs))"
  by (induction xs arbitrary: i) (auto split: nat.split simp: nth_Cons')

lemma init_fields_refs:
  assumes "init_fields b cls vm js = Some (vm', js')" "refs g vm js"
  shows "refs g vm' js'" "js_open_status js' = js_open_status js"
  using assms
  by (auto simp: init_fields_def bind_eq_Some_conv refs_def NewGlobalRef_Some global_count_def filter_fill_slot
      simp del: not_None_eq split: if_splits option.splits dest!: init_ids_globals)

section \<open>The contract of a native\<close>

text \<open>
  The world while the handle is open at \<open>p\<close>: \<open>H\<close> are the other handles, \<open>g\<close> the other global
  references, \<open>st\<close> the status the library was opened with.
\<close>

definition open_inv :: "nat \<Rightarrow> (u64 \<Rightarrow> jni_sysm option) \<Rightarrow> u64 \<Rightarrow> int \<Rightarrow> jworld \<Rightarrow> bool" where
  "open_inv g H p st w \<longleftrightarrow>
     (\<exists>js. jw_handles w = H(p := Some js) \<and> refs g (jw_vm w) js \<and> js_open_status js = st)"

definition points_to :: "jobject \<Rightarrow> u64 \<Rightarrow> bool" where
  "points_to sysm_obj p \<longleftrightarrow> p \<noteq> 0 \<and> jo_fields sysm_obj ''longSysmWrapper'' = JLong p"

locale native =
  fixes run :: "jworld \<Rightarrow> jobject \<Rightarrow> (jworld \<times> 'r) option"
  assumes keeps: "open_inv g H p st w \<Longrightarrow> points_to so p \<Longrightarrow> run w so = Some (w', r) \<Longrightarrow> open_inv g H p st w'"
begin

text \<open>A native can be called again and again.\<close>

fun run_times :: "nat \<Rightarrow> jobject \<Rightarrow> jworld \<Rightarrow> jworld option" where
  "run_times 0 so w = Some w"
| "run_times (Suc n) so w = do { (w, _) \<leftarrow> run w so; run_times n so w }"

lemma keeps_times:
  "open_inv g H p st w \<Longrightarrow> points_to so p \<Longrightarrow> run_times n so w = Some w' \<Longrightarrow> open_inv g H p st w'"
  by (induction n arbitrary: w) (auto simp: bind_eq_Some_conv dest: keeps)

end

lemma get_pointer:
  assumes "sysm_get_pointer vm so = Some (vm', q)" "points_to so p"
  shows "vm' = vm \<and> q = p"
  using assms
  by (auto simp: sysm_get_pointer_def GetObjectClass_def GetFieldID_def GetLongField_def points_to_def
      bind_eq_Some_conv split: if_splits option.splits jvalue.splits)

lemma open_inv_put:
  "open_inv g H p st w \<Longrightarrow> refs g vm js \<Longrightarrow> js_open_status js = st \<Longrightarrow> open_inv g H p st (put_handle w p (vm, js))"
  by (auto simp: open_inv_def put_handle_def)

lemma open_inv_vm:
  "open_inv g H p st w \<Longrightarrow> jv_globals vm = jv_globals (jw_vm w) \<Longrightarrow> open_inv g H p st (w\<lparr>jw_vm := vm\<rparr>)"
  by (auto simp: open_inv_def refs_def)

lemma open_inv_lists [simp]:
  "open_inv g H p st (list_taken w) = open_inv g H p st w"
  "open_inv g H p st (list_destroyed w) = open_inv g H p st w"
  "open_inv g H p st (fst (return_array w r)) = open_inv g H p st w"
  by (auto simp: open_inv_def list_taken_def list_destroyed_def return_array_def split: option.splits)

lemma throw_exception_pending:
  "sysm_throw_exception vm msg = Some vm' \<Longrightarrow> jv_globals vm' = jv_globals vm \<and> \<not> quiet vm'"
  by (auto simp: sysm_throw_exception_def SYSM_FIND_CLASS_EX_def bind_eq_Some_conv ThrowNew_def quiet_def
      split: if_splits dest: FindClass_globals)

lemma throw_strerror_pending: "throw_strerror lc vm js c err = Some (vm', js') \<Longrightarrow> \<not> quiet vm'"
  by (auto simp: throw_strerror_def bind_eq_Some_conv ThrowNew_def split: if_splits prod.split_asm)

lemma sysm_throw_error_pending: "sysm_throw_error lc vm js err = Some (vm', js') \<Longrightarrow> \<not> quiet vm'"
  by (auto simp: sysm_throw_error_def bind_eq_Some_conv Throw_def
      split: if_splits option.splits dest: throw_strerror_pending)

lemma throw_status_inv:
  assumes "throw_status lc w p js status = Some w'" "open_inv g H p st w" "refs g (jw_vm w) js" "js_open_status js = st"
  shows "open_inv g H p st w'" "\<not> quiet (jw_vm w')"
  using assms sysm_throw_error_refs [OF _ assms(3)]
  by (auto simp: throw_status_def bind_eq_Some_conv put_handle_def dest: sysm_throw_error_pending
      intro!: open_inv_put [unfolded put_handle_def, of _ _ _ _ _ _ _, simplified])

lemma jpointer_inv:
  assumes "open_inv g H p st w" "points_to so p" "sysm_get_jpointer lc w so = Some (w', q)"
  shows "open_inv g H p st w'" "q = None \<or> q = Some p \<and> w' = w \<and> st = SYSM_OK"
    "st \<noteq> SYSM_OK \<Longrightarrow> q = None \<and> \<not> quiet (jw_vm w')"
proof -
  obtain js where js: "jw_handles w = H(p := Some js)" "refs g (jw_vm w) js" "js_open_status js = st"
    using assms(1) by (auto simp: open_inv_def)
  have p: "p \<noteq> 0" using assms(2) by (simp add: points_to_def)
  show "open_inv g H p st w'" "q = None \<or> q = Some p \<and> w' = w \<and> st = SYSM_OK"
    "st \<noteq> SYSM_OK \<Longrightarrow> q = None \<and> \<not> quiet (jw_vm w')"
    using assms(1,3) js p sysm_throw_error_refs [OF _ js(2)]
    by (auto simp: sysm_get_jpointer_def bind_eq_Some_conv open_inv_def
        dest!: get_pointer [OF _ assms(2)] map_upd_eqD1 dest: sysm_throw_error_pending split: if_splits)
qed

section \<open>Every native keeps the contract\<close>

lemma with_handle_inv:
  assumes "open_inv g H p st w" "points_to so p" "with_handle val body lc w so = Some (w', r)"
    "\<And>js. jw_handles w = H(p := Some js) \<Longrightarrow> refs g (jw_vm w) js \<Longrightarrow> js_open_status js = st \<Longrightarrow>
       body w p js = Some (w', r) \<Longrightarrow> open_inv g H p st w'"
  shows "open_inv g H p st w'"
  using assms(3) jpointer_inv(1,2) [OF assms(1,2)] assms(1,4)
  by (fastforce simp: with_handle_def bind_eq_Some_conv open_inv_def split: option.splits)

lemma throw_keeps:
  "throw_status lc w p (js\<lparr>js_sysm := s\<rparr>) status = Some w' \<Longrightarrow> open_inv g H p st w \<Longrightarrow> refs g (jw_vm w) js
     \<Longrightarrow> js_open_status js = st \<Longrightarrow> open_inv g H p st w'"
  "throw_status lc w p js status = Some w' \<Longrightarrow> open_inv g H p st w \<Longrightarrow> refs g (jw_vm w) js
     \<Longrightarrow> js_open_status js = st \<Longrightarrow> open_inv g H p st w'"
  by (auto intro: throw_status_inv)

text \<open>The ids and the fields of a bean.\<close>

lemma bean_keeps:
  assumes "init_fields b cls vm (js\<lparr>js_sysm := s\<rparr>) = Some (vm', js')" "set_fields lc js' b xs vm' obj = Some (vm'', obj')"
    "open_inv g H p st w" "refs g vm js" "js_open_status js = st"
  shows "open_inv g H p st (put_handle w p (vm'', js'))"
  using assms init_fields_refs [OF assms(1), of g] set_fields_globals [OF assms(2)]
  by (auto intro!: open_inv_put simp: refs_def)

lemma gather_bean_with_handle:
  "gather_bean b sets call lc w obj so = do {
     cls \<leftarrow> GetObjectClass (jw_vm w) obj;
     with_handle obj (\<lambda>w ptr js. do {
       (s, r) \<leftarrow> call (js_sysm js);
       (case r of
          Inl status \<Rightarrow> do { w \<leftarrow> throw_status lc w ptr (js\<lparr>js_sysm := s\<rparr>) status; Some (w, obj) }
        | Inr c \<Rightarrow> do {
            (vm, js) \<leftarrow> init_fields b cls (jw_vm w) (js\<lparr>js_sysm := s\<rparr>);
            (vm, obj) \<leftarrow> set_fields lc js b (sets c) vm obj;
            Some (put_handle w ptr (vm, js), obj) }) }) lc w so }"
  by (simp add: gather_bean_def with_handle_def Let_def cong: option.case_cong)

lemma gather_named_with_handle:
  "gather_named b sets call lc w obj so jname = do {
     cls \<leftarrow> GetObjectClass (jw_vm w) obj;
     with_handle obj (\<lambda>w ptr js. do {
       (vm, name) \<leftarrow> GetStringUTFChars (jw_vm w) jname;
       (s, r) \<leftarrow> call name (js_sysm js);
       (case r of
          Inl status \<Rightarrow> do { w \<leftarrow> throw_status lc (w\<lparr>jw_vm := vm\<rparr>) ptr (js\<lparr>js_sysm := s\<rparr>) status; Some (w, obj) }
        | Inr c \<Rightarrow> do {
            (vm, js) \<leftarrow> init_fields b cls vm (js\<lparr>js_sysm := s\<rparr>);
            (vm, obj) \<leftarrow> set_fields lc js b (sets c) vm obj;
            Some (put_handle w ptr (vm, js), obj) }) }) lc w so }"
  by (simp add: gather_named_def with_handle_def Let_def cong: option.case_cong)

interpretation gather: native "\<lambda>w so. gather_bean b sets call lc w obj so" for b sets call lc obj
proof
  fix g H p st w so w' r
  assume inv: "open_inv g H p st w" and at: "points_to so p" and run: "gather_bean b sets call lc w obj so = Some (w', r)"
  show "open_inv g H p st w'"
    by (insert run inv, clarsimp simp: gather_bean_with_handle bind_eq_Some_conv, erule with_handle_inv [OF inv at],
        clarsimp simp: bind_eq_Some_conv, auto simp: bind_eq_Some_conv split: sum.split_asm
           intro: throw_keeps bean_keeps)
qed

lemma open_inv_chars:
  assumes "GetStringUTFChars (jw_vm w) jname = Some (vm, name)" "open_inv g H p st w" "refs g (jw_vm w) js"
  shows "open_inv g H p st (w\<lparr>jw_vm := vm\<rparr>) \<and> refs g vm js"
  using assms GetStringUTFChars_globals [OF assms(1)] by (auto intro!: open_inv_vm simp: refs_def)

interpretation gather_by_name: native "\<lambda>w so. gather_named b sets call lc w obj so jname" for b sets call lc obj jname
proof
  fix g H p st w so w' r
  assume inv: "open_inv g H p st w" and at: "points_to so p" and run: "gather_named b sets call lc w obj so jname = Some (w', r)"
  show "open_inv g H p st w'"
    by (insert run inv, clarsimp simp: gather_named_with_handle bind_eq_Some_conv, erule with_handle_inv [OF inv at],
        clarsimp simp: bind_eq_Some_conv, auto simp: bind_eq_Some_conv split: sum.split_asm
           dest!: open_inv_chars [OF _ inv] intro: throw_keeps bean_keeps)
qed

lemma CpuPercentage_gather_with_handle:
  "CpuPercentage_gather lc w obj so jprev jcurr = do {
     cls \<leftarrow> GetObjectClass (jw_vm w) obj;
     with_handle obj (\<lambda>w ptr js. do {
       prev \<leftarrow> GET_FIELDS_CPU js (jw_vm w) jprev;
       curr \<leftarrow> GET_FIELDS_CPU js (jw_vm w) jcurr;
       (vm, js) \<leftarrow> init_fields INIT_FIELDS_CPUPERCENTAGE cls (jw_vm w) js;
       (vm, obj) \<leftarrow> set_fields lc js INIT_FIELDS_CPUPERCENTAGE
          (SET_FIELDS_CPUPERCENTAGE (sysm_cpu_perc_cal prev curr)) vm obj;
       Some (put_handle w ptr (vm, js), obj) }) lc w so }"
  by (simp add: CpuPercentage_gather_def with_handle_def Let_def cong: option.case_cong)

lemma bean_keeps_same:
  assumes "init_fields b cls vm js = Some (vm', js')" "set_fields lc js' b xs vm' obj = Some (vm'', obj')"
    "open_inv g H p st w" "refs g vm js" "js_open_status js = st" "jv_globals v = jv_globals vm''"
  shows "open_inv g H p st (put_handle w p (v, js'))"
  using assms init_fields_refs [OF assms(1), of g] set_fields_globals [OF assms(2)]
  by (auto intro!: open_inv_put simp: refs_def)

interpretation percentage: native "\<lambda>w so. CpuPercentage_gather lc w obj so jprev jcurr" for lc obj jprev jcurr
proof
  fix g H p st w so w' r
  assume inv: "open_inv g H p st w" and at: "points_to so p" and run: "CpuPercentage_gather lc w obj so jprev jcurr = Some (w', r)"
  show "open_inv g H p st w'"
    by (insert run inv, clarsimp simp: CpuPercentage_gather_with_handle bind_eq_Some_conv,
        erule with_handle_inv [OF inv at], clarsimp simp: bind_eq_Some_conv, erule (1) bean_keeps_same, auto)
qed

definition net_stat_call ::
  "net_env \<Rightarrow> (nat \<Rightarrow> u64) \<Rightarrow> sysm_net_connection \<Rightarrow> sysm_net_address \<Rightarrow> int \<Rightarrow> u8 list \<Rightarrow> u64 \<Rightarrow> sysm
     \<Rightarrow> (sysm \<times> (int + sysm_net_stat)) option" where
  "net_stat_call env clock conn0 address0 flags jaddress jport s =
     (if jport \<noteq> - 1
      then do {
        (status, address) \<leftarrow> jbyteArray_to_sysm_net_address jaddress address0;
        if status = SYSM_OK then keeps_handle s (sysm_net_stat_port_get env s conn0 flags address jport)
        else Some (s, Inl status) }
      else map_option (\<lambda>(s, walk, status). (s, if status = SYSM_OK then Inr (nw_stat walk) else Inl status))
             (sysm_net_stat_get env clock s conn0 flags))"

lemma NetStat_stat_with_handle:
  "NetStat_stat env clock conn0 address0 lc w obj so flags jaddress jport =
     with_handle obj (\<lambda>w ptr js. do {
       (s, r) \<leftarrow> net_stat_call env clock conn0 address0 flags jaddress jport (js_sysm js);
       (case r of
          Inl _ \<Rightarrow> do { w \<leftarrow> throw_status lc w ptr (js\<lparr>js_sysm := s\<rparr>) flags; Some (w, obj) }
        | Inr netstat \<Rightarrow> do {
            cls \<leftarrow> GetObjectClass (jw_vm w) obj;
            (vm, js) \<leftarrow> init_fields INIT_FIELDS_NETSTAT cls (jw_vm w) (js\<lparr>js_sysm := s\<rparr>);
            (vm, obj) \<leftarrow> set_fields lc js INIT_FIELDS_NETSTAT (SET_FIELDS_NETSTAT netstat) vm obj;
            (vm, states) \<leftarrow> NewArray vm SYSM_TCP_UNKNOWN;
            Some (put_handle w ptr (vm, js), obj) }) }) lc w so"
  by (simp add: NetStat_stat_def net_stat_call_def with_handle_def Let_def cong: option.case_cong)

interpretation net_stat: native "\<lambda>w so. NetStat_stat env clock conn0 address0 lc w obj so flags jaddress jport"
  for env clock conn0 address0 lc obj flags jaddress jport
proof
  fix g H p st w so w' r
  assume inv: "open_inv g H p st w" and at: "points_to so p"
    and run: "NetStat_stat env clock conn0 address0 lc w obj so flags jaddress jport = Some (w', r)"
  show "open_inv g H p st w'"
    by (insert run inv, simp add: NetStat_stat_with_handle, erule with_handle_inv [OF inv at],
        clarsimp simp: bind_eq_Some_conv, auto simp: bind_eq_Some_conv split: sum.split_asm
          intro: throw_keeps bean_keeps_same dest: NewArray_globals)
qed

section \<open>The natives that return lists, numbers and strings\<close>

lemma return_array_inv: "return_array w a = (w', r) \<Longrightarrow> open_inv g H p st w \<Longrightarrow> open_inv g H p st w'"
  using open_inv_lists(3) [of g H p st w a] by simp

lemma find_inv:
  "FindClass (jw_vm w) name = Some (vm, cls) \<Longrightarrow> open_inv g H p st w \<Longrightarrow> open_inv g H p st (w\<lparr>jw_vm := vm\<rparr>)"
  by (auto intro: open_inv_vm dest: FindClass_globals)

lemma array_keeps:
  assumes "return_array (put_handle (list_taken w) p (vm, js)) a = (w', r)" "open_inv g H p st w"
    "refs g (jw_vm w) js0" "global_count js = global_count js0" "js_open_status js = st"
    "jv_globals vm = jv_globals (jw_vm w)"
  shows "open_inv g H p st w'"
  using assms by (auto intro!: return_array_inv [OF assms(1)] open_inv_put simp: refs_def)

lemma filled_keeps:
  assumes "return_array (put_handle (list_taken w) p (vm', js')) a = (w', r)"
    "init_fields b cls (jw_vm w) (js\<lparr>js_sysm := s\<rparr>) = Some (vm, js')" "jv_globals vm' = jv_globals vm"
    "open_inv g H p st w" "refs g (jw_vm w) js" "js_open_status js = st"
  shows "open_inv g H p st w'"
  using assms init_fields_refs [OF assms(2), of g]
  by (auto intro!: return_array_inv [OF assms(1)] open_inv_put simp: refs_def)

interpretation beans_list: native "\<lambda>w so. gather_list (\<lambda>vm. FindClass vm name) b sets call lc w so"
  for name b sets call lc
proof
  fix g H p st w so w' r
  assume inv: "open_inv g H p st w" and at: "points_to so p"
    and run: "gather_list (\<lambda>vm. FindClass vm name) b sets call lc w so = Some (w', r)"
  obtain vm cls where f: "FindClass (jw_vm w) name = Some (vm, cls)"
    using run by (auto simp: gather_list_def bind_eq_Some_conv)
  note inv' = find_inv [OF f inv]
  show "open_inv g H p st w'"
    by (insert run inv', clarsimp simp: gather_list_def f bind_eq_Some_conv, erule with_handle_inv [OF inv' at],
        clarsimp simp: bind_eq_Some_conv Let_def, auto simp: bind_eq_Some_conv split: sum.split_asm option.split_asm
          intro: throw_keeps dest!: NewArray_globals fill_beans_globals elim!: filled_keeps)
qed

interpretation strings: native "\<lambda>w so. gather_strings call lc w so"
  for call lc
proof
  fix g H p st w so w' r
  assume inv: "open_inv g H p st w" and at: "points_to so p" and run: "gather_strings call lc w so = Some (w', r)"
  obtain vm cls where f: "FindClass (jw_vm w) ''java/lang/String'' = Some (vm, cls)"
    using run by (auto simp: gather_strings_def bind_eq_Some_conv)
  note inv' = find_inv [OF f inv]
  show "open_inv g H p st w'"
    by (insert run inv, clarsimp simp: gather_strings_def f bind_eq_Some_conv, erule with_handle_inv [OF inv' at],
        clarsimp simp: bind_eq_Some_conv Let_def, insert inv', auto simp: bind_eq_Some_conv split: sum.split_asm option.split_asm
          intro: throw_keeps dest!: NewArray_globals fill_strings_globals elim!: array_keeps)
qed

interpretation process_signal: native "\<lambda>w so. kill_native kill pid signum lc w so"
  for kill pid signum lc
proof
  fix g H p st w so w' r
  assume inv: "open_inv g H p st w" and at: "points_to so p" and run: "kill_native kill pid signum lc w so = Some (w', r)"
  show "open_inv g H p st w'"
    by (insert run inv, simp add: kill_native_def, erule with_handle_inv [OF inv at], clarsimp simp: bind_eq_Some_conv Let_def,
        auto simp: bind_eq_Some_conv  split: if_splits sum.split_asm option.split_asm
          intro: throw_keeps  dest!: keeps_globals)
qed

interpretation process_id: native "\<lambda>w so. getPid pid lc w so"
  for pid lc
proof
  fix g H p st w so w' r
  assume inv: "open_inv g H p st w" and at: "points_to so p" and run: "getPid pid lc w so = Some (w', r)"
  show "open_inv g H p st w'"
    by (insert run inv, simp add: getPid_def, erule with_handle_inv [OF inv at], clarsimp simp: bind_eq_Some_conv Let_def,
        auto simp: bind_eq_Some_conv sysm_pid_get_def split: if_splits sum.split_asm option.split_asm
          intro: throw_keeps  dest!: keeps_globals intro!: open_inv_put)
qed

interpretation load_average: native "\<lambda>w so. getLoadAverage fs lc w so"
  for fs lc
proof
  fix g H p st w so w' r
  assume inv: "open_inv g H p st w" and at: "points_to so p" and run: "getLoadAverage fs lc w so = Some (w', r)"
  show "open_inv g H p st w'"
    by (insert run inv, simp add: getLoadAverage_def, erule with_handle_inv [OF inv at], clarsimp simp: bind_eq_Some_conv Let_def,
        auto simp: bind_eq_Some_conv  split: if_splits sum.split_asm option.split_asm
          intro: throw_keeps open_inv_vm dest!: keeps_globals)
qed

interpretation process_port: native "\<lambda>w so. getProcessPort env opendir stat conn0 protocol port lc w so"
  for env opendir stat conn0 protocol port lc
proof
  fix g H p st w so w' r
  assume inv: "open_inv g H p st w" and at: "points_to so p" and run: "getProcessPort env opendir stat conn0 protocol port lc w so = Some (w', r)"
  show "open_inv g H p st w'"
    by (insert run inv, simp add: getProcessPort_def, erule with_handle_inv [OF inv at], clarsimp simp: bind_eq_Some_conv Let_def,
        auto simp: bind_eq_Some_conv  split: if_splits sum.split_asm option.split_asm
          intro: throw_keeps  dest!: keeps_globals)
qed

lemma put_keeps:
  "open_inv g H p st w \<Longrightarrow> refs g (jw_vm w) js \<Longrightarrow> js_open_status js = st \<Longrightarrow> jv_globals vm = jv_globals (jw_vm w)
     \<Longrightarrow> open_inv g H p st (put_handle w p (vm, js\<lparr>js_sysm := s\<rparr>))"
  by (auto intro!: open_inv_put simp: refs_def)

lemma jnet_address_globals [keeps_globals]:
  "jnet_address_to_string lc vm a = Some (vm', v) \<Longrightarrow> jv_globals vm' = jv_globals vm"
  by (auto simp: jnet_address_to_string_def split: prod.split_asm if_splits dest: NewStringUTF_globals)

interpretation listen_address: native "\<lambda>w so. getNetListenAddress env clock now1 now2 now3 now4 now5 now6 conn0 port lc w so"
  for env clock now1 now2 now3 now4 now5 now6 conn0 port lc
proof
  fix g H p st w so w' r
  assume inv: "open_inv g H p st w" and at: "points_to so p" and run: "getNetListenAddress env clock now1 now2 now3 now4 now5 now6 conn0 port lc w so = Some (w', r)"
  show "open_inv g H p st w'"
    by (insert run inv, simp add: getNetListenAddress_def, erule with_handle_inv [OF inv at], clarsimp simp: bind_eq_Some_conv Let_def,
        auto simp: bind_eq_Some_conv  split: if_splits sum.split_asm option.split_asm
          intro: throw_keeps put_keeps dest!: keeps_globals)
qed

interpretation process_list: native "\<lambda>w so. getProcesses fs dir lc w so"
  for fs dir lc
proof
  fix g H p st w so w' r
  assume inv: "open_inv g H p st w" and at: "points_to so p" and run: "getProcesses fs dir lc w so = Some (w', r)"
  show "open_inv g H p st w'"
    by (insert run inv, simp add: getProcesses_def, erule with_handle_inv [OF inv at], clarsimp simp: bind_eq_Some_conv Let_def,
        auto simp: bind_eq_Some_conv  split: if_splits sum.split_asm option.split_asm
          intro: throw_keeps  dest!: keeps_globals elim!: array_keeps)
qed

section \<open>The natives of the environment\<close>

text \<open>What the callback keeps, the loop over the environment keeps.\<close>

lemma env_loop_keeps:
  assumes step: "\<And>st key klen val vlen. P st \<Longrightarrow> P (fst (getter st key klen val vlen))"
  shows "env_loop getter st bytes = Some st' \<Longrightarrow> P st \<Longrightarrow> P st'"
proof (induction bytes arbitrary: st rule: measure_induct_rule [of length])
  case (less bytes)
  have next_entry: "env_loop getter st1 (drop (Suc (Suc (klen + vlen))) bytes) = Some st' \<Longrightarrow> bytes \<noteq> [] \<Longrightarrow> P st1 \<Longrightarrow> P st'"
    for st1 klen vlen by (rule less.IH) (auto simp: neq_Nil_conv)
  have stepped: "getter st key klen val vlen = (st1, status) \<Longrightarrow> P st1" for key klen val vlen st1 status
    using step [OF less.prems(2), of key klen val vlen] by simp
  show ?case
    using less.prems unfolding env_loop.simps [of getter st bytes]
    by (auto simp: Let_def split: if_splits option.split_asm prod.split_asm intro: next_entry stepped)
qed

lemma proc_env_keeps:
  assumes "\<And>st key klen val vlen. P st \<Longrightarrow> P (fst (getter st key klen val vlen))"
    "sysm_proc_env_get fs getenv s pid type key getter st = Some (st', status)" "P st"
  shows "P st'"
proof (cases "type = SYSM_PROC_ENV_KEY \<and> pid = s_pid s")
  case True
  then show ?thesis
    using assms(2,3) assms(1) [OF assms(3)] by (auto simp: sysm_proc_env_get_def split: option.split_asm)
next
  case False
  then obtain bytes where "st' = st \<or> env_loop getter st bytes = Some st'"
    using assms(2) by (auto simp: sysm_proc_env_get_def Let_def split: if_splits Option.bind_split_asm fileres.split_asm)
  then show ?thesis using assms(3) env_loop_keeps [of P getter, OF assms(1)] by blast
qed

definition globals_at :: "nat \<Rightarrow> (jvm \<times> 'x) option \<Rightarrow> bool" where
  "globals_at n st \<longleftrightarrow> (case st of None \<Rightarrow> True | Some (vm, _) \<Rightarrow> jv_globals vm = n)"

lemma getall_globals: "globals_at n st \<Longrightarrow> globals_at n (fst (jni_env_getall st key klen val vlen))"
  by (cases "(st, key, klen, val, vlen)" rule: jni_env_getall.cases)
     (auto simp: globals_at_def bind_eq_Some_conv Let_def split: option.split dest!: keeps_globals)

lemma getvalue_globals: "globals_at n st \<Longrightarrow> globals_at n (fst (jni_env_getvalue wanted st key klen val vlen))"
  by (cases "(wanted, st, key, klen, val, vlen)" rule: jni_env_getvalue.cases)
     (auto simp: globals_at_def split: option.split dest!: keeps_globals)

lemma env_all_globals:
  "sysm_proc_env_get fs getenv s pid type key jni_env_getall (Some (vm, m)) = Some (Some (vm', m'), status)
     \<Longrightarrow> jv_globals vm' = jv_globals vm"
  using proc_env_keeps [of "globals_at (jv_globals vm)" jni_env_getall, OF getall_globals]
  by (fastforce simp: globals_at_def)

lemma env_value_globals:
  "sysm_proc_env_get fs getenv s pid type key (jni_env_getvalue wanted) (Some (vm, v)) = Some (Some (vm', v'), status)
     \<Longrightarrow> jv_globals vm' = jv_globals vm"
  using proc_env_keeps [of "globals_at (jv_globals vm)" "jni_env_getvalue wanted", OF getvalue_globals]
  by (fastforce simp: globals_at_def)

lemma env_throw_keeps:
  assumes "throw_status lc (w\<lparr>jw_vm := vm\<rparr>) p js status = Some w'" "open_inv g H p st w" "refs g (jw_vm w) js"
    "js_open_status js = st" "jv_globals vm = jv_globals (jw_vm w)"
  shows "open_inv g H p st w'"
  using assms by (intro throw_keeps(2) [OF assms(1)] open_inv_vm) (auto simp: refs_def)

lemma env_throw_found:
  assumes "throw_status lc (w\<lparr>jw_vm := vm'\<rparr>) p js status = Some w'" "open_inv g H p st (w\<lparr>jw_vm := vm\<rparr>)"
    "refs g vm js" "js_open_status js = st" "jv_globals vm' = jv_globals vm"
  shows "open_inv g H p st w'"
  using env_throw_keeps [where w = "w\<lparr>jw_vm := vm\<rparr>" and vm = vm'] assms by simp

lemma open_inv_found:
  "open_inv g H p st (w\<lparr>jw_vm := vm\<rparr>) \<Longrightarrow> jv_globals vm' = jv_globals vm \<Longrightarrow> open_inv g H p st (w\<lparr>jw_vm := vm'\<rparr>)"
  using open_inv_vm [of g H p st "w\<lparr>jw_vm := vm\<rparr>" vm'] by simp

interpretation env_value: native "\<lambda>w so. ProcessEnv_getValue fs getenv pid key lc w so"
  for fs getenv pid key lc
proof
  fix g H p st w so w' r
  assume inv: "open_inv g H p st w" and at: "points_to so p" and run: "ProcessEnv_getValue fs getenv pid key lc w so = Some (w', r)"
  show "open_inv g H p st w'"
    by (insert run inv, simp add: ProcessEnv_getValue_def, erule with_handle_inv [OF inv at],
        clarsimp simp: bind_eq_Some_conv split: if_splits,
        auto dest!: jvm_new_globals env_value_globals intro: env_throw_keeps open_inv_vm)
qed

interpretation env_all: native "\<lambda>w so. ProcessEnv_getAll fs getenv pid lc w so"
  for fs getenv pid lc
proof
  fix g H p st w so w' r
  assume inv: "open_inv g H p st w" and at: "points_to so p" and run: "ProcessEnv_getAll fs getenv pid lc w so = Some (w', r)"
  obtain vm cls where f: "FindClass (jw_vm w) ''java/util/HashMap'' = Some (vm, Some cls)"
    using run by (auto simp: ProcessEnv_getAll_def bind_eq_Some_conv)
  note inv' = find_inv [OF f inv]
  show "open_inv g H p st w'"
    by (insert run inv', clarsimp simp: ProcessEnv_getAll_def f bind_eq_Some_conv, erule with_handle_inv [OF inv' at],
        clarsimp simp: bind_eq_Some_conv split: if_splits option.split_asm, 
        auto dest!: jvm_new_globals env_all_globals elim: env_throw_found open_inv_found)
qed

end
