(* ===== verification/Bean_Properties.thy ===== *)
theory Bean_Properties
  imports Jni_Lists
begin

text \<open>
  The tables of the beans fit together, and a successful \<open>gather\<close> stores exactly the values of the
  C structure in the fields of the Java object.
\<close>

section \<open>Tables that fit\<close>

fun jset_index :: "jset \<Rightarrow> nat" where
  "jset_index (SetLongField i _) = i"
| "jset_index (SetIntField i _) = i"
| "jset_index (SetDoubleField i _) = i"
| "jset_index (SetCharField i _) = i"
| "jset_index (SetStringField i _) = i"
| "jset_index (SetNetAddressField i _) = i"

fun jset_sig :: "jset \<Rightarrow> cstring" where
  "jset_sig (SetLongField _ _) = ''J''"
| "jset_sig (SetIntField _ _) = ''I''"
| "jset_sig (SetDoubleField _ _) = ''D''"
| "jset_sig (SetCharField _ _) = ''C''"
| "jset_sig (SetStringField _ _) = STRING_SIG"
| "jset_sig (SetNetAddressField _ _) = STRING_SIG"

text \<open>
  A slot of the handle, an id for every index below the number of ids, every name once. The calls
  store every field once, in the order of the ids, with the type the field was looked up with.
\<close>

definition bean_ok :: "bean \<Rightarrow> bool" where
  "bean_ok b \<longleftrightarrow> b_slot b < JSYSM_FIELDS_MAX \<and> map fst (b_ids b) = [0 ..< b_max b]
     \<and> distinct (map (\<lambda>(_, name, _). name) (b_ids b))"

definition sets_ok :: "bean \<Rightarrow> jset list \<Rightarrow> bool" where
  "sets_ok b xs \<longleftrightarrow> map (\<lambda>x. (jset_index x, jset_sig x)) xs = map (\<lambda>(i, _, sig). (i, sig)) (b_ids b)"

lemma beans_ok: "list_all bean_ok beans"
  unfolding beans_def INIT_FIELDS_defs jsysm_index
  by (simp add: bean_ok_def upt_rec jsysm_index)

text \<open>C35: the tables of all beans fit: the slots are different and within the array of the handle;
  every bean looks up one id for each of its indices, under different names; and the calls that fill
  the bean store every field exactly once with the type its signature has.\<close>

theorem bean_tables_fit:
  "list_all bean_ok beans \<and> distinct (map b_slot beans)
   \<and> sets_ok INIT_FIELDS_MEMORY (SET_FIELDS_MEMORY memory) \<and> sets_ok INIT_FIELDS_SWAP (SET_FIELDS_SWAP swap)
   \<and> sets_ok INIT_FIELDS_CPU (SET_FIELDS_CPU cpu) \<and> sets_ok INIT_FIELDS_CPUINFO (SET_FIELDS_CPUINFO info)
   \<and> sets_ok INIT_FIELDS_CPUPERCENTAGE (SET_FIELDS_CPUPERCENTAGE perc)
   \<and> sets_ok INIT_FIELDS_UPTIME (SET_FIELDS_UPTIME uptime)
   \<and> sets_ok INIT_FIELDS_PROCCPU (SET_FIELDS_PROCCPU pcpu) \<and> sets_ok INIT_FIELDS_PROCEXE (SET_FIELDS_PROCEXE exe)
   \<and> sets_ok INIT_FIELDS_PROCMEM (SET_FIELDS_PROCMEM pmem) \<and> sets_ok INIT_FIELDS_PROCOWN (SET_FIELDS_PROCOWN own)
   \<and> sets_ok INIT_FIELDS_PROCOWNER (SET_FIELDS_PROCOWNER owner)
   \<and> sets_ok INIT_FIELDS_PROCSTAT (SET_FIELDS_PROCSTAT pstat)
   \<and> sets_ok INIT_FIELDS_PROCSTATE (SET_FIELDS_PROCSTATE pstate)
   \<and> sets_ok INIT_FIELDS_PROCTIME (SET_FIELDS_PROCTIME ptime)
   \<and> sets_ok INIT_FIELDS_RESOURCELIMIT (SET_FIELDS_RESOURCELIMIT limits)
   \<and> sets_ok INIT_FIELDS_DISKUSAGE (SET_FIELDS_DISKUSAGE disk)
   \<and> sets_ok INIT_FIELDS_NETSTAT (SET_FIELDS_NETSTAT netstat)
   \<and> sets_ok INIT_FIELDS_NETINFO (SET_FIELDS_NETINFO netinfo)
   \<and> sets_ok INIT_FIELDS_NETINTERFACECONFIG (SET_FIELDS_NETINTERFACECONFIG ifconfig)
   \<and> sets_ok INIT_FIELDS_NETINTERFACESTAT (SET_FIELDS_NETINTERFACESTAT ifstat)
   \<and> sets_ok INIT_FIELDS_NETROUTE (SET_FIELDS_NETROUTE route)
   \<and> sets_ok INIT_FIELDS_NETCONNECTION (SET_FIELDS_NETCONNECTION conn)
   \<and> sets_ok INIT_FIELDS_WHO (SET_FIELDS_WHO who)"
  using beans_ok
  by (intro conjI)
     (simp_all add: beans_def INIT_FIELDS_defs SET_FIELDS_defs jsysm_index sets_ok_def)

section \<open>A successful gather\<close>

text \<open>The class declares the fields the bean looks up; the slot is empty or has the ids of the class.\<close>

definition declares :: "jvm \<Rightarrow> jclass \<Rightarrow> bean \<Rightarrow> bool" where
  "declares vm cls b \<longleftrightarrow> (case jv_classes vm cls of
       None \<Rightarrow> False | Some decls \<Rightarrow> list_all (\<lambda>(_, name, sig). (name, sig) \<in> set decls) (b_ids b))"

definition bean_field_ids :: "jclass \<Rightarrow> bean \<Rightarrow> jfieldID option list" where
  "bean_field_ids cls b = map (\<lambda>(_, name, sig). Some (cls, name, sig)) (b_ids b)"

definition slot_ok :: "jclass \<Rightarrow> bean \<Rightarrow> jni_sysm \<Rightarrow> bool" where
  "slot_ok cls b js \<longleftrightarrow> length (js_fields js) = JSYSM_FIELDS_MAX \<and>
     (case js_fields js ! b_slot b of None \<Rightarrow> True | Some fc \<Rightarrow> fc_ids fc = bean_field_ids cls b)"

text \<open>
  The value a call stores: a string for an address. How many strings are created, and whether the
  addresses can be printed.
\<close>

fun jset_value :: "libc \<Rightarrow> jset \<Rightarrow> jvalue" where
  "jset_value lc (SetLongField _ v) = JLong v"
| "jset_value lc (SetIntField _ v) = JInt v"
| "jset_value lc (SetDoubleField _ v) = JDouble v"
| "jset_value lc (SetCharField _ v) = JChar v"
| "jset_value lc (SetStringField _ v) = JString v"
| "jset_value lc (SetNetAddressField _ a) = JString (snd (sysm_net_address_to_string (lc_inet_ntop6 lc) a))"

fun jset_prints :: "libc \<Rightarrow> jset \<Rightarrow> bool" where
  "jset_prints lc (SetNetAddressField _ a) = (fst (sysm_net_address_to_string (lc_inet_ntop6 lc) a) = SYSM_OK)"
| "jset_prints lc _ = True"

definition strings_needed :: "jset list \<Rightarrow> nat" where
  "strings_needed xs = length (filter (\<lambda>x. jset_sig x = STRING_SIG) xs)"

text \<open>The names of the fields with the values, and an object with these fields set.\<close>

definition bean_values :: "libc \<Rightarrow> bean \<Rightarrow> jset list \<Rightarrow> (cstring \<times> jvalue) list" where
  "bean_values lc b xs = zip (map (\<lambda>(_, name, _). name) (b_ids b)) (map (jset_value lc) xs)"

definition with_fields :: "(cstring \<times> jvalue) list \<Rightarrow> jobject \<Rightarrow> jobject" where
  "with_fields vs obj = obj\<lparr>jo_fields := (\<lambda>n. case map_of vs n of Some v \<Rightarrow> v | None \<Rightarrow> jo_fields obj n)\<rparr>"

lemma init_ids_declared:
  assumes "quiet vm" "jv_classes vm cls = Some decls"
  shows "list_all (\<lambda>(_, name, sig). (name, sig) \<in> set decls) rows \<Longrightarrow> map fst rows = [length ids ..< length ids + length rows]
    \<Longrightarrow> init_ids cls rows vm (ids @ replicate (length rows) None)
          = Some (vm, ids @ map (\<lambda>(_, name, sig). Some (cls, name, sig)) rows)"
proof (induction rows arbitrary: ids)
  case Nil
  show ?case by simp
next
  case (Cons row rows)
  obtain i name sig where row: "row = (i, name, sig)" by (cases row)
  have i: "i = length ids" and rows: "map fst rows = [Suc (length ids) ..< Suc (length ids) + length rows]"
    using Cons.prems(2) by (simp_all add: row upt_rec)
  show ?case
    using Cons.IH [of "ids @ [Some (cls, name, sig)]"] Cons.prems(1) rows GetFieldID_declared [OF assms, of name sig]
    by (simp add: row i)
qed

lemma init_fields_slot:
  assumes "quiet vm" "declares vm cls b" "bean_ok b" "slot_ok cls b js"
  shows "\<exists>g js' fc. init_fields b cls vm js = Some (vm\<lparr>jv_globals := g\<rparr>, js')
    \<and> js_fields js' = (js_fields js)[b_slot b := Some fc] \<and> js_sysm js' = js_sysm js \<and> js_open_status js' = js_open_status js
    \<and> fc_ids fc = bean_field_ids cls b \<and> b_slot b < length (js_fields js)"
proof -
  have slot: "b_slot b < length (js_fields js)" using assms(3,4) by (simp add: bean_ok_def slot_ok_def)
  obtain decls where d: "jv_classes vm cls = Some decls" "list_all (\<lambda>(_, name, sig). (name, sig) \<in> set decls) (b_ids b)"
    using assms(2) by (auto simp: declares_def split: option.splits)
  have n: "map fst (b_ids b) = [0 ..< b_max b]" "b_max b = length (b_ids b)"
    using assms(3) by (auto simp: bean_ok_def dest: arg_cong [of _ _ length])
  have ids: "init_ids cls (b_ids b) (vm\<lparr>jv_globals := g\<rparr>) (replicate (b_max b) None)
      = Some (vm\<lparr>jv_globals := g\<rparr>, bean_field_ids cls b)" for g
    using init_ids_declared [of "vm\<lparr>jv_globals := g\<rparr>" cls decls "b_ids b" "[]"] assms(1) d n
    by (simp add: bean_field_ids_def)
  show ?thesis
  proof (cases "js_fields js ! b_slot b")
    case None
    then show ?thesis using slot assms(1) ids by (auto simp: init_fields_def NewGlobalRef_def)
  next
    case (Some fc)
    have "vm\<lparr>jv_globals := jv_globals vm\<rparr> = vm" "(js_fields js)[b_slot b := Some fc] = js_fields js"
      using Some slot by (simp_all flip: Some)
    then show ?thesis
      using Some slot assms(4) by (auto simp: init_fields_def slot_ok_def intro!: exI [of _ "jv_globals vm"] exI [of _ fc])
  qed
qed

text \<open>One call, and all calls.\<close>

lemma set_field_value:
  assumes "quiet vm" "the_id fc (jset_index x) = Some (jo_class obj, name, jset_sig x)" "jset_prints lc x"
    "(if jset_sig x = STRING_SIG then 1 else 0) \<le> jv_room vm"
  shows "set_field lc fc x vm obj = Some (vm\<lparr>jv_room := jv_room vm - (if jset_sig x = STRING_SIG then 1 else 0)\<rparr>,
     obj\<lparr>jo_fields := (jo_fields obj)(name := jset_value lc x)\<rparr>)"
  using assms
  by (cases x) (auto simp: SetField_def STRING_SIG_def jnet_address_to_string_def NewStringUTF_def jvm_new_def
      split: prod.splits)

lemma with_fields_Cons:
  assumes "n \<notin> fst ` set vs"
  shows "with_fields vs (obj\<lparr>jo_fields := (jo_fields obj)(n := v)\<rparr>) = with_fields ((n, v) # vs) obj"
proof -
  have "map_of vs n = None" using assms by (simp add: map_of_eq_None_iff)
  then show ?thesis by (cases obj) (auto simp: with_fields_def fun_eq_iff split: option.split)
qed

lemma set_all_values:
  assumes "list_all2 (\<lambda>x name. the_id fc (jset_index x) = Some (cls, name, jset_sig x)) xs names" "distinct names"
    "list_all (jset_prints lc) xs" "quiet vm" "strings_needed xs \<le> jv_room vm" "jo_class obj = cls"
  shows "set_all lc fc xs vm obj
    = Some (vm\<lparr>jv_room := jv_room vm - strings_needed xs\<rparr>, with_fields (zip names (map (jset_value lc) xs)) obj)"
  using assms
proof (induction xs names arbitrary: vm obj rule: list_all2_induct)
  case Nil
  show ?case by (simp add: strings_needed_def with_fields_def)
next
  case (Cons x xs name names)
  let ?k = "if jset_sig x = STRING_SIG then 1 else 0 :: nat"
  let ?vm = "vm\<lparr>jv_room := jv_room vm - ?k\<rparr>"
  let ?obj = "obj\<lparr>jo_fields := (jo_fields obj)(name := jset_value lc x)\<rparr>"
  have k: "strings_needed (x # xs) = ?k + strings_needed xs" by (simp add: strings_needed_def)
  have "set_field lc fc x vm obj = Some (?vm, ?obj)"
    using Cons.hyps(1) Cons.prems k by (intro set_field_value) auto
  moreover have "set_all lc fc xs ?vm ?obj
      = Some (?vm\<lparr>jv_room := jv_room ?vm - strings_needed xs\<rparr>, with_fields (zip names (map (jset_value lc) xs)) ?obj)"
    using Cons.prems k by (intro Cons.IH) auto
  moreover have "name \<notin> fst ` set (zip names (map (jset_value lc) xs))"
    using Cons.prems(1) by (auto dest: set_zip_leftD)
  ultimately show ?case by (simp add: k with_fields_Cons)
qed

lemma set_fields_values:
  assumes "sets_ok b xs" "bean_ok b" "list_all (jset_prints lc) xs" "quiet vm" "strings_needed xs \<le> jv_room vm"
    "b_slot b < length (js_fields js)" "js_fields js ! b_slot b = Some fc" "fc_ids fc = bean_field_ids (jo_class obj) b"
  shows "set_fields lc js b xs vm obj
    = Some (vm\<lparr>jv_room := jv_room vm - strings_needed xs\<rparr>, with_fields (bean_values lc b xs) obj)"
proof -
  let ?names = "map (\<lambda>(_, name, _). name) (b_ids b)"
  have len: "length xs = length (b_ids b)" using assms(1) by (auto simp: sets_ok_def dest: arg_cong [of _ _ length])
  have n: "map fst (b_ids b) = [0 ..< length (b_ids b)]"
    using assms(2) by (auto simp: bean_ok_def dest: arg_cong [of _ _ length])
  have idx: "fst (b_ids b ! i) = i" if "i < length (b_ids b)" for i
    using arg_cong [OF n, of "\<lambda>l. l ! i"] that by simp
  have at: "the_id fc (jset_index (xs ! i)) = Some (jo_class obj, ?names ! i, jset_sig (xs ! i))"
    if "i < length xs" for i
  proof -
    have "(jset_index (xs ! i), jset_sig (xs ! i)) = (\<lambda>(i, _, sig). (i, sig)) (b_ids b ! i)"
      using arg_cong [OF assms(1) [unfolded sets_ok_def], of "\<lambda>l. l ! i"] that len by simp
    then show ?thesis
      using that len idx [of i] assms(8) by (cases "b_ids b ! i") (simp add: the_id_def bean_field_ids_def)
  qed
  have "list_all2 (\<lambda>x name. the_id fc (jset_index x) = Some (jo_class obj, name, jset_sig x)) xs ?names"
    using len at by (simp add: list_all2_conv_all_nth)
  moreover have "distinct ?names" using assms(2) by (simp add: bean_ok_def)
  ultimately show ?thesis
    using set_all_values [of fc "jo_class obj" xs ?names lc vm obj] assms(3-7)
    by (simp add: set_fields_def bean_values_def)
qed

text \<open>The Java object of the library holds the address of an open handle.\<close>

definition holds_handle :: "jworld \<Rightarrow> jobject \<Rightarrow> u64 \<Rightarrow> jni_sysm \<Rightarrow> bool" where
  "holds_handle w so p js \<longleftrightarrow> quiet (jw_vm w) \<and> p \<noteq> 0 \<and> jw_handles w p = Some js \<and> js_open_status js = SYSM_OK
     \<and> jo_fields so ''longSysmWrapper'' = JLong p
     \<and> (case jv_classes (jw_vm w) (jo_class so) of None \<Rightarrow> False | Some decls \<Rightarrow> (''longSysmWrapper'', ''J'') \<in> set decls)"

lemma holds_handle_jpointer: "holds_handle w so p js \<Longrightarrow> sysm_get_jpointer lc w so = Some (w, Some p)"
  by (auto simp: holds_handle_def sysm_get_jpointer_def sysm_get_pointer_def GetObjectClass_quiet
      GetFieldID_declared GetLongField_def split: option.split_asm)

lemma gather_bean_result:
  assumes "holds_handle w so p js" "call (js_sysm js) = Some (s, Inr c)"
    "bean_ok b" "sets_ok b (sets c)" "declares (jw_vm w) (jo_class obj) b" "slot_ok (jo_class obj) b js"
    "list_all (jset_prints lc) (sets c)" "strings_needed (sets c) \<le> jv_room (jw_vm w)"
  shows "\<exists>w' js' fc. gather_bean b sets call lc w obj so = Some (w', with_fields (bean_values lc b (sets c)) obj)
    \<and> holds_handle w' so p js' \<and> js_sysm js' = s \<and> js_fields js' = (js_fields js)[b_slot b := Some fc]
    \<and> slot_ok (jo_class obj) b js' \<and> jv_room (jw_vm w') = jv_room (jw_vm w) - strings_needed (sets c)"
proof -
  have q: "quiet (jw_vm w)" "jw_handles w p = Some js" using assms(1) by (simp_all add: holds_handle_def)
  have "slot_ok (jo_class obj) b (js\<lparr>js_sysm := s\<rparr>)" using assms(6) by (simp add: slot_ok_def)
  from init_fields_slot [OF q(1) assms(5,3) this] obtain g js' fc where
    i: "init_fields b (jo_class obj) (jw_vm w) (js\<lparr>js_sysm := s\<rparr>) = Some (jw_vm w\<lparr>jv_globals := g\<rparr>, js')"
    "js_fields js' = (js_fields js)[b_slot b := Some fc]" "js_sysm js' = s" "js_open_status js' = js_open_status js"
    "fc_ids fc = bean_field_ids (jo_class obj) b" "b_slot b < length (js_fields js)" by auto
  let ?vm = "jw_vm w\<lparr>jv_globals := g\<rparr>"
  have set: "set_fields lc js' b (sets c) ?vm obj
      = Some (?vm\<lparr>jv_room := jv_room ?vm - strings_needed (sets c)\<rparr>, with_fields (bean_values lc b (sets c)) obj)"
    using assms(3,4,7,8) q(1) i by (intro set_fields_values) auto
  let ?w = "put_handle w p (?vm\<lparr>jv_room := jv_room ?vm - strings_needed (sets c)\<rparr>, js')"
  have "gather_bean b sets call lc w obj so = Some (?w, with_fields (bean_values lc b (sets c)) obj)"
    using i(1) set q assms(2)
    by (simp add: gather_bean_def GetObjectClass_quiet holds_handle_jpointer [OF assms(1)])
  moreover have "holds_handle ?w so p js'" using assms(1) i(4) by (simp add: holds_handle_def put_handle_def)
  moreover have "slot_ok (jo_class obj) b js'" using assms(6) i by (simp add: slot_ok_def)
  ultimately show ?thesis using i by (auto simp: put_handle_def)
qed

text \<open>C36: when the call of the library succeeds, gathering a bean stores the values of the C structure
  in the fields of the object and changes no other field; the handle keeps the state the library
  left, its slot holds the ids of the class, and no exception is pending. It needs a class with the
  fields the tables name, memory for the strings, and addresses that can be printed.\<close>

theorem gather_bean_exact:
  assumes "holds_handle w so p js" "call (js_sysm js) = Some (s, Inr c)"
    "bean_ok b" "sets_ok b (sets c)" "declares (jw_vm w) (jo_class obj) b" "slot_ok (jo_class obj) b js"
    "list_all (jset_prints lc) (sets c)" "strings_needed (sets c) \<le> jv_room (jw_vm w)"
  shows "\<exists>w' js' fc. gather_bean b sets call lc w obj so = Some (w', with_fields (bean_values lc b (sets c)) obj)
    \<and> holds_handle w' so p js' \<and> js_sysm js' = s \<and> js_fields js' = (js_fields js)[b_slot b := Some fc]
    \<and> slot_ok (jo_class obj) b js' \<and> jv_room (jw_vm w') = jv_room (jw_vm w) - strings_needed (sets c)"
  by (rule gather_bean_result [where call = call and sets = sets and c = c, OF assms])

text \<open>
  A machine with the class of the library, the class of one bean and the general exception; an
  object of each; a handle at address 4096.
\<close>

definition sample_jvm :: jvm where
  "sample_jvm = \<lparr>jv_classes = (\<lambda>c. map_of
       [(''Sysm'', [(''longSysmWrapper'', ''J'')]),
        (''ProcessExe'', [(''name'', STRING_SIG), (''cwd'', STRING_SIG)]),
        (SYSM_PACKAGE_EX @ SYSM_EX, [])] c),
     jv_statics = (\<lambda>_ _. None), jv_room = 10, jv_pending = None, jv_globals = 0\<rparr>"

definition sample_sysm_obj :: "u64 \<Rightarrow> jobject" where
  "sample_sysm_obj p = \<lparr>jo_class = ''Sysm'', jo_fields = (\<lambda>_. JNull)(''longSysmWrapper'' := JLong p)\<rparr>"

definition sample_exe_obj :: jobject where
  "sample_exe_obj = \<lparr>jo_class = ''ProcessExe'', jo_fields = (\<lambda>_. JNull)\<rparr>"

definition sample_js :: jni_sysm where
  "sample_js = \<lparr>js_sysm = zero_sysm, js_fields = replicate JSYSM_FIELDS_MAX None, js_open_status = SYSM_OK,
     js_not_impl = None\<rparr>"

definition sample_world :: jworld where
  "sample_world = \<lparr>jw_vm = sample_jvm, jw_handles = [4096 \<mapsto> sample_js], jw_lists = 0\<rparr>"

definition sample_libc :: libc where
  "sample_libc = \<lparr>lc_strerror_r = (\<lambda>_. (0, ''error'')), lc_inet_ntop6 = (\<lambda>_. Inl EINVAL)\<rparr>"

definition sample_exe :: sysm_proc_exe where
  "sample_exe = \<lparr>px_name = ''/bin/sh'', px_cwd = ''/root'', px_root = ''/''\<rparr>"

lemma sample_holds: "holds_handle sample_world (sample_sysm_obj 4096) 4096 sample_js"
  by (simp add: holds_handle_def sample_world_def sample_jvm_def sample_sysm_obj_def sample_js_def quiet_def)

lemma sample_exe_tables:
  "bean_ok INIT_FIELDS_PROCEXE" "sets_ok INIT_FIELDS_PROCEXE (SET_FIELDS_PROCEXE sample_exe)"
  "list_all (jset_prints sample_libc) (SET_FIELDS_PROCEXE sample_exe)"
  "strings_needed (SET_FIELDS_PROCEXE sample_exe) \<le> jv_room (jw_vm sample_world)"
  "declares (jw_vm sample_world) (jo_class sample_exe_obj) INIT_FIELDS_PROCEXE"
  "slot_ok (jo_class sample_exe_obj) INIT_FIELDS_PROCEXE sample_js"
  by (simp_all add: INIT_FIELDS_PROCEXE_def SET_FIELDS_PROCEXE_def bean_ok_def sets_ok_def jsysm_index upt_rec
      strings_needed_def sample_world_def sample_jvm_def declares_def sample_exe_obj_def slot_ok_def sample_js_def)

theorem gather_bean_exact_witness:
  "\<exists>w' js' fc. gather_bean INIT_FIELDS_PROCEXE SET_FIELDS_PROCEXE (\<lambda>s. Some (s, Inr sample_exe)) sample_libc
       sample_world sample_exe_obj (sample_sysm_obj 4096)
       = Some (w', with_fields [(''name'', JString ''/bin/sh''), (''cwd'', JString ''/root'')] sample_exe_obj)
     \<and> holds_handle w' (sample_sysm_obj 4096) 4096 js'
     \<and> js_fields js' = (js_fields sample_js)[JSYSM_FIELDS_PROCEXE := Some fc]"
proof -
  have v: "bean_values sample_libc INIT_FIELDS_PROCEXE (SET_FIELDS_PROCEXE sample_exe)
      = [(''name'', JString ''/bin/sh''), (''cwd'', JString ''/root'')]"
    "b_slot INIT_FIELDS_PROCEXE = JSYSM_FIELDS_PROCEXE"
    by (simp_all add: bean_values_def INIT_FIELDS_PROCEXE_def SET_FIELDS_PROCEXE_def sample_exe_def)
  show ?thesis
    using gather_bean_exact [where call = "\<lambda>s. Some (s, Inr sample_exe)" and sets = SET_FIELDS_PROCEXE and c = sample_exe,
        OF sample_holds refl sample_exe_tables(1,2,5,6,3,4)]
    unfolding v by blast
qed

end
