(* ===== verification/Jni_Properties.thy ===== *)
theory Jni_Properties
  imports Jni_Session Bean_Properties
begin

text \<open>
  What holds of sessions with the library: the balance of references and handles between opening
  and closing, what a failed opening leaves, and the calls that end in undefined behaviour.
\<close>

section \<open>Sessions\<close>

text \<open>
  One call of any native, or Java catching the exception and collecting garbage. The values of a
  bean are given as the calls that store them, so one rule serves all beans.
\<close>

inductive native_step :: "libc \<Rightarrow> jobject \<Rightarrow> jworld \<Rightarrow> jworld \<Rightarrow> bool" for lc so where
  gather: "gather_bean b id call lc w obj so = Some (w', obj') \<Longrightarrow> native_step lc so w w'"
| by_name: "gather_named b id ncall lc w obj so jname = Some (w', obj') \<Longrightarrow> native_step lc so w w'"
| percentage: "CpuPercentage_gather lc w obj so jprev jcurr = Some (w', obj') \<Longrightarrow> native_step lc so w w'"
| net_stat: "NetStat_stat env clock conn0 address0 lc w obj so flags jaddress jport = Some (w', obj')
     \<Longrightarrow> native_step lc so w w'"
| beans: "gather_list (\<lambda>vm. FindClass vm name) b id lcall lc w so = Some (w', objs) \<Longrightarrow> native_step lc so w w'"
| strings: "gather_strings scall lc w so = Some (w', strs) \<Longrightarrow> native_step lc so w w'"
| signal: "kill_native kill pid signum lc w so = Some (w', u) \<Longrightarrow> native_step lc so w w'"
| process_id: "getPid mypid lc w so = Some (w', n) \<Longrightarrow> native_step lc so w w'"
| load_average: "getLoadAverage fs lc w so = Some (w', avg) \<Longrightarrow> native_step lc so w w'"
| process_port: "getProcessPort env opendir stat conn0 protocol port lc w so = Some (w', n) \<Longrightarrow> native_step lc so w w'"
| listen_address: "getNetListenAddress env clock now1 now2 now3 now4 now5 now6 conn0 port lc w so = Some (w', str)
     \<Longrightarrow> native_step lc so w w'"
| process_list: "getProcesses fs dir lc w so = Some (w', ps) \<Longrightarrow> native_step lc so w w'"
| env_all: "ProcessEnv_getAll fs getenv pid lc w so = Some (w', m) \<Longrightarrow> native_step lc so w w'"
| env_value: "ProcessEnv_getValue fs getenv pid key lc w so = Some (w', str) \<Longrightarrow> native_step lc so w w'"
| caught: "native_step lc so w (w\<lparr>jw_vm := (jw_vm w)\<lparr>jv_pending := None, jv_room := n\<rparr>\<rparr>)"

text \<open>The methods of the beans and the lists are such steps.\<close>

lemma bind_map_result:
  "Option.bind (map_option (map_prod id (map_sum id sets)) x) (\<lambda>(s, r). F s r) = Option.bind x (\<lambda>(s, r). F s (map_sum id sets r))"
  by (cases x) auto

lemma case_map_sum: "(case map_sum id sets r of Inl e \<Rightarrow> P e | Inr c \<Rightarrow> Q c) = (case r of Inl e \<Rightarrow> P e | Inr c \<Rightarrow> Q (sets c))"
  by (cases r) auto

lemma gather_bean_id:
  "gather_bean b sets call lc w obj so = gather_bean b id (\<lambda>s. map_option (map_prod id (map_sum id sets)) (call s)) lc w obj so"
  by (simp add: gather_bean_def bind_map_result case_map_sum Let_def cong: option.case_cong)

lemma native_step_inv:
  assumes "native_step lc so w w'" "points_to so p" "open_inv g H p st w"
  shows "open_inv g H p st w'"
  using assms(1)
proof (cases rule: native_step.cases)
  case (caught n)
  then show ?thesis using assms(3) by (auto intro: open_inv_vm)
qed (use assms(2,3) in \<open>blast intro: gather.keeps gather_by_name.keeps percentage.keeps net_stat.keeps
    beans_list.keeps strings.keeps process_signal.keeps process_id.keeps load_average.keeps
    process_port.keeps listen_address.keeps process_list.keeps env_all.keeps env_value.keeps\<close>)+

lemma session_inv:
  assumes "(native_step lc so)\<^sup>*\<^sup>* w w'" "points_to so p" "open_inv g H p st w"
  shows "open_inv g H p st w'"
  using assms(1,3) by (induction rule: rtranclp_induct) (blast intro: native_step_inv [OF _ assms(2)])+

section \<open>Opening and closing\<close>

lemma set_pointer_effect:
  assumes "sysm_set_pointer vm obj ptr = Some (vm', obj')"
  shows "vm' = vm" "quiet vm" "obj' = obj\<lparr>jo_fields := (jo_fields obj)(''longSysmWrapper'' := JLong ptr)\<rparr>"
  using assms
  by (auto simp: sysm_set_pointer_def GetObjectClass_def GetFieldID_def SetField_def bind_eq_Some_conv
      split: if_splits option.split_asm)

lemma nativeOpen_inv:
  assumes "nativeOpen lc p (Some (s, st)) w so = Some (w', so')"
  shows "points_to so' p" "open_inv (jv_globals (jw_vm w)) (jw_handles w) p st w'" "st \<noteq> SYSM_OK \<Longrightarrow> \<not> quiet (jw_vm w')"
proof -
  let ?js = "\<lparr>js_sysm = s, js_fields = replicate JSYSM_FIELDS_MAX None, js_open_status = st, js_not_impl = None\<rparr>"
  let ?w = "put_handle w p (jw_vm w, ?js)"
  obtain vm where o: "p \<noteq> 0" "sysm_set_pointer (jw_vm w) so p = Some (vm, so')"
    "(if st \<noteq> SYSM_OK then throw_status lc (put_handle w p (vm, ?js)) p ?js st else Some (put_handle w p (vm, ?js))) = Some w'"
    using assms by (auto simp: nativeOpen_def bind_eq_Some_conv Let_def split: if_splits)
  note e = set_pointer_effect [OF o(2)]
  have r: "refs (jv_globals (jw_vm w)) (jw_vm w) ?js" by (simp add: refs_def global_count_def)
  then have i: "open_inv (jv_globals (jw_vm w)) (jw_handles w) p st ?w"
    by (auto simp: open_inv_def put_handle_def)
  show "points_to so' p" using o(1) e(3) by (simp add: points_to_def)
  show "open_inv (jv_globals (jw_vm w)) (jw_handles w) p st w'" "st \<noteq> SYSM_OK \<Longrightarrow> \<not> quiet (jw_vm w')"
    using o(3) e(1) i r throw_status_inv [of lc ?w p ?js st w' _ _ st]
    by (auto split: if_splits simp: put_handle_def)
qed

lemma delete_if_globals: "jv_globals (delete_if r vm) = jv_globals vm - (if r = None then 0 else 1)"
  by (simp add: delete_if_def DeleteGlobalRef_def split: option.split)

lemma delete_all_globals:
  "jv_globals (fold delete_if rs vm) = jv_globals vm - length (filter (\<lambda>r. r \<noteq> None) rs)"
  by (induction rs arbitrary: vm) (simp_all add: delete_if_globals del: not_None_eq)

lemma nativeClose_effect:
  assumes "nativeClose lc w so = Some (w', so', status)" "points_to so p" "open_inv g H p SYSM_OK w"
  shows "jv_globals (jw_vm w') = g" "jw_handles w' = H(p := None)" "jo_fields so' ''longSysmWrapper'' = JLong 0"
    "status = SYSM_OK"
proof -
  obtain js where js: "jw_handles w = H(p := Some js)" "refs g (jw_vm w) js" "js_open_status js = SYSM_OK"
    using assms(3) by (auto simp: open_inv_def)
  obtain vm q where "sysm_get_pointer (jw_vm w) so = Some (vm, q)"
    using assms(1) by (cases "sysm_get_pointer (jw_vm w) so") (auto simp: nativeClose_def sysm_get_jpointer_def)
  then have ptr: "sysm_get_pointer (jw_vm w) so = Some (jw_vm w, p)" using get_pointer [OF _ assms(2)] by blast
  have j: "sysm_get_jpointer lc w so = Some (w, Some p)"
    using ptr js assms(2) by (simp add: sysm_get_jpointer_def points_to_def)
  let ?vm = "fold delete_if (js_fields js) (delete_if (js_not_impl js) (jw_vm w))"
  obtain fr vm' where c: "sysm_close (js_sysm js) = Some (fr, status)" "sysm_set_pointer ?vm so 0 = Some (vm', so')"
    "w' = w\<lparr>jw_vm := vm', jw_handles := (jw_handles w)(p := None)\<rparr>"
    using assms(1) by (auto simp: nativeClose_def j js(1) bind_eq_Some_conv)
  note e = set_pointer_effect [OF c(2)]
  show "jv_globals (jw_vm w') = g"
    using js(2) by (auto simp: c(3) e(1) delete_all_globals delete_if_globals refs_def global_count_def)
  show "jw_handles w' = H(p := None)" by (simp add: c(3) js(1))
  show "jo_fields so' ''longSysmWrapper'' = JLong 0" by (simp add: e(3))
  show "status = SYSM_OK" using c(1) by (auto simp: sysm_close_def bind_eq_Some_conv sysm_os_close_def)
qed

text \<open>Sessions are balanced. After opening the library, any sequence of natives, and closing it, the
  number of global references is what it was before, the memory holds the handles it held before and
  nothing at the address of this one, the Java object no longer points to it, and closing reports
  success.\<close>

theorem session_balanced:
  assumes "nativeOpen lc p (Some (s, SYSM_OK)) w0 so0 = Some (w1, so1)" "(native_step lc so1)\<^sup>*\<^sup>* w1 w2"
    "nativeClose lc w2 so1 = Some (w3, so3, status)"
  shows "jv_globals (jw_vm w3) = jv_globals (jw_vm w0) \<and> jw_handles w3 = (jw_handles w0)(p := None)
    \<and> jo_fields so3 ''longSysmWrapper'' = JLong 0 \<and> status = SYSM_OK"
  using nativeClose_effect [OF assms(3) nativeOpen_inv(1) [OF assms(1)]
      session_inv [OF assms(2) nativeOpen_inv(1,2) [OF assms(1)]]] by blast

text \<open>Closing an open library always succeeds.\<close>

lemma nativeClose_total:
  assumes "holds_handle w so p js" "sysm_close (js_sysm js) = Some (fr, status)"
  shows "\<exists>w' so'. nativeClose lc w so = Some (w', so', status)"
proof -
  have d: "jv_classes (delete_if r vm) = jv_classes vm" "quiet (delete_if r vm) = quiet vm" for r :: "'x option" and vm
    by (simp_all add: delete_if_def DeleteGlobalRef_def split: option.split)
  have f: "jv_classes (fold delete_if rs vm) = jv_classes vm" "quiet (fold delete_if rs vm) = quiet vm"
    for rs :: "jsysm_field_cache option list" and vm
    by (induction rs arbitrary: vm) (simp_all add: delete_if_def DeleteGlobalRef_def split: option.split)
  show ?thesis
    using assms holds_handle_jpointer [OF assms(1), of lc]
    by (auto simp: nativeClose_def holds_handle_def sysm_set_pointer_def GetObjectClass_quiet GetFieldID_declared
        SetField_def f delete_if_def DeleteGlobalRef_def split: option.split_asm option.split)
qed

definition sample_empty :: jworld where
  "sample_empty = \<lparr>jw_vm = sample_jvm, jw_handles = Map.empty, jw_lists = 0\<rparr>"

lemma sample_native_open:
  "nativeOpen sample_libc 4096 (Some (zero_sysm, SYSM_OK)) sample_empty (sample_sysm_obj 0) = Some (sample_world, sample_sysm_obj 4096)"
  by (simp add: nativeOpen_def sysm_set_pointer_def GetObjectClass_def GetFieldID_def SetField_def quiet_def
      sample_empty_def sample_world_def sample_jvm_def sample_sysm_obj_def sample_js_def put_handle_def)

theorem session_balanced_witness:
  "\<exists>w2 obj w3 so3. gather_bean INIT_FIELDS_PROCEXE SET_FIELDS_PROCEXE (\<lambda>s. Some (s, Inr sample_exe)) sample_libc
      sample_world sample_exe_obj (sample_sysm_obj 4096) = Some (w2, obj)
    \<and> nativeClose sample_libc w2 (sample_sysm_obj 4096) = Some (w3, so3, SYSM_OK)
    \<and> jv_globals (jw_vm w3) = 0 \<and> jw_handles w3 = Map.empty"
proof -
  let ?call = "\<lambda>s. Some (s, Inr sample_exe)"
  obtain w2 js2 where g: "gather_bean INIT_FIELDS_PROCEXE SET_FIELDS_PROCEXE ?call sample_libc
      sample_world sample_exe_obj (sample_sysm_obj 4096)
      = Some (w2, with_fields (bean_values sample_libc INIT_FIELDS_PROCEXE (SET_FIELDS_PROCEXE sample_exe)) sample_exe_obj)"
    "holds_handle w2 (sample_sysm_obj 4096) 4096 js2" "js_sysm js2 = zero_sysm"
    using gather_bean_result [where call = ?call and sets = SET_FIELDS_PROCEXE and c = sample_exe and s = zero_sysm,
        OF sample_holds _ sample_exe_tables(1,2,5,6,3,4)] by (auto simp: sample_js_def)
  have step: "(native_step sample_libc (sample_sysm_obj 4096))\<^sup>*\<^sup>* sample_world w2"
    using g(1) by (subst (asm) gather_bean_id) (blast intro: native_step.gather)
  have "\<exists>fr. sysm_close (js_sysm js2) = Some (fr, SYSM_OK)"
    by (simp add: g(3) sysm_close_def zero_sysm_def free_buf_def sysm_os_close_def)
  then obtain w3 so3 where c: "nativeClose sample_libc w2 (sample_sysm_obj 4096) = Some (w3, so3, SYSM_OK)"
    using nativeClose_total [OF g(2), of _ SYSM_OK] by blast
  show ?thesis
    using session_balanced [OF sample_native_open step c] g(1) c by (auto simp: sample_empty_def sample_jvm_def)
qed

text \<open>
  The exception that reports an error: the class of the error with the text the library has for it.
  For a call that is not implemented it is the one object the class of that exception holds, and the
  handle keeps a reference to it.
\<close>

definition error_class :: "int \<Rightarrow> jclass" where
  "error_class err =
     (if err = ENOENT then ''edu/scut/cs/sysm/SysmFileNotFoundException''
      else if err = EACCES then ''edu/scut/cs/sysm/SysmPermissionDeniedException''
      else ''edu/scut/cs/sysm/exception/SysmException'')"

definition not_impl_object :: "jvm \<Rightarrow> throwable option" where
  "not_impl_object vm = jv_statics vm ''edu/scut/cs/sysm/exception/SysmNotImplException''
     (''INSTANCE'', ''Ledu/scut/cs/sysm/exception/SysmNotImplException;'')"

definition error_report :: "libc \<Rightarrow> jvm \<Rightarrow> jni_sysm \<Rightarrow> int \<Rightarrow> throwable option" where
  "error_report lc vm js err =
     (if err = SYSM_ENOTIMPL
      then (case js_not_impl js of Some e \<Rightarrow> Some e | None \<Rightarrow> not_impl_object vm)
      else Some (Thrown (error_class err) (snd (sysm_strerror (lc_strerror_r lc) (js_sysm js) err))))"

lemmas package_names = SYSM_FIND_CLASS_def SYSM_FIND_CLASS_EX_def SYSM_CLASS_SIG_EX_def SYSM_PACKAGE_def
  SYSM_PACKAGE_EX_def SYSM_EX_def SYSM_NOTIMPLE_EX_def

lemma FindClass_quiet: "FindClass vm name = Some (vm', c) \<Longrightarrow> c = None \<and> \<not> quiet vm' \<or> vm' = vm \<and> c = Some name \<and> quiet vm"
  by (auto simp: FindClass_def quiet_def split: if_splits option.splits)

lemma throw_strerror_report:
  assumes "throw_strerror lc vm js (Some c) err = Some (vm', js')"
  shows "jv_pending vm' = Some (Thrown c (snd (sysm_strerror (lc_strerror_r lc) (js_sysm js) err)))"
    "js_fields js' = js_fields js"
  using assms by (auto simp: throw_strerror_def ThrowNew_def bind_eq_Some_conv split: prod.splits if_splits)

lemma throw_strerror_null: "throw_strerror lc vm js None err = None"
  by (simp add: throw_strerror_def ThrowNew_def split: prod.split)

lemma sysm_throw_error_report:
  assumes "sysm_throw_error lc vm js err = Some (vm', js')"
  shows "jv_pending vm' = error_report lc vm js err" "jv_pending vm' \<noteq> None" "js_fields js' = js_fields js"
  using assms
  by (auto simp: sysm_throw_error_def error_report_def error_class_def not_impl_object_def package_names status_codes
      GetStaticField_def NewGlobalRef_def Throw_def throw_strerror_null bind_eq_Some_conv
      split: if_splits option.splits dest!: FindClass_quiet dest: throw_strerror_report)

text \<open>C37: a library that failed to open can never be closed. Whatever is called in between, closing
  throws the exception that reports the error of the opening, of the class for that error and with its
  text, and returns 0; the Java object keeps the address, and of all handles only this one is touched:
  it stays in memory with the status of the opening and its ids.\<close>

theorem failed_open_never_closes:
  assumes "nativeOpen lc p (Some (s, st)) w0 so0 = Some (w1, so1)" "st \<noteq> SYSM_OK" "(native_step lc so1)\<^sup>*\<^sup>* w1 w2"
    "nativeClose lc w2 so1 = Some (w3, so3, status)"
  shows "\<exists>js js'. jw_handles w2 p = Some js \<and> js_open_status js = st
    \<and> jv_pending (jw_vm w3) = error_report lc (jw_vm w2) js st \<and> jv_pending (jw_vm w3) \<noteq> None
    \<and> jw_handles w3 = (jw_handles w2)(p \<mapsto> js') \<and> js_open_status js' = st \<and> js_fields js' = js_fields js
    \<and> so3 = so1 \<and> points_to so3 p \<and> status = 0"
proof -
  note at = nativeOpen_inv(1) [OF assms(1)]
  note inv = session_inv [OF assms(3) at nativeOpen_inv(2) [OF assms(1)]]
  obtain w q where j: "sysm_get_jpointer lc w2 so1 = Some (w, q)"
    using assms(4) by (auto simp: nativeClose_def bind_eq_Some_conv)
  have q: "q = None" using jpointer_inv(3) [OF inv at j] assms(2) by blast
  then have c: "w3 = w" "so3 = so1" "status = 0" using assms(4) by (auto simp: nativeClose_def j)
  obtain js where js: "jw_handles w2 p = Some js" "refs (jv_globals (jw_vm w0)) (jw_vm w2) js" "js_open_status js = st"
    using inv by (auto simp: open_inv_def)
  obtain vm ptr where "sysm_get_pointer (jw_vm w2) so1 = Some (vm, ptr)"
    using j by (cases "sysm_get_pointer (jw_vm w2) so1") (auto simp: sysm_get_jpointer_def)
  then have ptr: "sysm_get_pointer (jw_vm w2) so1 = Some (jw_vm w2, p)" using get_pointer [OF _ at] by blast
  obtain vm' js' where t: "sysm_throw_error lc (jw_vm w2) js st = Some (vm', js')"
    "w = w2\<lparr>jw_vm := vm', jw_handles := (jw_handles w2)(p \<mapsto> js')\<rparr>"
    using j js at assms(2) by (auto simp: sysm_get_jpointer_def ptr points_to_def bind_eq_Some_conv)
  show ?thesis
    using sysm_throw_error_report [OF t(1)] sysm_throw_error_refs [OF t(1) js(2)] js at c t(2) by auto
qed

definition sample_failed :: jworld where
  "sample_failed = \<lparr>jw_vm = sample_jvm\<lparr>jv_pending := Some (Thrown (SYSM_PACKAGE_EX @ SYSM_EX) ''error'')\<rparr>,
     jw_handles = [4096 \<mapsto> sample_js\<lparr>js_open_status := ENXIO, js_sysm := zero_sysm\<lparr>errbuf := ''error''\<rparr>\<rparr>], jw_lists = 0\<rparr>"

lemma sample_throw:
  "sysm_throw_error sample_libc sample_jvm js ENXIO
     = Some (sample_jvm\<lparr>jv_pending := Some (Thrown (SYSM_PACKAGE_EX @ SYSM_EX) ''error'')\<rparr>,
             js\<lparr>js_sysm := (js_sysm js)\<lparr>errbuf := ''error''\<rparr>\<rparr>)"
  by (simp add: sysm_throw_error_def status_codes SYSM_FIND_CLASS_EX_def FindClass_def quiet_def throw_strerror_def
      sysm_strerror_def sysm_strerror_get_def sample_libc_def ThrowNew_def sample_jvm_def SYSM_PACKAGE_EX_def SYSM_EX_def Let_def)

theorem failed_open_never_closes_witness:
  "\<exists>w1 w2 w3 so3. nativeOpen sample_libc 4096 (Some (zero_sysm, ENXIO)) sample_empty (sample_sysm_obj 0)
       = Some (w1, sample_sysm_obj 4096)
     \<and> native_step sample_libc (sample_sysm_obj 4096) w1 w2
     \<and> nativeClose sample_libc w2 (sample_sysm_obj 4096) = Some (w3, so3, 0)
     \<and> jw_handles w3 4096 \<noteq> None \<and> so3 = sample_sysm_obj 4096
     \<and> jv_pending (jw_vm w3) = Some (Thrown (SYSM_PACKAGE_EX @ SYSM_EX) ''error'')"
proof -
  let ?w2 = "sample_failed\<lparr>jw_vm := sample_jvm\<rparr>"
  have o: "nativeOpen sample_libc 4096 (Some (zero_sysm, ENXIO)) sample_empty (sample_sysm_obj 0)
       = Some (sample_failed, sample_sysm_obj 4096)"
    using sample_throw
    by (simp add: nativeOpen_def sysm_set_pointer_def GetObjectClass_def GetFieldID_def SetField_def quiet_def
        sample_empty_def sample_failed_def sample_jvm_def sample_sysm_obj_def sample_js_def put_handle_def
        throw_status_def status_codes)
  have s: "native_step sample_libc (sample_sysm_obj 4096) sample_failed ?w2"
    using native_step.caught [of sample_libc "sample_sysm_obj 4096" sample_failed 10]
    by (simp add: sample_failed_def sample_jvm_def)
  have c: "\<exists>w3 so3. nativeClose sample_libc ?w2 (sample_sysm_obj 4096) = Some (w3, so3, 0)"
    using sample_throw
    by (simp add: nativeClose_def sysm_get_jpointer_def sysm_get_pointer_def GetObjectClass_def GetFieldID_def
        GetLongField_def quiet_def sample_empty_def sample_failed_def sample_jvm_def sample_sysm_obj_def status_codes)
  obtain w3 so3 where w3: "nativeClose sample_libc ?w2 (sample_sysm_obj 4096) = Some (w3, so3, 0)" using c by blast
  have "ENXIO \<noteq> SYSM_OK" by (simp add: status_codes)
  from failed_open_never_closes [OF o this r_into_rtranclp [of "native_step _ _", OF s] w3] obtain js where
    "jv_pending (jw_vm w3) = error_report sample_libc (jw_vm ?w2) js ENXIO" "jw_handles w3 4096 \<noteq> None"
    "so3 = sample_sysm_obj 4096" by auto
  moreover have "error_report sample_libc (jw_vm ?w2) js ENXIO = Some (Thrown (SYSM_PACKAGE_EX @ SYSM_EX) ''error'')"
    by (simp add: error_report_def error_class_def status_codes sysm_strerror_def sysm_strerror_get_def sample_libc_def
        SYSM_PACKAGE_EX_def SYSM_EX_def Let_def)
  ultimately show ?thesis using o s w3 by auto
qed

section \<open>Calls without a defined result\<close>

text \<open>C38: the two exceptions for missing and forbidden files are looked for outside of their package. If
  the classes are not there, the look-up leaves an exception pending and throwing the null class is
  not defined: every gather whose library call reports \<open>ENOENT\<close> or \<open>EACCES\<close> ends so.\<close>

theorem not_found_is_undefined:
  assumes "points_to so p" "jw_handles w p = Some js" "js_open_status js = SYSM_OK" "call (js_sysm js) = Some (s, Inl err)"
    and "err = ENOENT \<and> jv_classes (jw_vm w) ''edu/scut/cs/sysm/SysmFileNotFoundException'' = None
      \<or> err = EACCES \<and> jv_classes (jw_vm w) ''edu/scut/cs/sysm/SysmPermissionDeniedException'' = None"
  shows "gather_bean b sets call lc w obj so = None"
proof -
  have t: "sysm_throw_error lc (jw_vm w) js' err = None" for js'
    using assms(5)
    by (auto simp: sysm_throw_error_def SYSM_FIND_CLASS_def SYSM_PACKAGE_def FindClass_def throw_strerror_def
        ThrowNew_def status_codes split: prod.split)
  show ?thesis
  proof (rule ccontr)
    assume "gather_bean b sets call lc w obj so \<noteq> None"
    then obtain w1 q where j: "sysm_get_jpointer lc w so = Some (w1, q)"
      by (cases "sysm_get_jpointer lc w so") (auto simp: gather_bean_def split: bind_splits)
    then have "w1 = w" "q = Some p"
      using assms(1-3) by (auto simp: sysm_get_jpointer_def bind_eq_Some_conv points_to_def dest!: get_pointer [OF _ assms(1)])
    then show False
      using \<open>gather_bean b sets call lc w obj so \<noteq> None\<close> j assms(2,4) t
      by (auto simp: gather_bean_def throw_status_def split: bind_splits)
  qed
qed

theorem not_found_is_undefined_witness:
  "Memory_gather (memory_files (Open_Fails ENOENT)) blank_memory sample_libc
     (sample_world\<lparr>jw_handles := [4096 \<mapsto> sample_js\<lparr>js_sysm := zero_sysm\<lparr>mtrr := - 1\<rparr>\<rparr>]\<rparr>) sample_exe_obj (sample_sysm_obj 4096) = None"
proof -
  obtain m where m: "sysm_memory_get (memory_files (Open_Fails ENOENT)) (zero_sysm\<lparr>mtrr := - 1\<rparr>) blank_memory
      = Some (zero_sysm\<lparr>mtrr := - 1\<rparr>, m, ENOENT)" using memory_needs_mtrr_witness by blast
  show ?thesis
    unfolding Memory_gather_def
    by (rule not_found_is_undefined [where p = 4096 and err = ENOENT and s = "zero_sysm\<lparr>mtrr := - 1\<rparr>"
          and js = "sample_js\<lparr>js_sysm := zero_sysm\<lparr>mtrr := - 1\<rparr>\<rparr>"])
       (simp_all add: points_to_def sample_sysm_obj_def sample_js_def by_status_def ENOENT_def SYSM_OK_def
         m [unfolded ENOENT_def] sample_world_def sample_jvm_def SYSM_PACKAGE_EX_def SYSM_EX_def)
qed

text \<open>The percentages read the ids of the processors, which no call of the method itself looks up.\<close>

lemma percentage_needs_cpu:
  assumes "holds_handle w so p js" "js_fields js ! JSYSM_FIELDS_CPU = None"
  shows "CpuPercentage_gather lc w obj so jprev jcurr = None"
  using assms(1) holds_handle_jpointer [OF assms(1), of lc] assms(2)
  by (simp add: CpuPercentage_gather_def holds_handle_def GET_FIELDS_CPU_def GetObjectClass_quiet)

text \<open>The states of the connections never reach the Java object.\<close>

lemma set_all_other_fields:
  assumes "set_all lc fc xs vm obj = Some (vm', obj')"
    "list_all (\<lambda>x. case the_id fc (jset_index x) of Some (_, name, _) \<Rightarrow> name \<noteq> n | None \<Rightarrow> True) xs"
  shows "jo_fields obj' n = jo_fields obj n"
  using assms
proof (induction lc fc xs vm obj rule: set_all.induct)
  case (2 lc fc x xs vm obj)
  then show ?case
    by (cases x) (auto simp: bind_eq_Some_conv SetField_def split: if_splits option.split_asm)
qed simp

lemma net_stat_names: "list_all (\<lambda>(_, name, _). name \<noteq> ''tcpStates'') (b_ids INIT_FIELDS_NETSTAT)"
  by (simp add: INIT_FIELDS_NETSTAT_def)

lemma the_id_name:
  assumes "fc_ids fc = bean_field_ids cls b" "list_all (\<lambda>(_, name, _). name \<noteq> n) (b_ids b)"
  shows "case the_id fc i of Some (_, name, _) \<Rightarrow> name \<noteq> n | None \<Rightarrow> True"
proof (cases "i < length (b_ids b)")
  case True
  then show ?thesis
    using assms by (cases "b_ids b ! i") (auto simp: the_id_def bean_field_ids_def list_all_length dest!: spec [of _ i])
next
  case False
  then show ?thesis using assms(1) by (simp add: the_id_def bean_field_ids_def)
qed

lemma net_stat_keeps_states:
  assumes "holds_handle w so p js" "declares (jw_vm w) (jo_class obj) INIT_FIELDS_NETSTAT"
    "slot_ok (jo_class obj) INIT_FIELDS_NETSTAT js"
    "NetStat_stat env clock conn0 address0 lc w obj so flags jaddress jport = Some (w', obj')"
  shows "jo_fields obj' ''tcpStates'' = jo_fields obj ''tcpStates''"
proof -
  have q: "quiet (jw_vm w)" "jw_handles w p = Some js" using assms(1) by (simp_all add: holds_handle_def)
  obtain s r where r: "net_stat_call env clock conn0 address0 flags jaddress jport (js_sysm js) = Some (s, r)"
    using assms(4) by (cases "net_stat_call env clock conn0 address0 flags jaddress jport (js_sysm js)")
      (auto simp: NetStat_stat_with_handle with_handle_def holds_handle_jpointer [OF assms(1)] q)
  show ?thesis
  proof (cases r)
    case (Inl e)
    then show ?thesis
      using assms(4) r by (auto simp: NetStat_stat_with_handle with_handle_def holds_handle_jpointer [OF assms(1)] q bind_eq_Some_conv)
  next
    case (Inr ns)
    have t: "bean_ok INIT_FIELDS_NETSTAT" using beans_ok by (simp add: beans_def)
    have "slot_ok (jo_class obj) INIT_FIELDS_NETSTAT (js\<lparr>js_sysm := s\<rparr>)" using assms(3) by (simp add: slot_ok_def)
    from init_fields_slot [OF q(1) assms(2) t this] obtain g js' fc where i:
      "init_fields INIT_FIELDS_NETSTAT (jo_class obj) (jw_vm w) (js\<lparr>js_sysm := s\<rparr>) = Some (jw_vm w\<lparr>jv_globals := g\<rparr>, js')"
      "js_fields js' = (js_fields js)[b_slot INIT_FIELDS_NETSTAT := Some fc]"
      "fc_ids fc = bean_field_ids (jo_class obj) INIT_FIELDS_NETSTAT" "b_slot INIT_FIELDS_NETSTAT < length (js_fields js)"
      by auto
    obtain vm vm' where "set_all lc fc (SET_FIELDS_NETSTAT ns) vm obj = Some (vm', obj')"
      using assms(4) r Inr i q
      by (auto simp: NetStat_stat_with_handle with_handle_def holds_handle_jpointer [OF assms(1)] bind_eq_Some_conv
          GetObjectClass_quiet set_fields_def)
    then show ?thesis
      by (rule set_all_other_fields) (use the_id_name [OF i(3) net_stat_names] in \<open>simp add: list_all_iff\<close>)
  qed
qed

end
