(* ===== verification/Jni_Compose.thy ===== *)
theory Jni_Compose
  imports Jni_Properties Cpu_Properties
begin

text \<open>
  Natives that work together: the beans of two moments and the percentages computed from them, and
  the library that can always be closed.
\<close>

section \<open>Processor beans and percentages\<close>

text \<open>An object of the class \<open>Cpu\<close> that holds the times \<open>c\<close>, as a gather leaves it.\<close>

definition cpu_bean :: "libc \<Rightarrow> sysm_cpu \<Rightarrow> jobject \<Rightarrow> jobject" where
  "cpu_bean lc c = with_fields (bean_values lc INIT_FIELDS_CPU (SET_FIELDS_CPU c))"

text \<open>The slot of the processors has the ids of the class.\<close>

definition cpu_slot :: "jclass \<Rightarrow> jni_sysm \<Rightarrow> bool" where
  "cpu_slot cls js \<longleftrightarrow> JSYSM_FIELDS_CPU < length (js_fields js)
     \<and> (case js_fields js ! JSYSM_FIELDS_CPU of None \<Rightarrow> False | Some fc \<Rightarrow> fc_ids fc = bean_field_ids cls INIT_FIELDS_CPU)"

text \<open>What the macro for setting stored, the macro for getting reads back.\<close>

lemma cpu_fields_roundtrip:
  assumes "quiet vm" "cpu_slot (jo_class obj) js"
  shows "GET_FIELDS_CPU js vm (cpu_bean lc c obj) = Some c"
proof -
  obtain fc where fc: "js_fields js ! JSYSM_FIELDS_CPU = Some fc" "fc_ids fc = bean_field_ids (jo_class obj) INIT_FIELDS_CPU"
    "JSYSM_FIELDS_CPU < length (js_fields js)"
    using assms(2) by (auto simp: cpu_slot_def split: option.split_asm)
  show ?thesis
    using fc assms(1)
    by (simp add: GET_FIELDS_CPU_def the_id_def bean_field_ids_def INIT_FIELDS_CPU_def jsysm_index GetLongField_def
        cpu_bean_def with_fields_def bean_values_def SET_FIELDS_CPU_def)
qed

text \<open>C39: percentages of two moments. When two objects hold the processor times of two moments, as
  gathering them leaves them, and the slot of the processors is filled, gathering the percentages
  computes them from exactly these times and stores them in the fields of its object.\<close>

theorem percentages_of_two_beans:
  assumes "holds_handle w so p js" "cpu_slot cls js" "jo_class o1 = cls" "jo_class o2 = cls"
    "declares (jw_vm w) (jo_class obj) INIT_FIELDS_CPUPERCENTAGE" "slot_ok (jo_class obj) INIT_FIELDS_CPUPERCENTAGE js"
  shows "\<exists>w' js'. CpuPercentage_gather lc w obj so (cpu_bean lc c1 o1) (cpu_bean lc c2 o2)
      = Some (w', with_fields (bean_values lc INIT_FIELDS_CPUPERCENTAGE
                                 (SET_FIELDS_CPUPERCENTAGE (sysm_cpu_perc_cal c1 c2))) obj)
    \<and> holds_handle w' so p js' \<and> cpu_slot cls js' \<and> js_sysm js' = js_sysm js"
proof -
  have q: "quiet (jw_vm w)" "jw_handles w p = Some js" using assms(1) by (simp_all add: holds_handle_def)
  let ?xs = "SET_FIELDS_CPUPERCENTAGE (sysm_cpu_perc_cal c1 c2)"
  have t: "bean_ok INIT_FIELDS_CPUPERCENTAGE" "sets_ok INIT_FIELDS_CPUPERCENTAGE ?xs" "list_all (jset_prints lc) ?xs"
    "strings_needed ?xs = 0" "b_slot INIT_FIELDS_CPUPERCENTAGE \<noteq> JSYSM_FIELDS_CPU"
    by (simp_all add: INIT_FIELDS_CPUPERCENTAGE_def SET_FIELDS_CPUPERCENTAGE_def bean_ok_def sets_ok_def jsysm_index
        upt_rec strings_needed_def STRING_SIG_def)
  obtain g js' fc where i: "init_fields INIT_FIELDS_CPUPERCENTAGE (jo_class obj) (jw_vm w) js = Some (jw_vm w\<lparr>jv_globals := g\<rparr>, js')"
    "js_fields js' = (js_fields js)[b_slot INIT_FIELDS_CPUPERCENTAGE := Some fc]" "js_sysm js' = js_sysm js"
    "js_open_status js' = js_open_status js" "fc_ids fc = bean_field_ids (jo_class obj) INIT_FIELDS_CPUPERCENTAGE"
    "b_slot INIT_FIELDS_CPUPERCENTAGE < length (js_fields js)"
    using init_fields_slot [OF q(1) assms(5) t(1) assms(6)] by auto
  let ?vm = "jw_vm w\<lparr>jv_globals := g\<rparr>"
  have s: "set_fields lc js' INIT_FIELDS_CPUPERCENTAGE ?xs ?vm obj
      = Some (?vm\<lparr>jv_room := jv_room ?vm - strings_needed ?xs\<rparr>, with_fields (bean_values lc INIT_FIELDS_CPUPERCENTAGE ?xs) obj)"
    using t q(1) i by (intro set_fields_values) auto
  let ?w = "put_handle w p (?vm, js')"
  have r: "GET_FIELDS_CPU js (jw_vm w) (cpu_bean lc c1 o1) = Some c1" "GET_FIELDS_CPU js (jw_vm w) (cpu_bean lc c2 o2) = Some c2"
    using assms(2-4) by (simp_all add: cpu_fields_roundtrip [OF q(1)])
  have "CpuPercentage_gather lc w obj so (cpu_bean lc c1 o1) (cpu_bean lc c2 o2)
      = Some (?w, with_fields (bean_values lc INIT_FIELDS_CPUPERCENTAGE ?xs) obj)"
    using i(1) s q r t(4) by (simp add: CpuPercentage_gather_def GetObjectClass_quiet holds_handle_jpointer [OF assms(1)])
  moreover have "holds_handle ?w so p js'" using assms(1) i(4) by (simp add: holds_handle_def put_handle_def)
  moreover have "cpu_slot cls js'" using assms(2) i(2) t(5) by (simp add: cpu_slot_def)
  ultimately show ?thesis using i(3) by blast
qed

definition sample_cpu :: "u64 \<Rightarrow> sysm_cpu" where
  "sample_cpu n = \<lparr>cu_user = n, cu_sys = n, cu_nice = 0, cu_idle = 2 * n, cu_wait = 0, cu_hi = 0, cu_si = 0,
     cu_steal = 0, cu_total = 4 * n\<rparr>"

definition sample_cpu_js :: jni_sysm where
  "sample_cpu_js = sample_js\<lparr>js_fields := (js_fields sample_js)[JSYSM_FIELDS_CPU :=
     Some \<lparr>fc_classref = ''Cpu'', fc_ids = bean_field_ids ''Cpu'' INIT_FIELDS_CPU\<rparr>]\<rparr>"

definition sample_cpu_world :: jworld where
  "sample_cpu_world = \<lparr>jw_vm = sample_jvm\<lparr>jv_classes := (jv_classes sample_jvm)
       (''CpuPercentage'' \<mapsto> map snd (b_ids INIT_FIELDS_CPUPERCENTAGE)), jv_globals := 1\<rparr>,
     jw_handles = [4096 \<mapsto> sample_cpu_js], jw_lists = 0\<rparr>"

definition empty_object :: "jclass \<Rightarrow> jobject" where
  "empty_object cls = \<lparr>jo_class = cls, jo_fields = (\<lambda>_. JNull)\<rparr>"

lemma sample_cpu_setup:
  "holds_handle sample_cpu_world (sample_sysm_obj 4096) 4096 sample_cpu_js" "cpu_slot ''Cpu'' sample_cpu_js"
  "declares (jw_vm sample_cpu_world) (jo_class (empty_object ''CpuPercentage'')) INIT_FIELDS_CPUPERCENTAGE"
  "slot_ok (jo_class (empty_object ''CpuPercentage'')) INIT_FIELDS_CPUPERCENTAGE sample_cpu_js"
  by (simp_all add: holds_handle_def sample_cpu_world_def sample_jvm_def sample_sysm_obj_def sample_cpu_js_def
      sample_js_def quiet_def cpu_slot_def jsysm_index declares_def empty_object_def slot_ok_def
      INIT_FIELDS_CPUPERCENTAGE_def)

theorem percentages_of_two_beans_witness:
  "\<exists>w' obj. CpuPercentage_gather sample_libc sample_cpu_world (empty_object ''CpuPercentage'') (sample_sysm_obj 4096)
      (cpu_bean sample_libc (sample_cpu 100) (empty_object ''Cpu''))
      (cpu_bean sample_libc (sample_cpu 300) (empty_object ''Cpu'')) = Some (w', obj)
    \<and> jo_fields obj ''idle'' = JDouble (cp_idle (sysm_cpu_perc_cal (sample_cpu 100) (sample_cpu 300)))"
proof -
  have c: "jo_class (empty_object ''Cpu'') = ''Cpu''" by (simp add: empty_object_def)
  have "jo_fields (with_fields (bean_values sample_libc INIT_FIELDS_CPUPERCENTAGE (SET_FIELDS_CPUPERCENTAGE perc)) obj) ''idle''
      = JDouble (cp_idle perc)" for perc obj
    by (simp add: with_fields_def bean_values_def INIT_FIELDS_CPUPERCENTAGE_def SET_FIELDS_CPUPERCENTAGE_def)
  then show ?thesis
    using percentages_of_two_beans [OF sample_cpu_setup(1,2) c c sample_cpu_setup(3,4),
        of sample_libc "sample_cpu 100" "sample_cpu 300"] by blast
qed

section \<open>The library can be closed\<close>

lemma nativeOpen_declares:
  assumes "nativeOpen lc p (Some (s, st)) w so = Some (w', so')"
  shows "jo_class so' = jo_class so"
    "\<exists>decls. jv_classes (jw_vm w) (jo_class so) = Some decls \<and> (''longSysmWrapper'', ''J'') \<in> set decls"
  using assms
  by (auto simp: nativeOpen_def sysm_set_pointer_def GetObjectClass_def GetFieldID_def SetField_def bind_eq_Some_conv Let_def
      split: if_splits option.split_asm)

text \<open>C40: a library that was opened can be closed. Whatever natives were called, as soon as no exception is
  pending, the class of the library is still loaded and the buffer for the interfaces was not freed
  behind the back of the handle, closing returns and reports success.\<close>

theorem open_session_can_close:
  assumes "nativeOpen lc p (Some (s, SYSM_OK)) w0 so0 = Some (w1, so1)" "(native_step lc so1)\<^sup>*\<^sup>* w1 w2"
    "quiet (jw_vm w2)" "jv_classes (jw_vm w2) (jo_class so0) = jv_classes (jw_vm w0) (jo_class so0)"
    "map_option (\<lambda>js. ifconf_buf (js_sysm js) = Dangling) (jw_handles w2 p) \<noteq> Some True"
  shows "\<exists>w3 so3. nativeClose lc w2 so1 = Some (w3, so3, SYSM_OK)"
proof -
  note at = nativeOpen_inv(1) [OF assms(1)]
  obtain js where js: "jw_handles w2 p = Some js" "js_open_status js = SYSM_OK"
    using session_inv [OF assms(2) at nativeOpen_inv(2) [OF assms(1)]] by (auto simp: open_inv_def)
  have "holds_handle w2 so1 p js"
    using at js assms(3,4) nativeOpen_declares [OF assms(1)] by (auto simp: holds_handle_def points_to_def)
  moreover have "\<exists>fr. sysm_close (js_sysm js) = Some (fr, SYSM_OK)"
    using assms(5) js(1) by (cases "ifconf_buf (js_sysm js)") (auto simp: sysm_close_def free_buf_def sysm_os_close_def)
  ultimately show ?thesis using nativeClose_total by blast
qed

theorem open_session_can_close_witness:
  "\<exists>w2 w3 so3. native_step sample_libc (sample_sysm_obj 4096) sample_world w2
     \<and> nativeClose sample_libc w2 (sample_sysm_obj 4096) = Some (w3, so3, SYSM_OK)"
proof -
  have s: "native_step sample_libc (sample_sysm_obj 4096) sample_world sample_world"
    using native_step.caught [of sample_libc "sample_sysm_obj 4096" sample_world 10]
    by (simp add: sample_world_def sample_jvm_def)
  have "\<exists>w3 so3. nativeClose sample_libc sample_world (sample_sysm_obj 4096) = Some (w3, so3, SYSM_OK)"
    using s by (intro open_session_can_close [OF sample_native_open r_into_rtranclp])
      (auto simp: sample_world_def sample_empty_def sample_jvm_def sample_js_def zero_sysm_def quiet_def)
  then show ?thesis using s by blast
qed

end
