(* ===== verification/Handle_Session.thy ===== *)
theory Handle_Session
  imports Proc_Properties Net_Port_Properties Cpu_Properties Memory Format Netcfg Disk_Usage
begin

text \<open>
  Sessions with the library: a handle is opened, changed by any sequence of the library's
  operations with whatever the kernel answers, and closed. The invariant of the handle says
  that its growing list, its three hash tables and the buffer for the interfaces are well
  formed; every operation that changes the handle preserves it.
\<close>

section \<open>The invariant of the handle\<close>

definition cache_ok :: "'v cache option \<Rightarrow> bool" where
  "cache_ok c = (case c of None \<Rightarrow> True | Some t \<Rightarrow> cache_inv t)"

lemma cache_ok_simps [simp]: "cache_ok None" "cache_ok (Some t) = cache_inv t"
  by (simp_all add: cache_ok_def)

text \<open>The length that is stored for a live buffer is its size.\<close>

definition ifconf_ok :: "sysm \<Rightarrow> bool" where
  "ifconf_ok s \<longleftrightarrow> 0 \<le> ifconf_len s \<and> (\<forall>n. ifconf_buf s = Live n \<longrightarrow> ifconf_len s = int n)"

definition handle_inv :: "sysm \<Rightarrow> bool" where
  "handle_inv s \<longleftrightarrow> (\<forall>l. pids s = Some l \<longrightarrow> dl_wf l) \<and> cache_ok (proc_cpu s) \<and> cache_ok (fsdev s)
     \<and> cache_ok (net_listen s) \<and> ifconf_ok s"

named_theorems handle_keeps \<open>operations that preserve the invariant of the handle\<close>

text \<open>Operations that change other fields only.\<close>

lemma handle_inv_cong:
  "pids s' = pids s \<Longrightarrow> proc_cpu s' = proc_cpu s \<Longrightarrow> fsdev s' = fsdev s \<Longrightarrow> net_listen s' = net_listen s
     \<Longrightarrow> ifconf_buf s' = ifconf_buf s \<Longrightarrow> ifconf_len s' = ifconf_len s \<Longrightarrow> handle_inv s' = handle_inv s"
  by (simp add: handle_inv_def ifconf_ok_def)

lemma handle_inv_other [simp]:
  "handle_inv (s\<lparr>last_proc_stat := p\<rparr>) = handle_inv s" "handle_inv (s\<lparr>mtrr := m\<rparr>) = handle_inv s"
  "handle_inv (s\<lparr>lcpu := i\<rparr>) = handle_inv s" "handle_inv (s\<lparr>ncpu := u\<rparr>) = handle_inv s"
  "handle_inv (s\<lparr>errbuf := e\<rparr>) = handle_inv s" "handle_inv (s\<lparr>s_pid := i\<rparr>) = handle_inv s"
  "handle_inv (s\<lparr>proc_signal_offset := i\<rparr>) = handle_inv s"
  by (simp_all add: handle_inv_def ifconf_ok_def)

lemma handle_inv_fields [simp]:
  "handle_inv s \<Longrightarrow> handle_inv (s\<lparr>pids := Some l\<rparr>) \<longleftrightarrow> dl_wf l"
  "handle_inv s \<Longrightarrow> handle_inv (s\<lparr>proc_cpu := c1\<rparr>) \<longleftrightarrow> cache_ok c1"
  "handle_inv s \<Longrightarrow> handle_inv (s\<lparr>fsdev := c2\<rparr>) \<longleftrightarrow> cache_ok c2"
  "handle_inv s \<Longrightarrow> handle_inv (s\<lparr>net_listen := c3\<rparr>) \<longleftrightarrow> cache_ok c3"
  by (auto simp: handle_inv_def ifconf_ok_def)

lemma cache_inv_sysm_new: "sz \<noteq> 0 \<Longrightarrow> cache_inv (sysm_cache_new sz now)"
  by (simp add: sysm_cache_new_def cache_inv_new)

section \<open>Processors, memory and messages\<close>

lemma core_count_keeps_inv [simp]: "handle_inv (sysm_cpu_core_count cpuid s) = handle_inv s"
  by (simp add: sysm_cpu_core_count_def Let_def)

lemma cpu_info_list_keeps [handle_keeps]:
  "sysm_cpu_info_list_get cpuid fs n junk s = Some (s', r) \<Longrightarrow> handle_inv s \<Longrightarrow> handle_inv s'"
  by (auto simp: sysm_cpu_info_list_get_def sysm_cpu_core_rollup_def Let_def split: bind_splits sum.splits)

lemma cpu_list_keeps [handle_keeps]:
  "sysm_cpu_list_get cpuid fs s = Some (s', r) \<Longrightarrow> handle_inv s \<Longrightarrow> handle_inv s'"
  by (auto simp: sysm_cpu_list_get_def sysm_cpu_core_rollup_def Let_def split: bind_splits sum.splits if_splits)

lemma memory_keeps [handle_keeps]:
  "sysm_memory_get fs s m = Some (s', r) \<Longrightarrow> handle_inv s \<Longrightarrow> handle_inv s'"
  by (auto simp: sysm_memory_get_def get_mtrr_def split: bind_splits sum.splits if_splits)

lemma strerror_keeps [handle_keeps]: "handle_inv s \<Longrightarrow> handle_inv (fst (sysm_strerror strerror_r s err))"
  by (simp add: sysm_strerror_def Let_def)

section \<open>Processes\<close>

lemma proc_list_loop_wf: "proc_list_loop fs s names l = Some l' \<Longrightarrow> dl_wf l \<Longrightarrow> dl_wf l'"
proof (induction names arbitrary: l)
  case Nil
  then show ?case by simp
next
  case (Cons name names)
  have push: "dl_append x (SYSM_PROC_LIST_GROW l) = Some l1 \<Longrightarrow> dl_wf l1" for x l1
    using proc_list.push_total [OF Cons.prems(2), of x] by (auto simp: dl_push_def)
  show ?case using Cons by (auto split: if_splits bind_splits dest: push)
qed

lemma os_proc_list_keeps:
  assumes "sysm_os_proc_list_get fs dir s l = Some (s', l', status)" "dl_wf l"
  shows "dl_wf l' \<and> (handle_inv s \<longrightarrow> handle_inv s')"
  using assms
  by (auto simp: sysm_os_proc_list_get_def map_option_eq_Some
      split: bind_splits sum.splits if_splits dest: proc_list_loop_wf)

lemma proc_list_keeps [handle_keeps]:
  "sysm_proc_list_get fs dir s = Some (s', r) \<Longrightarrow> handle_inv s \<Longrightarrow> handle_inv s'"
  using os_proc_list_keeps [OF _ proc_list.create_wf]
  by (cases r) (auto simp: sysm_proc_list_get_def)

lemma proc_list_own_keeps_inv:
  assumes "sysm_proc_list_get_own fs dir s = Some (s', l, status)" "handle_inv s"
  shows "handle_inv s' \<and> dl_wf l"
proof -
  define l0 where "l0 = (case pids s of None \<Rightarrow> sysm_proc_list_create | Some l \<Rightarrow> l\<lparr>dl_number := 0\<rparr>)"
  have wf: "dl_wf l0"
    using assms(2) proc_list.create_wf by (auto simp: l0_def handle_inv_def dl_wf_reset split: option.splits)
  from assms(1) obtain s1 where "sysm_os_proc_list_get fs dir (s\<lparr>pids := Some l0\<rparr>) l0 = Some (s1, l, status)"
      "s' = s1\<lparr>pids := Some l\<rparr>"
    by (auto simp: sysm_proc_list_get_own_def l0_def [symmetric] bind_eq_Some_conv)
  with os_proc_list_keeps [OF this(1) wf] assms(2) wf show ?thesis by simp
qed

lemma proc_stat_read_keeps:
  "proc_stat_read fs timenow s pid = Some (s', status) \<Longrightarrow> handle_inv s \<Longrightarrow> handle_inv s'"
  by (auto simp: proc_stat_read_def Let_def split: bind_splits if_splits sum.splits)

lemma proc_time_keeps [handle_keeps]:
  "sysm_proc_time_get fs timenow s pid = Some (s', r) \<Longrightarrow> handle_inv s \<Longrightarrow> handle_inv s'"
  by (auto simp: sysm_proc_time_get_def Let_def split: bind_splits if_splits dest!: proc_stat_read_keeps)

lemma proc_mem_keeps [handle_keeps]:
  "sysm_proc_mem_get fs timenow s pid m = Some (s', r) \<Longrightarrow> handle_inv s \<Longrightarrow> handle_inv s'"
  by (auto simp: sysm_proc_mem_get_def Let_def split: bind_splits sum.splits prod.splits dest!: proc_stat_read_keeps)

lemma proc_state_keeps [handle_keeps]:
  "sysm_proc_state_get cpuid fs timenow s pid st = Some (s', r) \<Longrightarrow> handle_inv s \<Longrightarrow> handle_inv s'"
  by (auto simp: sysm_proc_state_get_def sysm_cpu_core_rollup_def Let_def
      split: bind_splits if_splits dest!: proc_stat_read_keeps)

lemma proc_stat_loop_keeps:
  "proc_stat_loop cpuid fs timenow st0 s ps_pids ps = Some (s', ps') \<Longrightarrow> handle_inv s \<Longrightarrow> handle_inv s'"
  by (induction ps_pids arbitrary: s ps) (auto split: option.splits dest: proc_state_keeps)

lemma proc_stat_keeps [handle_keeps]:
  "sysm_proc_stat_get cpuid fs dir timenow st0 s = Some (s', r) \<Longrightarrow> handle_inv s \<Longrightarrow> handle_inv s'"
  by (auto simp: sysm_proc_stat_get_def Let_def split: bind_splits if_splits
      dest!: proc_list_own_keeps_inv proc_stat_loop_keeps)

text \<open>The times of a process are stored through the pointer \<open>sysm_cache_get\<close> gave.\<close>

lemma proc_cpu_keeps [handle_keeps]:
  assumes "sysm_proc_cpu_get fs timenow now now0 now1 now2 s pid out = Some (s', r)" "handle_inv s"
  shows "handle_inv s'"
proof -
  define t0 where "t0 = (case proc_cpu s of
      None \<Rightarrow> sysm_expired_cache_new 128 PID_CACHE_CLEANUP_PERIOD PID_CACHE_ENTRY_EXPIRE_PERIOD now0 | Some t \<Rightarrow> t)"
  have t0: "cache_inv t0"
    using assms(2) by (auto simp: t0_def handle_inv_def cache_inv_new split: option.splits)
  obtain t a where get: "sysm_cache_get now1 now2 t0 (word_of_int pid) = Some (t, a)"
    using assms(1) by (auto simp: sysm_proc_cpu_get_def t0_def [symmetric] Let_def bind_eq_Some_conv)
  have store: "handle_inv (s\<lparr>proc_cpu := Some (entry_store a v t)\<rparr>)" for v
    using assms(2) cache_cells.put_inv [OF t0 get] by simp
  have again: "cache_inv (entry_store a u (entry_store a v t))" for u v
    by (rule cache_cells.store_inv) (rule cache_cells.put_inv [OF t0 get])
  obtain prev where "s' = s\<lparr>proc_cpu := Some (entry_store a prev t)\<rparr>
    \<or> (\<exists>s1 r1 out1. sysm_proc_time_get fs timenow (s\<lparr>proc_cpu := Some (entry_store a prev t)\<rparr>) pid = Some (s1, r1)
         \<and> (s' = s1 \<or> s' = s1\<lparr>proc_cpu := Some (entry_store a out1 (entry_store a prev t))\<rparr>))"
    using assms(1)
    by (simp add: sysm_proc_cpu_get_def t0_def [symmetric] get Let_def split: bind_splits if_splits sum.splits prod.splits) blast+
  then show ?thesis using store again by (auto dest!: proc_time_keeps)
qed

section \<open>Connections\<close>

text \<open>What the call-back preserves, the walk preserves, whatever the tables hold.\<close>

lemma net_loop_preserves:
  assumes add: "\<And>w c w' st. add w c = Some (w', st) \<Longrightarrow> P w \<Longrightarrow> P w'"
  shows "proc_net_loop add flags type conn0 ls w = Some w' \<Longrightarrow> P w \<Longrightarrow> P w'"
proof (induction ls arbitrary: w)
  case Nil
  then show ?case by simp
next
  case (Cons l ls)
  then show ?case by (auto split: bind_splits option.splits if_splits dest!: add)
qed

lemma walk_preserves:
  assumes add: "\<And>w c w' st. add w c = Some (w', st) \<Longrightarrow> P w \<Longrightarrow> P w'"
  shows "sysm_net_connection_walk env netdir add flags conn0 w = Some (w', status) \<Longrightarrow> P w \<Longrightarrow> P w'"
proof -
  have loop: "P w'" if "proc_net_loop add flags type conn0 ls w = Some w'" "P w" for ls w w' type
    using net_loop_preserves [of add P, OF _ that] add by blast
  have read: "P w'" if "proc_net_read env netdir add flags conn0 name type w = Some (w', status)" "P w"
    for w w' name type status
    using that by (auto simp: proc_net_read_def Let_def split: bind_splits sum.splits dest!: loop)
  have protocol: "P w'" if "walk_protocol env netdir add flags conn0 type name w = Some (w', status)" "P w"
    for w w' name type status
    using that by (auto simp: walk_protocol_def split: bind_splits if_splits dest!: read)
  show "sysm_net_connection_walk env netdir add flags conn0 w = Some (w', status) \<Longrightarrow> P w \<Longrightarrow> P w'"
    by (auto simp: sysm_net_connection_walk_def split: bind_splits if_splits dest!: protocol)
qed

lemma listen_add_keeps:
  "sysm_net_listen_address_add now1 now2 t conn = Some t' \<Longrightarrow> cache_inv t \<Longrightarrow> cache_inv t'"
  by (auto simp: sysm_net_listen_address_add_def split: bind_splits if_splits
      intro: cache_cells.get_inv cache_cells.put_inv)

lemma net_stat_walker_keeps:
  "net_stat_walker clock w c = Some (w', st) \<Longrightarrow> cache_inv (nw_listen w) \<Longrightarrow> cache_inv (nw_listen w')"
  by (auto simp: net_stat_walker_def Let_def split: bind_splits if_splits
      dest: listen_add_keeps cache_cells.find_inv)

lemma net_stat_keeps [handle_keeps]:
  assumes "sysm_net_stat_get env clock s conn0 flags = Some (s', r)" "handle_inv s"
  shows "handle_inv s'"
proof -
  obtain t and n :: nat where t: "(case net_listen s of None \<Rightarrow> (sysm_cache_new 32 (clock 0), 1) | Some t \<Rightarrow> (t, 0)) = (t, n)"
      "cache_inv t"
    using assms(2) by (cases "net_listen s") (auto simp: handle_inv_def cache_inv_sysm_new)
  have walk: "cache_inv (nw_listen w')" if "cache_inv (nw_listen w)"
      "sysm_net_connection_walk env (proc_net s) (net_stat_walker clock) flags conn0 w = Some (w', status)" for w w' status
    using walk_preserves [where P = "\<lambda>w. cache_inv (nw_listen w)"] net_stat_walker_keeps that by blast
  obtain w status where w: "sysm_net_connection_walk env (proc_net s) (net_stat_walker clock) flags conn0
      \<lparr>nw_listen = t, nw_stat = zero_net_stat, nw_reads = n\<rparr> = Some (w, status)" "s' = s\<lparr>net_listen := Some (nw_listen w)\<rparr>"
    using assms(1) t(1) by (auto simp: sysm_net_stat_get_def split: bind_splits)
  have "cache_inv (nw_listen w)" by (rule walk [OF _ w(1)]) (simp add: t(2))
  then show ?thesis using assms(2) w(2) by simp
qed

lemma listen_search_keeps:
  "listen_search now1 now2 s port = Some (s', found) \<Longrightarrow> handle_inv s \<Longrightarrow> handle_inv s'"
  by (auto simp: listen_search_def handle_inv_def ifconf_ok_def
      split: bind_splits option.splits dest: cache_cells.find_inv)

lemma listen_address_keeps [handle_keeps]:
  assumes "sysm_net_listen_address_get env clock n1 n2 n3 n4 n5 n6 s conn0 port = Some (s', r)" "handle_inv s"
  shows "handle_inv s'"
proof -
  have get: "cache_inv t'" if "sysm_cache_get n5 n6 t port = Some (t', p)" "net_listen s = Some t" "handle_inv s"
    for s t t' p using that by (auto simp: handle_inv_def dest: cache_cells.get_inv)
  from assms show ?thesis
    by (auto simp: sysm_net_listen_address_get_def map_option_eq_Some split: bind_splits if_splits
        dest!: listen_search_keeps net_stat_keeps) (use get in blast)+
qed

section \<open>Interfaces\<close>

text \<open>One turn of the loop leaves a live buffer of the stored length, or the freed one.\<close>

lemma ifconf_ok_step:
  "handle_inv s \<Longrightarrow> 0 \<le> len \<Longrightarrow> handle_inv (s\<lparr>ifconf_len := len, ifconf_buf := Live (nat len)\<rparr>)"
  "handle_inv s \<Longrightarrow> handle_inv (s\<lparr>ifconf_buf := Dangling\<rparr>)"
  by (simp_all add: handle_inv_def ifconf_ok_def)

lemma ifconf_loop_keeps:
  assumes "ifconf_loop gifconf s lastlen = Some y" "handle_inv s"
  shows "handle_inv (fst y)"
proof -
  have "handle_inv s \<longrightarrow> handle_inv (fst y)"
  proof (rule ifconf_loop.raw_induct
      [where P = "\<lambda>gifconf s lastlen y. handle_inv s \<longrightarrow> handle_inv (fst y)", OF _ assms(1)], intro impI, goal_cases)
    case (1 loop gifconf s lastlen y)
    define len where "len = (if ifconf_buf s = Null \<or> lastlen \<noteq> 0
      then ifconf_len s + SIZEOF_IFREQ * int SYSM_NET_IFLIST_MAX else ifconf_len s)"
    have "0 \<le> len" using 1(3) by (simp add: len_def handle_inv_def ifconf_ok_def SIZEOF_IFREQ_def)
    from ifconf_ok_step(1) [OF 1(3) this]
    have live: "handle_inv (s\<lparr>ifconf_len := len, ifconf_buf := Live (nat len)\<rparr>)" .
    from live ifconf_ok_step(2) [OF live] show ?case
      using 1(2) by (auto simp: Let_def len_def [symmetric] split: if_splits sum.splits dest!: 1(1))
  qed
  with assms(2) show ?thesis by blast
qed

lemma interface_list_keeps [handle_keeps]:
  "sysm_net_interface_list_get fs sock gifconf s = Some (s', r) \<Longrightarrow> handle_inv s \<Longrightarrow> handle_inv s'"
  by (auto simp: sysm_net_interface_list_get_def Let_def split: sum.splits bind_splits dest!: ifconf_loop_keeps)

lemma interface_config_keeps [handle_keeps]:
  "sysm_net_interface_config_get fs sock gifconf nics v0 possible0 name c s = Some (s', r)
     \<Longrightarrow> handle_inv s \<Longrightarrow> handle_inv s'"
  by (auto simp: sysm_net_interface_config_get_def sysm_net_interface_config_primary_get_def map_option_eq_Some
      split: option.splits sum.splits bind_splits if_splits dest!: interface_list_keeps)

section \<open>Disks\<close>

lemma fsdev_get_keeps: "fsdev_get env n t key = Some (t', p, n') \<Longrightarrow> cache_inv t \<Longrightarrow> cache_inv t'"
  by (auto simp: fsdev_get_def map_option_eq_Some dest: cache_cells.get_inv)

lemma iodev_loop_keeps: "iodev_loop env fsps n t = Some (t', n') \<Longrightarrow> cache_inv t \<Longrightarrow> cache_inv t'"
proof (induction fsps arbitrary: n t)
  case Nil
  then show ?case by simp
next
  case (Cons fsp fsps)
  have store: "cache_inv t'" if "iodev_loop env fsps m (entry_store p v t) = Some (t', n')" "cache_inv t"
    for m p v t using Cons.IH [OF that(1)] cache_cells.store_inv [OF that(2)] by blast
  show ?case
    using Cons by (auto split: if_splits sum.splits bind_splits dest!: fsdev_get_keeps dest: store)
qed

lemma iodev_fill_keeps:
  "iodev_fill env dirname is_dev n t entry = Some (t', r) \<Longrightarrow> cache_inv t \<Longrightarrow> cache_inv t'"
  by (auto simp: iodev_fill_def split: if_splits sum.splits bind_splits
      dest!: iodev_loop_keeps intro: cache_cells.store_inv)

lemma iodev_get_keeps:
  assumes "sysm_iodev_get env n s dirname = Some (s', r)" "handle_inv s"
  shows "handle_inv s'"
proof -
  obtain t and m :: nat where t: "(case fsdev s of None \<Rightarrow> (sysm_cache_new 15 (de_clock env n), Suc n)
      | Some t \<Rightarrow> (t, n)) = (t, m)" "cache_inv t"
    using assms(2) by (cases "fsdev s") (auto simp: handle_inv_def cache_inv_sysm_new)
  have "\<exists>t'. s' = s\<lparr>fsdev := Some t'\<rparr> \<and> cache_inv t'"
    using assms(1) t
    by (auto simp: sysm_iodev_get_def split: prod.splits if_splits sum.splits bind_splits
        dest!: fsdev_get_keeps iodev_fill_keeps)
  with assms(2) show ?thesis by auto
qed

lemma iodev_set_keeps: "handle_inv s \<Longrightarrow> handle_inv (iodev_set p iodev s)"
  by (cases "fsdev s") (auto simp: iodev_set_def handle_inv_def ifconf_ok_def intro: cache_cells.store_inv)

lemma iostat_sys_keeps: "get_iostat_sys env n s dirname disk = Some (s', r) \<Longrightarrow> handle_inv s \<Longrightarrow> handle_inv s'"
  by (auto simp: get_iostat_sys_def Let_def split: option.splits sum.splits bind_splits prod.splits
      dest!: iodev_get_keeps intro: iodev_set_keeps)

lemma iostat_dstat_keeps:
  "get_iostat_proc_dstat env n s dirname disk = Some (s', r) \<Longrightarrow> handle_inv s \<Longrightarrow> handle_inv s'"
  by (auto simp: get_iostat_proc_dstat_def Let_def split: option.splits sum.splits bind_splits
      dest!: iodev_get_keeps)

lemma iostat_procp_keeps: "get_iostat_procp env n s dirname disk = Some (s', r) \<Longrightarrow> handle_inv s \<Longrightarrow> handle_inv s'"
  by (auto simp: get_iostat_procp_def Let_def split: option.splits sum.splits bind_splits prod.splits
      dest!: iodev_get_keeps)

lemma disk_account_keeps:
  "disk_account env s p disk device_usage = Some (s', r) \<Longrightarrow> handle_inv s \<Longrightarrow> handle_inv s'"
  by (auto simp: disk_account_def Let_def split: bind_splits intro: iodev_set_keeps)

lemma disk_usage_keeps [handle_keeps]:
  "sysm_disk_usage_get env n s name = Some (s', r) \<Longrightarrow> handle_inv s \<Longrightarrow> handle_inv s'"
  by (auto simp: sysm_disk_usage_get_def Let_def map_option_eq_Some
      split: linux_iostat_e.splits option.splits bind_splits if_splits
      dest!: iostat_sys_keeps iostat_dstat_keeps iostat_procp_keeps disk_account_keeps)

section \<open>Sessions\<close>

text \<open>One call of the library on a handle: any operation that changes it, with any answers.\<close>

inductive library_call :: "sysm \<Rightarrow> sysm \<Rightarrow> bool" where
  call_pid: "library_call s (fst (sysm_pid_get getpid s))"
| call_strerror: "library_call s (fst (sysm_strerror strerror_r s err))"
| call_cpu_infos: "sysm_cpu_info_list_get cpuid fs n junk s = Some (s', infos) \<Longrightarrow> library_call s s'"
| call_cpus: "sysm_cpu_list_get cpuid fs s = Some (s', cpus) \<Longrightarrow> library_call s s'"
| call_memory: "sysm_memory_get fs s memory0 = Some (s', memory) \<Longrightarrow> library_call s s'"
| call_procs: "sysm_proc_list_get fs dir s = Some (s', procs) \<Longrightarrow> library_call s s'"
| call_proc_time: "sysm_proc_time_get fs timenow s pid = Some (s', time) \<Longrightarrow> library_call s s'"
| call_proc_cpu: "sysm_proc_cpu_get fs timenow now now0 now1 now2 s pid cpu0 = Some (s', cpu) \<Longrightarrow> library_call s s'"
| call_proc_mem: "sysm_proc_mem_get fs timenow s pid mem0 = Some (s', mem) \<Longrightarrow> library_call s s'"
| call_proc_state: "sysm_proc_state_get cpuid fs timenow s pid st0 = Some (s', st) \<Longrightarrow> library_call s s'"
| call_proc_stat: "sysm_proc_stat_get cpuid fs dir timenow st0 s = Some (s', ps) \<Longrightarrow> library_call s s'"
| call_net_stat: "sysm_net_stat_get env clock s conn0 flags = Some (s', ns) \<Longrightarrow> library_call s s'"
| call_listen: "sysm_net_listen_address_get env clock n1 n2 n3 n4 n5 n6 s conn0 port = Some (s', address)
     \<Longrightarrow> library_call s s'"
| call_iflist: "sysm_net_interface_list_get fs sock gifconf s = Some (s', names) \<Longrightarrow> library_call s s'"
| call_ifconfig: "sysm_net_interface_config_get fs sock gifconf nics v0 possible0 name config0 s = Some (s', config)
     \<Longrightarrow> library_call s s'"
| call_disk: "sysm_disk_usage_get denv clk s dirname = Some (s', disk) \<Longrightarrow> library_call s s'"

inductive_cases library_callE: "library_call s s'"

inductive handle_reachable :: "sysm \<Rightarrow> bool" where
  reach_open: "sysm_open fs exists page clk_tck release fresh = Some (s, SYSM_OK) \<Longrightarrow> handle_reachable s"
| reach_call: "handle_reachable s \<Longrightarrow> library_call s s' \<Longrightarrow> handle_reachable s'"

lemma library_call_keeps: "library_call s s' \<Longrightarrow> handle_inv s \<Longrightarrow> handle_inv s'"
  by (erule library_callE) (auto simp: sysm_pid_get_def intro: handle_keeps)

lemma open_inv: "sysm_open fs exists page clk_tck release fresh = Some (s, SYSM_OK) \<Longrightarrow> handle_inv s"
  by (auto simp: sysm_open_def handle_inv_def ifconf_ok_def split: bind_splits if_splits)

lemma reachable_inv: "handle_reachable s \<Longrightarrow> handle_inv s"
  by (induction rule: handle_reachable.induct) (auto intro: open_inv library_call_keeps)

text \<open>C5: whatever sequence of calls follows a successful opening, and whatever the kernel answers, the
  handle stays well formed: the list of processes fits its array, the three hash tables satisfy
  their invariant, and the length stored for the buffer of the interfaces is its size.\<close>

theorem handle_reachable_wf:
  assumes "handle_reachable s"
  shows "handle_inv s"
  using assms by (rule reachable_inv)

text \<open>What closing frees of a table: every entry on a chain once, none that was freed before.\<close>

definition frees_once :: "'v cache option \<Rightarrow> nat list \<Rightarrow> bool" where
  "frees_once c addrs =
     (case c of None \<Rightarrow> addrs = []
      | Some t \<Rightarrow> distinct addrs \<and> set addrs = e_addr ` set (concat (c_entries t))
          \<and> set addrs \<inter> e_addr ` set (c_freed t) = {})"

lemma destroy_frees_once: "cache_ok c \<Longrightarrow> frees_once c (fst (destroy_if c))"
proof (cases c)
  case None
  then show ?thesis by (simp add: frees_once_def destroy_if_def)
next
  case (Some t)
  assume "cache_ok c"
  with Some have "cache_inv t" by simp
  have "frees_once (Some t) (fst (sysm_cache_destroy t))"
    unfolding frees_once_def option.case using cache_destroy_frees_once [OF \<open>cache_inv t\<close>] by blast
  with Some show ?thesis by (simp add: destroy_if_def)
qed

lemma close_frees:
  assumes "handle_inv s"
  shows "case sysm_close s of
      None \<Rightarrow> ifconf_buf s = Dangling
    | Some (fr, status) \<Rightarrow> ifconf_buf s \<noteq> Dangling \<and> status = SYSM_OK \<and> fr_sysm fr = 1
        \<and> fr_ifconf fr = (if ifconf_buf s = Null then 0 else 1) \<and> frees_once (proc_cpu s) (fst (fr_proc_cpu fr))
        \<and> frees_once (fsdev s) (fst (fr_fsdev fr)) \<and> frees_once (net_listen s) (fst (fr_net_listen fr))"
  using assms
  by (auto simp: handle_inv_def sysm_close_def sysm_os_close_def free_buf_def destroy_frees_once
      split: heap_buf.splits bind_splits)

text \<open>C6: closing a handle that any session leaves is defined unless its buffer for the interfaces was
  freed by a failed listing; it then frees the handle, the buffer if there is one, and of each of
  the three tables every entry on a chain exactly once and no entry that was freed before.\<close>

theorem handle_close_frees_once:
  assumes "handle_reachable s"
  shows "case sysm_close s of
      None \<Rightarrow> ifconf_buf s = Dangling
    | Some (fr, status) \<Rightarrow> ifconf_buf s \<noteq> Dangling \<and> status = SYSM_OK \<and> fr_sysm fr = 1
        \<and> fr_ifconf fr = (if ifconf_buf s = Null then 0 else 1) \<and> frees_once (proc_cpu s) (fst (fr_proc_cpu fr))
        \<and> frees_once (fsdev s) (fst (fr_fsdev fr)) \<and> frees_once (net_listen s) (fst (fr_net_listen fr))"
  by (rule close_frees [OF reachable_inv [OF assms]])

text \<open>The witnesses: a handle that was opened and has walked the connections.\<close>

lemma sample_session:
  obtains s where "handle_reachable s" "net_listen s \<noteq> None" "ifconf_buf s = Null"
proof -
  obtain s where s: "sysm_open sample_files (\<lambda>f. f = SYS_BLOCK) (2 ^ 12) 100 ''2.6.32'' zero_sysm = Some (s, SYSM_OK)"
    using sample_open by blast
  then have fresh: "proc_net s = None" "net_listen s = None" "ifconf_buf s = Null"
    by (auto simp: sysm_open_def sysm_os_open_def Let_def split: bind_splits prod.splits if_splits)
  obtain w where w: "sysm_net_stat_get sample_net (\<lambda>i. word_of_nat i) s zero_connection 19
      = Some (s\<lparr>net_listen := Some (nw_listen w)\<rparr>, w, SYSM_OK)"
    using net_stat_get_simulates [OF sample_tables wide_zero fresh(1,2), of 19 "\<lambda>i. word_of_nat i"] sample_listeners
    unfolding sample_conns by blast
  show thesis
    by (rule that [OF reach_call [OF reach_open [OF s] call_net_stat [OF w]]]) (simp_all add: fresh)
qed

theorem handle_reachable_wf_witness: "\<exists>s. handle_reachable s \<and> net_listen s \<noteq> None \<and> handle_inv s"
proof -
  obtain s where "handle_reachable s" "net_listen s \<noteq> None" by (rule sample_session)
  with handle_reachable_wf show ?thesis by blast
qed

theorem handle_close_frees_once_witness:
  "\<exists>s fr. net_listen s \<noteq> None \<and> sysm_close s = Some (fr, SYSM_OK) \<and> frees_once (net_listen s) (fst (fr_net_listen fr))"
proof -
  obtain s where s: "handle_reachable s" "net_listen s \<noteq> None" "ifconf_buf s = Null" by (rule sample_session)
  with handle_close_frees_once [OF s(1)] show ?thesis by (auto split: option.splits)
qed

end
