(* ===== verification/Jni_Handle.thy ===== *)
theory Jni_Handle
  imports Jni_Compose Handle_Session
begin

text \<open>
  Java sessions on top of the library: every method of the binding hands the handle to an operation
  of the library and puts back what it returns, so the invariant of the handle holds in every Java
  session, and closing the Java object frees the tables of the library exactly once.
\<close>

section \<open>Handles in the world\<close>

text \<open>A call of the library that preserves the invariant of the handle.\<close>

definition sound :: "(sysm \<Rightarrow> (sysm \<times> 'r) option) \<Rightarrow> bool" where
  "sound call \<longleftrightarrow> (\<forall>s s' r. call s = Some (s', r) \<longrightarrow> handle_inv s \<longrightarrow> handle_inv s')"

definition handle_ok :: "u64 \<Rightarrow> jworld \<Rightarrow> bool" where
  "handle_ok p w \<longleftrightarrow> (\<exists>js. jw_handles w p = Some js \<and> handle_inv (js_sysm js))"

lemma soundD: "sound call \<Longrightarrow> call s = Some (s', r) \<Longrightarrow> handle_inv s \<Longrightarrow> handle_inv s'"
  unfolding sound_def by blast

lemma handle_ok_simps [simp]:
  "handle_ok p (w\<lparr>jw_vm := vm\<rparr>) = handle_ok p w"
  "handle_ok p (put_handle w p (vm, js)) = handle_inv (js_sysm js)"
  "handle_ok p (list_taken w) = handle_ok p w" "handle_ok p (list_destroyed w) = handle_ok p w"
  by (simp_all add: handle_ok_def put_handle_def list_taken_def list_destroyed_def)

lemma return_array_ok: "return_array w a = (w', r) \<Longrightarrow> handle_ok p w \<Longrightarrow> handle_ok p w'"
  by (auto simp: return_array_def split: option.splits)

lemma throw_strerror_sound:
  "throw_strerror lc vm js c err = Some (vm', js') \<Longrightarrow> handle_inv (js_sysm js) \<Longrightarrow> handle_inv (js_sysm js')"
  using strerror_keeps [of "js_sysm js" "lc_strerror_r lc" err]
  by (auto simp: throw_strerror_def bind_eq_Some_conv split: prod.split_asm)

lemma throw_error_sound:
  "sysm_throw_error lc vm js err = Some (vm', js') \<Longrightarrow> handle_inv (js_sysm js) \<Longrightarrow> handle_inv (js_sysm js')"
  by (auto simp: sysm_throw_error_def bind_eq_Some_conv split: if_splits option.splits dest: throw_strerror_sound)

lemma throw_status_ok: "throw_status lc w p js status = Some w' \<Longrightarrow> handle_inv (js_sysm js) \<Longrightarrow> handle_ok p w'"
  by (auto simp: throw_status_def bind_eq_Some_conv dest: throw_error_sound)

lemma init_fields_sysm: "init_fields b cls vm js = Some (vm', js') \<Longrightarrow> js_sysm js' = js_sysm js"
  by (auto simp: init_fields_def bind_eq_Some_conv split: if_splits option.splits)

lemma jpointer_ok:
  assumes "sysm_get_jpointer lc w so = Some (w', q)" "handle_ok p w" "points_to so p"
  shows "handle_ok p w' \<and> (q = None \<or> q = Some p \<and> w' = w)"
  using assms(1,2)
  by (auto simp: sysm_get_jpointer_def bind_eq_Some_conv handle_ok_def split: if_splits
      dest!: get_pointer [OF _ assms(3)] dest: throw_error_sound)

lemma with_handle_ok:
  assumes "with_handle val body lc w so = Some (w', r)" "handle_ok p w" "points_to so p"
    "\<And>js. handle_inv (js_sysm js) \<Longrightarrow> body w p js = Some (w', r) \<Longrightarrow> handle_ok p w'"
  shows "handle_ok p w'"
  using assms(1) jpointer_ok [OF _ assms(2,3), of lc] assms(2,4)
  by (fastforce simp: with_handle_def bind_eq_Some_conv handle_ok_def split: option.splits)

section \<open>The methods\<close>

lemma gather_bean_ok:
  assumes "gather_bean b sets call lc w obj so = Some (w', r)" "sound call" "handle_ok p w" "points_to so p"
  shows "handle_ok p w'"
proof -
  from assms(1) obtain cls where "with_handle obj (\<lambda>w ptr js. do {
       (s, r) \<leftarrow> call (js_sysm js);
       (case r of
          Inl status \<Rightarrow> do { w \<leftarrow> throw_status lc w ptr (js\<lparr>js_sysm := s\<rparr>) status; Some (w, obj) }
        | Inr c \<Rightarrow> do {
            (vm, js) \<leftarrow> init_fields b cls (jw_vm w) (js\<lparr>js_sysm := s\<rparr>);
            (vm, obj) \<leftarrow> set_fields lc js b (sets c) vm obj;
            Some (put_handle w ptr (vm, js), obj) }) }) lc w so = Some (w', r)"
    by (auto simp: gather_bean_with_handle bind_eq_Some_conv)
  then show ?thesis
    by (rule with_handle_ok [OF _ assms(3,4)])
       (auto split: bind_splits sum.split_asm dest!: soundD [OF assms(2)] throw_status_ok init_fields_sysm)
qed

lemma gather_named_ok:
  assumes "gather_named b sets call lc w obj so jname = Some (w', r)" "\<And>name. sound (call name)"
    "handle_ok p w" "points_to so p"
  shows "handle_ok p w'"
proof -
  from assms(1) obtain cls where "with_handle obj (\<lambda>w ptr js. do {
       (vm, name) \<leftarrow> GetStringUTFChars (jw_vm w) jname;
       (s, r) \<leftarrow> call name (js_sysm js);
       (case r of
          Inl status \<Rightarrow> do { w \<leftarrow> throw_status lc (w\<lparr>jw_vm := vm\<rparr>) ptr (js\<lparr>js_sysm := s\<rparr>) status; Some (w, obj) }
        | Inr c \<Rightarrow> do {
            (vm, js) \<leftarrow> init_fields b cls vm (js\<lparr>js_sysm := s\<rparr>);
            (vm, obj) \<leftarrow> set_fields lc js b (sets c) vm obj;
            Some (put_handle w ptr (vm, js), obj) }) }) lc w so = Some (w', r)"
    by (auto simp: gather_named_with_handle bind_eq_Some_conv)
  then show ?thesis
    by (rule with_handle_ok [OF _ assms(3,4)])
       (auto split: bind_splits sum.split_asm dest!: soundD [OF assms(2)] throw_status_ok init_fields_sysm)
qed

lemma gather_list_ok:
  assumes "gather_list find_class b sets call lc w so = Some (w', r)" "sound call" "handle_ok p w" "points_to so p"
  shows "handle_ok p w'"
proof -
  obtain vm cls where f: "find_class (jw_vm w) = Some (vm, cls)"
    using assms(1) by (auto simp: gather_list_def bind_eq_Some_conv)
  have ok: "handle_ok p (w\<lparr>jw_vm := vm\<rparr>)" using assms(3) by simp
  show ?thesis
    by (insert assms(1), clarsimp simp: gather_list_def f, erule with_handle_ok [OF _ ok assms(4)],
        auto simp: Let_def split: bind_splits sum.split_asm
          dest!: soundD [OF assms(2)] throw_status_ok init_fields_sysm elim!: return_array_ok)
qed

lemma gather_strings_ok:
  assumes "gather_strings call lc w so = Some (w', r)" "sound call" "handle_ok p w" "points_to so p"
  shows "handle_ok p w'"
proof -
  obtain vm cls where f: "FindClass (jw_vm w) ''java/lang/String'' = Some (vm, cls)"
    using assms(1) by (auto simp: gather_strings_def bind_eq_Some_conv)
  have ok: "handle_ok p (w\<lparr>jw_vm := vm\<rparr>)" using assms(3) by simp
  show ?thesis
    by (insert assms(1), clarsimp simp: gather_strings_def f, erule with_handle_ok [OF _ ok assms(4)],
        auto simp: Let_def split: bind_splits sum.split_asm
          dest!: soundD [OF assms(2)] throw_status_ok elim!: return_array_ok)
qed

lemma percentage_ok:
  assumes "CpuPercentage_gather lc w obj so jprev jcurr = Some (w', r)" "handle_ok p w" "points_to so p"
  shows "handle_ok p w'"
  by (insert assms(1), clarsimp simp: CpuPercentage_gather_with_handle bind_eq_Some_conv,
      erule with_handle_ok [OF _ assms(2,3)], auto simp: bind_eq_Some_conv dest!: init_fields_sysm)

lemma net_stat_call_sound: "sound (net_stat_call env clock conn0 address0 flags jaddress jport)"
  by (auto simp: sound_def net_stat_call_def keeps_handle_def map_option_eq_Some split: bind_splits if_splits
      dest!: net_stat_keeps)

lemma net_stat_ok:
  assumes "NetStat_stat env clock conn0 address0 lc w obj so flags jaddress jport = Some (w', r)"
    "handle_ok p w" "points_to so p"
  shows "handle_ok p w'"
  by (insert assms(1), simp add: NetStat_stat_with_handle, erule with_handle_ok [OF _ assms(2,3)],
      auto split: bind_splits sum.split_asm dest!: soundD [OF net_stat_call_sound] throw_status_ok init_fields_sysm)

lemma kill_ok:
  assumes "kill_native kill pid signum lc w so = Some (w', r)" "handle_ok p w" "points_to so p"
  shows "handle_ok p w'"
  by (insert assms(1), simp add: kill_native_def, erule with_handle_ok [OF _ assms(2,3)],
      use assms(2) in \<open>auto simp: Let_def split: bind_splits if_splits dest!: throw_status_ok\<close>)

lemma getPid_ok:
  assumes "getPid pid lc w so = Some (w', r)" "handle_ok p w" "points_to so p"
  shows "handle_ok p w'"
  by (insert assms(1), simp add: getPid_def, erule with_handle_ok [OF _ assms(2,3)], auto simp: sysm_pid_get_def)

lemma getLoadAverage_ok:
  assumes "getLoadAverage fs lc w so = Some (w', r)" "handle_ok p w" "points_to so p"
  shows "handle_ok p w'"
  by (insert assms(1), simp add: getLoadAverage_def, erule with_handle_ok [OF _ assms(2,3)],
      use assms(2) in \<open>auto split: bind_splits sum.split_asm dest!: throw_status_ok\<close>)

lemma getProcessPort_ok:
  assumes "getProcessPort env opendir stat conn0 protocol port lc w so = Some (w', r)" "handle_ok p w" "points_to so p"
  shows "handle_ok p w'"
  by (insert assms(1), simp add: getProcessPort_def, erule with_handle_ok [OF _ assms(2,3)],
      use assms(2) in \<open>auto split: bind_splits if_splits dest!: throw_status_ok\<close>)

lemma getNetListenAddress_ok:
  assumes "getNetListenAddress env clock n1 n2 n3 n4 n5 n6 conn0 port lc w so = Some (w', r)"
    "handle_ok p w" "points_to so p"
  shows "handle_ok p w'"
  by (insert assms(1), simp add: getNetListenAddress_def, erule with_handle_ok [OF _ assms(2,3)],
      auto simp: Let_def split: bind_splits sum.split_asm dest!: listen_address_keeps throw_status_ok)

lemma getProcesses_ok:
  assumes "getProcesses fs dir lc w so = Some (w', r)" "handle_ok p w" "points_to so p"
  shows "handle_ok p w'"
  by (insert assms(1), simp add: getProcesses_def, erule with_handle_ok [OF _ assms(2,3)],
      auto simp: Let_def split: bind_splits if_splits dest!: proc_list_keeps throw_status_ok elim!: return_array_ok)

lemma getAll_ok:
  assumes "ProcessEnv_getAll fs getenv pid lc w so = Some (w', r)" "handle_ok p w" "points_to so p"
  shows "handle_ok p w'"
proof -
  obtain vm cls where f: "FindClass (jw_vm w) ''java/util/HashMap'' = Some (vm, Some cls)"
    using assms(1) by (auto simp: ProcessEnv_getAll_def bind_eq_Some_conv)
  have ok: "handle_ok p (w\<lparr>jw_vm := vm\<rparr>)" using assms(2) by simp
  show ?thesis
    by (insert assms(1), clarsimp simp: ProcessEnv_getAll_def f, erule with_handle_ok [OF _ ok assms(3)],
        use assms(2) in \<open>auto split: bind_splits if_splits option.split_asm dest!: throw_status_ok\<close>)
qed

lemma getValue_ok:
  assumes "ProcessEnv_getValue fs getenv pid key lc w so = Some (w', r)" "handle_ok p w" "points_to so p"
  shows "handle_ok p w'"
  by (insert assms(1), simp add: ProcessEnv_getValue_def, erule with_handle_ok [OF _ assms(2,3)],
      use assms(2) in \<open>auto split: bind_splits if_splits dest!: throw_status_ok\<close>)

section \<open>The operations of the methods\<close>

lemma by_status_sound:
  "(\<And>s s' r. f s = Some (s', r) \<Longrightarrow> handle_inv s \<Longrightarrow> handle_inv s') \<Longrightarrow> sound (\<lambda>s. by_status (f s))"
  by (fastforce simp: sound_def by_status_def split: bind_splits)

lemma list_of_result_sound:
  "(\<And>s s' r. f s = Some (s', r) \<Longrightarrow> handle_inv s \<Longrightarrow> handle_inv s') \<Longrightarrow> sound (\<lambda>s. list_of_result (f s))"
  by (fastforce simp: sound_def list_of_result_def split: bind_splits)

lemma read_sound:
  "sound (\<lambda>s. keeps_handle s (f s))" "sound (\<lambda>s. reads_only s (g s))" "sound (\<lambda>s. list_by_status s (h s))"
  "sound (\<lambda>s. list_of_result (reads_only s (i s)))" "sound (\<lambda>s. Some (s, j s))" "sound (\<lambda>s. None)"
  by (auto simp: sound_def keeps_handle_def reads_only_def list_by_status_def list_of_result_def split: bind_splits)

lemma named_sound: "(\<And>name. sound (f name)) \<Longrightarrow> sound (\<lambda>s. do { name \<leftarrow> jname; f name s })"
  by (cases jname) (simp_all add: read_sound(6))

lemma time_sound: "sound (\<lambda>s. sysm_proc_time_get fs timenow s pid)"
  by (auto simp: sound_def dest: proc_time_keeps)

lemma status_sound:
  "sound (\<lambda>s. by_status (sysm_memory_get fs s memory0))"
  "sound (\<lambda>s. by_status (sysm_proc_cpu_get fs timenow now now0 now1 now2 s pid out))"
  "sound (\<lambda>s. by_status (sysm_proc_mem_get fs timenow s pid mem0))"
  "sound (\<lambda>s. by_status (sysm_proc_stat_get cpuid fs dir timenow st0 s))"
  "sound (\<lambda>s. by_status (sysm_proc_state_get cpuid fs timenow s pid st0))"
  "sound (\<lambda>s. by_status (sysm_disk_usage_get denv n s name))"
  "sound (\<lambda>s. by_status (sysm_net_interface_config_get fs sock gifconf nics v0 possible0 jname config0 s))"
  by (rule by_status_sound, erule handle_keeps, assumption)+

lemma result_sound:
  "sound (\<lambda>s. list_of_result (sysm_cpu_info_list_get cpuid fs nproc junk s))"
  "sound (\<lambda>s. list_of_result (sysm_cpu_list_get cpuid fs s))"
  "sound (\<lambda>s. list_of_result (sysm_net_interface_list_get fs sock gifconf s))"
  by (rule list_of_result_sound, erule handle_keeps, assumption)+

lemmas bean_sound = status_sound result_sound time_sound read_sound named_sound [OF status_sound(6)]
  named_sound [OF read_sound(1)]

section \<open>Java sessions\<close>

lemmas bean_methods = Memory_gather_def Swap_gather_def Cpu_gather_def Uptime_gather_def ProcessCpu_gather_def ProcessExe_gather_def ProcessMem_gather_def ProcessOwn_gather_def ProcessOwner_gather_def ProcessStat_gather_def ProcessState_gather_def ProcessTime_gather_def ResourceLimit_gather_def NetInfo_gather_def DiskUsage_gather_def NetInterfaceConfig_gather_def NetInterfaceStat_gather_def getCpuInfos_def getCpusNative_def getNetRoutes_def getNetConnections_def getWhos_def getProcessArgs_def getNetInterfaces_def

text \<open>One call of a method of the binding on the object \<open>so\<close>, or Java catching an exception.\<close>

inductive java_step :: "libc \<Rightarrow> jobject \<Rightarrow> jworld \<Rightarrow> jworld \<Rightarrow> bool" for lc so where
  java_memory: "Memory_gather fs memory0 lc w obj so = Some (w', obj') \<Longrightarrow> java_step lc so w w'"
| java_swap: "Swap_gather fs swap0 lc w obj so = Some (w', obj') \<Longrightarrow> java_step lc so w w'"
| java_cpu: "Cpu_gather fs lc w obj so = Some (w', obj') \<Longrightarrow> java_step lc so w w'"
| java_uptime: "Uptime_gather fs lc w obj so = Some (w', obj') \<Longrightarrow> java_step lc so w w'"
| java_processcpu: "ProcessCpu_gather fs timenow now now0 now1 now2 out pid lc w obj so = Some (w', obj')
     \<Longrightarrow> java_step lc so w w'"
| java_processexe: "ProcessExe_gather readlink exe0 pid lc w obj so = Some (w', obj')
     \<Longrightarrow> java_step lc so w w'"
| java_processmem: "ProcessMem_gather fs timenow mem0 pid lc w obj so = Some (w', obj')
     \<Longrightarrow> java_step lc so w w'"
| java_processown: "ProcessOwn_gather fs own0 pid lc w obj so = Some (w', obj')
     \<Longrightarrow> java_step lc so w w'"
| java_processowner: "ProcessOwner_gather fs getpwuid_r getgrgid_r own0 owner0 pid lc w obj so = Some (w', obj')
     \<Longrightarrow> java_step lc so w w'"
| java_processstat: "ProcessStat_gather cpuid fs dir timenow st0 lc w obj so = Some (w', obj')
     \<Longrightarrow> java_step lc so w w'"
| java_processstate: "ProcessState_gather cpuid fs timenow st0 pid lc w obj so = Some (w', obj')
     \<Longrightarrow> java_step lc so w w'"
| java_processtime: "ProcessTime_gather fs timenow pid lc w obj so = Some (w', obj')
     \<Longrightarrow> java_step lc so w w'"
| java_resourcelimit: "ResourceLimit_gather getrlimit child_max rlimit0 lc w obj so = Some (w', obj')
     \<Longrightarrow> java_step lc so w w'"
| java_netinfo: "NetInfo_gather fs host domain ntop r0 lc w obj so = Some (w', obj')
     \<Longrightarrow> java_step lc so w w'"
| java_diskusage: "DiskUsage_gather denv n lc w obj so jname = Some (w', obj')
     \<Longrightarrow> java_step lc so w w'"
| java_netinterfaceconfig: "NetInterfaceConfig_gather fs sock gifconf nics v0 possible0 config0 lc w obj so jname = Some (w', obj')
     \<Longrightarrow> java_step lc so w w'"
| java_netinterfacestat: "NetInterfaceStat_gather fs stat0 lc w obj so jname = Some (w', obj')
     \<Longrightarrow> java_step lc so w w'"
| java_percentages: "CpuPercentage_gather lc w obj so jprev jcurr = Some (w', obj')
     \<Longrightarrow> java_step lc so w w'"
| java_stat: "NetStat_stat env clock conn0 address0 lc w obj so flags jaddress jport = Some (w', obj')
     \<Longrightarrow> java_step lc so w w'"
| java_getcpuinfos: "getCpuInfos cpuid fs nproc junk lc w so = Some (w', xs)
     \<Longrightarrow> java_step lc so w w'"
| java_getcpusnative: "getCpusNative cpuid fs lc w so = Some (w', xs) \<Longrightarrow> java_step lc so w w'"
| java_getnetroutes: "getNetRoutes fs r0 lc w so = Some (w', xs) \<Longrightarrow> java_step lc so w w'"
| java_getnetconnections: "getNetConnections env g0 conn0 flags lc w so = Some (w', xs)
     \<Longrightarrow> java_step lc so w w'"
| java_getwhos: "getWhos utmp_file lc w so = Some (w', xs) \<Longrightarrow> java_step lc so w w'"
| java_getprocessargs: "getProcessArgs fs pid lc w so = Some (w', xs) \<Longrightarrow> java_step lc so w w'"
| java_getnetinterfaces: "getNetInterfaces fs sock gifconf lc w so = Some (w', xs)
     \<Longrightarrow> java_step lc so w w'"
| java_kill: "kill_native kill pid signum lc w so = Some (w', u) \<Longrightarrow> java_step lc so w w'"
| java_getpid: "getPid mypid lc w so = Some (w', n) \<Longrightarrow> java_step lc so w w'"
| java_getloadaverage: "getLoadAverage fs lc w so = Some (w', avg) \<Longrightarrow> java_step lc so w w'"
| java_getprocessport: "getProcessPort env opendir stat conn0 protocol port lc w so = Some (w', n)
     \<Longrightarrow> java_step lc so w w'"
| java_getnetlistenaddress: "getNetListenAddress env clock n1 n2 n3 n4 n5 n6 conn0 port lc w so = Some (w', str)
     \<Longrightarrow> java_step lc so w w'"
| java_getprocesses: "getProcesses fs dir lc w so = Some (w', ps) \<Longrightarrow> java_step lc so w w'"
| java_getall: "ProcessEnv_getAll fs getenv pid lc w so = Some (w', m) \<Longrightarrow> java_step lc so w w'"
| java_getvalue: "ProcessEnv_getValue fs getenv pid key lc w so = Some (w', str)
     \<Longrightarrow> java_step lc so w w'"
| java_catch: "java_step lc so w (w\<lparr>jw_vm := (jw_vm w)\<lparr>jv_pending := None, jv_room := n\<rparr>\<rparr>)"

lemma java_step_ok:
  assumes "java_step lc so w w'" "handle_ok p w" "points_to so p"
  shows "handle_ok p w'"
  using assms(1)
proof cases
  case (java_catch n)
  then show ?thesis using assms(2) by simp
qed ((simp only: bean_methods)?,
    (erule gather_bean_ok [OF _ _ assms(2,3)] gather_named_ok [OF _ _ assms(2,3)] gather_list_ok [OF _ _ assms(2,3)]
       gather_strings_ok [OF _ _ assms(2,3)], rule bean_sound)
    | (erule percentage_ok [OF _ assms(2,3)] net_stat_ok [OF _ assms(2,3)] kill_ok [OF _ assms(2,3)]
       getPid_ok [OF _ assms(2,3)] getLoadAverage_ok [OF _ assms(2,3)] getProcessPort_ok [OF _ assms(2,3)]
       getNetListenAddress_ok [OF _ assms(2,3)] getProcesses_ok [OF _ assms(2,3)] getAll_ok [OF _ assms(2,3)]
       getValue_ok [OF _ assms(2,3)]))+

text \<open>The methods are natives, so their sessions have the balance of the references.\<close>

lemma fill_beans_id: "fill_beans lc js b sets cls cs vm array = fill_beans lc js b id cls (map sets cs) vm array"
proof (induction cs arbitrary: vm array)
  case Nil
  then show ?case by simp
next
  case (Cons c cs)
  have "fill_beans lc js b sets cls cs = fill_beans lc js b id cls (map sets cs)" by (intro ext Cons.IH)
  then show ?case by (simp add: id_def)
qed

lemma gather_named_id:
  "gather_named b sets call lc w obj so jname
     = gather_named b id (\<lambda>name s. map_option (map_prod id (map_sum id sets)) (call name s)) lc w obj so jname"
  by (simp add: gather_named_def bind_map_result case_map_sum Let_def cong: option.case_cong)

lemma gather_list_id:
  "gather_list find_class b sets call lc w so
     = gather_list find_class b id (\<lambda>s. map_option (map_prod id (map_sum id (map sets))) (call s)) lc w so"
  by (simp add: gather_list_def bind_map_result case_map_sum Let_def fill_beans_id [symmetric] cong: option.case_cong sum.case_cong)

lemma bean_is_native:
  "gather_bean b sets call lc w obj so = Some (w', obj') \<Longrightarrow> native_step lc so w w'"
  "gather_named b sets ncall lc w obj so jname = Some (w', obj') \<Longrightarrow> native_step lc so w w'"
  "gather_list (\<lambda>vm. FindClass vm name) b sets lcall lc w so = Some (w', objs) \<Longrightarrow> native_step lc so w w'"
  by (subst (asm) gather_bean_id, erule native_step.gather)
     (subst (asm) gather_named_id, erule native_step.by_name,
      subst (asm) gather_list_id, erule native_step.beans)

lemma java_step_native: "java_step lc so w w' \<Longrightarrow> native_step lc so w w'"
  by (erule java_step.cases)
     ((simp only: bean_methods SYSM_FIND_CLASS_def SYSM_FIND_CLASS_BEAN_def)?,
      (erule bean_is_native native_step.intros | (hypsubst, rule native_step.caught)))+

lemma java_session_native: "(java_step lc so)\<^sup>*\<^sup>* w w' \<Longrightarrow> (native_step lc so)\<^sup>*\<^sup>* w w'"
  by (induction rule: rtranclp_induct) (auto dest: java_step_native)

lemma java_session_ok: "(java_step lc so)\<^sup>*\<^sup>* w w' \<Longrightarrow> handle_ok p w \<Longrightarrow> points_to so p \<Longrightarrow> handle_ok p w'"
  by (induction rule: rtranclp_induct) (auto dest: java_step_ok)

lemma nativeOpen_ok:
  assumes "nativeOpen lc p (Some (s, SYSM_OK)) w so = Some (w', so')" "handle_inv s"
  shows "handle_ok p w'"
  using assms by (auto simp: nativeOpen_def bind_eq_Some_conv Let_def split: if_splits)

text \<open>C7: a Java session from the kernel's files to the end. A library that opened, any sequence of
  calls of the methods of the beans and of the class \<open>Sysm\<close> with whatever the kernel answers, with
  exceptions caught in between, and closing: the operation of the library that closes the handle
  succeeds and frees each entry of the three tables exactly once, none that was freed before; the
  handle is gone from the memory, the global references are as many as before, the Java object no
  longer points to the handle, and closing reports success.\<close>

theorem java_session_frees_once:
  assumes "sysm_open fs exists page clk_tck release fresh = Some (s, SYSM_OK)"
    and "nativeOpen lc p (Some (s, SYSM_OK)) w0 so0 = Some (w1, so1)"
    and "(java_step lc so1)\<^sup>*\<^sup>* w1 w2" "nativeClose lc w2 so1 = Some (w3, so3, status)"
  shows "\<exists>js fr. jw_handles w2 p = Some js \<and> sysm_close (js_sysm js) = Some (fr, SYSM_OK) \<and> fr_sysm fr = 1
    \<and> frees_once (proc_cpu (js_sysm js)) (fst (fr_proc_cpu fr)) \<and> frees_once (fsdev (js_sysm js)) (fst (fr_fsdev fr))
    \<and> frees_once (net_listen (js_sysm js)) (fst (fr_net_listen fr))
    \<and> jw_handles w3 = (jw_handles w0)(p := None) \<and> jv_globals (jw_vm w3) = jv_globals (jw_vm w0)
    \<and> jo_fields so3 ''longSysmWrapper'' = JLong 0 \<and> status = SYSM_OK"
proof -
  note at = nativeOpen_inv(1) [OF assms(2)]
  note close = nativeClose_effect [OF assms(4) at
      session_inv [OF java_session_native [OF assms(3)] at nativeOpen_inv(2) [OF assms(2)]]]
  obtain js where js: "jw_handles w2 p = Some js" "handle_inv (js_sysm js)"
    using java_session_ok [OF assms(3) nativeOpen_ok [OF assms(2) open_inv [OF assms(1)]] at] by (auto simp: handle_ok_def)
  obtain w' q where j: "sysm_get_jpointer lc w2 so1 = Some (w', q)" using assms(4) by (auto simp: nativeClose_def bind_eq_Some_conv)
  have "q \<noteq> None"
  proof
    assume "q = None"
    then have "w3 = w'" using assms(4) j by (auto simp: nativeClose_def)
    then show False using jpointer_ok [OF j _ at] js close(2) by (auto simp: handle_ok_def)
  qed
  then have "q = Some p" "w' = w2" using jpointer_ok [OF j _ at] js by (auto simp: handle_ok_def)
  then obtain fr where fr: "sysm_close (js_sysm js) = Some (fr, status)"
    using assms(4) j js(1) by (auto simp: nativeClose_def bind_eq_Some_conv)
  with close_frees [OF js(2)] js(1) close show ?thesis by auto
qed

text \<open>The witness: a library that is opened on sample files, asked for its process number, and closed.\<close>

theorem java_session_frees_once_witness:
  "\<exists>s w1 w2 w3 so3 (fr :: freed). sysm_open sample_files (\<lambda>f. f = SYS_BLOCK) (2 ^ 12) 100 ''2.6.32'' zero_sysm = Some (s, SYSM_OK)
     \<and> nativeOpen sample_libc 4096 (Some (s, SYSM_OK)) sample_empty (sample_sysm_obj 0) = Some (w1, sample_sysm_obj 4096)
     \<and> getPid 42 sample_libc w1 (sample_sysm_obj 4096) = Some (w2, 42)
     \<and> nativeClose sample_libc w2 (sample_sysm_obj 4096) = Some (w3, so3, SYSM_OK)
     \<and> fr_sysm fr = 1 \<and> jw_handles w3 = Map.empty"
proof -
  obtain s where s: "sysm_open sample_files (\<lambda>f. f = SYS_BLOCK) (2 ^ 12) 100 ''2.6.32'' zero_sysm = Some (s, SYSM_OK)"
    using sample_open by blast
  then have buf: "ifconf_buf s = Null"
    by (auto simp: sysm_open_def sysm_os_open_def Let_def split: bind_splits prod.splits if_splits)
  let ?so = "sample_sysm_obj 4096"
  let ?js = "sample_js\<lparr>js_sysm := s\<rparr>" and ?js2 = "sample_js\<lparr>js_sysm := s\<lparr>s_pid := 42\<rparr>\<rparr>"
  let ?w1 = "put_handle sample_empty 4096 (sample_jvm, ?js)"
  let ?w2 = "put_handle ?w1 4096 (sample_jvm, ?js2)"
  have opened: "nativeOpen sample_libc 4096 (Some (s, SYSM_OK)) sample_empty (sample_sysm_obj 0) = Some (?w1, ?so)"
    by (simp add: nativeOpen_def sysm_set_pointer_def GetObjectClass_def GetFieldID_def SetField_def quiet_def
        sample_empty_def sample_jvm_def sample_sysm_obj_def sample_js_def put_handle_def)
  have holds: "holds_handle ?w1 ?so 4096 ?js" "holds_handle ?w2 ?so 4096 ?js2"
    by (simp_all add: holds_handle_def put_handle_def sample_jvm_def sample_sysm_obj_def sample_js_def quiet_def)
  have called: "getPid 42 sample_libc ?w1 ?so = Some (?w2, 42)"
    using holds_handle_jpointer [OF holds(1), of sample_libc]
    by (simp add: getPid_def with_handle_def sysm_pid_get_def put_handle_def)
  have "\<exists>fr. sysm_close (js_sysm ?js2) = Some (fr, SYSM_OK)"
    by (simp add: sysm_close_def buf free_buf_def sysm_os_close_def)
  then obtain w3 so3 where closed: "nativeClose sample_libc ?w2 ?so = Some (w3, so3, SYSM_OK)"
    using nativeClose_total [OF holds(2), of _ SYSM_OK] by blast
  have session: "(java_step sample_libc ?so)\<^sup>*\<^sup>* ?w1 ?w2" by (rule r_into_rtranclp) (rule java_getpid [OF called])
  have "jw_handles sample_empty = Map.empty" by (simp add: sample_empty_def)
  then obtain fr :: freed where "fr_sysm fr = 1" "jw_handles w3 = Map.empty"
    using java_session_frees_once [OF s opened session closed] by auto
  with s opened called closed show ?thesis by blast
qed

end
