(* ===== verification/Interfaces_Properties.thy ===== *)
theory Interfaces_Properties
  imports Interfaces
begin

text \<open>
  The list of routes and the default gateway on a table the kernel prints, and the list of
  interfaces: the loop that grows the buffer ends, and what happens to the buffer on an error.
\<close>

section \<open>Routes\<close>

definition TAB :: char where "TAB = CHR 0x09"

lemma isspace_TAB [simp]: "isspace TAB"
  by (simp add: TAB_def isspace_def char_code_def)

lemma blank_TAB [simp]: "all_blank [TAB]" "all_blank []"
  by (simp_all add: all_blank_def)

lemma at_space_TAB [simp]: "at_space (TAB # r)" "at_space [CHR 0x0A]" "at_space []"
  by (simp_all add: at_space_def)

lemma at_space_blanks [simp]: "at_space (replicate k (CHR '' '') @ [CHR 0x0A])"
  by (cases k) (simp_all add: at_space_def)

lemma scan_conv_fields:
  "is_field t \<Longrightarrow> length t \<le> w \<Longrightarrow> at_space r
     \<Longrightarrow> scan_conv (ConvStr w) (TAB # t @ r) = (Some (ScanStr t), r)"
  "is_hex ds \<Longrightarrow> digits_value 16 ds < 2 ^ 32 \<Longrightarrow> at_space r
     \<Longrightarrow> scan_conv (ConvHex None) (TAB # ds @ r) = (Some (ScanHex (word_of_nat (digits_value 16 ds))), r)"
  "n < 2 ^ 63 \<Longrightarrow> at_space r
     \<Longrightarrow> scan_conv ConvLong (TAB # dec_digits n @ r) = (Some (ScanLong (int n)), r)"
  using scan_str_field [of "[TAB]" t w r] scan_hex_field [of "[TAB]" ds r None]
    scan_long_dec [of "[TAB]" r n]
  by simp_all

text \<open>A row of the kernel's table: words as eight hexadecimal digits, flags as four, and blanks at the end.\<close>

record route_row =
  rr_ifname :: cstring
  rr_destination :: u32
  rr_gateway :: u32
  rr_flags :: nat
  rr_refcnt :: nat
  rr_use :: nat
  rr_metric :: nat
  rr_mask :: u32
  rr_mtu :: nat
  rr_window :: nat
  rr_irtt :: nat
  rr_pad :: nat

definition hex_word :: "u32 \<Rightarrow> cstring" where
  "hex_word w = hex_digits 8 (unat w)"

definition route_numbers :: "route_row \<Rightarrow> nat list" where
  "route_numbers r = [rr_refcnt r, rr_use r, rr_metric r, rr_mtu r, rr_window r, rr_irtt r]"

definition route_text :: "route_row \<Rightarrow> cstring" where
  "route_text r = rr_ifname r @ TAB # hex_word (rr_destination r) @ TAB # hex_word (rr_gateway r)
     @ TAB # hex_digits 4 (rr_flags r) @ TAB # dec_digits (rr_refcnt r) @ TAB # dec_digits (rr_use r)
     @ TAB # dec_digits (rr_metric r) @ TAB # hex_word (rr_mask r) @ TAB # dec_digits (rr_mtu r)
     @ TAB # dec_digits (rr_window r) @ TAB # dec_digits (rr_irtt r)
     @ replicate (rr_pad r) (CHR '' '')"

definition route_ok :: "route_row \<Rightarrow> bool" where
  "route_ok r \<longleftrightarrow> is_field (rr_ifname r) \<and> length (rr_ifname r) < 16 \<and> NUL \<notin> set (rr_ifname r)
     \<and> rr_flags r < 2 ^ 16 \<and> list_all (\<lambda>n. n < 2 ^ 32) (route_numbers r)"

definition route_up :: "route_row \<Rightarrow> bool" where
  "route_up r \<longleftrightarrow> odd (rr_flags r)"

definition route_of :: "sysm_net_route \<Rightarrow> route_row \<Rightarrow> sysm_net_route" where
  "route_of r0 r = \<lparr>nr_destination = sysm_net_address_set (rr_destination r) (nr_destination r0),
     nr_gateway = sysm_net_address_set (rr_gateway r) (nr_gateway r0),
     nr_mask = sysm_net_address_set (rr_mask r) (nr_mask r0), nr_flags = word_of_nat (rr_flags r),
     nr_refcnt = word_of_nat (rr_refcnt r), nr_use = word_of_nat (rr_use r),
     nr_metric = word_of_nat (rr_metric r), nr_mtu = word_of_nat (rr_mtu r),
     nr_window = word_of_nat (rr_window r), nr_irtt = word_of_nat (rr_irtt r),
     nr_ifname = rr_ifname r\<rparr>"

lemma hex_word_props [simp]:
  "is_hex (hex_word w)" "length (hex_word w) = 8" "is_field (hex_word w)"
  "hex2int (hex_word w) HEX_ENT_LEN = Some w"
  using hex2int_hex_digits [of w "[]"]
  by (simp_all add: hex_word_def is_hex_hex_digits hex_is_field)

lemma scan_route:
  assumes "route_ok r"
  shows "fst (scan_all ROUTE_FMT (route_text r @ [CHR 0x0A])) =
    [ScanStr (rr_ifname r), ScanStr (hex_word (rr_destination r)), ScanStr (hex_word (rr_gateway r)),
     ScanHex (word_of_nat (rr_flags r)), ScanLong (int (rr_refcnt r)), ScanLong (int (rr_use r)),
     ScanLong (int (rr_metric r)), ScanStr (hex_word (rr_mask r)), ScanLong (int (rr_mtu r)),
     ScanLong (int (rr_window r)), ScanLong (int (rr_irtt r))]"
proof -
  have n: "rr_refcnt r < 2 ^ 63" "rr_use r < 2 ^ 63" "rr_metric r < 2 ^ 63" "rr_mtu r < 2 ^ 63"
    "rr_window r < 2 ^ 63" "rr_irtt r < 2 ^ 63"
    using assms by (auto simp: route_ok_def route_numbers_def)
  have f: "digits_value 16 (hex_digits 4 (rr_flags r)) = rr_flags r" "rr_flags r < 2 ^ 32"
    using assms by (auto simp: route_ok_def digits_value_hex_digits)
  have h: "is_hex (hex_digits 4 (rr_flags r))" by (simp add: is_hex_hex_digits)
  have i: "scan_conv (ConvStr 16) (rr_ifname r @ TAB # t) = (Some (ScanStr (rr_ifname r)), TAB # t)" for t
    using scan_str_field [of "[]" "rr_ifname r" 16 "TAB # t"] assms by (simp add: route_ok_def)
  note hx = scan_conv_fields(2) [OF h, unfolded f(1), OF f(2)]
  show ?thesis
    unfolding ROUTE_FMT_def route_text_def append_assoc append_Cons append_Nil
    by (simp only: scan_all.simps i scan_conv_fields(1) hx n [THEN scan_conv_fields(3)]
        hex_word_props at_space_TAB at_space_blanks Let_def option.case prod.case fst_conv list.simps)
qed

lemma flag_up: "n < 2 ^ 32 \<Longrightarrow> ((word_of_nat n :: u32) AND RTF_UP = 0) = even n"
  by (simp add: RTF_UP_def and_one_eq mod2_eq_if even_word_iff)

lemma scast_flags: "n < 2 ^ 16 \<Longrightarrow> scast (word_of_nat n :: u32) = (word_of_nat n :: u64)"
  by (simp add: scast_eq signed_of_nat signed_take_bit_int_eq_self)

lemma route_line_text:
  assumes "route_ok r"
  shows "route_line r0 (route_text r @ [CHR 0x0A])
           = Some (if route_up r then Some (route_of r0 r) else None)"
proof -
  have "rr_flags r < 2 ^ 16" using assms by (simp add: route_ok_def)
  then show ?thesis
    by (simp add: route_line_def scan_route [OF assms] scan_str_at_def scan_hex_at_def scan_long_at_def
        flag_up scast_flags route_up_def route_of_def)
qed

lemma route_loop_rows:
  assumes "list_all (\<lambda>r. route_ok r \<and> is_line 1024 (route_text r)) rows" "dl_wf l"
  shows "\<exists>l'. route_loop r0 (map (\<lambda>r. route_text r @ [CHR 0x0A]) rows) l = Some l' \<and> dl_wf l'
    \<and> dl_contents l' = dl_contents l @ map (route_of r0) (filter route_up rows)"
  using assms
proof (induction rows arbitrary: l)
  case Nil
  then show ?case by simp
next
  case (Cons r rows)
  let ?g = "SYSM_NET_ROUTE_LIST_GROW l"
  have g: "dl_wf ?g" "dl_contents ?g = dl_contents l"
    using Cons.prems(2) net_route_list.GROW_wf net_route_list.GROW_contents by auto
  have line: "route_line r0 (cstr (route_text r @ [CHR 0x0A]))
      = Some (if route_up r then Some (route_of r0 r) else None)"
    using Cons.prems(1) cstr_line [of 1024 "route_text r"] by (simp add: route_line_text)
  obtain l1 where l1: "(if route_up r then dl_append (route_of r0 r) ?g else Some ?g) = Some l1" "dl_wf l1"
    "dl_contents l1 = dl_contents l @ map (route_of r0) (filter route_up [r])"
    using g net_route_list.push_total [OF Cons.prems(2), of "route_of r0 r"] by (cases "route_up r") (auto simp: dl_push_def)
  then show ?case
    using Cons.IH [OF _ l1(2)] Cons.prems(1) line by (auto simp: Let_def split: if_splits)
qed

definition route_table :: "cstring \<Rightarrow> route_row list \<Rightarrow> files \<Rightarrow> bool" where
  "route_table header rows fs \<longleftrightarrow> fs NET_ROUTE = Contents (text_file (header # map route_text rows))
     \<and> is_line 1024 header \<and> list_all (\<lambda>r. route_ok r \<and> is_line 1024 (route_text r)) rows"

lemma net_route_list_exact:
  assumes "route_table header rows fs"
  shows "\<exists>l. sysm_net_route_list_get fs r0 = Some (Inr l) \<and> dl_wf l
    \<and> dl_contents l = map (route_of r0) (filter route_up rows)"
proof -
  have "\<forall>l \<in> set (header # map route_text rows). is_line 1024 l"
    using assms by (auto simp: route_table_def list_all_iff)
  then have "drop 1 (fgets_lines 1024 (text_file (header # map route_text rows)))
      = map (\<lambda>r. route_text r @ [CHR 0x0A]) rows"
    by (subst fgets_lines_text_file) (auto simp: o_def)
  moreover have "list_all (\<lambda>r. route_ok r \<and> is_line 1024 (route_text r)) rows"
    using assms by (simp add: route_table_def)
  ultimately show ?thesis
    using assms route_loop_rows [OF _ net_route_list.create_wf, of rows r0]
    by (auto simp: route_table_def sysm_net_route_list_get_def net_route_list.create_contents)
qed

text \<open>The default route: the first route that is up, has the gateway flag and destination 0.\<close>

definition default_route :: "route_row \<Rightarrow> bool" where
  "default_route r \<longleftrightarrow> route_up r \<and> odd (rr_flags r div 2) \<and> rr_destination r = 0"

lemma gateway_flag:
  "n < 2 ^ 16 \<Longrightarrow> ((word_of_nat n :: u64) AND SYSM_RTF_GATEWAY \<noteq> 0) = odd (n div 2)"
proof -
  have "bit (word_of_nat n :: u64) 1 \<longleftrightarrow> odd (n div 2)" by (simp add: bit_of_nat_iff bit_iff_odd [of n])
  then show ?thesis
    using and_exp_eq_0_iff_not_bit [of "word_of_nat n :: u64" 1] by (simp add: SYSM_RTF_GATEWAY_def)
qed

lemma dns_loop_frame:
  "dns_loop bs i = Some i' \<Longrightarrow> ni_default_gateway i' = ni_default_gateway i
     \<and> ni_default_gateway_interface i' = ni_default_gateway_interface i"
proof (induction bs arbitrary: i)
  case (Cons b bs)
  from Cons.prems show ?case
    by (auto split: option.splits if_splits bind_splits dest!: Cons.IH)
qed simp

lemma gateway_loop_rows:
  assumes "list_all route_ok rows"
  shows "gateway_loop ntop (map (route_of r0) (filter route_up rows)) netinfo =
    (case find default_route rows of
       None \<Rightarrow> netinfo
     | Some r \<Rightarrow> netinfo\<lparr>ni_default_gateway := sysm_inet_ntoa (rr_gateway r),
                 ni_default_gateway_interface := rr_ifname r\<rparr>)"
  using assms
proof (induction rows)
  case Nil
  then show ?case by simp
next
  case (Cons r rows)
  have "nr_flags (route_of r0 r) AND SYSM_RTF_GATEWAY \<noteq> 0 \<longleftrightarrow> odd (rr_flags r div 2)"
    using Cons.prems by (simp add: route_of_def gateway_flag route_ok_def)
  moreover have "take MAX_INTERFACE_NAME_LEN (rr_ifname r) = rr_ifname r"
    using Cons.prems by (simp add: route_ok_def MAX_INTERFACE_NAME_LEN_def)
  ultimately show ?case
    using Cons
    by (auto simp: default_route_def route_of_def sysm_net_address_to_string_def)
qed

text \<open>C28: on a routing table as the kernel prints it, the default gateway that is reported is the
  one of the first route that is up, has the gateway flag and goes to the address 0, printed as
  a dotted quad, with the interface of that route; without such a route both are empty.\<close>

theorem net_info_default_gateway:
  assumes "route_table header rows fs"
    and "sysm_net_info_get fs host domain ntop r0 = Some (info, status)"
  shows "status = SYSM_OK
    \<and> (ni_default_gateway info, ni_default_gateway_interface info) =
        (case find default_route rows of
           None \<Rightarrow> ([], []) | Some r \<Rightarrow> (sysm_inet_ntoa (rr_gateway r), rr_ifname r))"
proof -
  have ok: "list_all route_ok rows" using assms(1) by (auto simp: route_table_def list_all_iff)
  obtain l where l: "sysm_net_route_list_get fs r0 = Some (Inr l)"
    "dl_contents l = map (route_of r0) (filter route_up rows)"
    using net_route_list_exact [OF assms(1)] by blast
  show ?thesis
    using assms(2) gateway_loop_rows [OF ok] dns_loop_frame [of _ zero_net_info]
    by (force simp: sysm_net_info_get_def sysm_get_default_gateway_def l zero_net_info_def
        split: sum.splits option.splits bind_splits)
qed

definition sample_route :: "cstring \<Rightarrow> u32 \<Rightarrow> u32 \<Rightarrow> nat \<Rightarrow> route_row" where
  "sample_route name dest gw flags = \<lparr>rr_ifname = name, rr_destination = dest, rr_gateway = gw,
     rr_flags = flags, rr_refcnt = 0, rr_use = 0, rr_metric = 100, rr_mask = 0, rr_mtu = 0,
     rr_window = 0, rr_irtt = 0, rr_pad = 3\<rparr>"

definition sample_routes :: "route_row list" where
  "sample_routes = [sample_route ''eth1'' 0 5 2, sample_route ''eth0'' 0x0002A8C0 0 1,
     sample_route ''eth0'' 0 0x0102A8C0 3]"

definition sample_route_files :: files where
  "sample_route_files f = (if f = NET_ROUTE
     then Contents (text_file (''Iface'' # map route_text sample_routes)) else Open_Fails ENOENT)"

lemma hex_digits_line: "CHR 0x0A \<notin> set (hex_digits k n)" "NUL \<notin> set (hex_digits k n)"
  using is_digit_in_hex_digits [of k n] is_digit_in_not_special by blast+

lemma sample_route_ok:
  assumes "is_field name" "length name < 16" "NUL \<notin> set name" "CHR 0x0A \<notin> set name" "flags < 2 ^ 16"
  shows "route_ok (sample_route name dest gw flags) \<and> is_line 1024 (route_text (sample_route name dest gw flags))"
proof -
  have "length (dec_digits 100) \<le> 10" "length (dec_digits 0) \<le> 10"
    using length_dec_digits [of _ 10] by simp_all
  moreover have "NUL \<noteq> TAB" "TAB \<noteq> NUL" "CHR 0x0A \<noteq> TAB" "NUL \<noteq> CHR '' ''" by (simp_all add: TAB_def NUL_def)
  ultimately show ?thesis
    using assms
    by (simp add: sample_route_def route_ok_def route_numbers_def route_text_def is_line_def hex_word_def
        hex_digits_line)
qed

lemma sample_route_table: "route_table ''Iface'' sample_routes sample_route_files"
proof -
  have "is_field ''eth0'' \<and> is_field ''eth1''" by (simp add: is_field_def isspace_def char_code_def)
  then show ?thesis
    using sample_route_ok [of "''eth0''"] sample_route_ok [of "''eth1''"]
    by (simp add: route_table_def sample_route_files_def sample_routes_def is_line_def NUL_def)
qed

definition blank_route :: sysm_net_route where
  "blank_route = route_of \<lparr>nr_destination = \<lparr>family = SYSM_AF_UNSPEC, addr = replicate 16 0\<rparr>,
     nr_gateway = \<lparr>family = SYSM_AF_UNSPEC, addr = replicate 16 0\<rparr>,
     nr_mask = \<lparr>family = SYSM_AF_UNSPEC, addr = replicate 16 0\<rparr>, nr_flags = 0, nr_refcnt = 0,
     nr_use = 0, nr_metric = 0, nr_mtu = 0, nr_window = 0, nr_irtt = 0, nr_ifname = []\<rparr>
     (sample_route [] 0 0 0)"

theorem net_info_default_gateway_witness:
  "\<exists>info. sysm_net_info_get sample_route_files (Some ''host'') None (\<lambda>_. Inl EINVAL) blank_route = Some (info, SYSM_OK)
    \<and> ni_default_gateway info = sysm_inet_ntoa 0x0102A8C0 \<and> ni_default_gateway_interface info = ''eth0''"
proof -
  obtain l where "sysm_net_route_list_get sample_route_files blank_route = Some (Inr l)"
    using net_route_list_exact [OF sample_route_table] by blast
  then obtain info where info: "sysm_net_info_get sample_route_files (Some ''host'') None (\<lambda>_. Inl EINVAL) blank_route
      = Some (info, SYSM_OK)"
    by (simp add: sysm_net_info_get_def sysm_get_default_gateway_def sample_route_files_def NET_ROUTE_def
        PROC_FS_ROOT_def Let_def)
  have "find default_route sample_routes = Some (sample_route ''eth0'' 0 0x0102A8C0 3)"
    by (simp add: sample_routes_def sample_route_def default_route_def route_up_def)
  then show ?thesis
    using info net_info_default_gateway [OF sample_route_table info] by (simp add: sample_route_def)
qed

section \<open>The list of interfaces\<close>

text \<open>
  The kernel's answer to \<open>SIOCGIFCONF\<close>: the interfaces that fit into the buffer, in their order.
  A handle whose buffer is as the code leaves it: not freed, and a multiple of the increment.
\<close>

definition kernel_gifconf :: "cstring list \<Rightarrow> gifconf" where
  "kernel_gifconf names len = Inr (take (nat (len div SIZEOF_IFREQ)) names)"

definition ifconf_ok :: "sysm \<Rightarrow> bool" where
  "ifconf_ok s \<longleftrightarrow> (\<exists>k. ifconf_len s = 800 * int k \<and>
     (case ifconf_buf s of Null \<Rightarrow> True | Live n \<Rightarrow> n = 800 * k \<and> 0 < k | Dangling \<Rightarrow> False))"

lemma ifconf_loop_step:
  assumes "ifconf_buf s \<noteq> Dangling"
    and len: "int (40 * q) = (if ifconf_buf s = Null \<or> lastlen \<noteq> 0 then ifconf_len s + 800 else ifconf_len s)"
  shows "ifconf_loop (kernel_gifconf names) s lastlen =
    (let s' = s\<lparr>ifconf_len := int (40 * q), ifconf_buf := Live (40 * q)\<rparr>
     in if length names < q then Some (s', Inr names)
        else if int (40 * q) \<noteq> lastlen then ifconf_loop (kernel_gifconf names) s' (int (40 * q))
        else Some (s', Inr (take q names)))"
proof -
  have inc: "ifconf_len s + SIZEOF_IFREQ * int SYSM_NET_IFLIST_MAX = ifconf_len s + 800"
    by (simp add: SIZEOF_IFREQ_def SYSM_NET_IFLIST_MAX_def)
  have "nat (int (40 * q)) = 40 * q" "nat (int (40 * q) div 40) = q" by simp_all
  then show ?thesis
    unfolding ifconf_loop.simps [of _ s] inc len [symmetric]
    using assms(1) by (auto simp: kernel_gifconf_def SIZEOF_IFREQ_def Let_def min_def)
qed

definition with_ifconf :: "nat \<Rightarrow> sysm \<Rightarrow> sysm" where
  "with_ifconf k s = s\<lparr>ifconf_len := 800 * int k, ifconf_buf := Live (800 * k)\<rparr>"

lemma with_ifconf_simps [simp]:
  "ifconf_buf (with_ifconf k s) = Live (800 * k)" "ifconf_len (with_ifconf k s) = 800 * int k"
  "with_ifconf j (with_ifconf k s) = with_ifconf j s"
  by (simp_all add: with_ifconf_def)

lemma ifconf_ok_with: "0 < k \<Longrightarrow> ifconf_ok (with_ifconf k s)"
  by (auto simp: ifconf_ok_def)

lemma ifconf_loop_grows:
  "0 < k \<Longrightarrow> \<exists>m. k < m \<and> length names < 20 * m \<and>
     ifconf_loop (kernel_gifconf names) (with_ifconf k s) (800 * int k) = Some (with_ifconf m s, Inr names)"
proof (induction "length names - 20 * k" arbitrary: k rule: less_induct)
  case less
  have step: "ifconf_loop (kernel_gifconf names) (with_ifconf k s) (800 * int k) =
    (if length names < 20 * Suc k then Some (with_ifconf (Suc k) s, Inr names)
     else ifconf_loop (kernel_gifconf names) (with_ifconf (Suc k) s) (800 * int (Suc k)))"
    using less.prems ifconf_loop_step [of "with_ifconf k s" "20 * Suc k" "800 * int k" names]
    by (simp add: Let_def with_ifconf_def)
  show ?case
  proof (cases "length names < 20 * Suc k")
    case True
    with step show ?thesis by (intro exI [of _ "Suc k"]) simp
  next
    case False
    then have "length names - 20 * Suc k < length names - 20 * k" by simp
    then obtain m where "Suc k < m" "length names < 20 * m"
      "ifconf_loop (kernel_gifconf names) (with_ifconf (Suc k) s) (800 * int (Suc k))
         = Some (with_ifconf m s, Inr names)"
      using less.hyps [of "Suc k"] by auto
    with step False show ?thesis by (intro exI [of _ m]) auto
  qed
qed

lemma ifconf_loop_ends:
  assumes "ifconf_ok s"
  shows "\<exists>m. 0 < m \<and> length names < 20 * m \<and>
     ifconf_loop (kernel_gifconf names) s 0 = Some (with_ifconf m s, Inr names)"
proof -
  obtain k where k: "ifconf_len s = 800 * int k" "ifconf_buf s \<noteq> Dangling"
    "ifconf_buf s \<noteq> Null \<Longrightarrow> 0 < k"
    using assms by (cases "ifconf_buf s") (auto simp: ifconf_ok_def)
  define j where "j = (if ifconf_buf s = Null then Suc k else k)"
  have j: "0 < j" using k(3) by (auto simp: j_def)
  have len: "int (40 * (20 * j)) = (if ifconf_buf s = Null \<or> (0::int) \<noteq> 0 then ifconf_len s + 800 else ifconf_len s)"
    using k(1) by (simp add: j_def)
  have "ifconf_loop (kernel_gifconf names) s 0 =
    (if length names < 20 * j then Some (with_ifconf j s, Inr names)
     else ifconf_loop (kernel_gifconf names) (with_ifconf j s) (800 * int j))"
    using k(2) j ifconf_loop_step [of s "20 * j" 0 names] len
    by (simp add: Let_def with_ifconf_def)
  moreover obtain m where "j < m" "length names < 20 * m"
    "ifconf_loop (kernel_gifconf names) (with_ifconf j s) (800 * int j) = Some (with_ifconf m s, Inr names)"
    using ifconf_loop_grows [OF j] by blast
  ultimately show ?thesis
    using j by (intro exI [of _ "if length names < 20 * j then j else m"]) auto
qed

text \<open>A row of \<open>/proc/net/dev\<close>: blanks, the name, a colon and the counters.\<close>

type_synonym dev_row = "nat \<times> cstring \<times> cstring"

definition dev_text :: "dev_row \<Rightarrow> cstring" where
  "dev_text r = (case r of (pad, name, rest) \<Rightarrow> replicate pad (CHR '' '') @ name @ CHR '':'' # rest)"

definition dev_ok :: "dev_row \<Rightarrow> bool" where
  "dev_ok r \<longleftrightarrow> (case r of (pad, name, rest) \<Rightarrow> is_field name \<and> CHR '':'' \<notin> set name
     \<and> is_line BUFSIZ (dev_text r))"

definition dev_name :: "dev_row \<Rightarrow> cstring" where
  "dev_name r = fst (snd r)"

definition dev_table :: "cstring \<Rightarrow> cstring \<Rightarrow> dev_row list \<Rightarrow> files \<Rightarrow> bool" where
  "dev_table h1 h2 rows fs \<longleftrightarrow> fs NET_DEV = Contents (text_file (h1 # h2 # map dev_text rows))
     \<and> is_line BUFSIZ h1 \<and> is_line BUFSIZ h2 \<and> list_all dev_ok rows"

lemma dev_table_lines:
  assumes "dev_table h1 h2 rows fs"
  shows "drop 2 (fgets_lines BUFSIZ (text_file (h1 # h2 # map dev_text rows)))
    = map (\<lambda>r. dev_text r @ [CHR 0x0A]) rows"
proof -
  have "\<forall>l \<in> set (h1 # h2 # map dev_text rows). is_line BUFSIZ l"
    using assms by (auto simp: dev_table_def dev_ok_def list_all_iff)
  then show ?thesis by (subst fgets_lines_text_file) (auto simp: o_def)
qed

lemma all_blank_replicate: "all_blank (replicate k (CHR '' ''))"
  by (simp add: all_blank_def)

lemma dev_line_text:
  assumes "dev_ok (pad, name, rest)"
  shows "dev_line (cstr (dev_text (pad, name, rest) @ [CHR 0x0A])) = Some (name, rest @ [CHR 0x0A])"
proof -
  have name: "is_field name" "CHR '':'' \<notin> set name" using assms by (simp_all add: dev_ok_def)
  have line: "cstr (dev_text (pad, name, rest) @ [CHR 0x0A])
      = replicate pad (CHR '' '') @ name @ (CHR '':'' # rest @ [CHR 0x0A])"
    using assms cstr_line [of BUFSIZ "dev_text (pad, name, rest)"] by (simp add: dev_ok_def dev_text_def)
  have "dropWhile (\<lambda>c. c \<noteq> CHR '':'') (name @ CHR '':'' # r) = CHR '':'' # r"
    "takeWhile (\<lambda>c. c \<noteq> CHR '':'') (name @ CHR '':'' # r) = name" for r
    using name(2) by (auto intro!: dropWhile_append_stop takeWhile_append_stop)
  then show ?thesis
    unfolding line dev_line_def skip_field [OF all_blank_replicate name(1)] by (simp add: strchr_def)
qed

lemma dl_wf_cells: "dl_wf l \<Longrightarrow> take (dl_number l) (dl_data l) = map Some (dl_contents l)"
  by (rule nth_equalityI) (auto simp: dl_contents_def dl_wf_def)

lemma has_interface_iff: "dl_wf l \<Longrightarrow> has_interface l d \<longleftrightarrow> d \<in> set (dl_contents l)"
  by (auto simp: has_interface_def dl_wf_cells list_ex_iff)

lemma proc_dev_loop_rows:
  assumes "list_all dev_ok rows" "distinct (map dev_name rows)" "dl_wf l"
  shows "\<exists>l'. proc_dev_loop (map (\<lambda>r. dev_text r @ [CHR 0x0A]) rows) l = Some l' \<and> dl_wf l'
    \<and> dl_contents l' = dl_contents l @ filter (\<lambda>d. d \<notin> set (dl_contents l)) (map dev_name rows)"
  using assms
proof (induction rows arbitrary: l)
  case Nil
  then show ?case by simp
next
  case (Cons r rows)
  obtain pad name rest where r: "r = (pad, name, rest)" by (cases r)
  then have nm: "dev_name r = name" by (simp add: dev_name_def)
  let ?loop = "proc_dev_loop (map (\<lambda>r. dev_text r @ [CHR 0x0A]) (r # rows)) l"
  have line: "dev_line (cstr (dev_text r @ [CHR 0x0A])) = Some (name, rest @ [CHR 0x0A])"
    using Cons.prems(1) dev_line_text [of pad name rest] by (simp add: r)
  show ?case
  proof (cases "name \<in> set (dl_contents l)")
    case True
    then show ?thesis
      using Cons.IH [of l] Cons.prems line has_interface_iff [OF Cons.prems(3)]
      by (simp add: nm)
  next
    case False
    obtain l1 where l1: "dl_push SYSM_NET_IFLIST_GROW name l = Some l1" "dl_wf l1"
      "dl_contents l1 = dl_contents l @ [name]"
      using net_interface_list.push_total [OF Cons.prems(3), of name] by blast
    have "filter (\<lambda>d. d \<notin> set (dl_contents l1)) (map dev_name rows)
        = filter (\<lambda>d. d \<notin> set (dl_contents l)) (map dev_name rows)"
      using Cons.prems(2) l1(3) by (intro filter_cong) (auto simp: nm)
    moreover have "?loop = proc_dev_loop (map (\<lambda>r. dev_text r @ [CHR 0x0A]) rows) l1"
      using False line l1(1) has_interface_iff [OF Cons.prems(3)] by (simp add: dl_push_def)
    ultimately show ?thesis
      using Cons.IH [OF _ _ l1(2)] Cons.prems False l1(3) by (simp add: nm)
  qed
qed

lemma fill_room:
  "dl_wf l \<Longrightarrow> dl_number l + length xs \<le> dl_size l
     \<Longrightarrow> \<exists>l'. dl_fill (\<lambda>l. l) xs l = Some l' \<and> dl_wf l' \<and> dl_contents l' = dl_contents l @ xs"
proof (induction xs arbitrary: l)
  case Nil
  then show ?case by simp
next
  case (Cons x xs)
  let ?l = "l\<lparr>dl_data := (dl_data l)[dl_number l := Some x], dl_number := dl_number l + 1\<rparr>"
  have lt: "dl_number l < length (dl_data l)" using Cons.prems by (simp add: dl_wf_def)
  have "dl_wf ?l" using Cons.prems lt by (auto simp: dl_wf_def nth_list_update less_Suc_eq)
  moreover have "dl_contents ?l = dl_contents l @ [x]"
    using lt by (simp add: dl_contents_def take_Suc_conv_app_nth)
  moreover have "dl_push (\<lambda>l. l) x l = Some ?l" using lt by (simp add: dl_push_def dl_append_def)
  ultimately show ?case using Cons.IH [of ?l] Cons.prems(2) by simp
qed

lemma interface_cells_fill:
  assumes "length names \<le> n"
  shows "\<exists>l. dl_fill (\<lambda>l. l) names \<lparr>dl_number = 0, dl_size = n, dl_data = cells_malloc n\<rparr> = Some l
     \<and> dl_wf l \<and> dl_contents l = names"
proof -
  let ?l = "\<lparr>dl_number = 0, dl_size = n, dl_data = cells_malloc n\<rparr>"
  have "dl_wf ?l" by (simp add: dl_wf_def cells_malloc_def)
  then show ?thesis using fill_room [of ?l names] assms by (simp add: dl_contents_def)
qed

text \<open>C26: on a handle whose buffer was not freed, the loop around \<open>SIOCGIFCONF\<close> ends for every
  number of interfaces: it grows the buffer until all fit. The list has the interfaces the
  kernel reports, then those of \<open>/proc/net/dev\<close> that are not among them, each in their order,
  and the handle is left with a live buffer.\<close>

theorem net_interface_list_ends:
  assumes "ifconf_ok s" "dev_table h1 h2 rows fs" "distinct (map dev_name rows)"
  shows "\<exists>k l. sysm_net_interface_list_get fs (Inr fd) (kernel_gifconf names) s
      = Some (with_ifconf k s, Inr l)
    \<and> ifconf_ok (with_ifconf k s) \<and> length names < 20 * k \<and> dl_wf l
    \<and> dl_contents l = names @ filter (\<lambda>d. d \<notin> set names) (map dev_name rows)"
proof -
  obtain k where k: "0 < k" "length names < 20 * k"
    "ifconf_loop (kernel_gifconf names) s 0 = Some (with_ifconf k s, Inr names)"
    using ifconf_loop_ends [OF assms(1)] by blast
  define n where "n = nat (SIZEOF_IFREQ * int (length names))"
  have "length names \<le> n" by (simp add: n_def SIZEOF_IFREQ_def)
  then obtain l0 where l0: "dl_fill (\<lambda>l. l) names \<lparr>dl_number = 0, dl_size = n, dl_data = cells_malloc n\<rparr> = Some l0"
    "dl_wf l0" "dl_contents l0 = names"
    using interface_cells_fill by blast
  obtain l where l: "proc_dev_loop (map (\<lambda>r. dev_text r @ [CHR 0x0A]) rows) l0 = Some l" "dl_wf l"
    "dl_contents l = names @ filter (\<lambda>d. d \<notin> set names) (map dev_name rows)"
    using proc_dev_loop_rows [OF _ assms(3) l0(2)] assms(2) l0(3) by (auto simp: dev_table_def)
  have "proc_net_interface_list_get fs l0 = Some (l, SYSM_OK)"
    using assms(2) dev_table_lines [OF assms(2)] l(1)
    by (simp add: proc_net_interface_list_get_def dev_table_def)
  then have "sysm_net_interface_list_get fs (Inr fd) (kernel_gifconf names) s = Some (with_ifconf k s, Inr l)"
    using k(3) l0(1) by (simp add: sysm_net_interface_list_get_def n_def Let_def)
  then show ?thesis using k ifconf_ok_with l(2,3) by blast
qed

definition sample_dev_row :: "nat \<Rightarrow> cstring \<Rightarrow> dev_row" where
  "sample_dev_row pad name = (pad, name, '' 1 2 0 0 0 0 0 0 3 4 0 0 0 0 0 0'')"

definition sample_dev_rows :: "dev_row list" where
  "sample_dev_rows = [sample_dev_row 4 ''lo'', sample_dev_row 2 ''eth0'', sample_dev_row 2 ''sit0'']"

definition sample_dev_files :: files where
  "sample_dev_files f = (if f = NET_DEV
     then Contents (text_file (''Inter-|'' # '' face |'' # map dev_text sample_dev_rows))
     else Open_Fails ENOENT)"

lemma sample_dev_table: "dev_table ''Inter-|'' '' face |'' sample_dev_rows sample_dev_files"
  by (simp add: dev_table_def sample_dev_files_def sample_dev_rows_def sample_dev_row_def dev_ok_def
      dev_text_def is_line_def BUFSIZ_def is_field_def isspace_def char_code_def NUL_def)

lemma ifconf_ok_zero: "ifconf_ok zero_sysm"
  by (simp add: ifconf_ok_def zero_sysm_def)

theorem net_interface_list_ends_witness:
  "\<exists>k l. sysm_net_interface_list_get sample_dev_files (Inr 3) (kernel_gifconf [''lo'', ''eth0'']) zero_sysm
      = Some (with_ifconf k zero_sysm, Inr l) \<and> dl_contents l = [''lo'', ''eth0'', ''sit0'']"
  using net_interface_list_ends [OF ifconf_ok_zero sample_dev_table, of 3 "[''lo'', ''eth0'']"]
  by (auto simp: sample_dev_rows_def sample_dev_row_def dev_name_def)

text \<open>C31: when \<open>SIOCGIFCONF\<close> fails, the buffer is freed but the handle keeps its address: the
  error is returned, and both the next listing and closing the handle have no defined behaviour.\<close>

theorem interface_list_error_dangles:
  assumes "ifconf_ok s" "errno \<noteq> EINVAL"
  shows "\<exists>s'. sysm_net_interface_list_get fs (Inr fd) (\<lambda>_. Inl errno) s = Some (s', Inl errno)
    \<and> sysm_net_interface_list_get fs' (Inr fd) gifconf s' = None \<and> sysm_close s' = None"
proof -
  have "ifconf_buf s \<noteq> Dangling" using assms(1) by (auto simp: ifconf_ok_def)
  then have "\<exists>s'. ifconf_loop (\<lambda>_. Inl errno) s 0 = Some (s', Inl errno) \<and> ifconf_buf s' = Dangling"
    using assms(2) by (subst ifconf_loop.simps) (simp add: Let_def)
  then obtain s' where s': "ifconf_loop (\<lambda>_. Inl errno) s 0 = Some (s', Inl errno)" "ifconf_buf s' = Dangling"
    by blast
  have "ifconf_loop gifconf s' 0 = None" by (subst ifconf_loop.simps) (simp add: s'(2))
  then show ?thesis
    using s' by (auto simp: sysm_net_interface_list_get_def sysm_close_def free_buf_def)
qed

theorem interface_list_error_dangles_witness:
  "\<exists>s'. sysm_net_interface_list_get sample_dev_files (Inr 3) (\<lambda>_. Inl EACCES) zero_sysm = Some (s', Inl EACCES)
    \<and> sysm_net_interface_list_get sample_dev_files (Inr 3) (kernel_gifconf []) s' = None \<and> sysm_close s' = None"
  by (rule interface_list_error_dangles [OF ifconf_ok_zero]) (simp add: EACCES_def EINVAL_def)

end
