(* ===== verification/Netcfg_Properties.thy ===== *)
theory Netcfg_Properties
  imports Netcfg Interfaces_Properties
begin

text \<open>
  The counters of an interface on a table the kernel prints, the translation of the interface
  flags bit by bit, the choice of the primary interface against a declarative one, and the
  list of logged-in users.
\<close>

section \<open>The counters of an interface\<close>

text \<open>What the kernel prints for an interface: eight counters of received packets, eight of sent ones.\<close>

definition counter :: "(nat \<times> nat) list \<Rightarrow> nat \<Rightarrow> u64" where
  "counter cs i = word_of_nat (snd (cs ! i))"

definition stat_of :: "(nat \<times> nat) list \<Rightarrow> sysm_net_interface_stat" where
  "stat_of cs = \<lparr>is_rx_packets = counter cs 1, is_rx_bytes = counter cs 0, is_rx_errors = counter cs 2,
     is_rx_dropped = counter cs 3, is_rx_overruns = counter cs 4, is_rx_frame = counter cs 5,
     is_tx_packets = counter cs 9, is_tx_bytes = counter cs 8, is_tx_errors = counter cs 10,
     is_tx_dropped = counter cs 11, is_tx_overruns = counter cs 12, is_tx_collisions = counter cs 13,
     is_tx_carrier = counter cs 14, is_speed = - 1\<rparr>"

lemma stat_fields_counters:
  assumes "length cs = 16" "list_all (\<lambda>(_, n). n < 2 ^ 64) cs" "at_space r"
  shows "stat_fields (counters_text cs @ r) = stat_of cs"
proof -
  obtain k0 n0 k1 n1 k2 n2 k3 n3 k4 n4 k5 n5 k6 n6 k7 n7 ds where
    cs: "cs = (k0, n0) # (k1, n1) # (k2, n2) # (k3, n3) # (k4, n4) # (k5, n5) # (k6, n6) # (k7, n7) # ds"
    and "length ds = 8"
    using assms(1) by (auto simp: length_Suc_conv numeral_eq_Suc)
  moreover then obtain k8 n8 k9 n9 ka na kb nb kc nc kd nd ke ne kf nf where
    "ds = [(k8, n8), (k9, n9), (ka, na), (kb, nb), (kc, nc), (kd, nd), (ke, ne), (kf, nf)]"
    by (auto simp: length_Suc_conv numeral_eq_Suc)
  ultimately show ?thesis
    using assms(2,3)
    by (simp add: stat_fields_def stat_of_def counter_def read_counter skip_counter numeral_2_eq_2)
qed

type_synonym nic_row = "nat \<times> cstring \<times> (nat \<times> nat) list"

definition nic_dev :: "nic_row \<Rightarrow> dev_row" where
  "nic_dev r = (case r of (pad, name, cs) \<Rightarrow> (pad, name, counters_text cs))"

definition nic_ok :: "nic_row \<Rightarrow> bool" where
  "nic_ok r \<longleftrightarrow> (case r of (_, _, cs) \<Rightarrow> length cs = 16 \<and> list_all (\<lambda>(_, n). n < 2 ^ 64) cs)"

lemma interface_stat_loop_rows:
  assumes "list_all nic_ok rows" "list_all dev_ok (map nic_dev rows)"
  shows "interface_stat_loop name (map (\<lambda>r. dev_text (nic_dev r) @ [CHR 0x0A]) rows) st0 =
    (case find (\<lambda>(_, n, _). n = name) rows of
       None \<Rightarrow> (st0, ENXIO) | Some (_, _, cs) \<Rightarrow> (stat_of cs, SYSM_OK))"
  using assms
proof (induction rows)
  case Nil
  then show ?case by simp
next
  case (Cons r rows)
  obtain pad n cs where r: "r = (pad, n, cs)" by (cases r)
  have "dev_line (cstr (dev_text (nic_dev r) @ [CHR 0x0A])) = Some (n, counters_text cs @ [CHR 0x0A])"
    using Cons.prems(2) dev_line_text [of pad n "counters_text cs"] by (simp add: r nic_dev_def)
  moreover have "stat_fields (counters_text cs @ [CHR 0x0A]) = stat_of cs"
    using Cons.prems(1) by (intro stat_fields_counters) (simp_all add: r nic_ok_def)
  ultimately show ?case using Cons by (simp add: r)
qed

text \<open>C29: on a table as the kernel prints it the counters of an interface are those of its first
  row, read into the members that carry their names; a name without a row is \<open>ENXIO\<close> and
  leaves the structure as it was.\<close>

theorem interface_stat_exact:
  assumes "dev_table h1 h2 (map nic_dev rows) fs" "list_all nic_ok rows"
  shows "sysm_net_interface_stat_get fs name st0 =
    (case find (\<lambda>(_, n, _). n = name) rows of
       None \<Rightarrow> (st0, ENXIO) | Some (_, _, cs) \<Rightarrow> (stat_of cs, SYSM_OK))"
  using assms(1) dev_table_lines [OF assms(1)] interface_stat_loop_rows [OF assms(2), of name st0]
  by (simp add: sysm_net_interface_stat_get_def dev_table_def o_def)

definition sample_nics :: "nic_row list" where
  "sample_nics = [(4, ''lo'', map (\<lambda>n. (0, n)) [0 ..< 16]), (2, ''eth0'', map (\<lambda>n. (1, 1000 * n)) [0 ..< 16])]"

definition sample_nic_files :: files where
  "sample_nic_files f = (if f = NET_DEV
     then Contents (text_file (''Inter-|'' # '' face |'' # map dev_text (map nic_dev sample_nics)))
     else Open_Fails ENOENT)"

lemma sample_nic_row:
  assumes "list_all (\<lambda>(k, n). k < 16 \<and> n < 10 ^ 19) cs" "length cs = 16" "is_field name"
    "CHR '':'' \<notin> set name" "CHR 0x0A \<notin> set name" "NUL \<notin> set name" "length name < 16" "pad < 16"
  shows "dev_ok (nic_dev (pad, name, cs)) \<and> nic_ok (pad, name, cs)"
proof -
  have "NUL \<noteq> CHR '' ''" "NUL \<noteq> CHR '':''" by (simp_all add: NUL_def)
  moreover have "list_all (\<lambda>(k, n). k < 16 \<and> n < 10 ^ 20) cs" "list_all (\<lambda>(_, n). n < 2 ^ 64) cs"
    using assms(1) by (auto simp: list_all_iff)
  ultimately show ?thesis
    using assms counters_line [of cs]
    by (simp add: dev_ok_def nic_dev_def nic_ok_def dev_text_def is_line_def BUFSIZ_def)
qed

lemma sample_nic_table:
  "dev_table ''Inter-|'' '' face |'' (map nic_dev sample_nics) sample_nic_files" "list_all nic_ok sample_nics"
proof -
  have f: "is_field ''lo''" "is_field ''eth0''" by (simp_all add: is_field_def isspace_def char_code_def)
  have u: "[0 ..< 16] = [0, 1, 2, 3, 4, 5, 6, 7, 8, 9, 10, 11, 12, 13, 14, 15 :: nat]" by (simp add: upt_rec)
  show "dev_table ''Inter-|'' '' face |'' (map nic_dev sample_nics) sample_nic_files" "list_all nic_ok sample_nics"
    using sample_nic_row [of "map (\<lambda>n. (0, n)) [0 ..< 16]" "''lo''" 4] f
      sample_nic_row [of "map (\<lambda>n. (1, 1000 * n)) [0 ..< 16]" "''eth0''" 2]
    by (simp_all add: u dev_table_def sample_nic_files_def sample_nics_def is_line_def NUL_def BUFSIZ_def)
qed

theorem interface_stat_exact_witness:
  "\<forall>st0. snd (sysm_net_interface_stat_get sample_nic_files ''eth0'' st0) = SYSM_OK
   \<and> is_tx_bytes (fst (sysm_net_interface_stat_get sample_nic_files ''eth0'' st0)) = 8000
   \<and> snd (sysm_net_interface_stat_get sample_nic_files ''wlan0'' st0) = ENXIO"
  using interface_stat_exact [OF sample_nic_table, of "''eth0''"]
    interface_stat_exact [OF sample_nic_table, of "''wlan0''"]
  by (simp add: sample_nics_def stat_of_def counter_def)

section \<open>The flags of an interface\<close>

lemma IFF_powers:
  "IFF_LOOPBACK = 2 ^ 3" "IFF_MASTER = 2 ^ 10" "IFF_SLAVE = 2 ^ 11" "IFF_MULTICAST = 2 ^ 12"
  "IFF_DYNAMIC = 2 ^ 15" "SYSM_IFF_LOOPBACK = 2 ^ 3" "SYSM_IFF_MULTICAST = 2 ^ 11"
  "SYSM_IFF_SLAVE = 2 ^ 12" "SYSM_IFF_MASTER = 2 ^ 13" "SYSM_IFF_DYNAMIC = 2 ^ 14"
  by (simp_all add: IFF_LOOPBACK_def IFF_MASTER_def IFF_SLAVE_def IFF_MULTICAST_def IFF_DYNAMIC_def
      SYSM_IFF_LOOPBACK_def SYSM_IFF_MULTICAST_def SYSM_IFF_SLAVE_def SYSM_IFF_MASTER_def
      SYSM_IFF_DYNAMIC_def)

text \<open>The flags that are reported, bit by bit: multicast, slave and master move from bits 12,
  11 and 10 of the kernel to 11, 12 and 13, and the dynamic flag from 15 to 14. The port
  selection and the automatic medium of the kernel, bits 13 and 14, are not cleared, so they
  appear as master and dynamic; and as the kernel's flags are a signed 16 bit number, a
  dynamic interface has all bits from 15 on set.\<close>

theorem translate_flags_bits:
  "bit (translate_flags f) i =
    (if i = 10 then False
     else if i = 11 then bit f 12
     else if i = 12 then bit f 11
     else if i = 13 then bit f 10 \<or> bit f 13
     else if i = 14 then bit f 14 \<or> bit f 15
     else if i < 15 then bit f i
     else i < 64 \<and> bit f 15)"
proof -
  have "(scast f :: u64) AND 2 ^ n \<noteq> 0 \<longleftrightarrow> bit f n" if "n < 16" for n
    using that and_exp_eq_0_iff_not_bit [of "scast f :: u64" n] by (cases "n = 15") (simp_all add: bit_signed_iff min_def)
  from this [of 10] this [of 11] this [of 12] this [of 15]
  have test: "(scast f :: u64) AND 2 ^ 10 \<noteq> 0 \<longleftrightarrow> bit f 10" "(scast f :: u64) AND 2 ^ 11 \<noteq> 0 \<longleftrightarrow> bit f 11"
    "(scast f :: u64) AND 2 ^ 12 \<noteq> 0 \<longleftrightarrow> bit f 12" "(scast f :: u64) AND 2 ^ 15 \<noteq> 0 \<longleftrightarrow> bit f 15"
    by simp_all
  have p: "bit (2 ^ k :: u64) i \<longleftrightarrow> i < 64 \<and> k = i" for k by (auto simp: bit_exp_iff)
  show ?thesis
    unfolding translate_flags_def Let_def IFF_powers test
      if_distrib [where f = "\<lambda>w. bit w i"] bit_or_iff bit_and_iff bit_not_iff p
    by (auto simp: bit_signed_iff min_def)
qed

section \<open>The primary interface\<close>

text \<open>
  The declarative choice among interfaces with configurations \<open>cfg\<close> and statuses \<open>st\<close>: the
  usable ones could be read, are no loopback and have a hardware address; the first usable one
  with an address and no colon in its name is taken, otherwise the first usable one with flags.
\<close>

definition usable :: "(cstring \<Rightarrow> sysm_net_interface_config) \<Rightarrow> (cstring \<Rightarrow> int) \<Rightarrow> cstring \<Rightarrow> bool" where
  "usable cfg st n \<longleftrightarrow> st n = SYSM_OK \<and> ic_flags (cfg n) AND SYSM_IFF_LOOPBACK = 0
     \<and> addr_in (ic_hwaddr (cfg n)) \<noteq> 0"

definition online :: "(cstring \<Rightarrow> sysm_net_interface_config) \<Rightarrow> cstring \<Rightarrow> bool" where
  "online cfg n \<longleftrightarrow> addr_in (ic_address (cfg n)) \<noteq> 0 \<and> CHR '':'' \<notin> set n"

definition primary_of ::
  "(cstring \<Rightarrow> sysm_net_interface_config) \<Rightarrow> (cstring \<Rightarrow> int) \<Rightarrow> cstring list \<Rightarrow> cstring option" where
  "primary_of cfg st names =
     (let us = filter (usable cfg st) names
      in case find (online cfg) us of
           Some n \<Rightarrow> Some n | None \<Rightarrow> find (\<lambda>n. ic_flags (cfg n) \<noteq> 0) us)"

lemma strchr_None_iff: "strchr s c = None \<longleftrightarrow> c \<notin> set s"
  by (auto simp: strchr_def Let_def)

text \<open>
  What the loop leaves, when it started with \<open>possible\<close>: once a configuration with flags was
  saved, it stays.
\<close>

definition primary_result ::
  "(cstring \<Rightarrow> sysm_net_interface_config) \<Rightarrow> cstring list \<Rightarrow> sysm_net_interface_config
     \<Rightarrow> bool \<times> sysm_net_interface_config \<times> sysm_net_interface_config \<Rightarrow> bool" where
  "primary_result cfg us possible r \<longleftrightarrow>
     (case r of (found, possible', c) \<Rightarrow>
        case find (online cfg) us of
          Some n \<Rightarrow> found \<and> c = cfg n
        | None \<Rightarrow> \<not> found \<and>
            (if ic_flags possible \<noteq> 0 then possible' = possible
             else case find (\<lambda>n. ic_flags (cfg n) \<noteq> 0) us of
                    Some n \<Rightarrow> possible' = cfg n \<and> ic_flags (cfg n) \<noteq> 0
                  | None \<Rightarrow> ic_flags possible' = 0))"

lemma primary_result_skip:
  "\<not> online cfg n \<Longrightarrow> primary_result cfg us (if ic_flags possible = 0 then cfg n else possible) r
     \<Longrightarrow> primary_result cfg (n # us) possible r"
  by (cases "ic_flags possible = 0"; cases "ic_flags (cfg n) = 0")
     (auto simp: primary_result_def split: option.splits if_splits)

lemma primary_loop_choice:
  assumes "list_all (\<lambda>n. get n = Some (cfg n, st n)) names"
  shows "\<exists>r. primary_loop get names possible ifconfig = Some r
    \<and> primary_result cfg (filter (usable cfg st) names) possible r"
  using assms
proof (induction names arbitrary: possible ifconfig)
  case Nil
  then show ?case by (simp add: primary_result_def)
next
  case (Cons n names)
  let ?p = "if ic_flags possible = 0 then cfg n else possible"
  have get: "get n = Some (cfg n, st n)" and rest: "list_all (\<lambda>n. get n = Some (cfg n, st n)) names"
    using Cons.prems by simp_all
  consider "\<not> usable cfg st n" | "usable cfg st n" "online cfg n" | "usable cfg st n" "\<not> online cfg n"
    by blast
  then show ?case
  proof cases
    case 1
    then have "primary_loop get (n # names) possible ifconfig = primary_loop get names possible (cfg n)"
      by (simp add: get usable_def)
    with 1 show ?thesis using Cons.IH [OF rest, of possible "cfg n"] by (simp del: primary_loop.simps)
  next
    case 2
    then show ?thesis
      by (simp add: get usable_def online_def strchr_None_iff Let_def primary_result_def)
  next
    case 3
    then have "primary_loop get (n # names) possible ifconfig = primary_loop get names ?p (cfg n)"
      by (auto simp: get usable_def online_def strchr_None_iff Let_def)
    with 3 show ?thesis
      using Cons.IH [OF rest, of ?p "cfg n"] primary_result_skip [OF 3(2), of _ possible]
      by (auto simp del: primary_loop.simps)
  qed
qed

text \<open>C27: the loop that looks for the primary interface agrees with the declarative choice: it
  returns the configuration of the chosen interface, or \<open>ENXIO\<close> when there is none.\<close>

theorem primary_get_choice:
  assumes "sysm_net_interface_list_get fs sock gifconf s = Some (s', Inr l)"
    and "list_all (\<lambda>n. named_config_get fs sock nics v0 n = Some (cfg n, st n)) (dl_contents l)"
  shows "\<exists>c status. sysm_net_interface_config_get fs sock gifconf nics v0 possible0 None ifconfig s
      = Some (s', c, status)
    \<and> (case primary_of cfg st (dl_contents l) of
         Some n \<Rightarrow> c = cfg n \<and> status = SYSM_OK | None \<Rightarrow> status = ENXIO)"
proof -
  obtain found possible c where
    r: "primary_loop (named_config_get fs sock nics v0) (dl_contents l) (possible0\<lparr>ic_flags := 0\<rparr>) ifconfig
      = Some (found, possible, c)"
    and pr: "primary_result cfg (filter (usable cfg st) (dl_contents l)) (possible0\<lparr>ic_flags := 0\<rparr>)
      (found, possible, c)"
    using primary_loop_choice [OF assms(2), of "possible0\<lparr>ic_flags := 0\<rparr>" ifconfig] by fastforce
  have "sysm_net_interface_config_get fs sock gifconf nics v0 possible0 None ifconfig s
      = Some (if found then (s', c, SYSM_OK)
              else if ic_flags possible \<noteq> 0 then (s', possible, SYSM_OK) else (s', c, ENXIO))"
    by (simp add: sysm_net_interface_config_get_def sysm_net_interface_config_primary_get_def assms(1) r)
  with pr show ?thesis
    by (auto simp: primary_result_def primary_of_def Let_def split: option.splits)
qed

definition sample_ioctl :: "cstring \<Rightarrow> nic_ioctl" where
  "sample_ioctl n = \<lparr>gifaddr = Some 0x0302A8C0, gifnetmask = None,
     gifflags = (if n = ''eth0'' then Inr 0x1043 else Inl ENXIO), gifdstaddr = None, gifbrdaddr = None,
     gifhwaddr = Some (1, [2, 1, 1, 1, 1, 1]), gifmtu = Some 1500, gifmetric = Some 0, giftxqlen = None\<rparr>"

definition sample_vars :: inet6_vars where
  "sample_vars = \<lparr>iv_addr = [], iv_prefix = 0, iv_scope = 0, iv_ifname = []\<rparr>"

definition sample_config :: "cstring \<Rightarrow> sysm_net_interface_config \<times> int" where
  "sample_config n = the (named_config_get sample_dev_files (Inr 3) sample_ioctl sample_vars n)"

lemma sample_config_eq:
  "length n < 16 \<Longrightarrow> named_config_get sample_dev_files (Inr 3) sample_ioctl sample_vars n
     = Some (fst (sample_config n), snd (sample_config n))"
  by (simp add: sample_config_def named_config_get_def Let_def strcpy_fits_def MAX_INTERFACE_NAME_LEN_def
      IFNAMSIZ_def sysm_net_interface_ipv6_config_get_def sample_dev_files_def NET_IF_INET6_def NET_DEV_def
      PROC_FS_ROOT_def split: sum.splits)

lemmas sample_config_defs = sample_config_def named_config_get_def strcpy_fits_def
  MAX_INTERFACE_NAME_LEN_def IFNAMSIZ_def sysm_net_interface_ipv6_config_get_def sample_dev_files_def
  NET_IF_INET6_def NET_DEV_def PROC_FS_ROOT_def sample_ioctl_def

lemma sample_config_status: "snd (sample_config ''lo'') = ENXIO" "snd (sample_config ''sit0'') = ENXIO"
  by (simp_all add: sample_config_defs Let_def)

lemma sample_config_eth0:
  "snd (sample_config ''eth0'') = SYSM_OK" "ic_flags (fst (sample_config ''eth0'')) = translate_flags 0x1043"
  "ic_name (fst (sample_config ''eth0'')) = ''eth0''"
  "addr_in (ic_address (fst (sample_config ''eth0''))) = 0x0302A8C0"
  "addr (ic_hwaddr (fst (sample_config ''eth0''))) = store_bytes 0 [2, 1, 1, 1, 1, 1] (replicate 16 0)"
  by (simp_all add: sample_config_defs Let_def set_when_def config_link_def config_numbers_def
      zero_config_def zero_address_def sysm_net_interface_ipv6_config_init_def sysm_net_address_mac_set_def
      translate_flags_def IFF_LOOPBACK_def IFF_MULTICAST_def IFF_SLAVE_def IFF_MASTER_def
      IFF_DYNAMIC_def SYSM_IFF_MULTICAST_def SYSM_IFF_SLAVE_def SYSM_IFF_MASTER_def SYSM_IFF_DYNAMIC_def)

theorem primary_get_choice_witness:
  "\<exists>k c. sysm_net_interface_config_get sample_dev_files (Inr 3) (kernel_gifconf [''lo'', ''eth0'']) sample_ioctl
      sample_vars zero_config None zero_config zero_sysm = Some (with_ifconf k zero_sysm, c, SYSM_OK)
    \<and> ic_name c = ''eth0''"
proof -
  obtain k l where l: "sysm_net_interface_list_get sample_dev_files (Inr 3) (kernel_gifconf [''lo'', ''eth0'']) zero_sysm
      = Some (with_ifconf k zero_sysm, Inr l)" "dl_contents l = [''lo'', ''eth0'', ''sit0'']"
    using net_interface_list_ends [OF ifconf_ok_zero sample_dev_table, of 3 "[''lo'', ''eth0'']"]
    by (auto simp: sample_dev_rows_def sample_dev_row_def dev_name_def)
  have "list_all (\<lambda>n. named_config_get sample_dev_files (Inr 3) sample_ioctl sample_vars n
      = Some (fst (sample_config n), snd (sample_config n))) (dl_contents l)"
    by (simp add: l(2) sample_config_eq)
  from primary_get_choice [OF l(1) this, of zero_config zero_config]
  obtain c status where c: "sysm_net_interface_config_get sample_dev_files (Inr 3)
      (kernel_gifconf [''lo'', ''eth0'']) sample_ioctl sample_vars zero_config None zero_config zero_sysm
      = Some (with_ifconf k zero_sysm, c, status)"
    "case primary_of (\<lambda>n. fst (sample_config n)) (\<lambda>n. snd (sample_config n)) [''lo'', ''eth0'', ''sit0''] of
       Some n \<Rightarrow> c = fst (sample_config n) \<and> status = SYSM_OK | None \<Rightarrow> status = ENXIO"
    by (auto simp: l(2))
  have "translate_flags 0x1043 AND SYSM_IFF_LOOPBACK = 0"
    by (simp add: translate_flags_def SYSM_IFF_LOOPBACK_def IFF_MULTICAST_def IFF_SLAVE_def IFF_MASTER_def
        IFF_DYNAMIC_def SYSM_IFF_MULTICAST_def SYSM_IFF_SLAVE_def SYSM_IFF_MASTER_def SYSM_IFF_DYNAMIC_def)
  moreover have "addr_in (ic_hwaddr (fst (sample_config ''eth0''))) \<noteq> 0"
    by (simp add: addr_in_def sample_config_eth0(5) le32_def store_bytes_def)
  ultimately have "primary_of (\<lambda>n. fst (sample_config n)) (\<lambda>n. snd (sample_config n))
      [''lo'', ''eth0'', ''sit0''] = Some ''eth0''"
    by (simp add: primary_of_def usable_def online_def sample_config_status sample_config_eth0 SYSM_OK_def
        ENXIO_def)
  with c show ?thesis by (auto simp: sample_config_eth0(3))
qed

section \<open>Logged-in users\<close>

definition logged_in :: "utmp \<Rightarrow> bool" where
  "logged_in u \<longleftrightarrow> cstr (ut_user u) \<noteq> [] \<and> ut_type u = USER_PROCESS"

definition terminated :: "utmp \<Rightarrow> bool" where
  "terminated u \<longleftrightarrow> NUL \<in> set (ut_user u) \<and> NUL \<in> set (ut_line u) \<and> NUL \<in> set (ut_host u)"

definition who_of :: "utmp \<Rightarrow> sysm_who" where
  "who_of u = \<lparr>wh_user = cstr (ut_user u), wh_device = cstr (ut_line u), wh_host = cstr (ut_host u),
     wh_time = scast (ut_time u)\<rparr>"

lemma deref_cstr: "deref (cstr cs) = NUL \<longleftrightarrow> cstr cs = []"
  using NUL_notin_cstr [of cs] by (cases "cstr cs") (auto simp: deref_def)

lemma who_loop_users:
  assumes "dl_wf l"
  shows "if list_all terminated (filter logged_in uts)
    then \<exists>l'. who_loop uts l = Some l' \<and> dl_contents l' = dl_contents l @ map who_of (filter logged_in uts)
    else who_loop uts l = None"
  using assms
proof (induction uts arbitrary: l)
  case Nil
  then show ?case by simp
next
  case (Cons u uts)
  show ?case
  proof (cases "logged_in u \<and> terminated u")
    case True
    obtain l1 where l1: "dl_push SYSM_WHO_LIST_GROW (who_of u) l = Some l1" "dl_wf l1"
      "dl_contents l1 = dl_contents l @ [who_of u]"
      using who_list.push_total [OF Cons.prems, of "who_of u"] by blast
    then have "who_loop (u # uts) l = who_loop uts l1"
      using True by (simp add: logged_in_def terminated_def deref_cstr WHOCPY_def who_of_def dl_push_def)
    then show ?thesis using True Cons.IH [OF l1(2)] l1(3) by auto
  next
    case False
    then show ?thesis
      using Cons.IH [OF Cons.prems] Cons.prems
      by (auto simp: logged_in_def terminated_def deref_cstr WHOCPY_def split: if_splits)
  qed
qed

text \<open>C30: the list of users has the user processes with a name, in their order, when each of their
  arrays holds a NUL; a name, line or host that fills its array, which the format of the file
  allows, makes the copy run past both arrays.\<close>

theorem who_list_terminated:
  "case sysm_who_list_get (Inr uts) of
     Some (l, status) \<Rightarrow> list_all terminated (filter logged_in uts) \<and> status = SYSM_OK
       \<and> dl_contents l = map who_of (filter logged_in uts)
   | None \<Rightarrow> \<not> list_all terminated (filter logged_in uts)"
  using who_loop_users [OF who_list.create_wf, of uts] who_list.create_contents
  by (auto simp: sysm_who_list_get_def sysm_who_utmp_def SYSM_OK_def split: if_splits option.splits)

section \<open>Lines of name servers\<close>

text \<open>A last line without a newline loses the last character of the address.\<close>

lemma nameserver_without_newline:
  assumes "is_field a"
  shows "nameserver_of (''nameserver '' @ a) = Some (butlast a)"
    "nameserver_of (''nameserver '' @ a @ [CHR 0x0A]) = Some a"
proof -
  have s: "SYSM_SKIP_SPACE (''nameserver '' @ x) = ''nameserver '' @ x" for x
    using skip_field [of "[]" "''nameserver''" "CHR '' '' # x"]
    by (simp add: is_field_def isspace_def char_code_def)
  have "SYSM_SKIP_SPACE (CHR '' '' # a @ r) = a @ r" for r
    using skip_field [of "[CHR '' '']" a r] assms by (simp add: all_blank_def)
  from this [of "[]"] this [of "[CHR 0x0A]"]
  show "nameserver_of (''nameserver '' @ a) = Some (butlast a)"
    "nameserver_of (''nameserver '' @ a @ [CHR 0x0A]) = Some a"
    by (simp_all add: nameserver_of_def s [simplified] deref_def starts_with_def butlast_append)
qed

end
