(* ===== verification/Disk_Properties.thy ===== *)
theory Disk_Properties
  imports Disk_Usage Cache_Properties Cpu_Properties
begin

text \<open>
  The types of file systems against one table, the list of file systems, the cache of devices
  and the statistics of a disk between two calls.
\<close>

section \<open>File systems\<close>

text \<open>One table for both functions: names, and names that start with a prefix.\<close>

definition fs_class :: "cstring \<Rightarrow> sysm_file_system_type_e" where
  "fs_class t =
     (if t \<in> {''gfs'', ''hpfs'', ''reiserfs'', ''vzfs'', ''xfs'', ''xiafs'', ''cvfs'', ''msdos'', ''minix'',
              ''vxfs'', ''vfat'', ''zfs''}
         \<or> starts_with t ''ext'' \<or> starts_with t ''jfs'' \<or> starts_with t ''ocfs'' \<or> starts_with t ''psfs''
      then SYSM_FSTYPE_LOCAL_DISK
      else if t \<in> {''smbfs'', ''afs'', ''cifs''} \<or> starts_with t ''nfs'' then SYSM_FSTYPE_NETWORK
      else if t = ''swap'' then SYSM_FSTYPE_SWAP
      else if t = ''iso9660'' then SYSM_FSTYPE_CDROM
      else SYSM_FSTYPE_NONE)"

definition fs_classified :: "sysm_file_system \<Rightarrow> sysm_file_system" where
  "fs_classified fsp = fsp\<lparr>fs_type := fs_class (fs_sys_type_name fsp),
     fs_type_name := fstype_names (fs_class (fs_sys_type_name fsp))\<rparr>"

definition os_local :: "cstring \<Rightarrow> bool" where
  "os_local t \<longleftrightarrow> t \<in> {''gfs'', ''hpfs'', ''reiserfs'', ''vzfs'', ''xfs'', ''xiafs''}
     \<or> starts_with t ''ext'' \<or> starts_with t ''jfs'' \<or> starts_with t ''ocfs'' \<or> starts_with t ''psfs''"

lemma starts_with_Cons: "starts_with (c # cs) (a # p) \<longleftrightarrow> c = a \<and> starts_with cs p"
  by (auto simp: starts_with_def)

lemma strncmp_prefixes:
  "strncmp_eq t ''ext'' 3 = starts_with t ''ext''" "strncmp_eq t ''jfs'' 3 = starts_with t ''jfs''"
  "strncmp_eq t ''ocfs'' 4 = starts_with t ''ocfs''" "strncmp_eq t ''psfs'' 4 = starts_with t ''psfs''"
  "strncmp_eq t ''nfs'' 3 = starts_with t ''nfs''"
  by (simp_all add: strncmp_eq_def starts_with_def numeral_eq_Suc)

lemma starts_with_Nil: "starts_with [] p \<longleftrightarrow> p = []"
  by (auto simp: starts_with_def)

lemma os_fs_type: "sysm_os_fs_type_get fsp = fs_set SYSM_FSTYPE_LOCAL_DISK (os_local (fs_sys_type_name fsp)) fsp"
proof -
  define t where "t = fs_sys_type_name fsp"
  note defs = sysm_os_fs_type_get_def Let_def t_def [symmetric] strncmp_prefixes os_local_def deref_def NUL_def fs_set_def
  show ?thesis
  proof (cases t)
    case Nil
    then show ?thesis by (simp add: defs starts_with_Nil)
  next
    case (Cons c cs)
    consider "c = CHR ''e''" | "c = CHR ''g''" | "c = CHR ''h''" | "c = CHR ''j''" | "c = CHR ''o''"
      | "c = CHR ''p''" | "c = CHR ''r''" | "c = CHR ''v''" | "c = CHR ''x''"
      | "c \<notin> {CHR ''e'', CHR ''g'', CHR ''h'', CHR ''j'', CHR ''o'', CHR ''p'', CHR ''r'', CHR ''v'', CHR ''x''}"
      by blast
    then show ?thesis by cases (simp_all add: defs Cons starts_with_Cons)
  qed
qed

definition common_class :: "cstring \<Rightarrow> sysm_file_system_type_e option" where
  "common_class t =
     (if t \<in> {''cvfs'', ''msdos'', ''minix'', ''hpfs'', ''vxfs'', ''vfat'', ''zfs''} then Some SYSM_FSTYPE_LOCAL_DISK
      else if t \<in> {''smbfs'', ''afs'', ''cifs''} \<or> starts_with t ''nfs'' then Some SYSM_FSTYPE_NETWORK
      else if t = ''swap'' then Some SYSM_FSTYPE_SWAP
      else if t = ''iso9660'' then Some SYSM_FSTYPE_CDROM
      else None)"

lemma common_fs_type:
  "sysm_common_fs_type_get fsp =
     (case common_class (fs_sys_type_name fsp) of None \<Rightarrow> fsp | Some ty \<Rightarrow> fsp\<lparr>fs_type := ty\<rparr>)"
proof -
  define t where "t = fs_sys_type_name fsp"
  note defs = sysm_common_fs_type_get_def Let_def t_def [symmetric] strncmp_prefixes common_class_def deref_def NUL_def fs_set_def
  show ?thesis
  proof (cases t)
    case Nil
    then show ?thesis by (simp add: defs starts_with_Nil)
  next
    case (Cons c cs)
    consider "c = CHR ''n''" | "c = CHR ''s''" | "c = CHR ''a''" | "c = CHR ''i''" | "c = CHR ''c''"
      | "c = CHR ''m''" | "c = CHR ''h''" | "c = CHR ''v''" | "c = CHR ''z''"
      | "c \<notin> {CHR ''n'', CHR ''s'', CHR ''a'', CHR ''i'', CHR ''c'', CHR ''m'', CHR ''h'', CHR ''v'', CHR ''z''}"
      by blast
    then show ?thesis by cases (simp_all add: defs Cons starts_with_Cons)
  qed
qed

lemma sysm_fs_type_get_class:
  assumes "fs_type fsp = SYSM_FSTYPE_UNKNOWN"
  shows "sysm_fs_type_get fsp = fs_classified fsp"
proof -
  define t where "t = fs_sys_type_name fsp"
  have "fs_class t = (if os_local t then SYSM_FSTYPE_LOCAL_DISK
      else case common_class t of Some ty \<Rightarrow> ty | None \<Rightarrow> SYSM_FSTYPE_NONE)"
    by (auto simp: fs_class_def os_local_def common_class_def)
  moreover have "common_class t \<noteq> Some SYSM_FSTYPE_UNKNOWN" "common_class t \<noteq> Some SYSM_FSTYPE_MAX"
    by (simp_all add: common_class_def)
  ultimately show ?thesis
    using assms
    by (auto simp: sysm_fs_type_get_def os_fs_type common_fs_type fs_set_def fs_classified_def Let_def
        t_def [symmetric] split: option.splits)
qed

text \<open>C33: for a file system whose type is not known yet, the two functions tried in turn agree with
  one table of names and prefixes, and everything else is of no type.\<close>

theorem fs_type_get_classes:
  assumes "fs_type fsp = SYSM_FSTYPE_UNKNOWN"
  shows "sysm_fs_type_get fsp = fs_classified fsp"
  using assms by (rule sysm_fs_type_get_class)

theorem fs_type_get_classes_witness:
  "sysm_fs_type_get \<lparr>fs_dir_name = ''/'', fs_dev_name = ''/dev/sda1'', fs_type_name = [],
       fs_sys_type_name = ''ext4'', fs_options = ''rw'', fs_type = SYSM_FSTYPE_UNKNOWN, fs_flags = 0\<rparr>
     = \<lparr>fs_dir_name = ''/'', fs_dev_name = ''/dev/sda1'', fs_type_name = ''local'',
       fs_sys_type_name = ''ext4'', fs_options = ''rw'', fs_type = SYSM_FSTYPE_LOCAL_DISK, fs_flags = 0\<rparr>"
  by (subst fs_type_get_classes) (simp_all add: fs_classified_def fs_class_def starts_with_def fstype_names_def)

text \<open>A mount whose strings fit into the arrays of the structure.\<close>

definition mount_fits :: "mntent \<Rightarrow> bool" where
  "mount_fits m \<longleftrightarrow> length (mnt_dir m) < SYSM_FS_NAME_LEN \<and> length (mnt_fsname m) < SYSM_FS_NAME_LEN
     \<and> length (mnt_type m) < SYSM_FS_INFO_LEN \<and> length (mnt_opts m) < SYSM_FS_INFO_LEN"

definition fs_of :: "u64 \<Rightarrow> mntent \<Rightarrow> sysm_file_system" where
  "fs_of flags0 m = \<lparr>fs_dir_name = mnt_dir m, fs_dev_name = mnt_fsname m,
     fs_type_name = fstype_names (fs_class (mnt_type m)), fs_sys_type_name = mnt_type m,
     fs_options = mnt_opts m, fs_type = fs_class (mnt_type m), fs_flags = flags0\<rparr>"

lemma mount_entry_eq: "mount_entry flags0 m = (if mount_fits m then Some (fs_of flags0 m) else None)"
  by (simp add: mount_entry_def copy_fits_def mount_fits_def fs_of_def sysm_fs_type_get_class fs_classified_def)

lemma mount_loop_exact:
  "dl_wf l \<Longrightarrow> if list_all mount_fits ms
     then \<exists>l'. mount_loop flags0 ms l = Some l' \<and> dl_wf l' \<and> dl_contents l' = dl_contents l @ map (fs_of flags0) ms
     else mount_loop flags0 ms l = None"
proof (induction ms arbitrary: l)
  case Nil
  then show ?case by simp
next
  case (Cons m ms)
  obtain l1 where "dl_push SYSM_FILE_SYSTEM_LIST_GROW (fs_of flags0 m) l = Some l1" "dl_wf l1"
    "dl_contents l1 = dl_contents l @ [fs_of flags0 m]"
    using file_system_list.push_total [OF Cons.prems, of "fs_of flags0 m"] by blast
  then show ?case
    using Cons.IH [of l1] by (auto simp: mount_entry_eq dl_push_def)
qed

text \<open>C34: the list of file systems has the mounts in their order, each with its class, exactly when
  all names are shorter than 4096 and all types and options shorter than 256 characters;
  otherwise a copy runs past the end of its array.\<close>

theorem file_system_list_exact:
  "case sysm_file_system_list_get (Inr ms) flags0 of
     Some (Inr l) \<Rightarrow> list_all mount_fits ms \<and> dl_wf l \<and> dl_contents l = map (fs_of flags0) ms
   | Some (Inl _) \<Rightarrow> False
   | None \<Rightarrow> \<not> list_all mount_fits ms"
  using mount_loop_exact [OF file_system_list.create_wf, of ms flags0] file_system_list.create_contents
  by (auto simp: sysm_file_system_list_get_def split: if_splits option.splits)

section \<open>The table of disks\<close>

text \<open>A row of \<open>/proc/diskstats\<close>: the device number, the name, eleven counters and perhaps more.\<close>

record dstat_row =
  dr_major :: "nat \<times> nat"
  dr_minor :: "nat \<times> nat"
  dr_name :: cstring
  dr_counters :: "(nat \<times> nat) list"

definition dstat_text :: "dstat_row \<Rightarrow> cstring" where
  "dstat_text r = counters_text [dr_major r, dr_minor r] @ CHR '' '' # dr_name r @ counters_text (dr_counters r)"

definition dstat_ok :: "dstat_row \<Rightarrow> bool" where
  "dstat_ok r \<longleftrightarrow> snd (dr_major r) < 2 ^ 64 \<and> snd (dr_minor r) < 2 ^ 64 \<and> is_field (dr_name r)
     \<and> 11 \<le> length (dr_counters r) \<and> list_all (\<lambda>(_, n). n < 2 ^ 64) (dr_counters r)
     \<and> is_line 1025 (dstat_text r)"

definition dr_counter :: "dstat_row \<Rightarrow> nat \<Rightarrow> u64" where
  "dr_counter r i = word_of_nat (snd (dr_counters r ! i))"

definition row_usage :: "dstat_row \<Rightarrow> sysm_disk_usage \<Rightarrow> sysm_disk_usage" where
  "row_usage r d = d\<lparr>du_rtime := dr_counter r 3, du_wtime := dr_counter r 7, du_time := dr_counter r 9,
     du_qtime := dr_counter r 10, du_reads := dr_counter r 0, du_writes := dr_counter r 4,
     du_read_bytes := dr_counter r 2 * 512, du_write_bytes := dr_counter r 6 * 512\<rparr>"

lemma row_usage_twice: "row_usage r (row_usage r' d) = row_usage r d"
  by (simp add: row_usage_def)

lemma dstat_fields_row:
  assumes "dstat_ok r"
  shows "dstat_fields junk (counters_text (dr_counters r) @ [CHR 0x0A]) d = row_usage r d"
proof -
  let ?cs = "dr_counters r"
  have cs: "11 \<le> length ?cs" "list_all (\<lambda>(_, n). n < 2 ^ 64) ?cs"
    using assms by (simp_all add: dstat_ok_def)
  have vs: "fst (scan_all DSTAT_FMT (counters_text ?cs @ [CHR 0x0A]))
      = map (\<lambda>(_, n). ScanULong (word_of_nat n)) (take 11 ?cs)"
    unfolding DSTAT_FMT_def using cs by (intro scan_counters) (simp_all add: at_space_def)
  have v: "scan_ulong_at i (map (\<lambda>(_, n). ScanULong (word_of_nat n)) (take 11 ?cs)) x = dr_counter r i"
    if "i < 11" for i x
    using that cs(1) by (simp add: scan_ulong_at_def dr_counter_def split_beta)
  show ?thesis
    using cs(1) by (simp add: dstat_fields_def vs v row_usage_def Let_def min_def)
qed

lemma dstat_row_numbers:
  assumes "dstat_ok r"
  shows "strtoull 10 (cstr (dstat_text r @ [CHR 0x0A])) =
      (word_of_nat (snd (dr_major r)), counters_text [dr_minor r] @ CHR '' '' # dr_name r @ counters_text (dr_counters r) @ [CHR 0x0A])"
    "strtoull 10 (counters_text [dr_minor r] @ CHR '' '' # dr_name r @ counters_text (dr_counters r) @ [CHR 0x0A]) =
      (word_of_nat (snd (dr_minor r)), CHR '' '' # dr_name r @ counters_text (dr_counters r) @ [CHR 0x0A])"
    "sysm_skip_token (CHR '' '' # dr_name r @ counters_text (dr_counters r) @ [CHR 0x0A])
      = counters_text (dr_counters r) @ [CHR 0x0A]"
proof -
  let ?r = "CHR '' '' # dr_name r @ counters_text (dr_counters r) @ [CHR 0x0A]"
  have sp: "at_space ?r" "at_space [CHR 0x0A]" by (simp_all add: at_space_def)
  have "cstr (dstat_text r @ [CHR 0x0A]) = counters_text [dr_major r, dr_minor r] @ ?r"
    using assms cstr_line [of 1025 "dstat_text r"] by (simp add: dstat_ok_def dstat_text_def)
  then show "strtoull 10 (cstr (dstat_text r @ [CHR 0x0A])) = (word_of_nat (snd (dr_major r)), counters_text [dr_minor r] @ ?r)"
    using read_counter [of "snd (dr_major r)" ?r "fst (dr_major r)" "[dr_minor r]"] sp assms
    by (simp add: dstat_ok_def)
  show "strtoull 10 (counters_text [dr_minor r] @ ?r) = (word_of_nat (snd (dr_minor r)), ?r)"
    using read_counter [of "snd (dr_minor r)" ?r "fst (dr_minor r)" "[]"] sp assms
    by (simp add: dstat_ok_def counters_text_def)
  show "sysm_skip_token ?r = counters_text (dr_counters r) @ [CHR 0x0A]"
    using assms sp(2) by (simp add: dstat_ok_def at_space_counters)
qed

definition row_of_disk :: "stat_sb \<Rightarrow> dstat_row \<Rightarrow> bool" where
  "row_of_disk sb r \<longleftrightarrow> word_of_nat (snd (dr_major r)) = ST_MAJOR sb \<and> word_of_nat (snd (dr_minor r)) = ST_MINOR sb"

text \<open>The row the code takes for that of the whole device: the same major number, minor number 0.\<close>

definition row_of_device :: "stat_sb \<Rightarrow> dstat_row \<Rightarrow> bool" where
  "row_of_device sb r \<longleftrightarrow> word_of_nat (snd (dr_major r)) = ST_MAJOR sb \<and> (word_of_nat (snd (dr_minor r)) :: u64) = 0"

lemma dstat_loop_rows:
  assumes "list_all dstat_ok rows"
  shows "dstat_loop junk sb (map (\<lambda>r. dstat_text r @ [CHR 0x0A]) rows) disk dev =
    (let before = takeWhile (\<lambda>r. \<not> row_of_disk sb r) rows;
         devs = filter (row_of_device sb) before;
         dev' = (if devs = [] then dev else row_usage (last devs) disk);
         disk' = (if devs = [] then disk else row_usage (last devs) disk)
     in case find (row_of_disk sb) rows of
          Some r \<Rightarrow> (row_usage r disk, dev', SYSM_OK)
        | None \<Rightarrow> (disk', dev', ENOENT))"
  using assms
proof (induction rows arbitrary: disk dev)
  case Nil
  then show ?case by simp
next
  case (Cons r rows)
  have r: "dstat_ok r" and rest: "list_all dstat_ok rows" using Cons.prems by simp_all
  have step: "dstat_loop junk sb (map (\<lambda>r. dstat_text r @ [CHR 0x0A]) (r # rows)) disk dev =
    (if row_of_disk sb r then (row_usage r disk, dev, SYSM_OK)
     else if row_of_device sb r
     then dstat_loop junk sb (map (\<lambda>r. dstat_text r @ [CHR 0x0A]) rows) (row_usage r disk) (row_usage r disk)
     else dstat_loop junk sb (map (\<lambda>r. dstat_text r @ [CHR 0x0A]) rows) disk dev)"
    by (auto simp: dstat_row_numbers [OF r] dstat_fields_row [OF r] row_of_disk_def row_of_device_def Let_def)
  show ?case
    unfolding step using Cons.IH [OF rest]
    by (auto simp: Let_def row_usage_twice split: option.splits)
qed

section \<open>A disk between two calls\<close>

text \<open>A device that is in the cache is found there, and the cache keeps its content.\<close>

lemma iodev_get_cached:
  assumes "fsdev s = Some t" "cache_inv t" "cache_quiet (de_clock env n) t"
    and "de_stat env (fst (iodev_name dirname)) = Inr sb" "cache_val t (SYSM_FSDEV_ID sb) = Some (Some io)"
  shows "\<exists>t' p. sysm_iodev_get env n s dirname = Some (s\<lparr>fsdev := Some t'\<rparr>, n + 2, Some p)
    \<and> sysm_cache_get (de_clock env n) (de_clock env (Suc n)) t (SYSM_FSDEV_ID sb) = Some (t', p)
    \<and> entry_val t' p = Some (Some io)"
proof -
  obtain t' p where g: "sysm_cache_get (de_clock env n) (de_clock env (Suc n)) t (SYSM_FSDEV_ID sb) = Some (t', p)"
    using cache_cells.get_total [OF assms(2)] by blast
  have e: "entry_val t' p = Some (Some io)"
    using cache_cells.get_load [OF assms(2) g] cache_cells.get_val [OF assms(2,3) g] assms(5) by simp
  obtain path d where "iodev_name dirname = (path, d)" by (cases "iodev_name dirname")
  then show ?thesis
    using assms(1,4) g e by (simp add: sysm_iodev_get_def fsdev_get_def)
qed

definition device_usage_of :: "stat_sb \<Rightarrow> dstat_row list \<Rightarrow> sysm_disk_usage \<Rightarrow> sysm_disk_usage" where
  "device_usage_of sb rows d =
     (let devs = filter (row_of_device sb) (takeWhile (\<lambda>r. \<not> row_of_disk sb r) rows)
      in if devs = [] then d else row_usage (last devs) d)"

definition dstat_table :: "dstat_row list \<Rightarrow> files \<Rightarrow> bool" where
  "dstat_table rows fs \<longleftrightarrow> fs PROC_DISKSTATS = Contents (text_file (map dstat_text rows)) \<and> list_all dstat_ok rows"

lemma dstat_table_loop:
  assumes "dstat_table rows fs" "find (row_of_disk sb) rows = Some r"
  shows "dstat_loop junk sb (fgets_lines 1025 (text_file (map dstat_text rows))) disk disk
    = (row_usage r disk, device_usage_of sb rows disk, SYSM_OK)"
proof -
  have "\<forall>l \<in> set (map dstat_text rows). is_line 1025 l"
    using assms(1) by (auto simp: dstat_table_def dstat_ok_def list_all_iff)
  then have "fgets_lines 1025 (text_file (map dstat_text rows)) = map (\<lambda>r. dstat_text r @ [CHR 0x0A]) rows"
    by (subst fgets_lines_text_file) (auto simp: o_def)
  then show ?thesis
    using dstat_loop_rows [of rows junk sb disk disk] assms
    by (simp add: dstat_table_def device_usage_of_def Let_def)
qed

text \<open>C32: for a device in the cache and a table of disks as the kernel prints it, the usage is the row
  of the device; service time and utilisation are computed from the usage of the previous call
  for the device (for a partition, from the last row before it with the same major and the
  minor number 0); and on the cache the call is the update of an abstract map at the device.\<close>

theorem disk_usage_between_calls:
  assumes t: "iostat s = IOSTAT_DISKSTATS" "fsdev s = Some t" "cache_inv t" "cache_quiet (de_clock env n) t"
    and dev: "de_stat env (fst (iodev_name name)) = Inr sb0" "cache_val t (SYSM_FSDEV_ID sb0) = Some (Some io)"
      "de_stat env (io_name io) = Inr sb"
    and rows: "dstat_table rows (de_files env)" "find (row_of_disk sb) rows = Some r"
    and up: "sysm_uptime_get (de_files env) = Some (Inr uptime)" "dbl_to_u64 uptime = Some snap"
    and d: "usage = row_usage r (disk_stats_init (de_neg1 env))"
      "d = disk_rates (io_disk io) snap
             (if io_is_partition io then device_usage_of sb rows (disk_stats_init (de_neg1 env)) else usage)"
  shows "\<exists>s' t'. sysm_disk_usage_get env n s name = Some (s',
        (if io_is_partition io then usage\<lparr>du_service_time := du_service_time d, du_util := du_util d\<rparr> else d), SYSM_OK)
    \<and> fsdev s' = Some t' \<and> cache_inv t'
    \<and> cache_val t' = (cache_val t)(SYSM_FSDEV_ID sb0 := Some (Some (io\<lparr>io_disk := d\<rparr>)))"
proof -
  let ?k = "SYSM_FSDEV_ID sb0"
  obtain t1 p where g: "sysm_iodev_get env n s name = Some (s\<lparr>fsdev := Some t1\<rparr>, n + 2, Some p)"
    "sysm_cache_get (de_clock env n) (de_clock env (Suc n)) t ?k = Some (t1, p)"
    "entry_val t1 p = Some (Some io)"
    using iodev_get_cached [OF t(2-4) dev(1,2)] by blast
  have at: "iodev_at (s\<lparr>fsdev := Some t1\<rparr>) p = Some io" using g(3) by (simp add: iodev_at_def)
  have "cache_lookup t ?k \<noteq> None" using dev(2) by (auto simp: cache_val_def)
  then have room: "cache_room t ?k" by (simp add: cache_room_def)
  have read: "get_iostat_proc_dstat env n s name (disk_stats_init (de_neg1 env))
      = Some (s\<lparr>fsdev := Some t1\<rparr>, Some p, usage, device_usage_of sb rows (disk_stats_init (de_neg1 env)), SYSM_OK)"
    using rows(1) dstat_table_loop [OF rows]
    by (simp add: get_iostat_proc_dstat_def g(1) at dev(3) d(1) dstat_table_def)
  let ?t2 = "entry_store p (io\<lparr>io_disk := d\<rparr>) t1"
  have "sysm_disk_usage_get env n s name = Some (s\<lparr>fsdev := Some ?t2\<rparr>,
      (if io_is_partition io then usage\<lparr>du_service_time := du_service_time d, du_util := du_util d\<rparr> else d), SYSM_OK)"
    using d(2) by (auto simp: sysm_disk_usage_get_def t(1) read disk_account_def up at iodev_set_def Let_def)
  moreover have "cache_inv ?t2" by (rule cache_cells.put_inv [OF t(3) g(2)])
  moreover have "cache_val ?t2 = (cache_val t)(?k := Some (Some (io\<lparr>io_disk := d\<rparr>)))"
    by (rule cache_cells.put_val [OF t(3,4) room g(2)])
  ultimately show ?thesis by auto
qed

lemma cache_with:
  "\<exists>t. cache_inv t \<and> c_period t = - 1 \<and> cache_val t k = Some (Some (v :: sysm_iodev))"
proof -
  let ?t = "sysm_cache_new 15 0 :: sysm_iodev cache"
  have inv: "cache_inv ?t" unfolding sysm_cache_new_def by (rule cache_inv_new) simp
  have p: "c_period ?t = - 1" by (simp add: sysm_cache_new_def sysm_expired_cache_new_def)
  then have quiet: "cache_quiet 0 ?t" by (simp add: cache_quiet_def cleanup_due_def)
  obtain t1 a where g: "sysm_cache_get 0 0 ?t k = Some (t1, a)" using cache_cells.get_total [OF inv] by blast
  have "c_period (entry_store a v t1) = - 1"
    using sysm_cache_get_quiet [OF inv quiet g] p by (simp add: insert_quiet_fields)
  then show ?thesis
    using cache_cells.put_inv [OF inv g] cache_cells.store_val [OF inv g] by blast
qed

definition sample_dstat :: "nat \<Rightarrow> cstring \<Rightarrow> nat \<Rightarrow> dstat_row" where
  "sample_dstat minor name x = \<lparr>dr_major = (3, 8), dr_minor = (5, minor), dr_name = name,
     dr_counters = map (\<lambda>i. (0, x * i)) [0 ..< 11]\<rparr>"

definition sample_dstats :: "dstat_row list" where
  "sample_dstats = [sample_dstat 0 ''sda'' 100, sample_dstat 1 ''sda1'' 10]"

definition sample_sb :: stat_sb where
  "sample_sb = \<lparr>sb_ino = 7, sb_dev = 5, sb_rdev = 0x801, sb_isblk = True\<rparr>"

definition sample_disk_files :: files where
  "sample_disk_files f =
     (if f = PROC_DISKSTATS then Contents (text_file (map dstat_text sample_dstats))
      else if f = PROC_UPTIME then Contents ''100 50'' else Open_Fails ENOENT)"

definition sample_disk_env :: disk_env where
  "sample_disk_env = \<lparr>de_files = sample_disk_files,
     de_stat = (\<lambda>p. if p = ''/dev/sda1'' then Inr sample_sb else Inl ENOENT), de_mounts = Inl ENOENT,
     de_clock = (\<lambda>_. 0), de_neg1 = - 1, de_junk = (\<lambda>_. 0), de_uptime = Fin 0\<rparr>"

definition sample_iodev :: "sysm_iodev" where
  "sample_iodev = \<lparr>io_name = ''/dev/sda1'', io_is_partition = True, io_disk = zero_disk\<rparr>"

lemma sample_dstat_ok:
  assumes "minor < 100" "x < 10 ^ 9" "is_field name" "length name < 16" "NUL \<notin> set name" "CHR 0x0A \<notin> set name"
  shows "dstat_ok (sample_dstat minor name x)"
proof -
  let ?cs = "map (\<lambda>i. (0, x * i)) [0 ..< 11] :: (nat \<times> nat) list"
  have lt: "x * i < 2 ^ 64 \<and> x * i < 10 ^ 20" if "i < 11" for i
  proof -
    have "x * i \<le> 10 ^ 9 * 11" using assms(2) that by (intro mult_le_mono) auto
    then show ?thesis by simp
  qed
  have "list_all (\<lambda>(_, n). n < 2 ^ 64) ?cs" "list_all (\<lambda>(k, n). k < 16 \<and> n < 10 ^ 20) ?cs"
    using lt by (auto simp: list_all_iff)
  moreover have "list_all (\<lambda>(k, n). k < 16 \<and> n < 10 ^ 20) [(3 :: nat, 8 :: nat), (5, minor)]"
    using assms(1) by simp
  moreover have "NUL \<noteq> CHR '' ''" by (simp add: NUL_def)
  ultimately show ?thesis
    using assms counters_line [of ?cs] counters_line [of "[(3, 8), (5, minor)]"]
    by (simp add: dstat_ok_def sample_dstat_def dstat_text_def is_line_def)
qed

lemma sample_dstat_table: "dstat_table sample_dstats sample_disk_files"
proof -
  have "is_field ''sda''" "is_field ''sda1''" by (simp_all add: is_field_def isspace_def char_code_def)
  then show ?thesis
    by (simp add: dstat_table_def sample_disk_files_def sample_dstats_def sample_dstat_ok NUL_def)
qed

lemma sample_dstat_found: "find (row_of_disk sample_sb) sample_dstats = Some (sample_dstat 1 ''sda1'' 10)"
  by (simp add: sample_dstats_def row_of_disk_def sample_dstat_def sample_sb_def ST_MAJOR_def ST_MINOR_def)

lemma sample_uptime: "sysm_uptime_get sample_disk_files = Some (Inr (Fin 100))"
proof -
  have "to_dbl 100 = Fin 100" using to_dbl_of_nat [of 100] by simp
  then show ?thesis
    by (simp add: sysm_uptime_get_def sample_disk_files_def PROC_UPTIME_def PROC_DISKSTATS_def PROC_FS_ROOT_def
        sysm_file2str_def BUFSIZ_def NUL_def strtod_def int_sign_def deref_def isspace_def isdigit_def
        exponent_part_def digits_value_def digit_val_def char_code_def)
qed

theorem disk_usage_between_calls_witness:
  "\<exists>t s' t' out. cache_val t (SYSM_FSDEV_ID sample_sb) = Some (Some sample_iodev)
    \<and> sysm_disk_usage_get sample_disk_env 0 (zero_sysm\<lparr>iostat := IOSTAT_DISKSTATS, fsdev := Some t\<rparr>) ''sda1''
        = Some (s', out, SYSM_OK)
    \<and> du_writes out = 40 \<and> du_read_bytes out = 10240 \<and> fsdev s' = Some t'
    \<and> (\<exists>io. cache_val t' (SYSM_FSDEV_ID sample_sb) = Some (Some io) \<and> du_time (io_disk io) = 900)"
proof -
  obtain t where t: "cache_inv t" "c_period t = - 1" "cache_val t (SYSM_FSDEV_ID sample_sb) = Some (Some sample_iodev)"
    using cache_with by blast
  let ?s = "zero_sysm\<lparr>iostat := IOSTAT_DISKSTATS, fsdev := Some t\<rparr>"
  let ?d0 = "disk_stats_init (- 1)"
  define usage where "usage = row_usage (sample_dstat 1 ''sda1'' 10) ?d0"
  define d where "d = disk_rates zero_disk 100 (device_usage_of sample_sb sample_dstats ?d0)"
  have quiet: "cache_quiet (de_clock sample_disk_env 0) t" using t(2) by (simp add: cache_quiet_def cleanup_due_def)
  have name: "iodev_name ''sda1'' = (''/dev/sda1'', True)"
    by (simp add: iodev_name_def deref_def SYSM_DEV_PREFIX_def SYSM_FS_NAME_LEN_def SYSM_PATH_MAX_def)
  have dev: "device_usage_of sample_sb sample_dstats ?d0 = row_usage (sample_dstat 0 ''sda'' 100) ?d0"
    by (simp add: device_usage_of_def sample_dstats_def row_of_disk_def row_of_device_def sample_dstat_def
        sample_sb_def ST_MAJOR_def ST_MINOR_def)
  have env: "de_stat sample_disk_env (fst (iodev_name ''sda1'')) = Inr sample_sb"
    "de_stat sample_disk_env (io_name sample_iodev) = Inr sample_sb" "de_files sample_disk_env = sample_disk_files"
    "de_neg1 sample_disk_env = - 1"
    by (simp_all add: name sample_disk_env_def sample_iodev_def)
  obtain s' t' where r: "sysm_disk_usage_get sample_disk_env 0 ?s ''sda1'' = Some (s',
        (if io_is_partition sample_iodev then usage\<lparr>du_service_time := du_service_time d, du_util := du_util d\<rparr> else d), SYSM_OK)"
      "fsdev s' = Some t'"
      "cache_val t' = (cache_val t)(SYSM_FSDEV_ID sample_sb := Some (Some (sample_iodev\<lparr>io_disk := d\<rparr>)))"
    using disk_usage_between_calls [of ?s t sample_disk_env 0 "''sda1''" sample_sb sample_iodev sample_sb
        sample_dstats "sample_dstat 1 ''sda1'' 10" "Fin 100" 100 usage d]
      t(1,3) quiet env sample_dstat_table sample_dstat_found sample_uptime
    by (auto simp: usage_def d_def sample_iodev_def)
  have u: "[0 ..< 11] = [0, 1, 2, 3, 4, 5, 6, 7, 8, 9, 10 :: nat]" by (simp add: upt_rec)
  have "du_time d = 900"
    by (simp add: d_def dev disk_rates_def Let_def row_usage_def dr_counter_def sample_dstat_def u)
  moreover have "du_writes usage = 40" "du_read_bytes usage = 10240"
    by (simp_all add: usage_def row_usage_def dr_counter_def sample_dstat_def u)
  moreover have "io_is_partition sample_iodev" by (simp add: sample_iodev_def)
  ultimately show ?thesis using t(3) r by fastforce
qed

section \<open>The number of a partition\<close>

lemma entry_val_stored:
  assumes "cache_inv t" "sysm_cache_get now1 now2 t k = Some (t', p)"
  shows "entry_val (entry_store p v t') p = Some (Some v)"
proof -
  obtain e where e: "cache_inv t'" "cache_lookup t' k = Some e" "e_addr e = p"
    using sysm_cache_get_lookup [OF assms] by blast
  then have "cache_lookup (entry_store p v t') k = Some (stored p v e)"
    by (simp add: cache_lookup_store)
  from entry_load_lookup [OF _ this] e show ?thesis
    by (simp add: cache_inv_store entry_val_def stored_def)
qed

lemma iodev_set_twice: "iodev_set p x (iodev_set p y s) = iodev_set p x s"
  by (cases "fsdev s") (simp_all add: iodev_set_def cache_cells.store_store)

lemma sys_stat_file_cut:
  "sys_stat_file name = Some (stem, f) \<Longrightarrow> sys_stat_file stem = None"
  by (auto simp: sys_stat_file_def Let_def dropWhile_eq_Nil_conv dest: set_takeWhileD split: if_splits)

text \<open>After a call the name of the cached device has lost its number.\<close>

lemma iostat_sys_cuts_name:
  assumes t: "fsdev s = Some t" "cache_inv t" "cache_quiet (de_clock env n) t"
    and dev: "de_stat env (fst (iodev_name name)) = Inr sb" "cache_val t (SYSM_FSDEV_ID sb) = Some (Some io)"
    and call: "get_iostat_sys env n s name disk = Some (s', q, disk', status)"
  shows "\<exists>t1 p io'. sysm_cache_get (de_clock env n) (de_clock env (Suc n)) t (SYSM_FSDEV_ID sb) = Some (t1, p)
    \<and> q = Some p \<and> s' = iodev_set p io' (s\<lparr>fsdev := Some t1\<rparr>) \<and> sys_stat_file (io_name io') = None"
proof -
  obtain t1 p where g: "sysm_iodev_get env n s name = Some (s\<lparr>fsdev := Some t1\<rparr>, n + 2, Some p)"
    "sysm_cache_get (de_clock env n) (de_clock env (Suc n)) t (SYSM_FSDEV_ID sb) = Some (t1, p)"
    "entry_val t1 p = Some (Some io)"
    using iodev_get_cached [OF t dev] by blast
  have at: "iodev_at (s\<lparr>fsdev := Some t1\<rparr>) p = Some io" using g(3) by (simp add: iodev_at_def)
  obtain stem f where f: "sys_stat_file (io_name io) = Some (stem, f)"
    using call by (auto simp: get_iostat_sys_def g(1) at bind_eq_Some_conv)
  have "q = Some p \<and> s' = iodev_set p (io\<lparr>io_name := stem\<rparr>) (s\<lparr>fsdev := Some t1\<rparr>)"
  proof (cases "sysm_file2str (de_files env) f 1025 1025")
    case None
    then show ?thesis using call by (simp add: get_iostat_sys_def g(1) at f)
  next
    case (Some res)
    then show ?thesis
      using call by (cases res) (simp_all add: get_iostat_sys_def g(1) at f split_beta Let_def)
  qed
  then show ?thesis using g(2) sys_stat_file_cut [OF f] by auto
qed

text \<open>With the statistics under \<open>/sys/block\<close>, the first call for a device cuts the number off the
  name in the cache; every later call for it searches that name for a digit past its end.\<close>

theorem iostat_sys_second_call:
  assumes t: "iostat s = IOSTAT_SYS" "fsdev s = Some t" "cache_inv t" "c_period t = - 1"
    and dev: "de_stat env (fst (iodev_name name)) = Inr sb" "cache_val t (SYSM_FSDEV_ID sb) = Some (Some io)"
    and first: "sysm_disk_usage_get env n s name = Some (s', disk, status)"
    and again: "de_stat env' (fst (iodev_name name')) = Inr sb'" "SYSM_FSDEV_ID sb' = SYSM_FSDEV_ID sb"
  shows "sysm_disk_usage_get env' m s' name' = None"
proof -
  have quiet: "cache_quiet now t" for now using t(4) by (simp add: cache_quiet_def cleanup_due_def)
  obtain s1 q disk1 status1 where call: "get_iostat_sys env n s name (disk_stats_init (de_neg1 env)) = Some (s1, q, disk1, status1)"
    using first t(1) by (cases "get_iostat_sys env n s name (disk_stats_init (de_neg1 env))")
      (auto simp: sysm_disk_usage_get_def)
  obtain t1 p io1 where g: "sysm_cache_get (de_clock env n) (de_clock env (Suc n)) t (SYSM_FSDEV_ID sb) = Some (t1, p)"
    "q = Some p" "s1 = iodev_set p io1 (s\<lparr>fsdev := Some t1\<rparr>)" "sys_stat_file (io_name io1) = None"
    using iostat_sys_cuts_name [OF t(2,3) quiet dev call] by blast
  have at: "iodev_at s1 p = Some io1"
    using entry_val_stored [OF t(3) g(1)] by (simp add: g(3) iodev_at_def iodev_set_def)
  obtain io2 where io2: "s' = iodev_set p io2 (s\<lparr>fsdev := Some t1\<rparr>)" "io_name io2 = io_name io1"
    using first t(1)
    by (auto simp: sysm_disk_usage_get_def call g(2,3) disk_account_def at [unfolded g(3)] iodev_set_twice
        Let_def bind_eq_Some_conv split: if_splits)
  let ?t2 = "entry_store p io2 t1"
  have s': "fsdev s' = Some ?t2" "iostat s' = IOSTAT_SYS"
    using t(1) by (simp_all add: io2(1) iodev_set_def)
  have inv: "cache_inv ?t2" by (rule cache_cells.put_inv [OF t(3) g(1)])
  have "c_period t1 = - 1"
    using sysm_cache_get_quiet [OF t(3) quiet g(1)] t(4) by (simp add: insert_quiet_fields)
  then have quiet2: "cache_quiet now ?t2" for now by (simp add: cache_quiet_def cleanup_due_def)
  have val: "cache_val ?t2 (SYSM_FSDEV_ID sb') = Some (Some io2)"
    using cache_cells.store_val [OF t(3) g(1)] again(2) by simp
  obtain t3 p3 where g3: "sysm_iodev_get env' m s' name' = Some (s'\<lparr>fsdev := Some t3\<rparr>, m + 2, Some p3)"
    "entry_val t3 p3 = Some (Some io2)"
    using iodev_get_cached [OF s'(1) inv quiet2 again(1) val] by blast
  have "get_iostat_sys env' m s' name' disk0 = None" for disk0
    using g(4) io2(2) by (simp add: get_iostat_sys_def g3(1) iodev_at_def g3(2))
  then show ?thesis by (simp add: sysm_disk_usage_get_def s'(2))
qed

definition sample_sys_env :: disk_env where
  "sample_sys_env = sample_disk_env\<lparr>de_files := (\<lambda>_. Open_Fails ENOENT)\<rparr>"

theorem iostat_sys_second_call_witness:
  "\<exists>t s' disk. sysm_disk_usage_get sample_sys_env 0 (zero_sysm\<lparr>iostat := IOSTAT_SYS, fsdev := Some t\<rparr>) ''sda1''
      = Some (s', disk, ENOENT)
    \<and> sysm_disk_usage_get sample_sys_env 2 s' ''sda1'' = None"
proof -
  obtain t where t: "cache_inv t" "c_period t = - 1" "cache_val t (SYSM_FSDEV_ID sample_sb) = Some (Some sample_iodev)"
    using cache_with by blast
  let ?s = "zero_sysm\<lparr>iostat := IOSTAT_SYS, fsdev := Some t\<rparr>"
  have quiet: "cache_quiet (de_clock sample_sys_env 0) t" using t(2) by (simp add: cache_quiet_def cleanup_due_def)
  have name: "iodev_name ''sda1'' = (''/dev/sda1'', True)"
    by (simp add: iodev_name_def deref_def SYSM_DEV_PREFIX_def SYSM_FS_NAME_LEN_def SYSM_PATH_MAX_def)
  have env: "de_stat sample_sys_env (fst (iodev_name ''sda1'')) = Inr sample_sb"
    by (simp add: name sample_sys_env_def sample_disk_env_def)
  obtain t' p where g: "sysm_iodev_get sample_sys_env 0 ?s ''sda1'' = Some (?s\<lparr>fsdev := Some t'\<rparr>, 0 + 2, Some p)"
    "entry_val t' p = Some (Some sample_iodev)"
    using iodev_get_cached [of ?s t sample_sys_env 0 "''sda1''" sample_sb sample_iodev] t quiet env by auto
  have "sys_stat_file (io_name sample_iodev) \<noteq> None"
    by (simp add: sys_stat_file_def sample_iodev_def isdigit_def char_code_def Let_def)
  then obtain stem f where "sys_stat_file (io_name sample_iodev) = Some (stem, f)" by auto
  then obtain s' disk where r: "sysm_disk_usage_get sample_sys_env 0 ?s ''sda1'' = Some (s', disk, ENOENT)"
    using g by (auto simp: sysm_disk_usage_get_def get_iostat_sys_def iodev_at_def sysm_file2str_def
        sample_sys_env_def sample_disk_env_def ENOENT_def SYSM_OK_def Let_def)
  have "sysm_disk_usage_get sample_sys_env 2 s' ''sda1'' = None"
    by (rule iostat_sys_second_call [of ?s t sample_sys_env "''sda1''" sample_sb sample_iodev 0 s' disk ENOENT
          sample_sys_env "''sda1''" sample_sb])
       (use t env r in simp_all)
  with r show ?thesis by blast
qed

end
