(* ===== verification/Spec2Isabelle.thy ===== *)
theory Spec2Isabelle
  imports Cache_Properties Lists Address Double Handle Cpu_Properties Memory Format Proc_Summary Net_Port_Properties
    Jni_Handle Connections_Properties Interfaces_Properties Netcfg_Properties Disk_Properties
begin

text \<open>
  Verification of the native library of a system monitor for Linux and of its binding to Java.

  \<^bold>\<open>The program.\<close> The C library (\<^verbatim>\<open>src/sysm-native\<close>) reads the state of the machine from files under
  \<^verbatim>\<open>/proc\<close> and \<^verbatim>\<open>/sys\<close>, from system calls and from the processor, and keeps what it has to remember
  between two calls in a handle, \<open>sysm_t\<close>: the processes, disks and listening ports seen before are in
  hash tables, the list of processes and the buffer for the interfaces are grown and used again. The
  binding (\<^verbatim>\<open>javasysm.c\<close>, \<^verbatim>\<open>javasysm.h\<close>) opens and closes the library for an object of the Java class
  \<open>Sysm\<close>, copies the structures of the library into the fields of Java objects, the beans, and turns
  error codes into exceptions.

  \<^bold>\<open>Conventions.\<close> A function of the sources is a function of the same name. A structure is a record or
  a datatype whose selectors carry a prefix; an unsigned integer is a word of its width and wraps; an
  \<open>int\<close> or a \<open>pid_t\<close> is an integer where the code cannot overflow it. A function that can leave an
  array, read through a null or dangling pointer or call the Java interface where that is not defined
  returns an option, and \<open>None\<close> is undefined behaviour, never an error code; an error code is a value.
  The content of a file, the answer of a system call, \<open>cpuid\<close>, the clock, the memory \<open>malloc\<close> returns
  and the local variables that are not initialised are arguments: a theorem that does not constrain
  them holds for all of them. Memory is taken to be available to the C side.

  \<^bold>\<open>Foundations.\<close>
  \<^item> \<^theory_text>\<open>Prelude\<close>: integers of the target, the status codes (\<^verbatim>\<open>sysm.h\<close>), lemmas on lists and words.
  \<^item> \<^theory_text>\<open>CLib\<close>, \<^theory_text>\<open>Text\<close>, \<^theory_text>\<open>Scan\<close>: what the sources use of the C library (character classes, \<open>strto*\<close>, string
    search, \<open>fgets\<close>, \<open>sscanf\<close>), the text helpers of \<^verbatim>\<open>sysm_util.c\<close> (\<open>sysm_skip_token\<close>, \<open>sysm_uitoa\<close>,
    \<open>sysm_proc_filename\<close>, \<open>sysm_file2str\<close>) and the texts the kernel prints, with lemmas that reading a
    printed number or word gives it back.
  \<^item> \<^theory_text>\<open>Double\<close>: binary64 on rationals with rounding to nearest, and the bounds the percentages need.
  \<^item> \<^theory_text>\<open>Lists\<close>: the nine growing arrays (\<open>sysm_*_list_create\<close>, \<open>_grow\<close>, \<open>_destroy\<close> and the \<open>GROW\<close> macros).
    The locale \<open>growing_list\<close> states what they share; each is an interpretation.
  \<^item> \<^theory_text>\<open>Address\<close>: \<open>sysm_net_address_t\<close>, its comparison and its printing.

  \<^bold>\<open>The hash table.\<close> \<^theory_text>\<open>Cache\<close> models \<open>sysm_cache_t\<close> with the addresses of its entries, so that a caller's
  pointer to an entry, the entries a rehash detaches and the entries that are freed can be told apart.
  \<^theory_text>\<open>Cache_Correct\<close> proves the invariant of every operation and interprets the locale \<open>keyed_cells\<close>
  (\<^theory_text>\<open>Keyed_Cells\<close>), the contract the clients use: a store through the pointer \<open>get\<close> returns updates one
  key of an abstract map. The contract needs a table with room: the rehash never stores the entries into
  the new buckets, and \<^theory_text>\<open>Cache_Properties\<close> shows what is lost.

  \<^bold>\<open>The components of the library.\<close>
  \<^item> \<^theory_text>\<open>Handle\<close>, \<^theory_text>\<open>Format\<close>: \<open>sysm_t\<close>, \<open>sysm_open\<close>, \<open>sysm_close\<close>; error texts, names, version.
  \<^item> \<^theory_text>\<open>Cpu\<close>, \<^theory_text>\<open>Cpu_Properties\<close>: description and times of the processors, and the percentages of two
    samples. A block of \<^verbatim>\<open>/proc/cpuinfo\<close> is read into the structure it describes, for every vendor; the
    percentages lie between 0 and 1, and are not numbers where the two samples are equal.
  \<^item> \<^theory_text>\<open>Memory\<close>: memory, type registers, swap, load average and uptime.
  \<^item> \<^theory_text>\<open>Proc\<close>, \<^theory_text>\<open>Proc_Properties\<close>, \<^theory_text>\<open>Proc_Summary\<close>: lists of processes, the thread test, the status line,
    CPU usage between two samples, arguments, environment, states and limits, and the summary that counts
    the states of all processes.
  \<^item> \<^theory_text>\<open>Connections\<close>, \<^theory_text>\<open>Connections_Properties\<close>, \<^theory_text>\<open>Net_Stat_Properties\<close>, \<^theory_text>\<open>Net_Port_Properties\<close>: the tables
    of \<^verbatim>\<open>/proc/net\<close>. The walk over them is a fold of the call-back over the connections they list; the
    locale \<open>walk_callback\<close> carries this to the list of connections, to the statistics, which refine
    counting over an abstract set of listening ports, and to the statistics of one port.
  \<^item> \<^theory_text>\<open>Interfaces\<close>, \<^theory_text>\<open>Interfaces_Properties\<close>: routes, default gateway, name servers, and the list of
    interfaces, whose loop grows a buffer until the answer of the kernel fits. The loop is a
    \<^theory_text>\<open>partial_function\<close>; that it ends for every number of interfaces is a theorem.
  \<^item> \<^theory_text>\<open>Netcfg\<close>, \<^theory_text>\<open>Netcfg_Properties\<close>: configuration of an interface, the primary interface against a declarative
    choice, counters, users.
  \<^item> \<^theory_text>\<open>Disk\<close>, \<^theory_text>\<open>Disk_Usage\<close>, \<^theory_text>\<open>Disk_Properties\<close>: mounts and their types, the cache of devices, the three
    readers of statistics, service time and utilisation between two calls.

  \<^bold>\<open>Sessions with the library.\<close> \<^theory_text>\<open>Handle_Session\<close> has the invariant of the handle and a step relation with one
  rule for every operation that changes it. Every handle that can be reached satisfies the invariant, and
  closing it frees what its tables hold exactly once; the one handle that cannot be closed is that with a
  dangling buffer, which \<^theory_text>\<open>Interfaces_Properties\<close> shows to be reachable.

  \<^bold>\<open>The binding to Java.\<close>
  \<^item> \<^theory_text>\<open>Jvm\<close>: the part of the Java Native Interface that is called, with the classes of the virtual machine
    as data of its state, a pending exception, a bounded supply of new objects and the count of global
    references. Objects are values; two of them are never the same in a call of this binding.
  \<^item> \<^theory_text>\<open>Bean_Tables\<close>: the constants of \<^verbatim>\<open>javasysm.h\<close> and, for each bean, what the macro \<open>INIT_FIELDS\<close> looks up
    and the calls the macro \<open>SET_FIELDS\<close> makes. \<^theory_text>\<open>Jni\<close> has the code the macros share, the handle
    \<open>jni_sysm_t\<close>, the exceptions, \<open>nativeOpen\<close>, \<open>nativeClose\<close> and all \<open>gather\<close> methods; \<^theory_text>\<open>Jni_Lists\<close> the
    natives that return arrays, numbers, strings and maps.
  \<^item> \<^theory_text>\<open>Bean_Properties\<close>: the tables fit together, and a gather stores exactly the values of the structure.
  \<^item> \<^theory_text>\<open>Jni_Session\<close>, \<^theory_text>\<open>Jni_Properties\<close>, \<^theory_text>\<open>Jni_Compose\<close>: the locale \<open>native\<close> is the contract of a native towards
    the handle and the global references, every native interprets it, and sessions are sequences of
    natives. Between opening and closing nothing is lost or added; a library that failed to open is never
    released, and closing it throws the exception for the error of the opening; an open one can be closed; percentages are those of the times two earlier calls stored.
  \<^item> \<^theory_text>\<open>Jni_Handle\<close>: the methods of the beans and of the class \<open>Sysm\<close>, each with the operation it calls, keep
    the invariant of the handle; a whole Java session ends with every table freed exactly once.

  \<^bold>\<open>What the properties assume.\<close> The files of the theorems about readers are those the kernel prints:
  each property names the form (rows with a label, a number and padding; lines shorter than the buffer;
  numbers within 64 bits). The clients of the hash table assume that no clean-up is due and that the
  table has room for the key; both are the normal state of a short session, and the other cases are
  shown to lose entries. Every property with an assumption has a witness at concrete values.

  \<^bold>\<open>Simplifications.\<close> An operation that asks for the time gets the
  times as arguments; the summary of the processes takes one for its whole loop. A store through a pointer
  to an entry that was freed leaves the table as it is. A field may be set only in an object of the very
  class its id was asked of, which is how the binding calls it. \<open>getNativeLibVersion\<close>, which touches no
  handle, is not a step of a Java session.

  \<^bold>\<open>Bounds.\<close> No fuel is used: the loops end by the length of the text they read, and the loop of the
  interfaces by the theorem above. \<open>BUFSIZ\<close> is 8192 and \<open>PATH_MAX\<close> 4096, as on the target; \<open>int\<close> has 32
  bits, \<open>long\<close> and pointers have 64 (\<open>SYSM_64BIT\<close>).

  \<^bold>\<open>Not modelled.\<close> The Java classes, the proxy cache and the loading of the library (another program in
  another language, whose classes are a parameter); the branches for 32 bit pointers and for machines
  without \<open>cpuid\<close>; the headers generated by \<open>javah\<close>, which hold prototypes; the assembler of \<open>cpuid\<close>;
  the experiment \<^verbatim>\<open>hello.c\<close>; the build. Failing allocations on the C side are not modelled: the
  sources do not test for them. Concurrent calls on one handle are not modelled: nothing in the sources
  guards against them, the Java class would have to.
\<close>

end
